(* ===== verification/Prelude.thy ===== *)
theory Prelude
  imports Main "HOL-Library.State_Monad" "HOL-Library.Monad_Syntax" "HOL-Library.List_Lexorder"
    "HOL-Library.Char_ord" "HOL-Library.Sublist" "HOL-Library.Code_Target_Nat"
begin

text \<open>
  The prelude of the OpenConveyor development. It holds
  \<^item> the collections that carry the component proofs (\<open>obs_rules\<close>: what a stateful
    operation appends to the observation log; \<open>obs_defs\<close>: the operations they unfold);
  \<^item> generic facts on lists: insertion-ordered duplicate removal, sorted key lists,
    prefixes;
  \<^item> the state of a running controller, \<open>'o sys\<close> over an arbitrary outside world, and a
    small trace logic on the library's state monad: \<open>emits m Q\<close> says that every run of
    \<open>m\<close> only appends to the log, and that the result and the appended entries satisfy \<open>Q\<close>.
\<close>

named_theorems obs_rules
named_theorems obs_defs

section \<open>Lists\<close>

text \<open>Keep the first occurrence of every element, in order.\<close>

fun dedup_acc :: "'a list \<Rightarrow> 'a list \<Rightarrow> 'a list" where
  "dedup_acc out [] = out"
| "dedup_acc out (v # vs) = dedup_acc (if v \<in> set out then out else out @ [v]) vs"

lemma set_dedup_acc [simp]: "set (dedup_acc out vs) = set out \<union> set vs"
  by (induction vs arbitrary: out) auto

lemma distinct_dedup_acc [simp]: "distinct out \<Longrightarrow> distinct (dedup_acc out vs)"
  by (induction vs arbitrary: out) auto

lemma dedup_acc_append: "dedup_acc out (us @ vs) = dedup_acc (dedup_acc out us) vs"
  by (induction us arbitrary: out) auto

lemma prefix_dedup_acc: "prefix out (dedup_acc out vs)"
proof (induction vs arbitrary: out)
  case (Cons v vs)
  show ?case
  proof (cases "v \<in> set out")
    case False
    have "prefix out (out @ [v])" by simp
    also have "prefix \<dots> (dedup_acc (out @ [v]) vs)" by (rule Cons.IH)
    finally show ?thesis using False by simp
  qed (use Cons.IH in simp)
qed simp

lemma dedup_acc_absorb: "set vs \<subseteq> set out \<Longrightarrow> dedup_acc out vs = out"
  by (induction vs arbitrary: out) auto

lemma dedup_acc_distinct: "distinct (out @ vs) \<Longrightarrow> dedup_acc out vs = out @ vs"
  by (induction vs arbitrary: out) auto

text \<open>The sorted list of the keys of a Go map or set, \<open>slices.Sorted(maps.Keys(m))\<close>.\<close>

definition sorted_keys :: "'a::linorder list \<Rightarrow> 'a list" where
  "sorted_keys ks = sort (remdups ks)"

lemma set_sorted_keys [simp]: "set (sorted_keys ks) = set ks"
  by (simp add: sorted_keys_def)

lemma distinct_sorted_keys [simp]: "distinct (sorted_keys ks)"
  by (simp add: sorted_keys_def)

lemma sorted_sorted_keys [simp]: "sorted (sorted_keys ks)"
  by (simp add: sorted_keys_def)

lemma sorted_keys_Nil_iff [simp]: "sorted_keys ks = [] \<longleftrightarrow> ks = []"
  by (metis set_empty set_sorted_keys)

lemma sorted_keys_cong: "set ks = set ls \<Longrightarrow> sorted_keys ks = sorted_keys ls"
  by (rule sorted_distinct_set_unique) auto

lemma distinct_remdups_adj_sorted: "sorted xs \<Longrightarrow> distinct (remdups_adj xs)"
  by (induction xs rule: remdups_adj.induct) auto

section \<open>Go maps with string keys\<close>

text \<open>
  A Go map is an association list with distinct keys, so that maps can be compared and
  evaluated; \<open>map_of\<close> reads it and \<open>put_field\<close> is the assignment \<open>m[k] = v\<close>. Nothing in the
  program depends on the order of the entries.
\<close>

fun put_field :: "string \<Rightarrow> 'v \<Rightarrow> (string \<times> 'v) list \<Rightarrow> (string \<times> 'v) list" where
  "put_field k v [] = [(k, v)]"
| "put_field k v ((k1, v1) # ms) = (if k1 = k then (k, v) # ms else (k1, v1) # put_field k v ms)"

lemma map_of_put_field [simp]: "map_of (put_field k v ms) = (map_of ms)(k \<mapsto> v)"
  by (induction k v ms rule: put_field.induct) (auto simp: fun_eq_iff)

lemma keys_put_field: "set (map fst (put_field k v ms)) = insert k (set (map fst ms))"
  by (induction k v ms rule: put_field.induct) auto

lemma distinct_put_field: "distinct (map fst ms) \<Longrightarrow> distinct (map fst (put_field k v ms))"
proof (induction k v ms rule: put_field.induct)
  case (2 k v k1 v1 ms)
  then show ?case using keys_put_field [of k v ms] by auto
qed simp

section \<open>The state of a run and its observation log\<close>

text \<open>
  Everything outside the program (the API server, DNS, the clock) is a value of an
  arbitrary type \<open>'w\<close>. What the program does to it, one entry per call, goes to the log.
\<close>

record ('w, 'o) sys =
  world :: 'w
  obslog :: "'o list"

type_synonym ('w, 'o, 'a) prog = "(('w, 'o) sys, 'a) state"

definition observe :: "'o \<Rightarrow> ('w, 'o, unit) prog" where
  "observe ob = State (\<lambda>s. ((), s\<lparr>obslog := obslog s @ [ob]\<rparr>))"

text \<open>A call to the outside: the world answers and moves, the log records both.\<close>

definition outside :: "('w \<Rightarrow> 'r \<times> 'w) \<Rightarrow> ('r \<Rightarrow> 'o) \<Rightarrow> ('w, 'o, 'r) prog" where
  "outside f ob = State (\<lambda>s. case f (world s) of
     (r, w) \<Rightarrow> (r, s\<lparr>world := w, obslog := obslog s @ [ob r]\<rparr>))"

text \<open>An outside read that leaves no log entry (the clock).\<close>

definition silent :: "('w \<Rightarrow> 'r \<times> 'w) \<Rightarrow> ('w, 'o, 'r) prog" where
  "silent f = State (\<lambda>s. case f (world s) of (r, w) \<Rightarrow> (r, s\<lparr>world := w\<rparr>))"

text \<open>What a program built from these does to a state.\<close>

lemma run_bind: "run_state (State_Monad.bind m f) s = (case run_state m s of (v, s1) \<Rightarrow> run_state (f v) s1)"
  by (simp add: State_Monad.bind_def)

lemma run_return: "run_state (State_Monad.return v) s = (v, s)"
  by (simp add: State_Monad.return_def)

lemma run_observe: "run_state (observe ob) s = ((), s\<lparr>obslog := obslog s @ [ob]\<rparr>)"
  by (simp add: observe_def)

lemma run_outside: "f (world s) = (r, w) \<Longrightarrow> run_state (outside f ob) s = (r, s\<lparr>world := w, obslog := obslog s @ [ob r]\<rparr>)"
  by (simp add: outside_def)

lemma run_silent: "f (world s) = (r, w) \<Longrightarrow> run_state (silent f) s = (r, s\<lparr>world := w\<rparr>)"
  by (simp add: silent_def)

lemmas run_basics = run_bind run_return run_observe run_outside run_silent

section \<open>A trace logic\<close>

definition emits :: "('w, 'o, 'a) prog \<Rightarrow> ('a \<Rightarrow> 'o list \<Rightarrow> bool) \<Rightarrow> bool" where
  "emits m Q \<longleftrightarrow>
     (\<forall>s. \<exists>l. obslog (snd (run_state m s)) = obslog s @ l \<and> Q (fst (run_state m s)) l)"

lemma emitsI:
  "(\<And>s. \<exists>l. obslog (snd (run_state m s)) = obslog s @ l \<and> Q (fst (run_state m s)) l) \<Longrightarrow> emits m Q"
  by (simp add: emits_def)

lemma emitsE:
  assumes "emits m Q" and "run_state m s = (r, s')"
  obtains l where "obslog s' = obslog s @ l" and "Q r l"
  using assms unfolding emits_def by (metis fst_conv snd_conv)

lemma emits_return [obs_rules]: "Q x [] \<Longrightarrow> emits (State_Monad.return x) Q"
  by (simp add: emits_def State_Monad.return_def)

lemma emits_observe [obs_rules]: "Q () [ob] \<Longrightarrow> emits (observe ob) Q"
  by (simp add: emits_def observe_def)

lemma emits_outside [obs_rules]: "(\<And>r. Q r [ob r]) \<Longrightarrow> emits (outside f ob) Q"
  by (auto simp: emits_def outside_def split: prod.splits)

lemma emits_silent [obs_rules]: "(\<And>r. Q r []) \<Longrightarrow> emits (silent f) Q"
  by (auto simp: emits_def silent_def split: prod.splits)

lemma emits_bind:
  assumes m: "emits m P" and f: "\<And>x l1. P x l1 \<Longrightarrow> emits (f x) (\<lambda>y l2. Q y (l1 @ l2))"
  shows "emits (State_Monad.bind m f) Q"
proof (rule emitsI)
  fix s
  obtain x s1 where r1: "run_state m s = (x, s1)" by fastforce
  obtain y s2 where r2: "run_state (f x) s1 = (y, s2)" by fastforce
  from m r1 obtain l1 where l1: "obslog s1 = obslog s @ l1" "P x l1" by (rule emitsE)
  from f [OF l1(2)] r2 obtain l2 where l2: "obslog s2 = obslog s1 @ l2" "Q y (l1 @ l2)"
    by (rule emitsE)
  have "run_state (State_Monad.bind m f) s = (y, s2)"
    by (simp add: State_Monad.bind_def r1 r2)
  then show "\<exists>l. obslog (snd (run_state (State_Monad.bind m f) s)) = obslog s @ l
      \<and> Q (fst (run_state (State_Monad.bind m f) s)) l"
    using l1(1) l2 by simp
qed

lemma emits_bind_wp [obs_rules]:
  "emits m (\<lambda>v l1. emits (f v) (\<lambda>y l2. Q y (l1 @ l2))) \<Longrightarrow> emits (State_Monad.bind m f) Q"
  by (rule emits_bind)

lemma emits_if [obs_rules]:
  "(b \<Longrightarrow> emits m Q) \<Longrightarrow> (\<not> b \<Longrightarrow> emits n Q) \<Longrightarrow> emits (if b then m else n) Q"
  by simp

lemma emits_sum [obs_rules]:
  "(\<And>e. v = Inl e \<Longrightarrow> emits (f e) Q) \<Longrightarrow> (\<And>y. v = Inr y \<Longrightarrow> emits (g y) Q) \<Longrightarrow>
   emits (case v of Inl e \<Rightarrow> f e | Inr y \<Rightarrow> g y) Q"
  by (cases v) auto

lemma emits_option [obs_rules]:
  "(v = None \<Longrightarrow> emits m Q) \<Longrightarrow> (\<And>y. v = Some y \<Longrightarrow> emits (g y) Q) \<Longrightarrow>
   emits (case v of None \<Rightarrow> m | Some y \<Rightarrow> g y) Q"
  by (cases v) auto

lemma emits_prod [obs_rules]:
  "(\<And>a b. v = (a, b) \<Longrightarrow> emits (f a b) Q) \<Longrightarrow> emits (case v of (a, b) \<Rightarrow> f a b) Q"
  by (cases v) auto

lemma emits_let [obs_rules]: "emits (f v) Q \<Longrightarrow> emits (let y = v in f y) Q"
  by simp

lemma emits_weaken: "emits m P \<Longrightarrow> (\<And>x l. P x l \<Longrightarrow> Q x l) \<Longrightarrow> emits m Q"
  unfolding emits_def by blast

lemma emits_conj: "emits m P \<Longrightarrow> emits m Q \<Longrightarrow> emits m (\<lambda>x l. P x l \<and> Q x l)"
  unfolding emits_def by (metis append_same_eq same_append_eq)

lemma emits_run:
  assumes "emits m Q" and "run_state m s = (r, s')" and "obslog s = []"
  shows "Q r (obslog s')"
  using assms by (auto elim: emitsE)

text \<open>
  Predicates that hold of a log exactly when they hold of every entry compose by
  themselves; most safety properties are of this form.
\<close>

definition emits_only :: "('o \<Rightarrow> bool) \<Rightarrow> ('w, 'o, 'a) prog \<Rightarrow> bool" where
  "emits_only p m \<longleftrightarrow> emits m (\<lambda>_ l. list_all p l)"

named_theorems only_rules

lemma emits_only_return [only_rules]: "emits_only p (State_Monad.return x)"
  by (simp add: emits_only_def emits_return)

lemma emits_only_observe [only_rules]: "p ob \<Longrightarrow> emits_only p (observe ob)"
  by (simp add: emits_only_def emits_observe)

lemma emits_only_outside [only_rules]: "(\<And>r. p (ob r)) \<Longrightarrow> emits_only p (outside f ob)"
  unfolding emits_only_def by (rule emits_outside) simp

lemma emits_only_silent [only_rules]: "emits_only p (silent f)"
  unfolding emits_only_def by (rule emits_silent) simp

lemma emits_only_bind [only_rules]:
  assumes "emits_only p m" and "\<And>x. emits_only p (f x)"
  shows "emits_only p (State_Monad.bind m f)"
  unfolding emits_only_def
proof (rule emits_bind)
  show "emits m (\<lambda>_ l. list_all p l)" using assms(1) by (simp add: emits_only_def)
  fix x l1 assume "list_all p l1"
  with assms(2) [of x] show "emits (f x) (\<lambda>_ l2. list_all p (l1 @ l2))"
    by (auto simp: emits_only_def elim: emits_weaken)
qed

lemma emits_only_if [only_rules]:
  "(b \<Longrightarrow> emits_only p m) \<Longrightarrow> (\<not> b \<Longrightarrow> emits_only p n) \<Longrightarrow> emits_only p (if b then m else n)"
  by simp

lemma emits_only_sum [only_rules]:
  "(\<And>e. v = Inl e \<Longrightarrow> emits_only p (f e)) \<Longrightarrow> (\<And>y. v = Inr y \<Longrightarrow> emits_only p (g y)) \<Longrightarrow>
   emits_only p (case v of Inl e \<Rightarrow> f e | Inr y \<Rightarrow> g y)"
  by (cases v) auto

lemma emits_only_option [only_rules]:
  "(v = None \<Longrightarrow> emits_only p m) \<Longrightarrow> (\<And>y. v = Some y \<Longrightarrow> emits_only p (g y)) \<Longrightarrow>
   emits_only p (case v of None \<Rightarrow> m | Some y \<Rightarrow> g y)"
  by (cases v) auto

lemma emits_only_prod [only_rules]:
  "(\<And>a b. v = (a, b) \<Longrightarrow> emits_only p (f a b)) \<Longrightarrow> emits_only p (case v of (a, b) \<Rightarrow> f a b)"
  by (cases v) auto

lemma emits_only_let [only_rules]: "emits_only p (f v) \<Longrightarrow> emits_only p (let x = v in f x)"
  by simp

lemma emits_only_mono: "emits_only p m \<Longrightarrow> (\<And>ob. p ob \<Longrightarrow> q ob) \<Longrightarrow> emits_only q m"
  unfolding emits_only_def by (erule emits_weaken) (auto simp: list_all_iff)

lemma emits_only_run:
  assumes "emits_only p m" and "run_state m s = (r, s')"
  obtains l where "obslog s' = obslog s @ l" and "\<forall>ob \<in> set l. p ob"
  using assms unfolding emits_only_def by (auto elim!: emitsE simp: list_all_iff)

text \<open>
  The same with a postcondition on the value: \<open>yields p R m\<close> says that every entry that \<open>m\<close>
  appends satisfies \<open>p\<close> and its value satisfies \<open>R\<close>. The rules in \<open>yields_rules\<close> follow the
  structure of a program; those of the operations are declared where the operations are.
\<close>

definition yields :: "('o \<Rightarrow> bool) \<Rightarrow> ('a \<Rightarrow> bool) \<Rightarrow> ('w, 'o, 'a) prog \<Rightarrow> bool" where
  "yields p R m \<longleftrightarrow> emits m (\<lambda>v l. list_all p l \<and> R v)"

named_theorems yields_rules

lemma yields_return [yields_rules]: "R v \<Longrightarrow> yields p R (State_Monad.return v)"
  by (simp add: yields_def emits_return)

lemma yields_observe [yields_rules]: "p ob \<Longrightarrow> R () \<Longrightarrow> yields p R (observe ob)"
  by (simp add: yields_def emits_observe)

lemma yields_outside [yields_rules]: "(\<And>r. p (ob r)) \<Longrightarrow> (\<And>r. R r) \<Longrightarrow> yields p R (outside f ob)"
  unfolding yields_def by (rule emits_outside) simp

lemma yields_silent [yields_rules]: "(\<And>r. R r) \<Longrightarrow> yields p R (silent f)"
  unfolding yields_def by (rule emits_silent) simp

lemma yields_bind:
  assumes "yields p S m" and "\<And>v. S v \<Longrightarrow> yields p R (f v)"
  shows "yields p R (State_Monad.bind m f)"
  unfolding yields_def
proof (rule emits_bind)
  show "emits m (\<lambda>v l. list_all p l \<and> S v)" using assms(1) by (simp add: yields_def)
  fix v l1 assume "list_all p l1 \<and> S v"
  with assms(2) [of v] show "emits (f v) (\<lambda>y l2. list_all p (l1 @ l2) \<and> R y)"
    by (auto simp: yields_def elim: emits_weaken)
qed

text \<open>The bind rule read backwards: what the continuation needs is the postcondition of \<open>m\<close>.\<close>

lemma yields_bind_wp [yields_rules]: "yields p (\<lambda>v. yields p R (f v)) m \<Longrightarrow> yields p R (State_Monad.bind m f)"
  by (rule yields_bind)

lemma yields_only: "yields p (\<lambda>_. True) m \<longleftrightarrow> emits_only p m"
  by (simp add: yields_def emits_only_def)

lemma yields_mono:
  "yields p R m \<Longrightarrow> (\<And>ob. p ob \<Longrightarrow> q ob) \<Longrightarrow> (\<And>v. R v \<Longrightarrow> S v) \<Longrightarrow> yields q S m"
  unfolding yields_def by (erule emits_weaken) (auto simp: list_all_iff)

lemma yields_weaken: "yields p R m \<Longrightarrow> (\<And>v. R v \<Longrightarrow> S v) \<Longrightarrow> yields p S m"
  by (erule yields_mono)

lemma yields_conj: "yields p R m \<Longrightarrow> yields q S m \<Longrightarrow> yields (\<lambda>ob. p ob \<and> q ob) (\<lambda>v. R v \<and> S v) m"
  unfolding yields_def by (drule (1) emits_conj, erule emits_weaken) (auto simp: list_all_iff)

lemma yields_if [yields_rules]:
  "(b \<Longrightarrow> yields p R m) \<Longrightarrow> (\<not> b \<Longrightarrow> yields p R n) \<Longrightarrow> yields p R (if b then m else n)"
  by simp

lemma yields_sum [yields_rules]:
  "(\<And>e. v = Inl e \<Longrightarrow> yields p R (f e)) \<Longrightarrow> (\<And>y. v = Inr y \<Longrightarrow> yields p R (g y)) \<Longrightarrow>
   yields p R (case v of Inl e \<Rightarrow> f e | Inr y \<Rightarrow> g y)"
  by (cases v) auto

lemma yields_option [yields_rules]:
  "(v = None \<Longrightarrow> yields p R m) \<Longrightarrow> (\<And>y. v = Some y \<Longrightarrow> yields p R (g y)) \<Longrightarrow>
   yields p R (case v of None \<Rightarrow> m | Some y \<Rightarrow> g y)"
  by (cases v) auto

lemma yields_prod [yields_rules]:
  "(\<And>a b. v = (a, b) \<Longrightarrow> yields p R (f a b)) \<Longrightarrow> yields p R (case v of (a, b) \<Rightarrow> f a b)"
  by (cases v) auto

lemma yields_let [yields_rules]: "yields p R (f v) \<Longrightarrow> yields p R (let y = v in f y)"
  by simp

lemma emits_yields: "yields p R m \<Longrightarrow> (\<And>v l. list_all p l \<Longrightarrow> R v \<Longrightarrow> Q v l) \<Longrightarrow> emits m Q"
  unfolding yields_def by (erule emits_weaken) auto

lemma yields_run:
  assumes "yields p R m" and "run_state m s = (r, s')"
  obtains l where "obslog s' = obslog s @ l" and "list_all p l" and "R r"
  using assms unfolding yields_def by (auto elim!: emitsE)

end
