(* ===== verification/Go_Time.thy ===== *)
theory Go_Time
  imports Prelude "HOL-Library.Log_Nat"
begin

text \<open>
  Go's \<open>time.Duration\<close> (a signed 64-bit count of nanoseconds), the instants the program
  compares, and \<open>Duration.Seconds\<close>, which goes through \<open>float64\<close>. A 64-bit integer is an
  \<open>int\<close>; wherever Go's arithmetic can leave the range, the wrap-around (\<open>int64\<close>, \<open>int32\<close>)
  or the saturation is written out. An instant is the number of nanoseconds since Go's zero
  time, so \<open>Time.IsZero\<close> is equality with 0.
\<close>

type_synonym duration = int
type_synonym gotime = int

definition int64 :: "int \<Rightarrow> int" where
  "int64 i = (i + 2 ^ 63) mod 2 ^ 64 - 2 ^ 63"

definition int32 :: "int \<Rightarrow> int" where
  "int32 i = (i + 2 ^ 31) mod 2 ^ 32 - 2 ^ 31"

definition in_int64 :: "int \<Rightarrow> bool" where
  "in_int64 i \<longleftrightarrow> - (2 ^ 63) \<le> i \<and> i < 2 ^ 63"

definition in_int32 :: "int \<Rightarrow> bool" where
  "in_int32 i \<longleftrightarrow> - (2 ^ 31) \<le> i \<and> i < 2 ^ 31"

lemma int64_id [simp]: "in_int64 i \<Longrightarrow> int64 i = i"
  by (simp add: int64_def in_int64_def)

lemma int32_id [simp]: "in_int32 i \<Longrightarrow> int32 i = i"
  by (simp add: int32_def in_int32_def)

lemma in_int64_int64 [simp]: "in_int64 (int64 i)"
proof -
  have "0 \<le> (i + 2 ^ 63) mod 2 ^ 64" and "(i + 2 ^ 63) mod 2 ^ 64 < (2 ^ 64 :: int)" by simp_all
  then show ?thesis by (simp add: int64_def in_int64_def)
qed

abbreviation Second :: duration where
  "Second \<equiv> 1000000000"

abbreviation Minute :: duration where
  "Minute \<equiv> 60 * 1000000000"

definition IsZero :: "gotime \<Rightarrow> bool" where
  "IsZero t \<longleftrightarrow> t = 0"

text \<open>\<open>Time.Sub\<close> saturates at the ends of the 64-bit range.\<close>

definition time_Sub :: "gotime \<Rightarrow> gotime \<Rightarrow> duration" where
  "time_Sub t u = max (- (2 ^ 63)) (min (2 ^ 63 - 1) (t - u))"

section \<open>float64\<close>

text \<open>
  A \<open>float64\<close> in the range that durations reach (no overflow, no subnormal value) is
  \<open>m * 2 ^ e\<close> with \<open>\<bar>m\<bar> < 2 ^ 53\<close>; the pair \<open>(m, e)\<close> stands for it. \<open>f64_quot n d\<close> is the
  \<open>float64\<close> nearest to \<open>n / d\<close>, ties to even, for \<open>n \<ge> 0\<close> and \<open>d > 0\<close>: \<open>e0\<close> puts the quotient
  between \<open>2 ^ 52\<close> and \<open>2 ^ 54\<close>, and one halving brings it below \<open>2 ^ 53\<close> where needed.
\<close>

type_synonym f64 = "int \<times> int"

definition bitlen :: "int \<Rightarrow> int" where
  "bitlen n = int (floorlog 2 (nat n))"

definition scaled :: "int \<Rightarrow> int \<Rightarrow> int \<Rightarrow> int \<times> int" where
  "scaled n d e = (if e \<ge> 0 then (n, d * 2 ^ nat e) else (n * 2 ^ nat (- e), d))"

definition div_half_even :: "int \<Rightarrow> int \<Rightarrow> int" where
  "div_half_even n d =
     (let q = n div d; r = n mod d in if 2 * r < d \<or> 2 * r = d \<and> even q then q else q + 1)"

definition f64_quot :: "int \<Rightarrow> int \<Rightarrow> f64" where
  "f64_quot n d =
     (if n = 0 then (0, 0)
      else let e0 = bitlen n - bitlen d - 53;
               q0 = (case scaled n d e0 of (a, b) \<Rightarrow> a div b);
               e = (if q0 < 2 ^ 53 then e0 else e0 + 1)
           in (case scaled n d e of (a, b) \<Rightarrow> (div_half_even a b, e)))"

text \<open>\<open>float64(k) + f\<close> for an integer that a \<open>float64\<close> holds exactly.\<close>

definition f64_add_int :: "int \<Rightarrow> f64 \<Rightarrow> f64" where
  "f64_add_int k f = (case f of (m, e) \<Rightarrow>
     if e \<ge> 0 then f64_quot (k + m * 2 ^ nat e) 1 else f64_quot (k * 2 ^ nat (- e) + m) (2 ^ nat (- e)))"

text \<open>
  \<open>Duration.Seconds\<close>: whole seconds plus the fraction, each converted to \<open>float64\<close>. Go's
  division truncates towards zero, so the value of \<open>- d\<close> is the negation of that of \<open>d\<close>.
\<close>

definition Seconds_pos :: "duration \<Rightarrow> f64" where
  "Seconds_pos d = f64_add_int (d div Second) (f64_quot (d mod Second) Second)"

definition Seconds :: "duration \<Rightarrow> f64" where
  "Seconds d = (if d < 0 then (case Seconds_pos (- d) of (m, e) \<Rightarrow> (- m, e)) else Seconds_pos d)"

text \<open>The conversion \<open>int64(f)\<close> truncates towards zero.\<close>

definition f64_trunc :: "f64 \<Rightarrow> int" where
  "f64_trunc f = (case f of (m, e) \<Rightarrow>
     if e \<ge> 0 then m * 2 ^ nat e else sgn m * (\<bar>m\<bar> div 2 ^ nat (- e)))"

end
