(* ===== verification/Go_Strings.thy ===== *)
theory Go_Strings
  imports Prelude
begin

text \<open>
  The part of Go's \<open>strings\<close>, \<open>unicode/utf8\<close>, \<open>strconv\<close> and \<open>path\<close> packages that the
  program uses. A Go string is a byte sequence and a HOL \<open>string\<close> is a list of 8-bit
  characters, so the two correspond one to one; a code point is a \<open>nat\<close>.

  Three tables of the Unicode database are not written out: which code points above Latin-1
  print (\<open>u_isPrint\<close>), the lower case of a code point above ASCII (\<open>u_toLower\<close>), and the
  format characters, category Cf (\<open>u_isFormat\<close>). They are the fields of the record \<open>unicode\<close>,
  an argument of the functions that use them.
\<close>

record unicode =
  u_isPrint :: "nat \<Rightarrow> bool"
  u_toLower :: "nat \<Rightarrow> nat"
  u_isFormat :: "nat \<Rightarrow> bool"

abbreviation byte :: "char \<Rightarrow> nat" where
  "byte c \<equiv> of_char c"

section \<open>Plain byte-string operations\<close>

definition HasPrefix :: "string \<Rightarrow> string \<Rightarrow> bool" where
  "HasPrefix s p \<longleftrightarrow> take (length p) s = p"

definition TrimPrefix :: "string \<Rightarrow> string \<Rightarrow> string" where
  "TrimPrefix s p = (if HasPrefix s p then drop (length p) s else s)"

definition TrimSuffix :: "string \<Rightarrow> string \<Rightarrow> string" where
  "TrimSuffix s p = (if HasPrefix (rev s) (rev p) then take (length s - length p) s else s)"

text \<open>\<open>strings.TrimRight(s, "/")\<close>: the cutset has a single character.\<close>

definition TrimRight :: "string \<Rightarrow> char \<Rightarrow> string" where
  "TrimRight s c = rev (dropWhile (\<lambda>d. d = c) (rev s))"

definition ContainsByte :: "string \<Rightarrow> char \<Rightarrow> bool" where
  "ContainsByte s c \<longleftrightarrow> c \<in> set s"

text \<open>\<open>strings.IndexByte\<close>, with \<open>None\<close> for -1.\<close>

fun IndexByte :: "string \<Rightarrow> char \<Rightarrow> nat option" where
  "IndexByte [] c = None"
| "IndexByte (d # s) c = (if d = c then Some 0 else map_option Suc (IndexByte s c))"

lemma IndexByte_None_iff: "IndexByte s c = None \<longleftrightarrow> c \<notin> set s"
  by (induction s) auto

lemma IndexByte_Some: "IndexByte s c = Some i \<Longrightarrow> i < length s \<and> s ! i = c \<and> c \<notin> set (take i s)"
  by (induction s arbitrary: i) (auto split: if_splits)

lemma HasPrefix_iff_prefix: "HasPrefix s p \<longleftrightarrow> prefix p s"
  unfolding HasPrefix_def by (metis append_take_drop_id prefixI prefixE take_is_prefix append_eq_conv_conj)

lemma TrimPrefix_append [simp]: "TrimPrefix (p @ s) p = s"
  by (simp add: TrimPrefix_def HasPrefix_def)

lemma TrimRight_no_suffix: "TrimRight s c \<noteq> [] \<Longrightarrow> last (TrimRight s c) \<noteq> c"
  unfolding TrimRight_def by (metis (full_types) hd_dropWhile last_rev rev_is_Nil_conv)

lemma TrimRight_idem [simp]: "TrimRight (TrimRight s c) c = TrimRight s c"
  by (simp add: TrimRight_def dropWhile_idem)

lemma TrimRight_append_self [simp]: "TrimRight (s @ [c]) c = TrimRight s c"
  by (simp add: TrimRight_def)

section \<open>UTF-8\<close>

abbreviation RuneError :: nat where
  "RuneError \<equiv> 0xFFFD"

definition cont_byte :: "nat \<Rightarrow> bool" where
  "cont_byte b \<longleftrightarrow> 0x80 \<le> b \<and> b \<le> 0xBF"

text \<open>
  \<open>utf8.DecodeRuneInString\<close> on the bytes of a non-empty string: the code point and its
  width in bytes; an invalid or truncated sequence is \<open>RuneError\<close> of width 1.
\<close>

fun decode_rune2 :: "nat \<Rightarrow> nat list \<Rightarrow> nat \<times> nat" where
  "decode_rune2 b0 (b1 # _) =
     (if cont_byte b1 then ((b0 mod 32) * 64 + b1 mod 64, 2) else (RuneError, 1))"
| "decode_rune2 b0 [] = (RuneError, 1)"

fun decode_rune3 :: "nat \<Rightarrow> nat list \<Rightarrow> nat \<times> nat" where
  "decode_rune3 b0 (b1 # b2 # _) =
     (let lo = (if b0 = 0xE0 then 0xA0 else 0x80); hi = (if b0 = 0xED then 0x9F else 0xBF)
      in if lo \<le> b1 \<and> b1 \<le> hi \<and> cont_byte b2
         then ((b0 mod 16) * 4096 + (b1 mod 64) * 64 + b2 mod 64, 3) else (RuneError, 1))"
| "decode_rune3 b0 bs = (RuneError, 1)"

fun decode_rune4 :: "nat \<Rightarrow> nat list \<Rightarrow> nat \<times> nat" where
  "decode_rune4 b0 (b1 # b2 # b3 # _) =
     (let lo = (if b0 = 0xF0 then 0x90 else 0x80); hi = (if b0 = 0xF4 then 0x8F else 0xBF)
      in if lo \<le> b1 \<and> b1 \<le> hi \<and> cont_byte b2 \<and> cont_byte b3
         then ((b0 mod 8) * 262144 + (b1 mod 64) * 4096 + (b2 mod 64) * 64 + b3 mod 64, 4)
         else (RuneError, 1))"
| "decode_rune4 b0 bs = (RuneError, 1)"

definition decode_rune :: "nat \<Rightarrow> nat list \<Rightarrow> nat \<times> nat" where
  "decode_rune b0 bs =
     (if b0 < 0x80 then (b0, 1)
      else if 0xC2 \<le> b0 \<and> b0 \<le> 0xDF then decode_rune2 b0 bs
      else if 0xE0 \<le> b0 \<and> b0 \<le> 0xEF then decode_rune3 b0 bs
      else if 0xF0 \<le> b0 \<and> b0 \<le> 0xF4 then decode_rune4 b0 bs
      else (RuneError, 1))"

lemma decode_rune2_width: "1 \<le> snd (decode_rune2 b0 bs)"
  by (induction b0 bs rule: decode_rune2.induct) auto

lemma decode_rune3_width: "1 \<le> snd (decode_rune3 b0 bs)"
  by (induction b0 bs rule: decode_rune3.induct) (auto simp: Let_def)

lemma decode_rune4_width: "1 \<le> snd (decode_rune4 b0 bs)"
  by (induction b0 bs rule: decode_rune4.induct) (auto simp: Let_def)

lemma decode_rune_width: "decode_rune b0 bs = (r, w) \<Longrightarrow> 1 \<le> w"
  by (metis decode_rune_def decode_rune2_width decode_rune3_width decode_rune4_width le_refl snd_conv)

text \<open>\<open>utf8.AppendRune\<close> for a valid code point.\<close>

definition encode_rune :: "nat \<Rightarrow> string" where
  "encode_rune r = map char_of
     (if r < 0x80 then [r]
      else if r < 0x800 then [0xC0 + r div 64, 0x80 + r mod 64]
      else if r < 0x10000 then [0xE0 + r div 4096, 0x80 + (r div 64) mod 64, 0x80 + r mod 64]
      else [0xF0 + r div 262144, 0x80 + (r div 4096) mod 64, 0x80 + (r div 64) mod 64, 0x80 + r mod 64])"

text \<open>A string cut into its code points, each with the bytes it was read from.\<close>

function rune_spans :: "string \<Rightarrow> (nat \<times> string) list" where
  "rune_spans [] = []"
| "rune_spans (c # s) =
     (case decode_rune (byte c) (map byte s) of
        (r, w) \<Rightarrow> (r, take w (c # s)) # rune_spans (drop w (c # s)))"
  by pat_completeness auto
termination
  by (relation "measure length") (auto dest!: decode_rune_width [OF sym])

definition runes :: "string \<Rightarrow> nat list" where
  "runes s = map fst (rune_spans s)"

lemma concat_rune_spans [simp]: "concat (map snd (rune_spans s)) = s"
proof (induction s rule: rune_spans.induct)
  case (2 c s)
  obtain r w where d: "decode_rune (byte c) (map byte s) = (r, w)" by fastforce
  show ?case using "2" [OF d [symmetric]] by (simp add: d)
qed simp

text \<open>An invalid byte is a span of width 1 that decodes to \<open>RuneError\<close>.\<close>

definition invalid_span :: "nat \<times> string \<Rightarrow> bool" where
  "invalid_span p \<longleftrightarrow> fst p = RuneError \<and> length (snd p) = 1"

text \<open>\<open>strings.ToValidUTF8(s, "")\<close> drops every invalid byte.\<close>

definition ToValidUTF8 :: "string \<Rightarrow> string" where
  "ToValidUTF8 s = concat (map snd (filter (\<lambda>p. \<not> invalid_span p) (rune_spans s)))"

section \<open>White space and case\<close>

text \<open>\<open>unicode.IsSpace\<close>: the White\_Space property.\<close>

definition IsSpace :: "nat \<Rightarrow> bool" where
  "IsSpace r \<longleftrightarrow> r \<in> set [0x09, 0x0A, 0x0B, 0x0C, 0x0D, 0x20, 0x85, 0xA0, 0x1680, 0x2028, 0x2029,
     0x202F, 0x205F, 0x3000] \<or> 0x2000 \<le> r \<and> r \<le> 0x200A"

definition TrimSpace :: "string \<Rightarrow> string" where
  "TrimSpace s = concat (map snd
     (rev (dropWhile (\<lambda>p. IsSpace (fst p)) (rev (dropWhile (\<lambda>p. IsSpace (fst p)) (rune_spans s))))))"

text \<open>\<open>strings.ToLower\<close>: ASCII letters by arithmetic, other code points by the table.\<close>

definition toLowerRune :: "unicode \<Rightarrow> nat \<Rightarrow> nat" where
  "toLowerRune u r = (if r < 0x80 then (if 65 \<le> r \<and> r \<le> 90 then r + 32 else r) else u_toLower u r)"

definition ToLower :: "unicode \<Rightarrow> string \<Rightarrow> string" where
  "ToLower u s = concat (map (\<lambda>r. encode_rune (toLowerRune u r)) (runes s))"

definition ascii :: "string \<Rightarrow> bool" where
  "ascii s \<longleftrightarrow> list_all (\<lambda>c. byte c < 0x80) s"

definition ascii_lower :: "char \<Rightarrow> char" where
  "ascii_lower c = (if 65 \<le> byte c \<and> byte c \<le> 90 then char_of (byte c + 32) else c)"

lemma rune_spans_ascii: "ascii s \<Longrightarrow> rune_spans s = map (\<lambda>c. (byte c, [c])) s"
  by (induction s) (auto simp: ascii_def decode_rune_def)

lemma ToLower_ascii: "ascii s \<Longrightarrow> ToLower u s = map ascii_lower s"
  by (simp add: ToLower_def runes_def rune_spans_ascii, induction s)
     (auto simp: ascii_def toLowerRune_def encode_rune_def ascii_lower_def)

lemma TrimSpace_ascii:
  assumes "ascii s"
  shows "TrimSpace s = rev (dropWhile (\<lambda>c. IsSpace (byte c)) (rev (dropWhile (\<lambda>c. IsSpace (byte c)) s)))"
proof -
  have c: "concat (map snd (map (\<lambda>c. (byte c, [c])) t)) = t" for t :: string
    by (induction t) auto
  show ?thesis
    unfolding TrimSpace_def rune_spans_ascii [OF assms]
    by (simp add: dropWhile_map rev_map comp_def)
qed

section \<open>Numbers and quotation\<close>

definition digit_char :: "nat \<Rightarrow> char" where
  "digit_char d = char_of (48 + d)"

fun itoa_nat :: "nat \<Rightarrow> string" where
  "itoa_nat n = (if n < 10 then [digit_char n] else itoa_nat (n div 10) @ [digit_char (n mod 10)])"

declare itoa_nat.simps [simp del]

text \<open>\<open>%d\<close> and \<open>strconv.Itoa\<close>.\<close>

definition itoa :: "int \<Rightarrow> string" where
  "itoa i = (if i < 0 then CHR ''-'' # itoa_nat (nat (- i)) else itoa_nat (nat i))"

definition hex_digit :: "nat \<Rightarrow> char" where
  "hex_digit d = (if d < 10 then char_of (48 + d) else char_of (87 + d))"

fun hex_pad :: "nat \<Rightarrow> nat \<Rightarrow> string" where
  "hex_pad 0 n = []"
| "hex_pad (Suc k) n = hex_pad k (n div 16) @ [hex_digit (n mod 16)]"

lemma length_hex_pad [simp]: "length (hex_pad k n) = k"
  by (induction k n rule: hex_pad.induct) auto

definition IsPrint :: "unicode \<Rightarrow> nat \<Rightarrow> bool" where
  "IsPrint u r \<longleftrightarrow>
     (if r < 0x100 then 0x20 \<le> r \<and> r < 0x7F \<or> 0xA1 \<le> r \<and> r \<noteq> 0xAD else u_isPrint u r)"

abbreviation dquote :: char where
  "dquote \<equiv> CHR 0x22"

abbreviation backslash :: char where
  "backslash \<equiv> CHR 0x5C"

definition quote_span :: "unicode \<Rightarrow> nat \<times> string \<Rightarrow> string" where
  "quote_span u p = (case p of (r, bs) \<Rightarrow>
     if invalid_span p then backslash # CHR ''x'' # hex_pad 2 (sum_list (map byte bs))
     else if r = 0x22 \<or> r = 0x5C then [backslash, char_of r]
     else if IsPrint u r then bs
     else if r = 7 then backslash # ''a''
     else if r = 8 then backslash # ''b''
     else if r = 12 then backslash # ''f''
     else if r = 10 then backslash # ''n''
     else if r = 13 then backslash # ''r''
     else if r = 9 then backslash # ''t''
     else if r = 11 then backslash # ''v''
     else if r < 0x20 \<or> r = 0x7F then backslash # CHR ''x'' # hex_pad 2 r
     else if r < 0x10000 then backslash # CHR ''u'' # hex_pad 4 r
     else backslash # CHR ''U'' # hex_pad 8 r)"

text \<open>\<open>%q\<close> and \<open>strconv.Quote\<close>.\<close>

definition Quote :: "unicode \<Rightarrow> string \<Rightarrow> string" where
  "Quote u s = [dquote] @ concat (map (quote_span u) (rune_spans s)) @ [dquote]"

section \<open>Paths\<close>

text \<open>\<open>path.Join\<close> and \<open>path.Clean\<close> on slash-separated elements.\<close>

fun split_on :: "char \<Rightarrow> string \<Rightarrow> string list" where
  "split_on c [] = [[]]"
| "split_on c (d # s) =
     (if d = c then [] # split_on c s
      else (case split_on c s of [] \<Rightarrow> [[d]] | p # ps \<Rightarrow> (d # p) # ps))"

fun join_with :: "string \<Rightarrow> string list \<Rightarrow> string" where
  "join_with sep [] = []"
| "join_with sep [p] = p"
| "join_with sep (p # ps) = p @ sep @ join_with sep ps"

text \<open>
  \<open>path.Clean\<close>: empty and \<open>.\<close> elements disappear; \<open>..\<close> removes the element before it, stays
  at the front of a relative path and disappears at the front of a rooted one.
\<close>

fun clean_elems :: "bool \<Rightarrow> string list \<Rightarrow> string list \<Rightarrow> string list" where
  "clean_elems rooted out [] = rev out"
| "clean_elems rooted out (e # es) =
     (if e = [] \<or> e = ''.'' then clean_elems rooted out es
      else if e = ''..'' then
        (case out of
           [] \<Rightarrow> clean_elems rooted (if rooted then [] else [''..'']) es
         | o1 # os \<Rightarrow> (if o1 = ''..'' then clean_elems rooted (''..'' # out) es
                      else clean_elems rooted os es))
      else clean_elems rooted (e # out) es)"

definition path_Clean :: "string \<Rightarrow> string" where
  "path_Clean p =
     (let rooted = HasPrefix p ''/''; es = clean_elems rooted [] (split_on (CHR ''/'') p);
          body = join_with ''/'' es
      in if rooted then ''/'' @ body else if body = [] then ''.'' else body)"

definition path_Join :: "string list \<Rightarrow> string" where
  "path_Join elems =
     (let es = filter (\<lambda>e. e \<noteq> []) elems
      in if es = [] then [] else path_Clean (join_with ''/'' es))"

lemma split_on_nonempty [simp]: "split_on c s \<noteq> []"
  by (induction s) (auto split: list.splits)

lemma split_on_no_sep: "c \<notin> set s \<Longrightarrow> split_on c s = [s]"
  by (induction s) auto

lemma split_on_append: "split_on c (s @ c # t) = split_on c s @ split_on c t"
  by (induction s) (auto split: list.splits)

end
