(* ===== verification/Api_Types.thy ===== *)
theory Api_Types
  imports Go_Time Go_Strings
begin

text \<open>
  The data the program works on: the API types of \<open>src/api/v1alpha1\<close> (Task,
  ClusterAgentClass, ClusterTriggerClass) and the fields of the Kubernetes objects that the
  controller builds or reads (Job, Pod, ServiceAccount, ConfigMap, Role, RoleBinding,
  NetworkPolicy, Secret). A Go pointer is an \<open>option\<close>, a slice a list, a \<open>map[string]string\<close>
  an optional association list (\<open>None\<close> is Go's nil map). The fields of a live object that the program
  neither reads nor writes (resource version, managed fields, server defaults) are the one
  opaque field \<open>om_rest\<close> of its metadata, so that "the object is unchanged" means all of it.
\<close>

section \<open>Maps and metadata\<close>

type_synonym strmap = "(string \<times> string) list option"

text \<open>Go's \<open>m[k]\<close>: the empty string for a missing key or a nil map.\<close>

definition map_get :: "strmap \<Rightarrow> string \<Rightarrow> string" where
  "map_get m k = (case m of None \<Rightarrow> [] | Some f \<Rightarrow> (case map_of f k of None \<Rightarrow> [] | Some v \<Rightarrow> v))"

text \<open>Go's \<open>m[k] = v\<close> on a map that is not nil.\<close>

definition map_put :: "strmap \<Rightarrow> string \<Rightarrow> string \<Rightarrow> strmap" where
  "map_put m k v = map_option (put_field k v) m"

lemma map_get_put [simp]: "map_get (map_put (Some f) k v) k' = (if k' = k then v else map_get (Some f) k')"
  by (simp add: map_get_def map_put_def)

type_synonym NamespacedName = "string \<times> string" \<comment> \<open>namespace, name\<close>

record OwnerReference =
  or_APIVersion :: string
  or_Kind :: string
  or_Name :: string
  or_UID :: string
  or_Controller :: "bool option"

record ObjectMeta =
  om_Name :: string
  om_GenerateName :: string
  om_Namespace :: string
  om_Labels :: strmap
  om_Annotations :: strmap
  om_OwnerReferences :: "OwnerReference list"
  om_UID :: string
  om_Generation :: int
  om_DeletionTimestamp :: "gotime option"
  om_rest :: string

definition zero_meta :: ObjectMeta where
  "zero_meta = \<lparr>om_Name = [], om_GenerateName = [], om_Namespace = [], om_Labels = None,
     om_Annotations = None, om_OwnerReferences = [], om_UID = [], om_Generation = 0,
     om_DeletionTimestamp = None, om_rest = []\<rparr>"

section \<open>Task (task\_types.go)\<close>

text \<open>\<open>runtime.RawExtension\<close> carries raw JSON bytes.\<close>

type_synonym RawExtension = string

record AgentRef =
  ar_Ref :: string
  ar_Config :: "RawExtension option"

text \<open>\<open>corev1.SecretKeySelector\<close> and \<open>corev1.ConfigMapKeySelector\<close>\<close>

record KeySelector =
  ks_Name :: string
  ks_Key :: string

record PromptSource =
  ps_Inline :: string
  ps_SecretRef :: "KeySelector option"
  ps_ConfigMapRef :: "KeySelector option"

record RBACRule =
  rr_APIGroups :: "string list"
  rr_Resources :: "string list"
  rr_Verbs :: "string list"
  rr_ResourceNames :: "string list"

record Permissions =
  pm_Secrets :: "string list"
  pm_Egress :: "string list"
  pm_EgressPorts :: "int list"
  pm_RBAC :: "RBACRule list"

record TaskResources =
  tr_CPU :: string
  tr_Memory :: string
  tr_Timeout :: duration

record TaskSpec =
  ts_Agent :: AgentRef
  ts_Prompt :: PromptSource
  ts_Permissions :: Permissions
  ts_Resources :: TaskResources
  ts_TTLSecondsAfterFinished :: "int option"

type_synonym TaskPhase = string

abbreviation TaskPhasePending :: TaskPhase where "TaskPhasePending \<equiv> ''Pending''"
abbreviation TaskPhaseRunning :: TaskPhase where "TaskPhaseRunning \<equiv> ''Running''"
abbreviation TaskPhaseCompleted :: TaskPhase where "TaskPhaseCompleted \<equiv> ''Completed''"
abbreviation TaskPhaseFailed :: TaskPhase where "TaskPhaseFailed \<equiv> ''Failed''"
abbreviation TaskPhaseTimedOut :: TaskPhase where "TaskPhaseTimedOut \<equiv> ''TimedOut''"

record ResultLink =
  rl_Name :: string
  rl_URL :: string

record TaskResult =
  res_Summary :: string
  res_Links :: "ResultLink list"

text \<open>\<open>metav1.Condition\<close>\<close>

record Condition =
  cd_Type :: string
  cd_Status :: string
  cd_Reason :: string
  cd_Message :: string
  cd_ObservedGeneration :: int
  cd_LastTransitionTime :: gotime

record TaskStatus =
  st_Phase :: TaskPhase
  st_ObservedGeneration :: int
  st_JobName :: string
  st_StartTime :: "gotime option"
  st_CompletionTime :: "gotime option"
  st_Result :: "TaskResult option"
  st_Conditions :: "Condition list"

record Task =
  task_Meta :: ObjectMeta
  task_Spec :: TaskSpec
  task_Status :: TaskStatus

abbreviation task_Name :: "Task \<Rightarrow> string" where "task_Name t \<equiv> om_Name (task_Meta t)"
abbreviation task_Namespace :: "Task \<Rightarrow> string" where "task_Namespace t \<equiv> om_Namespace (task_Meta t)"
abbreviation task_Labels :: "Task \<Rightarrow> strmap" where "task_Labels t \<equiv> om_Labels (task_Meta t)"

section \<open>ClusterAgentClass (clusteragentclass\_types.go)\<close>

record AgentInputMount =
  im_Mount :: string
  im_Env :: string

record AgentInputs =
  ai_Prompt :: "AgentInputMount option"
  ai_Config :: "AgentInputMount option"

record AgentRequirements =
  aq_Egress :: "string list"
  aq_Secrets :: "string list"

record ClusterAgentClassSpec =
  ac_Image :: string
  ac_ImagePullPolicy :: string
  ac_Command :: "string list"
  ac_Args :: "string list"
  ac_Inputs :: AgentInputs
  ac_Requires :: AgentRequirements

record ClusterAgentClass =
  agc_Meta :: ObjectMeta
  agc_Spec :: ClusterAgentClassSpec

section \<open>ClusterTriggerClass (clustertriggerclass\_types.go)\<close>

record WebhookSignature =
  ws_Header :: string
  ws_Algorithm :: string
  ws_Prefix :: string
  ws_SecretRef :: KeySelector

record FieldMapping =
  fm_From :: string
  fm_To :: string
  fm_Default :: string

record WebhookFilter =
  wf_Path :: string
  wf_Equals :: string

record TaskTemplate =
  tt_Namespace :: string
  tt_GenerateNamePrefix :: string
  tt_Agent :: AgentRef
  tt_Permissions :: Permissions
  tt_Resources :: TaskResources
  tt_TTLSecondsAfterFinished :: "int option"
  tt_Mappings :: "FieldMapping list"

record TriggerDedupe =
  td_UniqueBy :: "string list"

record ClusterTriggerClassSpec =
  ct_Path :: string
  ct_Signature :: WebhookSignature
  ct_Filters :: "WebhookFilter list"
  ct_Task :: TaskTemplate
  ct_Dedupe :: "TriggerDedupe option"

record ClusterTriggerClass =
  ctc_Meta :: ObjectMeta
  ctc_Spec :: ClusterTriggerClassSpec

section \<open>Kubernetes objects the controller builds\<close>

record ServiceAccount =
  sa_Meta :: ObjectMeta
  sa_AutomountServiceAccountToken :: "bool option"

record ConfigMap =
  cm_Meta :: ObjectMeta
  cm_Data :: strmap

record PolicyRule =
  pr_APIGroups :: "string list"
  pr_Resources :: "string list"
  pr_Verbs :: "string list"
  pr_ResourceNames :: "string list"

record Role =
  role_Meta :: ObjectMeta
  role_Rules :: "PolicyRule list"

record Subject =
  sj_Kind :: string
  sj_Name :: string
  sj_Namespace :: string

record RoleRef =
  rf_APIGroup :: string
  rf_Kind :: string
  rf_Name :: string

record RoleBinding =
  rb_Meta :: ObjectMeta
  rb_Subjects :: "Subject list"
  rb_RoleRef :: RoleRef

text \<open>A label selector with match labels only.\<close>

type_synonym LabelSelector = strmap

record NetworkPolicyPeer =
  peer_PodSelector :: "LabelSelector option"
  peer_NamespaceSelector :: "LabelSelector option"
  peer_IPBlock :: "string option" \<comment> \<open>the CIDR of the block\<close>

datatype Protocol = TCP | UDP

record NetworkPolicyPort =
  np_Protocol :: Protocol
  np_Port :: int

record NetworkPolicyIngressRule =
  ir_From :: "NetworkPolicyPeer list"
  ir_Ports :: "NetworkPolicyPort list"

record NetworkPolicyEgressRule =
  er_To :: "NetworkPolicyPeer list"
  er_Ports :: "NetworkPolicyPort list"

datatype PolicyType = PolicyTypeIngress | PolicyTypeEgress

record NetworkPolicySpec =
  nps_PodSelector :: LabelSelector
  nps_PolicyTypes :: "PolicyType list"
  nps_Ingress :: "NetworkPolicyIngressRule list"
  nps_Egress :: "NetworkPolicyEgressRule list"

record NetworkPolicy =
  netp_Meta :: ObjectMeta
  netp_Spec :: NetworkPolicySpec

datatype VolumeSource = EmptyDir | SecretVolume string | ConfigMapVolume string

record Volume =
  vol_Name :: string
  vol_Source :: VolumeSource

record VolumeMount =
  vm_Name :: string
  vm_MountPath :: string
  vm_SubPath :: string
  vm_ReadOnly :: bool

record EnvVar =
  ev_Name :: string
  ev_Value :: string

text \<open>A parsed resource quantity is an opaque value of the \<open>resource\<close> package.\<close>

datatype Quantity = Quantity string

type_synonym ResourceList = "(string \<times> Quantity) list"

record ResourceRequirements =
  rq_Requests :: ResourceList
  rq_Limits :: ResourceList

record SecurityContext =
  sc_RunAsNonRoot :: "bool option"
  sc_RunAsUser :: "int option"
  sc_RunAsGroup :: "int option"
  sc_ReadOnlyRootFilesystem :: "bool option"
  sc_AllowPrivilegeEscalation :: "bool option"
  sc_DropCapabilities :: "string list"
  sc_SeccompType :: "string option"

record Container =
  co_Name :: string
  co_Image :: string
  co_ImagePullPolicy :: string
  co_Command :: "string list"
  co_Args :: "string list"
  co_Env :: "EnvVar list"
  co_Resources :: ResourceRequirements
  co_SecurityContext :: SecurityContext
  co_VolumeMounts :: "VolumeMount list"
  co_TerminationMessagePath :: string
  co_TerminationMessagePolicy :: string

record PodSecurityContext =
  psc_RunAsNonRoot :: "bool option"
  psc_RunAsUser :: "int option"
  psc_RunAsGroup :: "int option"
  psc_SeccompType :: "string option"

record PodSpec =
  pod_RestartPolicy :: string
  pod_ServiceAccountName :: string
  pod_AutomountServiceAccountToken :: "bool option"
  pod_SecurityContext :: PodSecurityContext
  pod_Containers :: "Container list"
  pod_Volumes :: "Volume list"

record PodTemplateSpec =
  pt_Labels :: strmap
  pt_Spec :: PodSpec

record JobCondition =
  jc_Type :: string
  jc_Status :: string
  jc_Reason :: string
  jc_Message :: string

record JobStatus =
  js_Conditions :: "JobCondition list"
  js_Active :: int
  js_StartTime :: "gotime option"
  js_CompletionTime :: "gotime option"

record JobSpec =
  jb_BackoffLimit :: "int option"
  jb_ActiveDeadlineSeconds :: "int option"
  jb_TTLSecondsAfterFinished :: "int option"
  jb_Template :: PodTemplateSpec

record Job =
  job_Meta :: ObjectMeta
  job_Spec :: JobSpec
  job_Status :: JobStatus

section \<open>Kubernetes objects the controller reads\<close>

text \<open>
  A container status; \<open>cs_Terminated\<close> is the termination message when the container state is
  terminated.
\<close>

record ContainerStatus =
  cs_Name :: string
  cs_Terminated :: "string option"

record Pod =
  pd_Meta :: ObjectMeta
  pd_ContainerStatuses :: "ContainerStatus list"

record Secret =
  sec_Meta :: ObjectMeta
  sec_Data :: strmap

section \<open>Objects of any kind\<close>

datatype obj =
    OTask Task
  | OAgentClass ClusterAgentClass
  | OTriggerClass ClusterTriggerClass
  | OServiceAccount ServiceAccount
  | OConfigMap ConfigMap
  | ORole Role
  | ORoleBinding RoleBinding
  | ONetworkPolicy NetworkPolicy
  | OJob Job
  | OPod Pod
  | OSecret Secret

datatype kind = KTask | KAgentClass | KTriggerClass | KServiceAccount | KConfigMap | KRole
  | KRoleBinding | KNetworkPolicy | KJob | KPod | KSecret

fun kind_of :: "obj \<Rightarrow> kind" where
  "kind_of (OTask _) = KTask"
| "kind_of (OAgentClass _) = KAgentClass"
| "kind_of (OTriggerClass _) = KTriggerClass"
| "kind_of (OServiceAccount _) = KServiceAccount"
| "kind_of (OConfigMap _) = KConfigMap"
| "kind_of (ORole _) = KRole"
| "kind_of (ORoleBinding _) = KRoleBinding"
| "kind_of (ONetworkPolicy _) = KNetworkPolicy"
| "kind_of (OJob _) = KJob"
| "kind_of (OPod _) = KPod"
| "kind_of (OSecret _) = KSecret"

fun meta_of :: "obj \<Rightarrow> ObjectMeta" where
  "meta_of (OTask x) = task_Meta x"
| "meta_of (OAgentClass x) = agc_Meta x"
| "meta_of (OTriggerClass x) = ctc_Meta x"
| "meta_of (OServiceAccount x) = sa_Meta x"
| "meta_of (OConfigMap x) = cm_Meta x"
| "meta_of (ORole x) = role_Meta x"
| "meta_of (ORoleBinding x) = rb_Meta x"
| "meta_of (ONetworkPolicy x) = netp_Meta x"
| "meta_of (OJob x) = job_Meta x"
| "meta_of (OPod x) = pd_Meta x"
| "meta_of (OSecret x) = sec_Meta x"

fun map_meta :: "(ObjectMeta \<Rightarrow> ObjectMeta) \<Rightarrow> obj \<Rightarrow> obj" where
  "map_meta f (OTask x) = OTask (x\<lparr>task_Meta := f (task_Meta x)\<rparr>)"
| "map_meta f (OAgentClass x) = OAgentClass (x\<lparr>agc_Meta := f (agc_Meta x)\<rparr>)"
| "map_meta f (OTriggerClass x) = OTriggerClass (x\<lparr>ctc_Meta := f (ctc_Meta x)\<rparr>)"
| "map_meta f (OServiceAccount x) = OServiceAccount (x\<lparr>sa_Meta := f (sa_Meta x)\<rparr>)"
| "map_meta f (OConfigMap x) = OConfigMap (x\<lparr>cm_Meta := f (cm_Meta x)\<rparr>)"
| "map_meta f (ORole x) = ORole (x\<lparr>role_Meta := f (role_Meta x)\<rparr>)"
| "map_meta f (ORoleBinding x) = ORoleBinding (x\<lparr>rb_Meta := f (rb_Meta x)\<rparr>)"
| "map_meta f (ONetworkPolicy x) = ONetworkPolicy (x\<lparr>netp_Meta := f (netp_Meta x)\<rparr>)"
| "map_meta f (OJob x) = OJob (x\<lparr>job_Meta := f (job_Meta x)\<rparr>)"
| "map_meta f (OPod x) = OPod (x\<lparr>pd_Meta := f (pd_Meta x)\<rparr>)"
| "map_meta f (OSecret x) = OSecret (x\<lparr>sec_Meta := f (sec_Meta x)\<rparr>)"

lemma kind_of_map_meta [simp]: "kind_of (map_meta f x) = kind_of x"
  by (cases x) auto

lemma meta_of_map_meta [simp]: "meta_of (map_meta f x) = f (meta_of x)"
  by (cases x) auto

text \<open>\<open>client.ObjectKeyFromObject\<close>\<close>

definition key_of :: "obj \<Rightarrow> NamespacedName" where
  "key_of x = (om_Namespace (meta_of x), om_Name (meta_of x))"

definition SetLabels :: "strmap \<Rightarrow> obj \<Rightarrow> obj" where
  "SetLabels ls x = map_meta (\<lambda>m. m\<lparr>om_Labels := ls\<rparr>) x"

definition GetLabels :: "obj \<Rightarrow> strmap" where
  "GetLabels x = om_Labels (meta_of x)"

lemma kind_of_SetLabels [simp]: "kind_of (SetLabels ls x) = kind_of x"
  by (simp add: SetLabels_def)

lemma GetLabels_SetLabels [simp]: "GetLabels (SetLabels ls x) = ls"
  by (simp add: SetLabels_def GetLabels_def)

lemma key_of_SetLabels [simp]: "key_of (SetLabels ls x) = key_of x"
  by (simp add: SetLabels_def key_of_def)

end
