(* ===== verification/Externals.thy ===== *)
theory Externals
  imports Api_Types
begin

text \<open>
  Everything the program calls that is not under \<open>src/\<close>: the Kubernetes API server behind
  \<open>client.Client\<close>, the DNS resolver and the clock (all three read and change the outside
  world \<open>'w\<close>), and the pure functions of third-party packages. They are the fields of one
  record \<open>'w ext\<close>, the first argument of every definition that uses them; nothing is assumed
  about them here. What a theorem needs of their documented behaviour is one of the predicates
  in the last section, and it appears as a named hypothesis of that theorem.

  The API server answers one request at a time with an arbitrary response, so any server
  behaviour is covered: failures, conflicts, objects that other clients changed in between.
\<close>

section \<open>Errors\<close>

text \<open>
  A Go \<open>error\<close> value as the program builds and inspects it. \<open>Wrapped p e\<close> is
  \<open>fmt.Errorf("p: %w", e)\<close>; \<open>PermanentError\<close> is the type of \<open>policy/errors.go\<close>; \<open>Joined\<close> is
  \<open>errors.Join\<close>; \<open>DNSError\<close> is \<open>*net.DNSError\<close> with its \<open>IsNotFound\<close> field.
\<close>

datatype gerr =
    Plain string
  | DNSError string bool
  | Wrapped string gerr
  | PermanentError gerr
  | Joined gerr gerr

fun Error :: "gerr \<Rightarrow> string" where
  "Error (Plain s) = s"
| "Error (DNSError s _) = s"
| "Error (Wrapped p e) = p @ '': '' @ Error e"
| "Error (PermanentError e) = Error e"
| "Error (Joined a b) = Error a @ [CHR 0x0A] @ Error b"

text \<open>\<open>policy.IsPermanent\<close>: \<open>errors.As\<close> walks the wrapped errors.\<close>

fun IsPermanent :: "gerr \<Rightarrow> bool" where
  "IsPermanent (Plain _) = False"
| "IsPermanent (DNSError _ _) = False"
| "IsPermanent (Wrapped _ e) = IsPermanent e"
| "IsPermanent (PermanentError _) = True"
| "IsPermanent (Joined a b) = (IsPermanent a \<or> IsPermanent b)"

text \<open>\<open>errors.As(err, &dnsErr)\<close>: the \<open>IsNotFound\<close> field of the first DNS error.\<close>

fun asDNSError :: "gerr \<Rightarrow> bool option" where
  "asDNSError (Plain _) = None"
| "asDNSError (DNSError _ nf) = Some nf"
| "asDNSError (Wrapped _ e) = asDNSError e"
| "asDNSError (PermanentError e) = asDNSError e"
| "asDNSError (Joined a b) = (case asDNSError a of None \<Rightarrow> asDNSError b | Some nf \<Rightarrow> Some nf)"

section \<open>Requests, responses and observations\<close>

datatype call =
    CGet kind NamespacedName
  | CCreate obj
  | CUpdate obj
  | CStatusUpdate Task
  | CDelete kind NamespacedName "string option" \<comment> \<open>the UID precondition\<close>
  | CList kind "string option" strmap \<comment> \<open>namespace, match labels\<close>
  | CListField kind string string \<comment> \<open>indexed field, value\<close>

datatype resp =
    ROk
  | RObj obj
  | RList "obj list"
  | RErr gerr

datatype obs =
    Call call resp
  | Dns string "gerr + string list"
  | MetricPhase string string
  | MetricReconcileError string
  | MetricDuration string f64
  | MetricWebhook string string
  | Event string string string \<comment> \<open>type, reason, message\<close>

type_synonym ('w, 'a) op = "('w, obs, 'a) prog"

text \<open>
  What the program reads of a parsed URL: the scheme, the opaque part, whether there is user
  info, \<open>URL.Hostname()\<close> and \<open>URL.String()\<close>.
\<close>

record URL =
  url_Scheme :: string
  url_Opaque :: string
  url_User :: bool
  url_Hostname :: string
  url_String :: string

record 'w ext =
  x_api :: "call \<Rightarrow> 'w \<Rightarrow> resp \<times> 'w"
  x_lookupHost :: "string \<Rightarrow> 'w \<Rightarrow> (gerr + string list) \<times> 'w"
  x_now :: "'w \<Rightarrow> gotime \<times> 'w"
  x_unicode :: unicode
  \<comment> \<open>\<open>apierrors.IsNotFound\<close> and \<open>client.IgnoreNotFound\<close>\<close>
  x_isNotFound :: "gerr \<Rightarrow> bool"
  x_ignoreNotFound :: "gerr \<Rightarrow> gerr option"
  \<comment> \<open>\<open>controllerutil.SetControllerReference\<close> and \<open>metav1.GetControllerOf\<close>\<close>
  x_setControllerReference :: "Task \<Rightarrow> obj \<Rightarrow> gerr + obj"
  x_getControllerOf :: "ObjectMeta \<Rightarrow> OwnerReference option"
  \<comment> \<open>\<open>apiequality.Semantic.DeepEqual\<close> on objects and on results\<close>
  x_deepEqual :: "obj \<Rightarrow> obj \<Rightarrow> bool"
  x_deepEqualResult :: "TaskResult option \<Rightarrow> TaskResult option \<Rightarrow> bool"
  \<comment> \<open>\<open>meta.SetStatusCondition\<close> at a given time and \<open>meta.FindStatusCondition\<close>\<close>
  x_setStatusCondition :: "gotime \<Rightarrow> Condition list \<Rightarrow> Condition \<Rightarrow> Condition list"
  x_findStatusCondition :: "Condition list \<Rightarrow> string \<Rightarrow> Condition option"
  \<comment> \<open>\<open>resource.ParseQuantity\<close>\<close>
  x_parseQuantity :: "string \<Rightarrow> gerr + Quantity"
  \<comment> \<open>the text of an \<open>encoding/json\<close> error for an input\<close>
  x_jsonError :: "string \<Rightarrow> string"
  \<comment> \<open>\<open>url.Parse\<close>, with \<open>None\<close> for an error\<close>
  x_urlParse :: "string \<Rightarrow> URL option"
  \<comment> \<open>\<open>gjson.GetBytes(body, path)\<close>: \<open>None\<close> when \<open>Exists()\<close> is false, or else \<open>String()\<close>\<close>
  x_gjson :: "string \<Rightarrow> string \<Rightarrow> string option"
  \<comment> \<open>whether \<open>validation.IsValidLabelValue\<close> returns no complaint\<close>
  x_isValidLabelValue :: "string \<Rightarrow> bool"

section \<open>Issuing requests\<close>

definition request :: "'w ext \<Rightarrow> call \<Rightarrow> ('w, resp) op" where
  "request x c = outside (x_api x c) (Call c)"

definition clock :: "'w ext \<Rightarrow> ('w, gotime) op" where
  "clock x = silent (x_now x)"

text \<open>
  The typed client: a response of the wrong shape cannot be decoded into the object that the
  caller passed, and the client reports an error.
\<close>

definition undecodable :: gerr where
  "undecodable = Plain ''unable to decode the response''"

definition got_obj :: "kind \<Rightarrow> resp \<Rightarrow> gerr + obj" where
  "got_obj k r = (case r of
     RObj ob \<Rightarrow> if kind_of ob = k then Inr ob else Inl undecodable
   | RErr e \<Rightarrow> Inl e | _ \<Rightarrow> Inl undecodable)"

definition got_done :: "resp \<Rightarrow> gerr option" where
  "got_done r = (case r of RErr e \<Rightarrow> Some e | _ \<Rightarrow> None)"

definition client_Get :: "'w ext \<Rightarrow> kind \<Rightarrow> NamespacedName \<Rightarrow> ('w, gerr + obj) op" where
  "client_Get x k key = do { r \<leftarrow> request x (CGet k key); State_Monad.return (got_obj k r) }"

text \<open>\<open>Create\<close> and \<open>Status().Update\<close> decode the server's answer into the object passed.\<close>

definition client_Create :: "'w ext \<Rightarrow> obj \<Rightarrow> ('w, gerr + obj) op" where
  "client_Create x ob = do { r \<leftarrow> request x (CCreate ob); State_Monad.return (got_obj (kind_of ob) r) }"

definition client_Update :: "'w ext \<Rightarrow> obj \<Rightarrow> ('w, gerr + obj) op" where
  "client_Update x ob = do { r \<leftarrow> request x (CUpdate ob); State_Monad.return (got_obj (kind_of ob) r) }"

definition client_StatusUpdate :: "'w ext \<Rightarrow> Task \<Rightarrow> ('w, gerr + Task) op" where
  "client_StatusUpdate x t = do {
     r \<leftarrow> request x (CStatusUpdate t);
     State_Monad.return (case got_obj KTask r of
       Inl e \<Rightarrow> Inl e | Inr ob \<Rightarrow> (case ob of OTask t' \<Rightarrow> Inr t' | _ \<Rightarrow> Inl undecodable)) }"

definition client_Delete ::
  "'w ext \<Rightarrow> kind \<Rightarrow> NamespacedName \<Rightarrow> string option \<Rightarrow> ('w, gerr option) op" where
  "client_Delete x k key uid = do { r \<leftarrow> request x (CDelete k key uid); State_Monad.return (got_done r) }"

definition got_list :: "kind \<Rightarrow> resp \<Rightarrow> gerr + obj list" where
  "got_list k r = (case r of
     RList xs \<Rightarrow> if list_all (\<lambda>ob. kind_of ob = k) xs then Inr xs else Inl undecodable
   | RErr e \<Rightarrow> Inl e | _ \<Rightarrow> Inl undecodable)"

definition client_List :: "'w ext \<Rightarrow> kind \<Rightarrow> string option \<Rightarrow> strmap \<Rightarrow> ('w, gerr + obj list) op" where
  "client_List x k ns ls = do { r \<leftarrow> request x (CList k ns ls); State_Monad.return (got_list k r) }"

definition client_ListField :: "'w ext \<Rightarrow> kind \<Rightarrow> string \<Rightarrow> string \<Rightarrow> ('w, gerr + obj list) op" where
  "client_ListField x k f v = do { r \<leftarrow> request x (CListField k f v); State_Monad.return (got_list k r) }"

lemmas client_defs [obs_defs] =
  request_def clock_def client_Get_def client_Create_def client_Update_def client_StatusUpdate_def
  client_Delete_def client_List_def client_ListField_def

lemma only_request [only_rules]: "(\<And>r. p (Call c r)) \<Longrightarrow> emits_only p (request x c)"
  unfolding request_def by (rule emits_only_outside)

lemma only_clock [only_rules]: "emits_only p (clock x)"
  unfolding clock_def by (rule emits_only_silent)

lemma only_Get [only_rules]: "(\<And>r. p (Call (CGet k key) r)) \<Longrightarrow> emits_only p (client_Get x k key)"
  unfolding client_Get_def by (intro only_rules)

lemma only_Create [only_rules]: "(\<And>r. p (Call (CCreate ob) r)) \<Longrightarrow> emits_only p (client_Create x ob)"
  unfolding client_Create_def by (intro only_rules)

lemma only_Update [only_rules]: "(\<And>r. p (Call (CUpdate ob) r)) \<Longrightarrow> emits_only p (client_Update x ob)"
  unfolding client_Update_def by (intro only_rules)

lemma only_StatusUpdate [only_rules]:
  "(\<And>r. p (Call (CStatusUpdate t) r)) \<Longrightarrow> emits_only p (client_StatusUpdate x t)"
  unfolding client_StatusUpdate_def by (intro only_rules)

lemma only_Delete [only_rules]:
  "(\<And>r. p (Call (CDelete k key uid) r)) \<Longrightarrow> emits_only p (client_Delete x k key uid)"
  unfolding client_Delete_def by (intro only_rules)

lemma only_List [only_rules]: "(\<And>r. p (Call (CList k ns ls) r)) \<Longrightarrow> emits_only p (client_List x k ns ls)"
  unfolding client_List_def by (intro only_rules)

lemma only_ListField [only_rules]:
  "(\<And>r. p (Call (CListField k f v) r)) \<Longrightarrow> emits_only p (client_ListField x k f v)"
  unfolding client_ListField_def by (intro only_rules)

text \<open>Postconditions of the client: what the server answered is what the caller sees.\<close>

lemma yields_clock [yields_rules]: "(\<And>now. R now) \<Longrightarrow> yields p R (clock x)"
  unfolding clock_def by (rule yields_silent)

lemma yields_request [yields_rules]: "(\<And>r. p (Call c r)) \<Longrightarrow> (\<And>r. R r) \<Longrightarrow> yields p R (request x c)"
  unfolding request_def by (rule yields_outside)

lemma yields_Get [yields_rules]:
  "(\<And>r. p (Call (CGet k key) r)) \<Longrightarrow> (\<And>r. R (got_obj k r)) \<Longrightarrow> yields p R (client_Get x k key)"
  unfolding client_Get_def by (intro yields_rules)

lemma yields_Create [yields_rules]:
  "(\<And>r. p (Call (CCreate ob) r)) \<Longrightarrow> (\<And>r. R (got_obj (kind_of ob) r)) \<Longrightarrow> yields p R (client_Create x ob)"
  unfolding client_Create_def by (intro yields_rules)

lemma yields_Update [yields_rules]:
  "(\<And>r. p (Call (CUpdate ob) r)) \<Longrightarrow> (\<And>r. R (got_obj (kind_of ob) r)) \<Longrightarrow> yields p R (client_Update x ob)"
  unfolding client_Update_def by (intro yields_rules)

lemma yields_StatusUpdate [yields_rules]:
  "(\<And>r. p (Call (CStatusUpdate t) r)) \<Longrightarrow> (\<And>v. R v) \<Longrightarrow> yields p R (client_StatusUpdate x t)"
  unfolding client_StatusUpdate_def by (intro yields_rules)

lemma yields_Delete [yields_rules]:
  "(\<And>r. p (Call (CDelete k key uid) r)) \<Longrightarrow> (\<And>v. R v) \<Longrightarrow> yields p R (client_Delete x k key uid)"
  unfolding client_Delete_def by (intro yields_rules)

lemma yields_List [yields_rules]:
  "(\<And>r. p (Call (CList k ns ls) r)) \<Longrightarrow> (\<And>r. R (got_list k r)) \<Longrightarrow> yields p R (client_List x k ns ls)"
  unfolding client_List_def by (intro yields_rules)

lemma emits_clock [obs_rules]: "(\<And>now. Q now []) \<Longrightarrow> emits (clock x) Q"
  unfolding clock_def by (rule emits_silent)

lemma emits_request [obs_rules]: "(\<And>r. Q r [Call c r]) \<Longrightarrow> emits (request x c) Q"
  unfolding request_def by (rule emits_outside)

lemma emits_Get [obs_rules]: "(\<And>r. Q (got_obj k r) [Call (CGet k key) r]) \<Longrightarrow> emits (client_Get x k key) Q"
  unfolding client_Get_def by (intro obs_rules) simp

lemma emits_Create [obs_rules]:
  "(\<And>r. Q (got_obj (kind_of ob) r) [Call (CCreate ob) r]) \<Longrightarrow> emits (client_Create x ob) Q"
  unfolding client_Create_def by (intro obs_rules) simp

lemma emits_Update [obs_rules]:
  "(\<And>r. Q (got_obj (kind_of ob) r) [Call (CUpdate ob) r]) \<Longrightarrow> emits (client_Update x ob) Q"
  unfolding client_Update_def by (intro obs_rules) simp

lemma emits_Delete [obs_rules]:
  "(\<And>r. Q (got_done r) [Call (CDelete k key uid) r]) \<Longrightarrow> emits (client_Delete x k key uid) Q"
  unfolding client_Delete_def by (intro obs_rules) simp

definition got_task :: "resp \<Rightarrow> gerr + Task" where
  "got_task r = (case got_obj KTask r of
     Inl e \<Rightarrow> Inl e | Inr ob \<Rightarrow> (case ob of OTask t \<Rightarrow> Inr t | _ \<Rightarrow> Inl undecodable))"

lemma emits_StatusUpdate [obs_rules]:
  "(\<And>r. Q (got_task r) [Call (CStatusUpdate t) r]) \<Longrightarrow> emits (client_StatusUpdate x t) Q"
  unfolding client_StatusUpdate_def got_task_def by (intro obs_rules) simp

lemma emits_List [obs_rules]:
  "(\<And>r. Q (got_list k r) [Call (CList k ns ls) r]) \<Longrightarrow> emits (client_List x k ns ls) Q"
  unfolding client_List_def by (intro obs_rules) simp

lemma got_obj_kind: "got_obj k r = Inr ob \<Longrightarrow> kind_of ob = k \<and> r = RObj ob"
  by (auto simp: got_obj_def split: resp.splits if_splits)

lemma got_list_Inr: "got_list k r = Inr items \<Longrightarrow> r = RList items \<and> list_all (\<lambda>ob. kind_of ob = k) items"
  by (auto simp: got_list_def split: resp.splits if_splits)

lemma IsPermanent_Wrapped_iff [simp]: "IsPermanent (Wrapped p e) = IsPermanent e"
  by simp

section \<open>Documented behaviour of the third-party packages\<close>

text \<open>
  \<open>meta.SetStatusCondition\<close>: an existing condition of the type gets all the new fields, and
  its transition time moves to now exactly when the status changes; a new condition is
  appended with the transition time now (the callers leave the time unset). Conditions of
  other types stay as they are. \<open>meta.FindStatusCondition\<close> finds the condition of a type.
\<close>

definition condition_set :: "gotime \<Rightarrow> Condition option \<Rightarrow> Condition \<Rightarrow> Condition" where
  "condition_set now old new =
     (case old of
        None \<Rightarrow> new\<lparr>cd_LastTransitionTime := now\<rparr>
      | Some c \<Rightarrow> new\<lparr>cd_LastTransitionTime := (if cd_Status c = cd_Status new then cd_LastTransitionTime c else now)\<rparr>)"

definition condition_laws :: "'w ext \<Rightarrow> bool" where
  "condition_laws x \<longleftrightarrow>
     (\<forall>now cs c. x_findStatusCondition x (x_setStatusCondition x now cs c) (cd_Type c)
        = Some (condition_set now (x_findStatusCondition x cs (cd_Type c)) c)) \<and>
     (\<forall>now cs c ty. ty \<noteq> cd_Type c \<longrightarrow>
        x_findStatusCondition x (x_setStatusCondition x now cs c) ty = x_findStatusCondition x cs ty)"

text \<open>\<open>meta.SetStatusCondition\<close> appends a condition of a type that the list does not have yet.\<close>

definition condition_appends :: "'w ext \<Rightarrow> bool" where
  "condition_appends x \<longleftrightarrow> (\<forall>now cs c. x_findStatusCondition x cs (cd_Type c) = None \<longrightarrow>
     length (x_setStatusCondition x now cs c) = Suc (length cs))"

text \<open>It replaces a condition of the same type, so the types stay distinct.\<close>

definition condition_keys :: "'w ext \<Rightarrow> bool" where
  "condition_keys x \<longleftrightarrow> (\<forall>now cs c. distinct (map cd_Type cs) \<longrightarrow> distinct (map cd_Type (x_setStatusCondition x now cs c)))"

text \<open>\<open>URL.String\<close> of a URL with a scheme starts with that scheme.\<close>

definition url_laws :: "'w ext \<Rightarrow> bool" where
  "url_laws x \<longleftrightarrow> (\<forall>raw u. x_urlParse x raw = Some u \<longrightarrow> HasPrefix (url_String u) (url_Scheme u))"

text \<open>\<open>client.IgnoreNotFound\<close> returns nil on a not-found error and the error otherwise.\<close>

definition notfound_laws :: "'w ext \<Rightarrow> bool" where
  "notfound_laws x \<longleftrightarrow> (\<forall>e. x_ignoreNotFound x e = (if x_isNotFound x e then None else Some e))"

text \<open>\<open>Semantic.DeepEqual\<close> is an equality test: equal objects compare equal.\<close>

definition deepEqual_refl :: "'w ext \<Rightarrow> bool" where
  "deepEqual_refl x \<longleftrightarrow> (\<forall>ob. x_deepEqual x ob ob)"

text \<open>
  \<open>SetControllerReference\<close> changes only the owner references of the object, and sets the
  Task as the controller that \<open>GetControllerOf\<close> finds.
\<close>

definition owner_laws :: "'w ext \<Rightarrow> bool" where
  "owner_laws x \<longleftrightarrow>
     (\<forall>t ob ob'. x_setControllerReference x t ob = Inr ob' \<longrightarrow>
        (\<exists>rs. ob' = map_meta (\<lambda>m. m\<lparr>om_OwnerReferences := rs\<rparr>) ob) \<and>
        (\<exists>r. x_getControllerOf x (meta_of ob') = Some r \<and> or_Kind r = ''Task'' \<and>
             or_UID r = om_UID (task_Meta t)))"

end
