(* ===== verification/Policy_Labels.thy ===== *)
theory Policy_Labels
  imports Externals
begin

text \<open>
  \<open>internal/policy/labels.go\<close> and \<open>internal/policy/rbac.go\<close>: the label schema that ties the
  generated objects to their Task, the insertion-ordered union of permission lists, and the
  Role, RoleBinding and token decisions. The locale \<open>owned_builder\<close> is the interface between
  the builders of this package and the controller: a builder names its object in the Task's
  namespace and stamps the ownership labels, so whatever it builds is found by the label
  selector that the NetworkPolicy and the controller's caches use.
\<close>

section \<open>labels.go\<close>

abbreviation LabelManagedBy :: string where "LabelManagedBy \<equiv> ''app.kubernetes.io/managed-by''"
abbreviation LabelComponent :: string where "LabelComponent \<equiv> ''app.kubernetes.io/component''"
abbreviation LabelTaskName :: string where "LabelTaskName \<equiv> ''openconveyor.ai/task''"
abbreviation ManagedByValue :: string where "ManagedByValue \<equiv> ''conveyor''"
abbreviation ComponentTask :: string where "ComponentTask \<equiv> ''task''"
abbreviation LabelTriggerClass :: string where "LabelTriggerClass \<equiv> ''openconveyor.ai/trigger-class''"

definition PodSelectorLabels :: "string \<Rightarrow> strmap" where
  "PodSelectorLabels taskName = Some [(LabelTaskName, taskName)]"

definition OwnershipLabels :: "string \<Rightarrow> strmap" where
  "OwnershipLabels taskName = Some [(LabelManagedBy, ManagedByValue), (LabelTaskName, taskName)]"

definition ownedMeta :: "string \<Rightarrow> string \<Rightarrow> string \<Rightarrow> ObjectMeta" where
  "ownedMeta name namespace taskName =
     zero_meta\<lparr>om_Name := name, om_Namespace := namespace, om_Labels := OwnershipLabels taskName\<rparr>"

text \<open>
  \<open>MergeStringSets\<close>: the outer loop runs over the lists, the inner one over a list; \<open>seen\<close> and
  \<open>out\<close> hold the same values, so the model keeps \<open>out\<close> only.
\<close>

fun merge_list :: "string list \<Rightarrow> string list \<Rightarrow> string list" where
  "merge_list out [] = out"
| "merge_list out (v # vs) =
     (if v = [] then merge_list out vs
      else if v \<in> set out then merge_list out vs
      else merge_list (out @ [v]) vs)"

fun merge_lists :: "string list \<Rightarrow> string list list \<Rightarrow> string list" where
  "merge_lists out [] = out"
| "merge_lists out (l # ls) = merge_lists (merge_list out l) ls"

definition MergeStringSets :: "string list list \<Rightarrow> string list" where
  "MergeStringSets ls = merge_lists [] ls"

text \<open>A label selector with match labels selects an object that carries all of them.\<close>

definition selector_matches :: "strmap \<Rightarrow> strmap \<Rightarrow> bool" where
  "selector_matches sel ls \<longleftrightarrow>
     (case sel of None \<Rightarrow> True
      | Some f \<Rightarrow> list_all (\<lambda>(k, v). ls \<noteq> None \<and> map_of (the ls) k = Some v) f)"

section \<open>rbac.go\<close>

definition policy_rule :: "RBACRule \<Rightarrow> PolicyRule" where
  "policy_rule r = \<lparr>pr_APIGroups = rr_APIGroups r, pr_Resources = rr_Resources r,
     pr_Verbs = rr_Verbs r, pr_ResourceNames = rr_ResourceNames r\<rparr>"

definition BuildRole :: "string \<Rightarrow> string \<Rightarrow> RBACRule list \<Rightarrow> Role option" where
  "BuildRole taskName namespace rules =
     (if rules = [] then None
      else Some \<lparr>role_Meta = ownedMeta taskName namespace taskName, role_Rules = map policy_rule rules\<rparr>)"

definition BuildRoleBinding :: "string \<Rightarrow> string \<Rightarrow> RBACRule list \<Rightarrow> RoleBinding option" where
  "BuildRoleBinding taskName namespace rules =
     (if rules = [] then None
      else Some \<lparr>rb_Meta = ownedMeta taskName namespace taskName,
        rb_Subjects = [\<lparr>sj_Kind = ''ServiceAccount'', sj_Name = taskName, sj_Namespace = namespace\<rparr>],
        rb_RoleRef = \<lparr>rf_APIGroup = ''rbac.authorization.k8s.io'', rf_Kind = ''Role'', rf_Name = taskName\<rparr>\<rparr>)"

definition NeedsServiceAccountToken :: "RBACRule list \<Rightarrow> bool" where
  "NeedsServiceAccountToken rules \<longleftrightarrow> length rules > 0"

section \<open>Facts about the merge\<close>

lemma merge_list_dedup: "merge_list out vs = dedup_acc out (filter (\<lambda>v. v \<noteq> []) vs)"
  by (induction vs arbitrary: out) auto

lemma merge_lists_dedup: "merge_lists out ls = dedup_acc out (filter (\<lambda>v. v \<noteq> []) (concat ls))"
  by (induction ls arbitrary: out) (auto simp: merge_list_dedup dedup_acc_append)

lemma MergeStringSets_dedup: "MergeStringSets ls = dedup_acc [] (filter (\<lambda>v. v \<noteq> []) (concat ls))"
  by (simp add: MergeStringSets_def merge_lists_dedup)

lemma set_MergeStringSets [simp]: "set (MergeStringSets ls) = \<Union> (set ` set ls) - {[]}"
  by (auto simp: MergeStringSets_dedup)

lemma distinct_MergeStringSets [simp]: "distinct (MergeStringSets ls)"
  by (simp add: MergeStringSets_dedup)

lemma MergeStringSets_prefix: "prefix (MergeStringSets [a]) (MergeStringSets [a, b])"
  by (simp add: MergeStringSets_dedup dedup_acc_append prefix_dedup_acc)

section \<open>Owned objects\<close>

definition owned_by_label :: "string \<Rightarrow> string \<Rightarrow> obj \<Rightarrow> bool" where
  "owned_by_label taskName namespace ob \<longleftrightarrow>
     om_Namespace (meta_of ob) = namespace \<and>
     map_get (GetLabels ob) LabelManagedBy = ManagedByValue \<and>
     map_get (GetLabels ob) LabelTaskName = taskName"

text \<open>
  The interface of a builder: from the Task name, the namespace and some input it may build an
  object of one kind; what it builds carries the ownership labels and no owner reference yet.
\<close>

locale owned_builder =
  fixes build :: "string \<Rightarrow> string \<Rightarrow> 'i \<Rightarrow> obj option"
    and k :: kind
    and naming :: "string \<Rightarrow> string"
  assumes build_kind: "build t ns i = Some ob \<Longrightarrow> kind_of ob = k"
    and build_meta: "build t ns i = Some ob \<Longrightarrow>
      meta_of ob = ownedMeta (naming t) ns t"
begin

lemma built_key: "build t ns i = Some ob \<Longrightarrow> key_of ob = (ns, naming t)"
  by (simp add: key_of_def build_meta ownedMeta_def)

lemma built_owned: "build t ns i = Some ob \<Longrightarrow> owned_by_label t ns ob"
  by (simp add: owned_by_label_def GetLabels_def build_meta ownedMeta_def OwnershipLabels_def map_get_def)

lemma built_selected:
  "build t ns i = Some ob \<Longrightarrow> selector_matches (PodSelectorLabels t) (GetLabels ob)"
  by (simp add: selector_matches_def PodSelectorLabels_def GetLabels_def build_meta ownedMeta_def
      OwnershipLabels_def)

lemma built_unowned: "build t ns i = Some ob \<Longrightarrow> om_OwnerReferences (meta_of ob) = []"
  by (simp add: build_meta ownedMeta_def zero_meta_def)

end

interpretation role_builder: owned_builder "\<lambda>t ns rs. map_option ORole (BuildRole t ns rs)" KRole "\<lambda>t. t"
  by unfold_locales (auto simp: BuildRole_def split: if_splits)

interpretation rolebinding_builder:
  owned_builder "\<lambda>t ns rs. map_option ORoleBinding (BuildRoleBinding t ns rs)" KRoleBinding "\<lambda>t. t"
  by unfold_locales (auto simp: BuildRoleBinding_def split: if_splits)

section \<open>Properties\<close>

text \<open>
  The effective allowlist: merging the Task's list with the class's list keeps exactly the
  non-empty entries of both, without duplicates, in the order of their first occurrence, and
  starts with the merge of the Task's own list.
\<close>

theorem MergeStringSets_spec:
  "set (MergeStringSets [a, b]) = (set a \<union> set b) - {[]} \<and> distinct (MergeStringSets [a, b]) \<and>
   prefix (MergeStringSets [a]) (MergeStringSets [a, b]) \<and>
   MergeStringSets [MergeStringSets [a, b], a, b] = MergeStringSets [a, b]"
proof -
  let ?m = "MergeStringSets [a, b]" and ?ne = "\<lambda>v. v \<noteq> []"
  have "MergeStringSets [?m, a, b] = dedup_acc (dedup_acc [] ?m) (filter ?ne a @ filter ?ne b)"
    by (simp add: MergeStringSets_dedup [of "[?m, a, b]"] dedup_acc_append filter_id_conv [THEN iffD2])
  also have "dedup_acc [] ?m = ?m" by (simp add: dedup_acc_distinct)
  also have "dedup_acc ?m (filter ?ne a @ filter ?ne b) = ?m" by (rule dedup_acc_absorb) auto
  finally show ?thesis by (auto simp: MergeStringSets_prefix)
qed

text \<open>
  RBAC is opt-in and its three decisions agree: without declared rules there is no Role, no
  RoleBinding and no token; with rules there are all three, the Role carries exactly the
  declared rules, and the RoleBinding grants that Role to the Task's ServiceAccount only.
\<close>

lemma rbac_all_or_nothing:
  "(case (BuildRole t ns rules, BuildRoleBinding t ns rules) of
      (None, None) \<Rightarrow> rules = [] \<and> \<not> NeedsServiceAccountToken rules
    | (Some r, Some b) \<Rightarrow> rules \<noteq> [] \<and> NeedsServiceAccountToken rules \<and>
        role_Rules r = map policy_rule rules \<and> om_Name (role_Meta r) = rf_Name (rb_RoleRef b) \<and>
        rb_Subjects b = [\<lparr>sj_Kind = ''ServiceAccount'', sj_Name = t, sj_Namespace = ns\<rparr>] \<and>
        owned_by_label t ns (ORole r) \<and> owned_by_label t ns (ORoleBinding b)
    | _ \<Rightarrow> False)"
  using role_builder.built_owned [of t ns rules] rolebinding_builder.built_owned [of t ns rules]
  by (auto simp: BuildRole_def BuildRoleBinding_def NeedsServiceAccountToken_def ownedMeta_def)

end
