(* ===== verification/Go_Json.thy ===== *)
theory Go_Json
  imports Go_Strings
begin

text \<open>
  Go's \<open>encoding/json\<close> as the program uses it: \<open>Decoder.Decode\<close> reads one value from the
  front of the input and leaves the rest; \<open>Decoder.UseNumber\<close> keeps number literals as
  written; \<open>Marshal\<close> prints a value with sorted object keys. The decoder is a stack machine
  over tokens, as Go's scanner is: a \<open>mode\<close> says what may come next and a stack of frames
  holds the arrays and objects that are still open. The stack is at most 10000 deep.
\<close>

datatype json =
    JNull
  | JBool bool
  | JNumber string
  | JString string
  | JArray "json list"
  | JObject "(string \<times> json) list"

section \<open>Tokens\<close>

datatype token = TLBrace | TRBrace | TLBrack | TRBrack | TColon | TComma
  | TStr string | TLit json

definition json_space :: "char \<Rightarrow> bool" where
  "json_space c \<longleftrightarrow> byte c \<in> {0x20, 0x09, 0x0A, 0x0D}"

definition skip_space :: "string \<Rightarrow> string" where
  "skip_space = dropWhile json_space"

definition is_digit :: "char \<Rightarrow> bool" where
  "is_digit c \<longleftrightarrow> 48 \<le> byte c \<and> byte c \<le> 57"

text \<open>
  Number literals: an optional minus, an integer part without leading zeros, an optional
  fraction and an optional exponent. \<open>lex_digits1\<close> reads one or more digits.
\<close>

definition lex_digits1 :: "string \<Rightarrow> (string \<times> string) option" where
  "lex_digits1 s = (let ds = takeWhile is_digit s in if ds = [] then None else Some (ds, dropWhile is_digit s))"

definition lex_int :: "string \<Rightarrow> (string \<times> string) option" where
  "lex_int s = (case s of [] \<Rightarrow> None
     | c # r \<Rightarrow> if c = CHR ''0'' then Some ([c], r) else if is_digit c then lex_digits1 s else None)"

definition lex_frac :: "string \<Rightarrow> (string \<times> string) option" where
  "lex_frac s = (case s of [] \<Rightarrow> Some ([], [])
     | c # r \<Rightarrow> if c = CHR ''.'' then map_option (\<lambda>(ds, t). (c # ds, t)) (lex_digits1 r) else Some ([], s))"

definition lex_exp :: "string \<Rightarrow> (string \<times> string) option" where
  "lex_exp s = (case s of [] \<Rightarrow> Some ([], [])
     | c # r \<Rightarrow>
         if c = CHR ''e'' \<or> c = CHR ''E'' then
           (case r of
              [] \<Rightarrow> None
            | d # r1 \<Rightarrow>
                if d = CHR ''+'' \<or> d = CHR ''-''
                then map_option (\<lambda>(ds, t). (c # d # ds, t)) (lex_digits1 r1)
                else map_option (\<lambda>(ds, t). (c # ds, t)) (lex_digits1 r))
         else Some ([], s))"

definition lex_unsigned :: "string \<Rightarrow> (string \<times> string) option" where
  "lex_unsigned s =
     (case lex_int s of None \<Rightarrow> None
      | Some (i, s1) \<Rightarrow>
        (case lex_frac s1 of None \<Rightarrow> None
         | Some (f, s2) \<Rightarrow>
           (case lex_exp s2 of None \<Rightarrow> None | Some (e, s3) \<Rightarrow> Some (i @ f @ e, s3))))"

definition lex_number :: "string \<Rightarrow> (string \<times> string) option" where
  "lex_number s = (case s of [] \<Rightarrow> None
     | c # r \<Rightarrow> if c = CHR ''-'' then map_option (\<lambda>(n, t). (c # n, t)) (lex_unsigned r) else lex_unsigned s)"

text \<open>
  The raw contents of a string literal, after the opening quote: elements up to the closing
  quote. A control byte, a bad escape or the end of the input is an error. An element is a
  raw byte or an escaped UTF-16 unit or character.
\<close>

datatype strelem = Raw char | Esc char | UEsc nat

definition hex4_val :: "char \<Rightarrow> nat option" where
  "hex4_val c =
     (let b = byte c
      in if 48 \<le> b \<and> b \<le> 57 then Some (b - 48)
         else if 97 \<le> b \<and> b \<le> 102 then Some (b - 87)
         else if 65 \<le> b \<and> b \<le> 70 then Some (b - 55) else None)"

definition hex4 :: "char \<Rightarrow> char \<Rightarrow> char \<Rightarrow> char \<Rightarrow> nat option" where
  "hex4 a b c d = (case (hex4_val a, hex4_val b, hex4_val c, hex4_val d) of
     (Some w, Some x, Some y, Some z) \<Rightarrow> Some (((w * 16 + x) * 16 + y) * 16 + z)
   | _ \<Rightarrow> None)"

definition simple_escape :: "char \<Rightarrow> char option" where
  "simple_escape c =
     (if c = dquote \<or> c = backslash \<or> c = CHR ''/'' then Some c
      else if c = CHR ''b'' then Some (CHR 0x08)
      else if c = CHR ''f'' then Some (CHR 0x0C)
      else if c = CHR ''n'' then Some (CHR 0x0A)
      else if c = CHR ''r'' then Some (CHR 0x0D)
      else if c = CHR ''t'' then Some (CHR 0x09)
      else None)"

fun lex_string :: "string \<Rightarrow> (strelem list \<times> string) option" where
  "lex_string [] = None"
| "lex_string (c # s) =
     (if c = dquote then Some ([], s)
      else if c = backslash then
        (case s of
           [] \<Rightarrow> None
         | e # s1 \<Rightarrow>
             if e = CHR ''u'' then
               (case s1 of
                  h1 # h2 # h3 # h4 # s2 \<Rightarrow>
                    (case hex4 h1 h2 h3 h4 of
                       None \<Rightarrow> None
                     | Some u \<Rightarrow> map_option (\<lambda>(es, t). (UEsc u # es, t)) (lex_string s2))
                | _ \<Rightarrow> None)
             else (case simple_escape e of
                     None \<Rightarrow> None
                   | Some d \<Rightarrow> map_option (\<lambda>(es, t). (Esc d # es, t)) (lex_string s1)))
      else if byte c < 0x20 then None
      else map_option (\<lambda>(es, t). (Raw c # es, t)) (lex_string s))"

text \<open>
  \<open>unquote\<close>: a surrogate pair of escapes is one code point and a lone surrogate is
  \<open>RuneError\<close>; invalid UTF-8 among the raw bytes becomes \<open>RuneError\<close>.
\<close>

definition surr1 :: "nat \<Rightarrow> bool" where
  "surr1 u \<longleftrightarrow> 0xD800 \<le> u \<and> u < 0xDC00"

definition surr2 :: "nat \<Rightarrow> bool" where
  "surr2 u \<longleftrightarrow> 0xDC00 \<le> u \<and> u < 0xE000"

definition fix_utf8 :: "string \<Rightarrow> string" where
  "fix_utf8 s = concat (map (\<lambda>p. if invalid_span p then encode_rune RuneError else snd p) (rune_spans s))"

fun unquote_elems :: "string \<Rightarrow> strelem list \<Rightarrow> string" where
  "unquote_elems raw [] = fix_utf8 (rev raw)"
| "unquote_elems raw (Raw c # es) = unquote_elems (c # raw) es"
| "unquote_elems raw (Esc c # es) = fix_utf8 (rev raw) @ [c] @ unquote_elems [] es"
| "unquote_elems raw (UEsc u # UEsc v # es) =
     fix_utf8 (rev raw) @
     (if surr1 u \<and> surr2 v
      then encode_rune ((u - 0xD800) * 1024 + (v - 0xDC00) + 0x10000) @ unquote_elems [] es
      else encode_rune (if surr1 u \<or> surr2 u then RuneError else u) @ unquote_elems [] (UEsc v # es))"
| "unquote_elems raw (UEsc u # es) =
     fix_utf8 (rev raw) @ encode_rune (if surr1 u \<or> surr2 u then RuneError else u) @ unquote_elems [] es"

definition unquote :: "strelem list \<Rightarrow> string" where
  "unquote es = unquote_elems [] es"

definition lex_word :: "string \<Rightarrow> json \<Rightarrow> string \<Rightarrow> (token \<times> string) option" where
  "lex_word w j s = (if HasPrefix s w then Some (TLit j, drop (length w) s) else None)"

text \<open>One token, after white space.\<close>

definition lex :: "string \<Rightarrow> (token \<times> string) option" where
  "lex s0 = (case skip_space s0 of
     [] \<Rightarrow> None
   | c # s \<Rightarrow>
       if c = CHR ''{'' then Some (TLBrace, s)
       else if c = CHR ''}'' then Some (TRBrace, s)
       else if c = CHR ''['' then Some (TLBrack, s)
       else if c = CHR '']'' then Some (TRBrack, s)
       else if c = CHR '':'' then Some (TColon, s)
       else if c = CHR '','' then Some (TComma, s)
       else if c = dquote then map_option (\<lambda>(es, t). (TStr (unquote es), t)) (lex_string s)
       else if c = CHR ''t'' then lex_word ''true'' (JBool True) (c # s)
       else if c = CHR ''f'' then lex_word ''false'' (JBool False) (c # s)
       else if c = CHR ''n'' then lex_word ''null'' JNull (c # s)
       else map_option (\<lambda>(n, t). (TLit (JNumber n), t)) (lex_number (c # s)))"

section \<open>The decoder\<close>

datatype frame = ArrF "json list" | ObjF "(string \<times> json) list" string

text \<open>
  What may come next: a value; a value or the end of an array just opened; a key or the end
  of an object just opened; a key (after a comma); a colon (after the key); a comma or an
  end (after a complete value). The object modes carry the members read so far.
\<close>

datatype mode = WantValue | WantFirst | WantKeyOrEnd | WantKey "(string \<times> json) list"
  | WantColon "(string \<times> json) list" string | AfterValue json

definition maxNestingDepth :: nat where
  "maxNestingDepth = 10000"

text \<open>
  The machine's reaction to a token: a new mode and a new stack, or a syntax error. Open
  objects sit on the stack as \<open>ObjF\<close> only while a member value is being read.
\<close>

definition open_ok :: "frame list \<Rightarrow> bool" where
  "open_ok st \<longleftrightarrow> length st < maxNestingDepth"

fun start_value :: "token \<Rightarrow> frame list \<Rightarrow> (mode \<times> frame list) option" where
  "start_value TLBrace st = (if open_ok st then Some (WantKeyOrEnd, st) else None)"
| "start_value TLBrack st = (if open_ok st then Some (WantFirst, ArrF [] # st) else None)"
| "start_value (TStr x) st = Some (AfterValue (JString x), st)"
| "start_value (TLit j) st = Some (AfterValue j, st)"
| "start_value _ st = None"

fun json_step :: "mode \<Rightarrow> frame list \<Rightarrow> token \<Rightarrow> (mode \<times> frame list) option" where
  "json_step WantValue st t = start_value t st"
| "json_step WantFirst st t =
     (if t = TRBrack then (case st of ArrF vs # st1 \<Rightarrow> Some (AfterValue (JArray (rev vs)), st1) | _ \<Rightarrow> None)
      else start_value t st)"
| "json_step WantKeyOrEnd st t =
     (case t of TRBrace \<Rightarrow> Some (AfterValue (JObject []), st)
      | TStr k \<Rightarrow> Some (WantColon [] k, st) | _ \<Rightarrow> None)"
| "json_step (WantKey ms) st t = (case t of TStr k \<Rightarrow> Some (WantColon ms k, st) | _ \<Rightarrow> None)"
| "json_step (WantColon ms k) st t = (if t = TColon then Some (WantValue, ObjF ms k # st) else None)"
| "json_step (AfterValue v) st t =
     (case st of
        ArrF vs # st1 \<Rightarrow>
          (case t of TComma \<Rightarrow> Some (WantValue, ArrF (v # vs) # st1)
           | TRBrack \<Rightarrow> Some (AfterValue (JArray (rev (v # vs))), st1) | _ \<Rightarrow> None)
      | ObjF ms k # st1 \<Rightarrow>
          (case t of TComma \<Rightarrow> Some (WantKey (ms @ [(k, v)]), st1)
           | TRBrace \<Rightarrow> Some (AfterValue (JObject (ms @ [(k, v)])), st1) | _ \<Rightarrow> None)
      | [] \<Rightarrow> None)"

lemma skip_space_le: "length (skip_space s) \<le> length s"
  by (simp add: skip_space_def length_dropWhile_le)

lemma lex_digits1_less: "lex_digits1 s = Some (d, t) \<Longrightarrow> length t < length s"
  by (cases s) (auto simp: lex_digits1_def Let_def le_imp_less_Suc length_dropWhile_le split: if_splits)

lemma lex_int_less: "lex_int s = Some (d, t) \<Longrightarrow> length t < length s"
  by (auto simp: lex_int_def split: list.splits if_splits dest: lex_digits1_less)

lemma lex_frac_le: "lex_frac s = Some (d, t) \<Longrightarrow> length t \<le> length s"
  by (auto simp: lex_frac_def split: list.splits if_splits dest: lex_digits1_less)

lemma lex_exp_le: "lex_exp s = Some (d, t) \<Longrightarrow> length t \<le> length s"
  by (auto simp: lex_exp_def split: list.splits if_splits dest: lex_digits1_less)

lemma lex_number_less: "lex_number s = Some (d, t) \<Longrightarrow> length t < length s"
  by (force simp: lex_number_def lex_unsigned_def split: list.splits if_splits option.splits prod.splits
      dest: lex_int_less lex_frac_le lex_exp_le)

lemma lex_string_less: "lex_string s = Some (es, t) \<Longrightarrow> length t < length s"
  by (induction s arbitrary: es t rule: lex_string.induct)
     (force split: if_splits option.splits list.splits prod.splits)+

lemma lex_less:
  assumes "lex s = Some (tk, t)"
  shows "length t < length s"
proof (cases "skip_space s")
  case Nil
  then show ?thesis using assms by (simp add: lex_def)
next
  case (Cons c r)
  with skip_space_le [of s] have "Suc (length r) \<le> length s" by simp
  moreover have "length t \<le> length r"
    using assms Cons
    by (auto simp: lex_def lex_word_def split: if_splits dest!: lex_string_less lex_number_less)
  ultimately show ?thesis by simp
qed

text \<open>
  \<open>Decode\<close>: the value at the front of the input and the unread rest. A complete value at the
  top level ends the decoding at once, whatever follows it.
\<close>

function json_run :: "mode \<Rightarrow> frame list \<Rightarrow> string \<Rightarrow> (json \<times> string) option" where
  "json_run m st s =
     (case (m, st) of
        (AfterValue v, []) \<Rightarrow> Some (v, s)
      | _ \<Rightarrow>
          (case lex s of
             None \<Rightarrow> None
           | Some (t, s1) \<Rightarrow>
               (case json_step m st t of
                  None \<Rightarrow> None
                | Some (m1, st1) \<Rightarrow> json_run m1 st1 s1)))"
  by pat_completeness auto
termination
  by (relation "measure (\<lambda>(m, st, s). length s)") (auto dest: lex_less)

declare json_run.simps [simp del]

definition Decode :: "string \<Rightarrow> (json \<times> string) option" where
  "Decode s = json_run WantValue [] s"

section \<open>Decoding into a map\<close>

text \<open>
  Decoding an object into a \<open>map[string]any\<close>: the last member with a key wins. The map is
  the association list of its members with that rule applied (\<open>fields_of\<close>), sorted where the
  code sorts it.
\<close>

definition fields_of :: "(string \<times> 'v) list \<Rightarrow> (string \<times> 'v) list" where
  "fields_of ms = fold (\<lambda>(k, v) acc. put_field k v acc) ms []"

lemma distinct_fields_of [simp]: "distinct (map fst (fields_of ms))"
proof -
  have "distinct (map fst acc) \<Longrightarrow> distinct (map fst (fold (\<lambda>(k, v) acc. put_field k v acc) ms acc))"
    for acc :: "(string \<times> 'a) list"
    by (induction ms arbitrary: acc) (auto simp: distinct_put_field)
  then show ?thesis by (simp add: fields_of_def)
qed

section \<open>Encoding\<close>

text \<open>
  \<open>Marshal\<close>: strings with the default HTML-safe escapes; invalid UTF-8 becomes the escape of
  \<open>RuneError\<close>; object keys sorted; number literals as written.
\<close>

definition encode_span :: "nat \<times> string \<Rightarrow> string" where
  "encode_span p = (case p of (r, bs) \<Rightarrow>
     if invalid_span p then backslash # ''ufffd''
     else if r = 0x22 \<or> r = 0x5C then [backslash, char_of r]
     else if r = 8 then backslash # ''b''
     else if r = 12 then backslash # ''f''
     else if r = 10 then backslash # ''n''
     else if r = 13 then backslash # ''r''
     else if r = 9 then backslash # ''t''
     else if r < 0x20 \<or> r \<in> {0x3C, 0x3E, 0x26} then backslash # ''u00'' @ hex_pad 2 r
     else if r = 0x2028 \<or> r = 0x2029 then backslash # ''u202'' @ [hex_digit (r mod 16)]
     else bs)"

definition encode_string :: "string \<Rightarrow> string" where
  "encode_string s = [dquote] @ concat (map encode_span (rune_spans s)) @ [dquote]"

definition sort_fields :: "(string \<times> 'v) list \<Rightarrow> (string \<times> 'v) list" where
  "sort_fields ms = sort_key fst ms"

fun Marshal :: "json \<Rightarrow> string" where
  "Marshal JNull = ''null''"
| "Marshal (JBool b) = (if b then ''true'' else ''false'')"
| "Marshal (JNumber n) = n"
| "Marshal (JString s) = encode_string s"
| "Marshal (JArray vs) = ''['' @ join_with '','' (map Marshal vs) @ '']''"
| "Marshal (JObject ms) =
     ''{'' @ join_with '','' (map (\<lambda>(k, v). encode_string k @ '':'' @ v)
        (sort_fields (fields_of (map (\<lambda>(k, v). (k, Marshal v)) ms)))) @ ''}''"

end
