(* ===== verification/Reference_Env.thy ===== *)
theory Reference_Env
  imports Policy_Labels Go_Json
begin

text \<open>
  A concrete outside world: an in-memory object store that answers the client's requests as
  the API server documents them, a fixed DNS table, a clock that stands still, and plain
  implementations of the third-party functions. Theorems with hypotheses about the outside are
  applied to it at concrete inputs, which shows that the hypotheses can hold together.
\<close>

record store =
  sto_objs :: "obj list"
  sto_hosts :: "(string \<times> string list) list"
  sto_now :: gotime

definition not_found :: gerr where
  "not_found = Plain ''not found''"

definition same_obj :: "kind \<Rightarrow> NamespacedName \<Rightarrow> obj \<Rightarrow> bool" where
  "same_obj k key ob \<longleftrightarrow> kind_of ob = k \<and> key_of ob = key"

definition with_status :: "Task \<Rightarrow> obj \<Rightarrow> obj" where
  "with_status t ob = (case ob of OTask u \<Rightarrow> OTask (u\<lparr>task_Status := task_Status t\<rparr>) | _ \<Rightarrow> ob)"

fun ref_api :: "call \<Rightarrow> store \<Rightarrow> resp \<times> store" where
  "ref_api (CGet k key) s =
     (case List.find (same_obj k key) (sto_objs s) of None \<Rightarrow> (RErr not_found, s) | Some ob \<Rightarrow> (RObj ob, s))"
| "ref_api (CCreate ob) s =
     (if list_ex (same_obj (kind_of ob) (key_of ob)) (sto_objs s) then (RErr (Plain ''already exists''), s)
      else (RObj ob, s\<lparr>sto_objs := sto_objs s @ [ob]\<rparr>))"
| "ref_api (CUpdate ob) s =
     (if list_ex (same_obj (kind_of ob) (key_of ob)) (sto_objs s)
      then (RObj ob, s\<lparr>sto_objs := map (\<lambda>p. if same_obj (kind_of ob) (key_of ob) p then ob else p) (sto_objs s)\<rparr>)
      else (RErr not_found, s))"
| "ref_api (CStatusUpdate t) s =
     (if list_ex (same_obj KTask (key_of (OTask t))) (sto_objs s)
      then (RObj (OTask t), s\<lparr>sto_objs := map (\<lambda>p. if same_obj KTask (key_of (OTask t)) p then with_status t p else p) (sto_objs s)\<rparr>)
      else (RErr not_found, s))"
| "ref_api (CDelete k key uid) s =
     (if list_ex (same_obj k key) (sto_objs s)
      then (ROk, s\<lparr>sto_objs := filter (\<lambda>p. \<not> same_obj k key p) (sto_objs s)\<rparr>) else (RErr not_found, s))"
| "ref_api (CList k ns ls) s =
     (RList (filter (\<lambda>p. kind_of p = k \<and> (ns = None \<or> ns = Some (om_Namespace (meta_of p)))
        \<and> selector_matches ls (GetLabels p)) (sto_objs s)), s)"
| "ref_api (CListField k f v) s =
     (RList (filter (\<lambda>p. kind_of p = k \<and> (case p of OTask t \<Rightarrow> ar_Ref (ts_Agent (task_Spec t)) = v | _ \<Rightarrow> False)) (sto_objs s)), s)"

definition ref_findStatusCondition :: "Condition list \<Rightarrow> string \<Rightarrow> Condition option" where
  "ref_findStatusCondition cs ty = List.find (\<lambda>c. cd_Type c = ty) cs"

fun ref_setStatusCondition :: "gotime \<Rightarrow> Condition list \<Rightarrow> Condition \<Rightarrow> Condition list" where
  "ref_setStatusCondition now [] c = [condition_set now None c]"
| "ref_setStatusCondition now (d # cs) c =
     (if cd_Type d = cd_Type c then condition_set now (Some d) c # cs
      else d # ref_setStatusCondition now cs c)"

definition ref_setControllerReference :: "Task \<Rightarrow> obj \<Rightarrow> gerr + obj" where
  "ref_setControllerReference t ob = Inr (map_meta (\<lambda>m. m\<lparr>om_OwnerReferences :=
     [\<lparr>or_APIVersion = ''openconveyor.ai/v1alpha1'', or_Kind = ''Task'', or_Name = task_Name t,
       or_UID = om_UID (task_Meta t), or_Controller = Some True\<rparr>]\<rparr>) ob)"

definition ref_getControllerOf :: "ObjectMeta \<Rightarrow> OwnerReference option" where
  "ref_getControllerOf m = List.find (\<lambda>r. or_Controller r = Some True) (om_OwnerReferences m)"

text \<open>URLs of the shape \<open>https://host/path\<close> only.\<close>

definition ref_urlParse :: "string \<Rightarrow> URL option" where
  "ref_urlParse s =
     (if HasPrefix s ''https://'' then
        Some \<lparr>url_Scheme = ''https'', url_Opaque = [], url_User = False,
          url_Hostname = takeWhile (\<lambda>c. c \<noteq> CHR ''/'') (drop 8 s), url_String = s\<rparr>
      else None)"

text \<open>Top-level fields with string values only.\<close>

definition ref_gjson :: "string \<Rightarrow> string \<Rightarrow> string option" where
  "ref_gjson body path = (case Decode body of
     Some (JObject ms, _) \<Rightarrow> (case map_of (fields_of ms) path of Some (JString s) \<Rightarrow> Some s | _ \<Rightarrow> None)
   | _ \<Rightarrow> None)"

definition ref_ext :: "store ext" where
  "ref_ext = \<lparr>
     x_api = ref_api,
     x_lookupHost = (\<lambda>h s. (case map_of (sto_hosts s) h of
        None \<Rightarrow> Inl (DNSError ''no such host'' True) | Some as \<Rightarrow> Inr as, s)),
     x_now = (\<lambda>s. (sto_now s, s)),
     x_unicode = \<lparr>u_isPrint = (\<lambda>r. True), u_toLower = (\<lambda>r. r), u_isFormat = (\<lambda>r. r = 0x202E)\<rparr>,
     x_isNotFound = (\<lambda>e. e = not_found),
     x_ignoreNotFound = (\<lambda>e. if e = not_found then None else Some e),
     x_setControllerReference = ref_setControllerReference,
     x_getControllerOf = ref_getControllerOf,
     x_deepEqual = (\<lambda>a b. a = b),
     x_deepEqualResult = (\<lambda>a b. a = b),
     x_setStatusCondition = ref_setStatusCondition,
     x_findStatusCondition = ref_findStatusCondition,
     x_parseQuantity = (\<lambda>q. if q = [] then Inl (Plain ''unable to parse quantity'') else Inr (Quantity q)),
     x_jsonError = (\<lambda>s. ''invalid JSON''),
     x_urlParse = ref_urlParse,
     x_gjson = ref_gjson,
     x_isValidLabelValue = (\<lambda>v. length v \<le> 63)\<rparr>"

lemma ref_find_set_same:
  "ref_findStatusCondition (ref_setStatusCondition now cs c) (cd_Type c) =
     Some (condition_set now (ref_findStatusCondition cs (cd_Type c)) c)"
  by (induction cs) (auto simp: ref_findStatusCondition_def condition_set_def)

lemma ref_find_set_other:
  "ty \<noteq> cd_Type c \<Longrightarrow>
     ref_findStatusCondition (ref_setStatusCondition now cs c) ty = ref_findStatusCondition cs ty"
  by (induction cs) (auto simp: ref_findStatusCondition_def condition_set_def)

lemma ref_condition_laws: "condition_laws ref_ext"
  by (simp add: condition_laws_def ref_ext_def ref_find_set_same ref_find_set_other)

lemma ref_condition_appends: "condition_appends ref_ext"
proof -
  have "ref_findStatusCondition cs (cd_Type c) = None \<Longrightarrow> length (ref_setStatusCondition now cs c) = Suc (length cs)" for now cs c
    by (induction cs) (auto simp: ref_findStatusCondition_def split: if_splits)
  then show ?thesis by (simp add: condition_appends_def ref_ext_def)
qed

lemma ref_set_types:
  "cd_Type ` set (ref_setStatusCondition now cs c) = insert (cd_Type c) (cd_Type ` set cs)"
  by (induction cs) (auto simp: condition_set_def split: option.splits)

lemma ref_condition_keys: "condition_keys ref_ext"
proof -
  have "distinct (map cd_Type cs) \<Longrightarrow> distinct (map cd_Type (ref_setStatusCondition now cs c))" for now cs c
    by (induction cs) (auto simp: condition_set_def ref_set_types split: option.splits)
  then show ?thesis by (simp add: condition_keys_def ref_ext_def)
qed

lemma ref_url_laws: "url_laws ref_ext"
proof -
  have "HasPrefix s ''https://'' \<Longrightarrow> HasPrefix s ''https''" for s
    unfolding HasPrefix_iff_prefix by (rule prefix_order.trans [rotated], assumption) simp
  then show ?thesis by (auto simp: url_laws_def ref_ext_def ref_urlParse_def split: if_splits)
qed

lemma ref_notfound_laws: "notfound_laws ref_ext"
  by (simp add: notfound_laws_def ref_ext_def)

lemma ref_deepEqual_refl: "deepEqual_refl ref_ext"
  by (simp add: deepEqual_refl_def ref_ext_def)

lemma ref_owner_laws: "owner_laws ref_ext"
  by (auto simp: owner_laws_def ref_ext_def ref_setControllerReference_def ref_getControllerOf_def)

lemmas ref_laws = ref_condition_laws ref_notfound_laws ref_deepEqual_refl ref_owner_laws

section \<open>A sample Task and its ClusterAgentClass\<close>

definition sample_task :: Task where
  "sample_task = \<lparr>
     task_Meta = zero_meta\<lparr>om_Name := ''t'', om_Namespace := ''ns'', om_UID := ''u1'', om_Generation := 1\<rparr>,
     task_Spec = \<lparr>ts_Agent = \<lparr>ar_Ref = ''c'', ar_Config = None\<rparr>,
       ts_Prompt = \<lparr>ps_Inline = ''go'', ps_SecretRef = None, ps_ConfigMapRef = None\<rparr>,
       ts_Permissions = \<lparr>pm_Secrets = [''s''], pm_Egress = [''10.0.0.1''], pm_EgressPorts = [], pm_RBAC = []\<rparr>,
       ts_Resources = \<lparr>tr_CPU = [], tr_Memory = [], tr_Timeout = 60 * Second\<rparr>,
       ts_TTLSecondsAfterFinished = None\<rparr>,
     task_Status = \<lparr>st_Phase = [], st_ObservedGeneration = 0, st_JobName = [], st_StartTime = None,
       st_CompletionTime = None, st_Result = None, st_Conditions = []\<rparr>\<rparr>"

definition sample_agent :: ClusterAgentClass where
  "sample_agent = \<lparr>agc_Meta = zero_meta\<lparr>om_Name := ''c''\<rparr>,
     agc_Spec = \<lparr>ac_Image = ''img'', ac_ImagePullPolicy = [], ac_Command = [], ac_Args = [],
       ac_Inputs = \<lparr>ai_Prompt = Some \<lparr>im_Mount = ''/task/prompt'', im_Env = []\<rparr>, ai_Config = None\<rparr>,
       ac_Requires = \<lparr>aq_Egress = [], aq_Secrets = []\<rparr>\<rparr>\<rparr>"

definition sample_store :: store where
  "sample_store = \<lparr>sto_objs = [OTask sample_task, OAgentClass sample_agent], sto_hosts = [], sto_now = 1000\<rparr>"

end
