(* ===== verification/Policy_Volumes.thy ===== *)
theory Policy_Volumes
  imports Reference_Env Go_Json
begin

text \<open>
  \<open>internal/policy/secrets.go\<close>, \<open>prompt.go\<close> and \<open>config.go\<close>: how Secrets, the prompt and the
  agent configuration reach the container. The locale \<open>projection\<close> is the contract that the
  Job builder relies on: a projection carries a volume exactly when it carries a mount, both
  have the same fixed name, and the mount is a read-only single file.
\<close>

section \<open>secrets.go\<close>

abbreviation SecretMountRoot :: string where "SecretMountRoot \<equiv> ''/run/secrets''"

definition secretVolumeName :: "string \<Rightarrow> string" where
  "secretVolumeName secretName = ''secret-'' @ secretName"

definition secret_volume :: "string \<Rightarrow> Volume" where
  "secret_volume name = \<lparr>vol_Name = secretVolumeName name, vol_Source = SecretVolume name\<rparr>"

definition secret_mount :: "string \<Rightarrow> VolumeMount" where
  "secret_mount name = \<lparr>vm_Name = secretVolumeName name, vm_MountPath = path_Join [SecretMountRoot, name],
     vm_SubPath = [], vm_ReadOnly = True\<rparr>"

definition BuildSecretVolumes :: "string list \<Rightarrow> Volume list \<times> VolumeMount list" where
  "BuildSecretVolumes secrets =
     (if secrets = [] then ([], [])
      else let names = sort secrets in (map secret_volume names, map secret_mount names))"

section \<open>prompt.go\<close>

record PromptProjection =
  pp_Volume :: "Volume option"
  pp_Mount :: "VolumeMount option"

abbreviation PromptKey :: string where "PromptKey \<equiv> ''prompt''"
abbreviation PromptVolumeName :: string where "PromptVolumeName \<equiv> ''prompt''"

definition InlinePromptConfigMapName :: "string \<Rightarrow> string" where
  "InlinePromptConfigMapName taskName = taskName @ ''-prompt''"

text \<open>The volume source and the sub-path of the prompt, by the order of the \<open>switch\<close>.\<close>

definition prompt_source :: "string \<Rightarrow> PromptSource \<Rightarrow> (string \<times> VolumeSource) option" where
  "prompt_source taskName prompt =
     (if ps_Inline prompt \<noteq> [] then
        Some (PromptKey, ConfigMapVolume (InlinePromptConfigMapName taskName))
      else case ps_ConfigMapRef prompt of
        Some r \<Rightarrow> Some (ks_Key r, ConfigMapVolume (ks_Name r))
      | None \<Rightarrow>
          (case ps_SecretRef prompt of
             Some r \<Rightarrow> Some (ks_Key r, SecretVolume (ks_Name r))
           | None \<Rightarrow> None))"

definition BuildPromptProjection ::
  "string \<Rightarrow> PromptSource \<Rightarrow> AgentInputs \<Rightarrow> gerr + PromptProjection" where
  "BuildPromptProjection taskName prompt inputs =
     (case ai_Prompt inputs of
        None \<Rightarrow> Inr \<lparr>pp_Volume = None, pp_Mount = None\<rparr>
      | Some m \<Rightarrow>
          if im_Mount m = [] then Inr \<lparr>pp_Volume = None, pp_Mount = None\<rparr>
          else (case prompt_source taskName prompt of
                  None \<Rightarrow> Inl (Plain ''prompt has no source (inline/secretRef/configMapRef)'')
                | Some (subPath, src) \<Rightarrow>
                    Inr \<lparr>pp_Volume = Some \<lparr>vol_Name = PromptVolumeName, vol_Source = src\<rparr>,
                      pp_Mount = Some \<lparr>vm_Name = PromptVolumeName, vm_MountPath = im_Mount m,
                        vm_SubPath = subPath, vm_ReadOnly = True\<rparr>\<rparr>))"

definition BuildInlinePromptConfigMap :: "string \<Rightarrow> string \<Rightarrow> PromptSource \<Rightarrow> ConfigMap option" where
  "BuildInlinePromptConfigMap taskName namespace prompt =
     (if ps_Inline prompt = [] then None
      else Some \<lparr>cm_Meta = ownedMeta (InlinePromptConfigMapName taskName) namespace taskName,
        cm_Data = Some [(PromptKey, ps_Inline prompt)]\<rparr>)"

section \<open>config.go\<close>

record ConfigProjection =
  cp_Env :: "EnvVar list"
  cp_Volume :: "Volume option"
  cp_Mount :: "VolumeMount option"

abbreviation ConfigKey :: string where "ConfigKey \<equiv> ''config.json''"
abbreviation ConfigVolumeName :: string where "ConfigVolumeName \<equiv> ''config''"

definition AgentConfigMapName :: "string \<Rightarrow> string" where
  "AgentConfigMapName taskName = taskName @ ''-config''"

text \<open>\<open>envNameRe\<close>: \<open>^[A-Za-z_][A-Za-z0-9_]*$\<close>\<close>

definition env_start :: "char \<Rightarrow> bool" where
  "env_start c \<longleftrightarrow> 65 \<le> byte c \<and> byte c \<le> 90 \<or> 97 \<le> byte c \<and> byte c \<le> 122 \<or> c = CHR ''_''"

definition env_char :: "char \<Rightarrow> bool" where
  "env_char c \<longleftrightarrow> env_start c \<or> 48 \<le> byte c \<and> byte c \<le> 57"

definition envNameRe :: "string \<Rightarrow> bool" where
  "envNameRe s = (case s of [] \<Rightarrow> False | c # r \<Rightarrow> env_start c \<and> list_all env_char r)"

text \<open>
  \<open>decodeConfigObject\<close>. JSON \<open>null\<close> decodes into a nil map without an error; any other value
  that is not an object is an error; bytes after the value are not read.
\<close>

definition decodeConfigObject :: "'w ext \<Rightarrow> string \<Rightarrow> gerr + (string \<times> json) list" where
  "decodeConfigObject x raw =
     (case Decode raw of
        Some (JObject ms, _) \<Rightarrow> Inr (fields_of ms)
      | Some (JNull, _) \<Rightarrow> Inr []
      | _ \<Rightarrow> Inl (Wrapped ''must be a JSON object'' (Plain (x_jsonError x raw))))"

fun scalarString :: "json \<Rightarrow> string option" where
  "scalarString (JString t) = Some t"
| "scalarString (JNumber n) = Some n"
| "scalarString (JBool b) = Some (if b then ''true'' else ''false'')"
| "scalarString _ = None"

text \<open>
  The loop over the sorted keys. A field that is not a scalar or whose name is not a valid
  variable name is skipped when the full JSON is delivered, and an error otherwise.
\<close>

definition unprojectable :: "string \<Rightarrow> gerr" where
  "unprojectable k = PermanentError (Plain (''spec.agent.config.'' @ k @
     '' cannot be projected as an env var and the AgentClass declares no config mount/env''))"

fun config_envs :: "bool \<Rightarrow> (string \<times> json) list \<Rightarrow> string list \<Rightarrow> gerr + EnvVar list" where
  "config_envs whole flds [] = Inr []"
| "config_envs whole flds (k # ks) =
     (case (case map_of flds k of None \<Rightarrow> None | Some v \<Rightarrow> scalarString v) of
        Some val \<Rightarrow>
          if envNameRe k then map_sum id (\<lambda>es. \<lparr>ev_Name = k, ev_Value = val\<rparr> # es) (config_envs whole flds ks)
          else if whole then config_envs whole flds ks else Inl (unprojectable k)
      | None \<Rightarrow> if whole then config_envs whole flds ks else Inl (unprojectable k))"

definition BuildConfigProjection ::
  "'w ext \<Rightarrow> string \<Rightarrow> RawExtension option \<Rightarrow> AgentInputs \<Rightarrow> gerr + ConfigProjection" where
  "BuildConfigProjection x taskName config inputs =
     (case config of
        None \<Rightarrow> Inr \<lparr>cp_Env = [], cp_Volume = None, cp_Mount = None\<rparr>
      | Some raw \<Rightarrow>
        if raw = [] then Inr \<lparr>cp_Env = [], cp_Volume = None, cp_Mount = None\<rparr>
        else case decodeConfigObject x raw of
          Inl e \<Rightarrow> Inl (PermanentError (Wrapped ''spec.agent.config'' e))
        | Inr flds \<Rightarrow>
          (let mount = (case ai_Config inputs of None \<Rightarrow> [] | Some m \<Rightarrow> im_Mount m);
               env = (case ai_Config inputs of None \<Rightarrow> [] | Some m \<Rightarrow> im_Env m);
               hasMount = (mount \<noteq> []); hasWholeEnv = (env \<noteq> []);
               keys = sorted_keys (map fst flds)
           in case config_envs (hasMount \<or> hasWholeEnv) flds keys of
                Inl e \<Rightarrow> Inl e
              | Inr envs \<Rightarrow>
                  if hasWholeEnv \<and> \<not> envNameRe env then
                    Inl (PermanentError (Plain (''agentclass inputs.config.env '' @ Quote (x_unicode x) env @
                      '' is not a valid env var name'')))
                  else
                    (let envs' = (if hasWholeEnv then envs @ [\<lparr>ev_Name = env, ev_Value = raw\<rparr>] else envs)
                     in if \<not> hasMount then Inr \<lparr>cp_Env = envs', cp_Volume = None, cp_Mount = None\<rparr>
                        else Inr \<lparr>cp_Env = envs',
                          cp_Volume = Some \<lparr>vol_Name = ConfigVolumeName,
                            vol_Source = ConfigMapVolume (AgentConfigMapName taskName)\<rparr>,
                          cp_Mount = Some \<lparr>vm_Name = ConfigVolumeName, vm_MountPath = mount,
                            vm_SubPath = ConfigKey, vm_ReadOnly = True\<rparr>\<rparr>)))"

definition BuildAgentConfigMap ::
  "string \<Rightarrow> string \<Rightarrow> RawExtension option \<Rightarrow> AgentInputs \<Rightarrow> ConfigMap option" where
  "BuildAgentConfigMap taskName namespace config inputs =
     (case (config, ai_Config inputs) of
        (Some raw, Some m) \<Rightarrow>
          if raw = [] \<or> im_Mount m = [] then None
          else Some \<lparr>cm_Meta = ownedMeta (AgentConfigMapName taskName) namespace taskName,
            cm_Data = Some [(ConfigKey, raw)]\<rparr>
      | _ \<Rightarrow> None)"

section \<open>The builder and projection interfaces\<close>

interpretation prompt_builder:
  owned_builder "\<lambda>t ns p. map_option OConfigMap (BuildInlinePromptConfigMap t ns p)" KConfigMap
    InlinePromptConfigMapName
  by unfold_locales (auto simp: BuildInlinePromptConfigMap_def split: if_splits)

interpretation config_builder:
  owned_builder "\<lambda>t ns (c, i). map_option OConfigMap (BuildAgentConfigMap t ns c i)" KConfigMap
    AgentConfigMapName
  by unfold_locales (auto simp: BuildAgentConfigMap_def split: if_splits option.splits)

locale projection =
  fixes build :: "'i \<Rightarrow> gerr + 'p"
    and volume :: "'p \<Rightarrow> Volume option"
    and mount :: "'p \<Rightarrow> VolumeMount option"
    and vname :: string
  assumes both_or_none: "build i = Inr p \<Longrightarrow> volume p = None \<longleftrightarrow> mount p = None"
    and volume_named: "build i = Inr p \<Longrightarrow> volume p = Some v \<Longrightarrow> vol_Name v = vname"
    and mount_file: "build i = Inr p \<Longrightarrow> mount p = Some m \<Longrightarrow>
      vm_Name m = vname \<and> vm_ReadOnly m \<and> vm_MountPath m \<noteq> []"
begin

lemma volume_names: "build i = Inr p \<Longrightarrow> map vol_Name (case volume p of None \<Rightarrow> [] | Some v \<Rightarrow> [v]) =
    (if volume p = None then [] else [vname])"
  by (auto simp: volume_named split: option.splits)

lemma mounts_backed:
  "build i = Inr p \<Longrightarrow> mount p = Some m \<Longrightarrow> \<exists>v. volume p = Some v \<and> vol_Name v = vm_Name m"
  using both_or_none [of i p] volume_named [of i p] mount_file [of i p m] by (cases "volume p") auto

end

interpretation prompt_proj: projection "\<lambda>(t, p, i). BuildPromptProjection t p i" pp_Volume pp_Mount PromptVolumeName
  by unfold_locales
     (auto simp: BuildPromptProjection_def split: option.splits if_splits prod.splits)

interpretation config_proj: projection "\<lambda>(x, t, c, i). BuildConfigProjection x t c i" cp_Volume cp_Mount ConfigVolumeName
  by unfold_locales
     (auto simp: BuildConfigProjection_def Let_def split: option.splits if_splits prod.splits sum.splits)

section \<open>Facts\<close>

lemma secretVolumeName_inj [simp]: "secretVolumeName a = secretVolumeName b \<longleftrightarrow> a = b"
  by (simp add: secretVolumeName_def)

lemma inj_secretVolumeName: "inj secretVolumeName"
  by (simp add: inj_def)

lemma secret_volume_names: "map vol_Name (fst (BuildSecretVolumes ss)) = map secretVolumeName (sort ss)"
  by (simp add: BuildSecretVolumes_def Let_def secret_volume_def)

lemma secret_mount_names: "map vm_Name (snd (BuildSecretVolumes ss)) = map secretVolumeName (sort ss)"
  by (simp add: BuildSecretVolumes_def Let_def secret_mount_def)

text \<open>The field of a config that can become an environment variable, and its value.\<close>

definition projectable :: "(string \<times> json) list \<Rightarrow> string \<Rightarrow> string option" where
  "projectable flds k = (case map_of flds k of
     None \<Rightarrow> None | Some v \<Rightarrow> if envNameRe k then scalarString v else None)"

lemma config_envs_step:
  "config_envs whole flds (k # ks) =
     (case projectable flds k of
        Some val \<Rightarrow> map_sum id (\<lambda>es. \<lparr>ev_Name = k, ev_Value = val\<rparr> # es) (config_envs whole flds ks)
      | None \<Rightarrow> if whole then config_envs whole flds ks else Inl (unprojectable k))"
  by (auto simp: projectable_def split: option.splits)

lemma config_envs_Inr:
  "config_envs whole flds ks = Inr es \<Longrightarrow>
     es = List.map_filter (\<lambda>k. map_option (\<lambda>v. \<lparr>ev_Name = k, ev_Value = v\<rparr>) (projectable flds k)) ks \<and>
     (whole \<or> (\<forall>k \<in> set ks. projectable flds k \<noteq> None))"
proof (induction ks arbitrary: es)
  case (Cons k ks)
  then show ?case
    by (cases "config_envs whole flds ks")
       (auto simp: config_envs_step map_filter_simps simp del: config_envs.simps
         split: option.splits if_splits)
qed (simp add: map_filter_simps)

lemma config_envs_Inl:
  "config_envs whole flds ks = Inl e \<Longrightarrow>
     \<not> whole \<and> (\<exists>k \<in> set ks. projectable flds k = None \<and> e = unprojectable k)"
proof (induction ks arbitrary: e)
  case (Cons k ks)
  then show ?case
    by (cases "config_envs whole flds ks")
       (auto simp: config_envs_step simp del: config_envs.simps split: option.splits if_splits)
qed simp

lemma map_filter_env_names:
  "map ev_Name (List.map_filter (\<lambda>k. map_option (\<lambda>v. \<lparr>ev_Name = k, ev_Value = v\<rparr>) (f k)) ks)
     = filter (\<lambda>k. f k \<noteq> None) ks"
  by (induction ks) (auto simp: map_filter_simps split: option.splits)

lemma decodeConfigObject_distinct: "decodeConfigObject x raw = Inr flds \<Longrightarrow> distinct (map fst flds)"
  by (auto simp: decodeConfigObject_def split: option.splits prod.splits json.splits)

lemma BuildConfigProjection_Inr:
  assumes b: "BuildConfigProjection x t (Some raw) i = Inr p" and d: "decodeConfigObject x raw = Inr flds"
    and "raw \<noteq> []"
  defines "mount \<equiv> (case ai_Config i of None \<Rightarrow> [] | Some m \<Rightarrow> im_Mount m)"
    and "env \<equiv> (case ai_Config i of None \<Rightarrow> [] | Some m \<Rightarrow> im_Env m)"
  shows "\<exists>envs. config_envs (mount \<noteq> [] \<or> env \<noteq> []) flds (sorted_keys (map fst flds)) = Inr envs \<and>
    cp_Env p = (if env = [] then envs else envs @ [\<lparr>ev_Name = env, ev_Value = raw\<rparr>]) \<and>
    (env \<noteq> [] \<longrightarrow> envNameRe env) \<and>
    (if mount = [] then cp_Volume p = None \<and> cp_Mount p = None
     else cp_Volume p = Some \<lparr>vol_Name = ConfigVolumeName, vol_Source = ConfigMapVolume (AgentConfigMapName t)\<rparr> \<and>
       cp_Mount p = Some \<lparr>vm_Name = ConfigVolumeName, vm_MountPath = mount, vm_SubPath = ConfigKey, vm_ReadOnly = True\<rparr>)"
  using assms unfolding BuildConfigProjection_def
  by (auto simp: Let_def split: sum.splits if_splits option.splits)

lemma BuildConfigProjection_Inl_permanent:
  "BuildConfigProjection x t c i = Inl e \<Longrightarrow> IsPermanent e"
  by (auto simp: BuildConfigProjection_def Let_def unprojectable_def
      split: sum.splits if_splits option.splits dest!: config_envs_Inl)

text \<open>A sample configuration: an object with the one member \<open>A\<close>, the number 1.\<close>

definition sample_config :: string where
  "sample_config = [CHR ''{'', dquote, CHR ''A'', dquote, CHR '':'', CHR ''1'', CHR ''}'']"

section \<open>Properties\<close>

text \<open>
  C35. Agent configuration is delivered or refused, never dropped: when the configuration is a
  JSON object, the projection either fails with a PermanentError, or every top-level field
  reaches the agent: as the environment variable of its name with the scalar's text, or
  through the full JSON, which is then mounted from the ConfigMap that the controller builds
  for this Task or set in the variable that the class declares. Conversely every variable is
  one of the two.
\<close>

theorem config_fully_delivered:
  assumes "decodeConfigObject x raw = Inr flds" and "raw \<noteq> []"
  shows "case BuildConfigProjection x t (Some raw) i of
     Inl e \<Rightarrow> IsPermanent e
   | Inr p \<Rightarrow>
       (\<forall>k v. map_of flds k = Some v \<longrightarrow>
          (\<exists>s. scalarString v = Some s \<and> envNameRe k \<and> \<lparr>ev_Name = k, ev_Value = s\<rparr> \<in> set (cp_Env p)) \<or>
          (\<exists>n. \<lparr>ev_Name = n, ev_Value = raw\<rparr> \<in> set (cp_Env p)) \<or>
          (\<exists>v' m cm. cp_Volume p = Some v' \<and> cp_Mount p = Some m \<and> BuildAgentConfigMap t ns (Some raw) i = Some cm \<and>
             vol_Source v' = ConfigMapVolume (om_Name (cm_Meta cm)) \<and> map_get (cm_Data cm) (vm_SubPath m) = raw)) \<and>
       (\<forall>e \<in> set (cp_Env p). projectable flds (ev_Name e) = Some (ev_Value e) \<or>
          (\<exists>m. ai_Config i = Some m \<and> ev_Name e = im_Env m \<and> ev_Value e = raw))"
proof (cases "BuildConfigProjection x t (Some raw) i")
  case (Inl e)
  then show ?thesis by (simp add: BuildConfigProjection_Inl_permanent)
next
  case (Inr p)
  define mount where "mount = (case ai_Config i of None \<Rightarrow> [] | Some m \<Rightarrow> im_Mount m)"
  define env where "env = (case ai_Config i of None \<Rightarrow> [] | Some m \<Rightarrow> im_Env m)"
  from BuildConfigProjection_Inr [OF Inr assms, folded mount_def env_def] obtain envs where
    envs: "config_envs (mount \<noteq> [] \<or> env \<noteq> []) flds (sorted_keys (map fst flds)) = Inr envs"
    and penv: "cp_Env p = (if env = [] then envs else envs @ [\<lparr>ev_Name = env, ev_Value = raw\<rparr>])"
    and pm: "if mount = [] then cp_Volume p = None \<and> cp_Mount p = None
     else cp_Volume p = Some \<lparr>vol_Name = ConfigVolumeName, vol_Source = ConfigMapVolume (AgentConfigMapName t)\<rparr> \<and>
       cp_Mount p = Some \<lparr>vm_Name = ConfigVolumeName, vm_MountPath = mount, vm_SubPath = ConfigKey, vm_ReadOnly = True\<rparr>"
    by blast
  have mem: "e \<in> set envs \<longleftrightarrow> ev_Name e \<in> fst ` set flds \<and> projectable flds (ev_Name e) = Some (ev_Value e)" for e
    using config_envs_Inr [OF envs] by (cases e) (force simp: List.map_filter_def)
  have field: "(\<exists>s. scalarString v = Some s \<and> envNameRe k \<and> \<lparr>ev_Name = k, ev_Value = s\<rparr> \<in> set (cp_Env p)) \<or>
          (\<exists>n. \<lparr>ev_Name = n, ev_Value = raw\<rparr> \<in> set (cp_Env p)) \<or>
          (\<exists>v' m cm. cp_Volume p = Some v' \<and> cp_Mount p = Some m \<and> BuildAgentConfigMap t ns (Some raw) i = Some cm \<and>
             vol_Source v' = ConfigMapVolume (om_Name (cm_Meta cm)) \<and> map_get (cm_Data cm) (vm_SubPath m) = raw)"
    if kv: "map_of flds k = Some v" for k v
  proof (cases "projectable flds k")
    case (Some s)
    with kv have "\<lparr>ev_Name = k, ev_Value = s\<rparr> \<in> set envs" by (force simp: mem dest: map_of_SomeD)
    with Some kv show ?thesis by (auto simp: projectable_def penv split: if_splits)
  next
    case None
    moreover from kv have "k \<in> set (sorted_keys (map fst flds))" by (force dest: map_of_SomeD)
    ultimately have "mount \<noteq> [] \<or> env \<noteq> []" using config_envs_Inr [OF envs] by blast
    then show ?thesis
    proof
      assume "mount \<noteq> []"
      with pm assms(2) show ?thesis
        by (auto simp: BuildAgentConfigMap_def mount_def ownedMeta_def map_get_def split: option.splits)
    qed (auto simp: penv)
  qed
  have "projectable flds (ev_Name e) = Some (ev_Value e) \<or>
      (\<exists>m. ai_Config i = Some m \<and> ev_Name e = im_Env m \<and> ev_Value e = raw)" if "e \<in> set (cp_Env p)" for e
    using that by (auto simp: penv mem env_def split: if_splits option.splits)
  with field Inr show ?thesis by simp
qed

theorem config_fully_delivered_witness:
  "\<exists>p. BuildConfigProjection ref_ext ''t'' (Some sample_config) (ac_Inputs (agc_Spec sample_agent)) = Inr p \<and>
     \<lparr>ev_Name = ''A'', ev_Value = ''1''\<rparr> \<in> set (cp_Env p)"
proof -
  have d: "decodeConfigObject ref_ext sample_config = Inr [(''A'', JNumber ''1'')]" by code_simp
  have ne: "sample_config \<noteq> []" by (simp add: sample_config_def)
  have p: "BuildConfigProjection ref_ext ''t'' (Some sample_config) (ac_Inputs (agc_Spec sample_agent)) =
      Inr \<lparr>cp_Env = [\<lparr>ev_Name = ''A'', ev_Value = ''1''\<rparr>], cp_Volume = None, cp_Mount = None\<rparr>"
    by code_simp
  show ?thesis
    using config_fully_delivered [OF d ne, where t = "''t''" and i = "ac_Inputs (agc_Spec sample_agent)"
        and ns = "''ns''"] p
    by simp
qed

text \<open>
  Environment variable names of a projection repeat only in one case: a scalar field has
  the very name that the class declares for the full JSON. Otherwise they are distinct, and the
  field variables are sorted.
\<close>

theorem config_env_names:
  assumes "BuildConfigProjection x t (Some raw) i = Inr p" and "decodeConfigObject x raw = Inr flds"
    and "raw \<noteq> []"
  shows "distinct (map ev_Name (cp_Env p)) \<longleftrightarrow>
    \<not> (\<exists>m. ai_Config i = Some m \<and> im_Env m \<noteq> [] \<and> projectable flds (im_Env m) \<noteq> None)"
proof -
  define mount where "mount = (case ai_Config i of None \<Rightarrow> [] | Some m \<Rightarrow> im_Mount m)"
  define env where "env = (case ai_Config i of None \<Rightarrow> [] | Some m \<Rightarrow> im_Env m)"
  from BuildConfigProjection_Inr [OF assms, folded mount_def env_def] obtain envs where
    envs: "config_envs (mount \<noteq> [] \<or> env \<noteq> []) flds (sorted_keys (map fst flds)) = Inr envs"
    and penv: "cp_Env p = (if env = [] then envs else envs @ [\<lparr>ev_Name = env, ev_Value = raw\<rparr>])" by blast
  have names: "map ev_Name envs = filter (\<lambda>k. projectable flds k \<noteq> None) (sorted_keys (map fst flds))"
    using config_envs_Inr [OF envs] map_filter_env_names [of "projectable flds"] by simp
  have "projectable flds k \<noteq> None \<Longrightarrow> k \<in> fst ` set flds" for k
    by (force simp: projectable_def split: option.splits dest: map_of_SomeD)
  then have "env \<in> set (map ev_Name envs) \<longleftrightarrow> projectable flds env \<noteq> None" by (auto simp: names)
  moreover have "distinct (map ev_Name envs)" by (simp add: names)
  ultimately show ?thesis by (auto simp: penv env_def split: option.splits)
qed

theorem config_env_names_witness:
  "\<exists>p. BuildConfigProjection ref_ext ''t'' (Some sample_config) (ac_Inputs (agc_Spec sample_agent)) = Inr p \<and>
     distinct (map ev_Name (cp_Env p))"
proof -
  have d: "decodeConfigObject ref_ext sample_config = Inr [(''A'', JNumber ''1'')]" by code_simp
  have p: "BuildConfigProjection ref_ext ''t'' (Some sample_config) (ac_Inputs (agc_Spec sample_agent)) =
      Inr \<lparr>cp_Env = [\<lparr>ev_Name = ''A'', ev_Value = ''1''\<rparr>], cp_Volume = None, cp_Mount = None\<rparr>"
    by code_simp
  from config_env_names [OF p d] p show ?thesis by (simp add: sample_agent_def sample_config_def)
qed

end
