(* ===== verification/Go_Net.thy ===== *)
theory Go_Net
  imports Go_Strings
begin

text \<open>
  Go's \<open>net.ParseIP\<close>, \<open>net.ParseCIDR\<close>, \<open>IP.String\<close>, \<open>IP.To4\<close>, \<open>IP.Equal\<close> and
  \<open>IPNet.Contains\<close>, which the egress allowlist and the Result links are checked with. An IP
  address is the 16-byte form that \<open>net.ParseIP\<close> returns, as a list of byte values; an IPv4
  address has the prefix \<open>::ffff:0:0/96\<close>.
\<close>

type_synonym ip = "nat list"

definition v4_prefix :: "nat list" where
  "v4_prefix = replicate 10 0 @ [255, 255]"

definition valid_ip :: "ip \<Rightarrow> bool" where
  "valid_ip a \<longleftrightarrow> length a = 16 \<and> list_all (\<lambda>b. b < 256) a"

text \<open>\<open>IP.To4\<close>: the four last bytes of an IPv4 address.\<close>

definition To4 :: "ip \<Rightarrow> nat list option" where
  "To4 a = (if length a = 16 \<and> take 12 a = v4_prefix then Some (drop 12 a) else None)"

section \<open>IPv4\<close>

definition digit_val :: "char \<Rightarrow> nat option" where
  "digit_val c = (if 48 \<le> byte c \<and> byte c \<le> 57 then Some (byte c - 48) else None)"

text \<open>
  One field of a dotted quad: decimal digits, no leading zero, at most 255 at every digit
  read so far.
\<close>

fun octet_acc :: "nat \<Rightarrow> nat \<Rightarrow> string \<Rightarrow> nat option" where
  "octet_acc digLen val [] = (if digLen = 0 then None else Some val)"
| "octet_acc digLen val (c # s) =
     (case digit_val c of
        None \<Rightarrow> None
      | Some d \<Rightarrow> if digLen = 1 \<and> val = 0 then None
                  else if val * 10 + d > 255 then None
                  else octet_acc (Suc digLen) (val * 10 + d) s)"

definition parse_octet :: "string \<Rightarrow> nat option" where
  "parse_octet s = octet_acc 0 0 s"

definition parseIPv4Fields :: "string \<Rightarrow> nat list option" where
  "parseIPv4Fields s =
     (let fs = split_on (CHR ''.'') s in if length fs = 4 then those (map parse_octet fs) else None)"

section \<open>IPv6\<close>

definition hex_val :: "char \<Rightarrow> nat option" where
  "hex_val c =
     (let b = byte c
      in if 48 \<le> b \<and> b \<le> 57 then Some (b - 48)
         else if 97 \<le> b \<and> b \<le> 102 then Some (b - 87)
         else if 65 \<le> b \<and> b \<le> 70 then Some (b - 55) else None)"

text \<open>
  The hexadecimal group at the front of a string: its value, its number of digits and the
  rest. \<open>None\<close> when the group has more than four digits.
\<close>

fun hex_group :: "nat \<Rightarrow> nat \<Rightarrow> string \<Rightarrow> (nat \<times> nat \<times> string) option" where
  "hex_group off acc [] = Some (acc, off, [])"
| "hex_group off acc (c # s) =
     (case hex_val c of
        None \<Rightarrow> Some (acc, off, c # s)
      | Some d \<Rightarrow> if off > 3 then None else hex_group (Suc off) (acc * 16 + d) s)"

text \<open>
  The main loop of \<open>netip.parseIPv6\<close>. \<open>n\<close> counts the 16-bit groups that still fit, \<open>out\<close>
  holds the bytes read, \<open>ell\<close> the position of the ellipsis. The result is the bytes, the
  ellipsis and the unread rest.
\<close>

fun ipv6_loop :: "nat \<Rightarrow> nat list \<Rightarrow> nat option \<Rightarrow> string \<Rightarrow> (nat list \<times> nat option \<times> string) option"
where
  "ipv6_loop 0 out ell s = Some (out, ell, s)"
| "ipv6_loop (Suc n) out ell s =
     (case hex_group 0 0 s of
        None \<Rightarrow> None
      | Some (acc, off, rest) \<Rightarrow>
          if off = 0 then None
          else if rest \<noteq> [] \<and> hd rest = CHR ''.'' then
            (if ell = None \<and> length out \<noteq> 12 then None
             else if length out + 4 > 16 then None
             else (case parseIPv4Fields s of None \<Rightarrow> None | Some fs \<Rightarrow> Some (out @ fs, ell, [])))
          else
            (let out' = out @ [acc div 256, acc mod 256]
             in case rest of
                  [] \<Rightarrow> Some (out', ell, [])
                | c # rest1 \<Rightarrow>
                    if c \<noteq> CHR '':'' \<or> rest1 = [] then None
                    else if hd rest1 = CHR '':'' then
                      (if ell \<noteq> None then None
                       else if tl rest1 = [] then Some (out', Some (length out'), [])
                       else ipv6_loop n out' (Some (length out')) (tl rest1))
                    else ipv6_loop n out' ell rest1))"

definition expand_ellipsis :: "nat list \<Rightarrow> nat option \<Rightarrow> ip option" where
  "expand_ellipsis out ell =
     (if length out < 16
      then (case ell of None \<Rightarrow> None
            | Some e \<Rightarrow> Some (take e out @ replicate (16 - length out) 0 @ drop e out))
      else (case ell of None \<Rightarrow> Some out | Some e \<Rightarrow> None))"

definition parseIPv6 :: "string \<Rightarrow> ip option" where
  "parseIPv6 s =
     (let lead = HasPrefix s ''::'';
          s1 = (if lead then drop 2 s else s);
          ell = (if lead then Some 0 else None)
      in if lead \<and> s1 = [] then Some (replicate 16 0)
         else (case ipv6_loop 8 [] ell s1 of
                 None \<Rightarrow> None
               | Some (out, ell', rest) \<Rightarrow> if rest \<noteq> [] then None else expand_ellipsis out ell'))"

text \<open>
  \<open>netip.ParseAddr\<close> chooses the family by the first \<open>.\<close>, \<open>:\<close> or \<open>%\<close>. An address with a
  zone is never accepted by the callers, so a \<open>%\<close> anywhere is a failure. The first component
  of the result tells whether the address was written as IPv4.
\<close>

fun addr_family :: "string \<Rightarrow> char option" where
  "addr_family [] = None"
| "addr_family (c # s) = (if c \<in> set ''.:%'' then Some c else addr_family s)"

definition ParseAddr :: "string \<Rightarrow> (bool \<times> ip) option" where
  "ParseAddr s =
     (if ContainsByte s (CHR ''%'') then None
      else if addr_family s = Some (CHR ''.'') then
        map_option (\<lambda>fs. (True, v4_prefix @ fs)) (parseIPv4Fields s)
      else if addr_family s = Some (CHR '':'') then map_option (Pair False) (parseIPv6 s)
      else None)"

definition ParseIP :: "string \<Rightarrow> ip option" where
  "ParseIP s = map_option snd (ParseAddr s)"

section \<open>Printing\<close>

definition v4_string :: "nat list \<Rightarrow> string" where
  "v4_string fs = join_with ''.'' (map itoa_nat fs)"

fun groups16 :: "nat list \<Rightarrow> nat list" where
  "groups16 (a # b # bs) = (a * 256 + b) # groups16 bs"
| "groups16 bs = []"

fun hex_trim :: "nat \<Rightarrow> string" where
  "hex_trim n = (if n < 16 then [hex_digit n] else hex_trim (n div 16) @ [hex_digit (n mod 16)])"

declare hex_trim.simps [simp del]

text \<open>The length of the run of zero groups at the front of a list.\<close>

definition zero_run :: "nat list \<Rightarrow> nat" where
  "zero_run gs = length (takeWhile (\<lambda>g. g = 0) gs)"

text \<open>The first of the longest runs of at least two zero groups: its start and its end.\<close>

definition zero_span :: "nat list \<Rightarrow> (nat \<times> nat) option" where
  "zero_span gs =
     fold (\<lambda>i best. let l = zero_run (drop i gs) in
             case best of
               None \<Rightarrow> if l \<ge> 2 then Some (i, i + l) else None
             | Some (a, b) \<Rightarrow> if l > b - a then Some (i, i + l) else best)
       [0..<length gs] None"

definition v6_string :: "nat list \<Rightarrow> string" where
  "v6_string gs =
     (case zero_span gs of
        None \<Rightarrow> join_with '':'' (map hex_trim gs)
      | Some (a, b) \<Rightarrow> join_with '':'' (map hex_trim (take a gs)) @ ''::''
                       @ join_with '':'' (map hex_trim (drop b gs)))"

text \<open>\<open>IP.String\<close>\<close>

definition IP_String :: "ip \<Rightarrow> string" where
  "IP_String a = (case To4 a of Some fs \<Rightarrow> v4_string fs | None \<Rightarrow> v6_string (groups16 a))"

section \<open>CIDR blocks\<close>

record ipnet =
  net_IP :: "nat list"
  net_bits :: nat

text \<open>\<open>dtoi\<close>: decimal digits up to the end; a value of 0xFFFFFF or more is an overflow.\<close>

fun dtoi_acc :: "nat \<Rightarrow> string \<Rightarrow> nat option" where
  "dtoi_acc n [] = Some n"
| "dtoi_acc n (c # s) =
     (case digit_val c of
        None \<Rightarrow> None
      | Some d \<Rightarrow> if n * 10 + d \<ge> 0xFFFFFF then None else dtoi_acc (n * 10 + d) s)"

definition dtoi :: "string \<Rightarrow> nat option" where
  "dtoi s = (if s = [] then None else dtoi_acc 0 s)"

text \<open>The first \<open>bits\<close> bits of a byte sequence; the others are cleared.\<close>

fun mask_bytes :: "nat \<Rightarrow> nat list \<Rightarrow> nat list" where
  "mask_bytes bits [] = []"
| "mask_bytes bits (b # bs) =
     (if bits \<ge> 8 then b # mask_bytes (bits - 8) bs
      else (b div 2 ^ (8 - bits) * 2 ^ (8 - bits)) # mask_bytes 0 bs)"

text \<open>
  \<open>net.ParseCIDR\<close>. The network of an address written as IPv4 has four bytes and at most 32
  prefix bits, that of any other address sixteen bytes and at most 128 bits.
\<close>

definition ParseCIDR :: "string \<Rightarrow> ipnet option" where
  "ParseCIDR s =
     (case IndexByte s (CHR ''/'') of
        None \<Rightarrow> None
      | Some i \<Rightarrow>
          (case (ParseAddr (take i s), dtoi (drop (Suc i) s)) of
             (Some (is4, a), Some n) \<Rightarrow>
               if n > (if is4 then 32 else 128) then None
               else Some \<lparr>net_IP = mask_bytes n (if is4 then drop 12 a else a), net_bits = n\<rparr>
           | _ \<Rightarrow> None))"

text \<open>
  \<open>IPNet.Contains\<close>: the address and the network are both reduced to four bytes when they are
  IPv4 addresses in 16-byte form; then the lengths and the masked bytes must agree. A 16-byte
  network mask that goes with an IPv4 network is cut to its last four bytes.
\<close>

definition to4_or_self :: "nat list \<Rightarrow> nat list" where
  "to4_or_self a = (case To4 a of Some b \<Rightarrow> b | None \<Rightarrow> a)"

definition Contains :: "ipnet \<Rightarrow> ip \<Rightarrow> bool" where
  "Contains n a =
     (let nn = to4_or_self (net_IP n);
          bits = (if length nn < length (net_IP n) then net_bits n - 96 else net_bits n);
          x = to4_or_self a
      in length x = length nn \<and> mask_bytes bits nn = mask_bytes bits x)"

text \<open>\<open>IP.Equal\<close> on two 16-byte addresses.\<close>

definition IP_Equal :: "ip \<Rightarrow> ip \<Rightarrow> bool" where
  "IP_Equal a b \<longleftrightarrow> a = b"

section \<open>Facts\<close>

lemma length_octets: "those (map parse_octet fs) = Some bs \<Longrightarrow> length bs = length fs"
  by (induction fs arbitrary: bs) (auto split: option.splits)

lemma octet_acc_bound: "octet_acc l v s = Some b \<Longrightarrow> v < 256 \<Longrightarrow> b < 256"
  by (induction l v s rule: octet_acc.induct) (auto split: option.splits if_splits)

lemma parse_octet_bound: "parse_octet s = Some b \<Longrightarrow> b < 256"
  by (simp add: parse_octet_def octet_acc_bound)

lemma those_octets_bound: "those (map parse_octet fs) = Some bs \<Longrightarrow> list_all (\<lambda>b. b < 256) bs"
  by (induction fs arbitrary: bs) (auto split: option.splits dest: parse_octet_bound)

lemma parseIPv4Fields_valid:
  "parseIPv4Fields s = Some fs \<Longrightarrow> length fs = 4 \<and> list_all (\<lambda>b. b < 256) fs"
  by (auto simp: parseIPv4Fields_def Let_def length_octets those_octets_bound split: if_splits)

end
