(* ===== verification/Policy_Network.thy ===== *)
theory Policy_Network
  imports Reference_Env Go_Net
begin

text \<open>
  \<open>internal/policy/networkpolicy.go\<close>: the default-deny NetworkPolicy of a Task. The allowlist
  is resolved to CIDR blocks, one DNS lookup per host name, with the resolver as an argument
  (\<open>policy.Resolver\<close>). An empty allowlist gives a policy without any egress rule.
\<close>

section \<open>Resolvers\<close>

type_synonym 'w resolver = "string \<Rightarrow> 'w \<Rightarrow> (gerr + string list) \<times> 'w"

text \<open>\<open>DefaultResolver\<close> asks the process's resolver; \<open>StaticResolver\<close> serves fixed results.\<close>

definition DefaultResolver :: "'w ext \<Rightarrow> 'w resolver" where
  "DefaultResolver x = x_lookupHost x"

definition StaticResolver :: "(string \<rightharpoonup> string list) \<Rightarrow> gerr option \<Rightarrow> 'w resolver" where
  "StaticResolver hosts err host w =
     (case err of
        Some e \<Rightarrow> (Inl e, w)
      | None \<Rightarrow> (Inr (case hosts host of None \<Rightarrow> [] | Some as \<Rightarrow> as), w))"

text \<open>
  \<open>lookupWithTimeout\<close>: the deadline belongs to the resolver, and a lookup that runs into it is
  one of the errors the resolver may return.
\<close>

definition lookupWithTimeout :: "'w resolver \<Rightarrow> string \<Rightarrow> ('w, gerr + string list) op" where
  "lookupWithTimeout resolver host = outside (resolver host) (Dns host)"

section \<open>Allowlist entries\<close>

definition ipToCIDR :: "ip \<Rightarrow> string" where
  "ipToCIDR a = (if To4 a \<noteq> None then IP_String a @ ''/32'' else IP_String a @ ''/128'')"

fun HasHostnames :: "string list \<Rightarrow> bool" where
  "HasHostnames [] = False"
| "HasHostnames (entry # es) =
     (let e = TrimSpace entry
      in if e = [] \<or> ContainsByte e (CHR ''/'') \<or> ParseIP e \<noteq> None then HasHostnames es else True)"

text \<open>The addresses of a lookup that parse, as host CIDRs, in order.\<close>

definition addr_cidrs :: "string list \<Rightarrow> string list" where
  "addr_cidrs addrs = map ipToCIDR (List.map_filter ParseIP addrs)"

text \<open>
  The loop of \<open>resolveEgress\<close>. \<open>cidrs\<close> collects the keys of the Go map \<open>set\<close>; a key that is
  stored twice is there twice, and the final \<open>sorted_keys\<close> collapses it.
\<close>

definition invalid_cidr_error :: "'w ext \<Rightarrow> string \<Rightarrow> gerr" where
  "invalid_cidr_error x e = PermanentError (Wrapped
     (''egress entry '' @ Quote (x_unicode x) e @ '': invalid CIDR'') (Plain (''invalid CIDR address: '' @ e)))"

definition lookup_error :: "'w ext \<Rightarrow> string \<Rightarrow> gerr \<Rightarrow> gerr" where
  "lookup_error x e err =
     (let wrapped = Wrapped (''egress entry '' @ Quote (x_unicode x) e @ '': lookup failed'') err
      in if asDNSError err = Some True then PermanentError wrapped else wrapped)"

fun resolve_loop ::
  "'w ext \<Rightarrow> 'w resolver \<Rightarrow> string list \<Rightarrow> string list \<Rightarrow> ('w, gerr + string list) op" where
  "resolve_loop x resolver cidrs [] = State_Monad.return (Inr cidrs)"
| "resolve_loop x resolver cidrs (entry # es) =
     (let e = TrimSpace entry
      in if e = [] then resolve_loop x resolver cidrs es
         else if ContainsByte e (CHR ''/'') then
           (if ParseCIDR e = None then State_Monad.return (Inl (invalid_cidr_error x e))
            else resolve_loop x resolver (cidrs @ [e]) es)
         else case ParseIP e of
           Some a \<Rightarrow> resolve_loop x resolver (cidrs @ [ipToCIDR a]) es
         | None \<Rightarrow> do {
             r \<leftarrow> lookupWithTimeout resolver e;
             case r of
               Inl err \<Rightarrow> State_Monad.return (Inl (lookup_error x e err))
             | Inr addrs \<Rightarrow> resolve_loop x resolver (cidrs @ addr_cidrs addrs) es })"

definition resolveEgress :: "'w ext \<Rightarrow> 'w resolver \<Rightarrow> string list \<Rightarrow> ('w, gerr + string list) op" where
  "resolveEgress x resolver egress = do {
     r \<leftarrow> resolve_loop x resolver [] egress;
     State_Monad.return (map_sum id sorted_keys r) }"

section \<open>Rules\<close>

definition ip_block :: "string \<Rightarrow> NetworkPolicyPeer" where
  "ip_block c = \<lparr>peer_PodSelector = None, peer_NamespaceSelector = None, peer_IPBlock = Some c\<rparr>"

definition toIPBlocks :: "string list \<Rightarrow> NetworkPolicyPeer list" where
  "toIPBlocks cidrs = map ip_block cidrs"

abbreviation DefaultEgressPort :: int where "DefaultEgressPort \<equiv> 443"

definition both_protocols :: "int \<Rightarrow> NetworkPolicyPort list" where
  "both_protocols p = [\<lparr>np_Protocol = TCP, np_Port = p\<rparr>, \<lparr>np_Protocol = UDP, np_Port = p\<rparr>]"

text \<open>\<open>slices.Compact\<close> removes adjacent duplicates, which after sorting are all duplicates.\<close>

definition egressPorts :: "int list \<Rightarrow> NetworkPolicyPort list" where
  "egressPorts ports =
     (let ps = (if ports = [] then [DefaultEgressPort] else ports)
      in concat (map both_protocols (remdups_adj (sort ps))))"

abbreviation dnsPort :: int where "dnsPort \<equiv> 53"
abbreviation kubeSystemNamespace :: string where "kubeSystemNamespace \<equiv> ''kube-system''"
abbreviation namespaceNameLabel :: string where "namespaceNameLabel \<equiv> ''kubernetes.io/metadata.name''"
abbreviation kubeDNSSelectorKey :: string where "kubeDNSSelectorKey \<equiv> ''k8s-app''"
abbreviation kubeDNSSelectorValue :: string where "kubeDNSSelectorValue \<equiv> ''kube-dns''"

definition dnsEgressRule :: NetworkPolicyEgressRule where
  "dnsEgressRule = \<lparr>
     er_To = [\<lparr>peer_PodSelector = Some (Some [(kubeDNSSelectorKey, kubeDNSSelectorValue)]),
       peer_NamespaceSelector = Some (Some [(namespaceNameLabel, kubeSystemNamespace)]),
       peer_IPBlock = None\<rparr>],
     er_Ports = [\<lparr>np_Protocol = UDP, np_Port = dnsPort\<rparr>, \<lparr>np_Protocol = TCP, np_Port = dnsPort\<rparr>]\<rparr>"

definition egress_rules :: "string list \<Rightarrow> string list \<Rightarrow> int list \<Rightarrow> NetworkPolicyEgressRule list" where
  "egress_rules egress cidrs ports =
     (if egress = [] then []
      else dnsEgressRule #
        (if cidrs = [] then [] else [\<lparr>er_To = toIPBlocks cidrs, er_Ports = egressPorts ports\<rparr>]))"

definition network_policy :: "string \<Rightarrow> string \<Rightarrow> NetworkPolicyEgressRule list \<Rightarrow> NetworkPolicy" where
  "network_policy taskName namespace rules = \<lparr>
     netp_Meta = ownedMeta taskName namespace taskName,
     netp_Spec = \<lparr>nps_PodSelector = PodSelectorLabels taskName,
       nps_PolicyTypes = [PolicyTypeIngress, PolicyTypeEgress], nps_Ingress = [], nps_Egress = rules\<rparr>\<rparr>"

definition BuildNetworkPolicy ::
  "'w ext \<Rightarrow> 'w resolver \<Rightarrow> string \<Rightarrow> string \<Rightarrow> string list \<Rightarrow> int list \<Rightarrow> ('w, gerr + NetworkPolicy) op" where
  "BuildNetworkPolicy x resolver taskName namespace egress ports = do {
     r \<leftarrow> resolveEgress x resolver egress;
     case r of
       Inl err \<Rightarrow> State_Monad.return (Inl err)
     | Inr cidrs \<Rightarrow> State_Monad.return (Inr (network_policy taskName namespace (egress_rules egress cidrs ports))) }"

interpretation netpol_builder:
  owned_builder "\<lambda>t ns rules. Some (ONetworkPolicy (network_policy t ns rules))" KNetworkPolicy "\<lambda>t. t"
  by unfold_locales (auto simp: network_policy_def)

section \<open>What an entry allows\<close>

text \<open>
  The specification of the resolution: the CIDR blocks that an allowlist entry stands for, given
  the answers of the resolver that the run observed.
\<close>

definition answers :: "obs list \<Rightarrow> string \<Rightarrow> string list \<Rightarrow> bool" where
  "answers l h addrs \<longleftrightarrow> Dns h (Inr addrs) \<in> set l"

definition entry_allows :: "obs list \<Rightarrow> string \<Rightarrow> string \<Rightarrow> bool" where
  "entry_allows l entry c \<longleftrightarrow>
     (let e = TrimSpace entry
      in e \<noteq> [] \<and>
         (if ContainsByte e (CHR ''/'') then ParseCIDR e \<noteq> None \<and> c = e
          else case ParseIP e of
            Some a \<Rightarrow> c = ipToCIDR a
          | None \<Rightarrow> \<exists>addrs a ip. answers l e addrs \<and> a \<in> set addrs \<and> ParseIP a = Some ip \<and> c = ipToCIDR ip))"

lemma entry_allows_mono: "entry_allows l e c \<Longrightarrow> set l \<subseteq> set l' \<Longrightarrow> entry_allows l' e c"
  unfolding entry_allows_def answers_def Let_def by (auto split: if_splits option.splits; blast)

lemma set_addr_cidrs: "set (addr_cidrs addrs) = {c. \<exists>a ip. a \<in> set addrs \<and> ParseIP a = Some ip \<and> c = ipToCIDR ip}"
  by (induction addrs) (auto simp: addr_cidrs_def map_filter_simps split: option.splits)

lemma set_both_protocols: "q \<in> set (both_protocols p) \<longleftrightarrow> np_Port q = p"
  by (cases q, cases "np_Protocol q") (auto simp: both_protocols_def)

lemma set_egressPorts: "set (egressPorts ports) = {q. np_Port q \<in> set (if ports = [] then [DefaultEgressPort] else ports)}"
  by (auto simp: egressPorts_def Let_def set_both_protocols)

section \<open>The resolution meets its specification\<close>

definition hostname_entry :: "string \<Rightarrow> bool" where
  "hostname_entry e \<longleftrightarrow> e \<noteq> [] \<and> \<not> ContainsByte e (CHR ''/'') \<and> ParseIP e = None"

definition bad_cidr :: "string \<Rightarrow> bool" where
  "bad_cidr e \<longleftrightarrow> ContainsByte e (CHR ''/'') \<and> ParseCIDR e = None"

definition lookups_only :: "string list \<Rightarrow> obs list \<Rightarrow> bool" where
  "lookups_only egress l \<longleftrightarrow>
     (\<forall>ob \<in> set l. \<exists>e \<in> set egress. \<exists>a. ob = Dns (TrimSpace e) a \<and> hostname_entry (TrimSpace e))"

definition resolved :: "string list \<Rightarrow> string list \<Rightarrow> gerr + string list \<Rightarrow> obs list \<Rightarrow> bool" where
  "resolved cidrs egress r l \<longleftrightarrow> lookups_only egress l \<and>
     (case r of
        Inr out \<Rightarrow> (\<forall>c. c \<in> set out \<longleftrightarrow> c \<in> set cidrs \<or> (\<exists>e \<in> set egress. entry_allows l e c)) \<and>
          (\<forall>e \<in> set egress. \<not> bad_cidr (TrimSpace e))
      | Inl err \<Rightarrow>
          (\<exists>e \<in> set egress. bad_cidr (TrimSpace e) \<and> IsPermanent err) \<or>
          (\<exists>h d. Dns h (Inl d) \<in> set l \<and> (IsPermanent err \<longleftrightarrow> IsPermanent d \<or> asDNSError d = Some True)))"

lemma lookups_only_answers:
  "lookups_only egress l \<Longrightarrow> answers l h addrs \<Longrightarrow> \<exists>e \<in> set egress. TrimSpace e = h \<and> hostname_entry h"
  unfolding lookups_only_def answers_def by fastforce

lemma entry_allows_cases:
  "entry_allows l entry c \<longleftrightarrow>
     (let e = TrimSpace entry
      in e \<noteq> [] \<and> (ContainsByte e (CHR ''/'') \<and> ParseCIDR e \<noteq> None \<and> c = e \<or>
         \<not> ContainsByte e (CHR ''/'') \<and> (\<exists>a. ParseIP e = Some a \<and> c = ipToCIDR a) \<or>
         hostname_entry e \<and> (\<exists>addrs. answers l e addrs \<and> c \<in> set (addr_cidrs addrs))))"
  by (auto simp: entry_allows_def Let_def hostname_entry_def set_addr_cidrs split: option.splits)

lemma resolved_weaken_skip:
  "resolved cidrs es r l \<Longrightarrow> (\<And>c l. entry_allows l e c \<longleftrightarrow> c \<in> set new) \<Longrightarrow> \<not> bad_cidr (TrimSpace e) \<Longrightarrow>
   set cidrs = set cidrs' \<union> set new \<Longrightarrow>
   resolved cidrs' (e # es) r l"
  by (cases r) (auto simp: resolved_def lookups_only_def)

lemma resolved_lookup:
  assumes r: "resolved (cidrs @ addr_cidrs addrs) es r l" and h: "hostname_entry (TrimSpace e)"
  shows "resolved cidrs (e # es) r (Dns (TrimSpace e) (Inr addrs) # l)"
proof -
  let ?h = "TrimSpace e" and ?l = "Dns (TrimSpace e) (Inr addrs) # l"
  have only: "lookups_only es l" using r by (simp add: resolved_def)
  have cons: "answers ?l h as \<longleftrightarrow> h = ?h \<and> as = addrs \<or> answers l h as" for h as
    by (auto simp: answers_def)
  have key: "(\<exists>f \<in> set (e # es). entry_allows ?l f c) \<longleftrightarrow>
      c \<in> set (addr_cidrs addrs) \<or> (\<exists>f \<in> set es. entry_allows l f c)" for c
  proof
    assume "\<exists>f \<in> set (e # es). entry_allows ?l f c"
    then obtain f where f: "f \<in> set (e # es)" "entry_allows ?l f c" by blast
    show "c \<in> set (addr_cidrs addrs) \<or> (\<exists>f \<in> set es. entry_allows l f c)"
    proof (cases "hostname_entry (TrimSpace f)")
      case True
      with f(2) obtain as where as: "answers ?l (TrimSpace f) as" "c \<in> set (addr_cidrs as)"
        by (auto simp: entry_allows_cases Let_def hostname_entry_def)
      show ?thesis
      proof (cases "answers l (TrimSpace f) as")
        case True
        with only obtain g where "g \<in> set es" "TrimSpace g = TrimSpace f" "hostname_entry (TrimSpace f)"
          using lookups_only_answers by blast
        with True as(2) have "entry_allows l g c"
          by (auto simp: entry_allows_cases Let_def hostname_entry_def)
        with \<open>g \<in> set es\<close> show ?thesis by blast
      qed (use as cons in auto)
    next
      case False
      with f h have "f \<in> set es" by auto
      with False f(2) show ?thesis by (auto simp: entry_allows_cases Let_def)
    qed
  next
    assume "c \<in> set (addr_cidrs addrs) \<or> (\<exists>f \<in> set es. entry_allows l f c)"
    then show "\<exists>f \<in> set (e # es). entry_allows ?l f c"
      using h cons by (auto simp: entry_allows_cases Let_def hostname_entry_def)
  qed
  have "\<not> bad_cidr ?h" using h by (simp add: hostname_entry_def bad_cidr_def)
  moreover have "lookups_only (e # es) ?l" using only h by (auto simp: lookups_only_def)
  ultimately show ?thesis
    using r key by (cases r) (auto simp: resolved_def)
qed

lemma IsPermanent_invalid_cidr [simp]: "IsPermanent (invalid_cidr_error x e)"
  by (simp add: invalid_cidr_error_def)

lemma IsPermanent_lookup_error [simp]:
  "IsPermanent (lookup_error x e d) \<longleftrightarrow> IsPermanent d \<or> asDNSError d = Some True"
  by (simp add: lookup_error_def Let_def)

lemma resolve_loop_emits: "emits (resolve_loop x resolver cidrs egress) (resolved cidrs egress)"
proof (induction egress arbitrary: cidrs)
  case Nil
  show ?case by (simp, rule emits_return) (simp add: resolved_def lookups_only_def)
next
  case (Cons entry es)
  let ?e = "TrimSpace entry"
  consider "?e = []" | "?e \<noteq> []" "ContainsByte ?e (CHR ''/'')" "ParseCIDR ?e = None"
    | "?e \<noteq> []" "ContainsByte ?e (CHR ''/'')" "ParseCIDR ?e \<noteq> None"
    | a where "?e \<noteq> []" "\<not> ContainsByte ?e (CHR ''/'')" "ParseIP ?e = Some a"
    | "hostname_entry ?e"
    unfolding hostname_entry_def by (metis option.exhaust)
  then show ?case
  proof cases
    case 1
    then have "\<not> entry_allows l entry c" for l c by (simp add: entry_allows_cases)
    with 1 show ?thesis
      by (auto intro!: emits_weaken [OF Cons.IH] resolved_weaken_skip [where new = "[]"]
          simp: bad_cidr_def ContainsByte_def)
  next
    case 2
    then show ?thesis
      by (simp add: Let_def) (rule emits_return, simp add: resolved_def lookups_only_def bad_cidr_def)
  next
    case 3
    then have "entry_allows l entry c \<longleftrightarrow> c \<in> set [?e]" for l c
      by (auto simp: entry_allows_cases Let_def hostname_entry_def)
    with 3 show ?thesis
      by (auto intro!: emits_weaken [OF Cons.IH] resolved_weaken_skip [where new = "[?e]"]
          simp: bad_cidr_def simp del: set_simps)
  next
    case 4
    then have "entry_allows l entry c \<longleftrightarrow> c \<in> set [ipToCIDR a]" for l c
      by (auto simp: entry_allows_cases Let_def hostname_entry_def)
    with 4 show ?thesis
      by (auto intro!: emits_weaken [OF Cons.IH] resolved_weaken_skip [where new = "[ipToCIDR a]"]
          simp: bad_cidr_def)
  next
    case 5
    then have "resolve_loop x resolver cidrs (entry # es) = do {
        r \<leftarrow> lookupWithTimeout resolver ?e;
        case r of
          Inl err \<Rightarrow> State_Monad.return (Inl (lookup_error x ?e err))
        | Inr addrs \<Rightarrow> resolve_loop x resolver (cidrs @ addr_cidrs addrs) es }"
      by (simp add: hostname_entry_def Let_def)
    moreover have "emits (lookupWithTimeout resolver ?e) (\<lambda>r l. l = [Dns ?e r])"
      unfolding lookupWithTimeout_def by (rule emits_outside) simp
    moreover have "emits (case r of
          Inl err \<Rightarrow> State_Monad.return (Inl (lookup_error x ?e err))
        | Inr addrs \<Rightarrow> resolve_loop x resolver (cidrs @ addr_cidrs addrs) es)
        (\<lambda>r' l2. resolved cidrs (entry # es) r' ([Dns ?e r] @ l2))" for r
    proof (cases r)
      case (Inl err)
      then show ?thesis using 5
        by (auto intro!: emits_return simp: resolved_def lookups_only_def)
    next
      case (Inr addrs)
      then show ?thesis using 5 by (auto intro!: emits_weaken [OF Cons.IH] resolved_lookup)
    qed
    ultimately show ?thesis by (auto intro!: emits_bind)
  qed
qed

lemma resolveEgress_emits: "emits (resolveEgress x resolver egress)
    (\<lambda>r l. resolved [] egress r l \<and> (\<forall>cs. r = Inr cs \<longrightarrow> sorted cs \<and> distinct cs))"
  unfolding resolveEgress_def
proof (rule emits_bind [OF resolve_loop_emits], rule emits_return)
  fix r l1
  assume "resolved [] egress r l1"
  then show "resolved [] egress (map_sum id sorted_keys r) (l1 @ []) \<and>
      (\<forall>cs. map_sum id sorted_keys r = Inr cs \<longrightarrow> sorted cs \<and> distinct cs)"
    by (cases r) (auto simp: resolved_def)
qed

section \<open>The policy as a filter\<close>

text \<open>
  What the policy lets through to an IP address: some rule has an IP block that contains the
  address and lists the port for the protocol.
\<close>

definition block_contains :: "NetworkPolicyPeer \<Rightarrow> ip \<Rightarrow> bool" where
  "block_contains peer a =
     (case peer_IPBlock peer of
        None \<Rightarrow> False
      | Some c \<Rightarrow> (case ParseCIDR c of None \<Rightarrow> False | Some n \<Rightarrow> Contains n a))"

definition permits :: "NetworkPolicy \<Rightarrow> ip \<Rightarrow> Protocol \<Rightarrow> int \<Rightarrow> bool" where
  "permits np a pr p \<longleftrightarrow>
     list_ex (\<lambda>rule. list_ex (\<lambda>peer. block_contains peer a) (er_To rule) \<and>
       list_ex (\<lambda>q. np_Protocol q = pr \<and> np_Port q = p) (er_Ports rule)) (nps_Egress (netp_Spec np))"

definition cidr_has :: "string \<Rightarrow> ip \<Rightarrow> bool" where
  "cidr_has c a = (case ParseCIDR c of None \<Rightarrow> False | Some n \<Rightarrow> Contains n a)"

lemma block_contains_ip_block [simp]: "block_contains (ip_block c) a = cidr_has c a"
  by (simp add: block_contains_def ip_block_def cidr_has_def)

lemma dns_rule_no_block [simp]: "\<not> list_ex (\<lambda>peer. block_contains peer a) (er_To dnsEgressRule)"
  by (simp add: dnsEgressRule_def block_contains_def)

lemma egressPorts_lists:
  "list_ex (\<lambda>q. np_Protocol q = pr \<and> np_Port q = p) (egressPorts ports) \<longleftrightarrow>
     p \<in> set (if ports = [] then [DefaultEgressPort] else ports)"
proof -
  have "\<exists>q :: NetworkPolicyPort. np_Protocol q = pr \<and> np_Port q = p"
    by (rule exI [of _ "\<lparr>np_Protocol = pr, np_Port = p\<rparr>"]) simp
  then show ?thesis unfolding list_ex_iff set_egressPorts by auto
qed

lemma permits_rules:
  "permits (network_policy t ns (egress_rules egress cidrs ports)) a pr p \<longleftrightarrow>
     egress \<noteq> [] \<and> (\<exists>c \<in> set cidrs. cidr_has c a) \<and> p \<in> set (if ports = [] then [DefaultEgressPort] else ports)"
proof -
  have "list_ex (\<lambda>peer. block_contains peer a) (toIPBlocks cidrs) \<longleftrightarrow> (\<exists>c \<in> set cidrs. cidr_has c a)"
    by (auto simp: toIPBlocks_def list_ex_iff)
  then show ?thesis
    by (auto simp: permits_def network_policy_def egress_rules_def egressPorts_lists)
qed

lemma HasHostnames_iff: "HasHostnames egress \<longleftrightarrow> (\<exists>e \<in> set egress. hostname_entry (TrimSpace e))"
  by (induction egress) (auto simp: hostname_entry_def Let_def)

lemma BuildNetworkPolicy_emits: "emits (BuildNetworkPolicy x resolver t ns egress ports)
    (\<lambda>r l. lookups_only egress l \<and> (case r of
        Inl err \<Rightarrow> resolved [] egress (Inl err) l
      | Inr np \<Rightarrow> \<exists>cidrs. np = network_policy t ns (egress_rules egress cidrs ports) \<and>
          resolved [] egress (Inr cidrs) l \<and> sorted cidrs \<and> distinct cidrs))"
  unfolding BuildNetworkPolicy_def
proof (rule emits_bind [OF resolveEgress_emits])
  fix r l1
  assume *: "resolved [] egress r l1 \<and> (\<forall>cs. r = Inr cs \<longrightarrow> sorted cs \<and> distinct cs)"
  then have "lookups_only egress l1" by (simp add: resolved_def)
  with * show "emits (case r of Inl err \<Rightarrow> State_Monad.return (Inl err)
      | Inr cidrs \<Rightarrow> State_Monad.return (Inr (network_policy t ns (egress_rules egress cidrs ports))))
     (\<lambda>r l. lookups_only egress (l1 @ l) \<and> (case r of Inl err \<Rightarrow> resolved [] egress (Inl err) (l1 @ l)
      | Inr np \<Rightarrow> \<exists>cidrs. np = network_policy t ns (egress_rules egress cidrs ports) \<and>
          resolved [] egress (Inr cidrs) (l1 @ l) \<and> sorted cidrs \<and> distinct cidrs))"
    by (cases r) (auto intro!: emits_return)
qed

section \<open>Properties\<close>

text \<open>
  Default deny: with an empty allowlist the policy is built without any lookup, it
  applies to ingress and egress, and it has no ingress rule and no egress rule at all, not
  even for DNS; so nothing is permitted.
\<close>

theorem empty_egress_denies_all:
  "\<exists>np. run_state (BuildNetworkPolicy x resolver t ns [] ports) s = (Inr np, s) \<and>
     nps_PolicyTypes (netp_Spec np) = [PolicyTypeIngress, PolicyTypeEgress] \<and>
     nps_Ingress (netp_Spec np) = [] \<and> nps_Egress (netp_Spec np) = [] \<and>
     nps_PodSelector (netp_Spec np) = PodSelectorLabels t \<and> (\<forall>a pr p. \<not> permits np a pr p)"
  by (simp add: BuildNetworkPolicy_def resolveEgress_def State_Monad.bind_def State_Monad.return_def
      network_policy_def egress_rules_def permits_def)



text \<open>
  C31. A failed build is permanent only for a spec problem: when no entry is a malformed CIDR
  block and no lookup of the run failed with "no such host" (or with an error that is itself
  permanent), the error is not a PermanentError, so the caller retries.
\<close>

theorem transient_lookup_not_permanent:
  assumes "run_state (BuildNetworkPolicy x resolver t ns egress ports) s = (Inl err, s')"
    and "\<And>e. e \<in> set egress \<Longrightarrow> \<not> bad_cidr (TrimSpace e)"
    and "\<And>h d. Dns h (Inl d) \<in> set (obslog s') \<Longrightarrow> asDNSError d \<noteq> Some True \<and> \<not> IsPermanent d"
  shows "\<not> IsPermanent err"
  using BuildNetworkPolicy_emits assms(1)
proof (rule emitsE)
  fix l
  assume "obslog s' = obslog s @ l"
    and "lookups_only egress l \<and> (case Inl err of
        Inl err \<Rightarrow> resolved [] egress (Inl err) l
      | Inr np \<Rightarrow> \<exists>cidrs. np = network_policy t ns (egress_rules egress cidrs ports) \<and>
          resolved [] egress (Inr cidrs) l \<and> sorted cidrs \<and> distinct cidrs)"
  then show ?thesis using assms(2,3) by (auto simp: resolved_def)
qed

theorem transient_lookup_not_permanent_witness:
  "\<exists>err. fst (run_state (BuildNetworkPolicy ref_ext (StaticResolver Map.empty (Some (DNSError ''timeout'' False)))
      ''t'' ''ns'' [''h''] []) \<lparr>world = sample_store, obslog = []\<rparr>) = Inl err \<and> \<not> IsPermanent err"
proof -
  let ?s = "\<lparr>world = sample_store, obslog = []\<rparr>"
  let ?r = "StaticResolver Map.empty (Some (DNSError ''timeout'' False))"
  have eval: "TrimSpace ''h'' = ''h''" "\<not> ContainsByte ''h'' (CHR ''/'')" "ParseIP ''h'' = None" by code_simp+
  have run: "run_state (BuildNetworkPolicy ref_ext ?r ''t'' ''ns'' [''h''] []) ?s
      = (Inl (lookup_error ref_ext ''h'' (DNSError ''timeout'' False)),
         ?s\<lparr>obslog := [Dns ''h'' (Inl (DNSError ''timeout'' False))]\<rparr>)"
    by (simp add: BuildNetworkPolicy_def resolveEgress_def Let_def eval lookupWithTimeout_def outside_def
        StaticResolver_def State_Monad.bind_def State_Monad.return_def)
  have "\<not> IsPermanent (lookup_error ref_ext ''h'' (DNSError ''timeout'' False))"
    by (rule transient_lookup_not_permanent [OF run]) (simp_all add: bad_cidr_def eval)
  with run show ?thesis by simp
qed

text \<open>
  The periodic refresh is needed only for names: an allowlist has host names according to
  \<open>HasHostnames\<close> exactly when building its policy may ask the resolver; without host names a
  build makes no lookup, whatever its result.
\<close>

theorem no_hostnames_no_lookup:
  assumes "\<not> HasHostnames egress"
  shows "obslog (snd (run_state (BuildNetworkPolicy x resolver t ns egress ports) s)) = obslog s"
proof -
  obtain r s' where run: "run_state (BuildNetworkPolicy x resolver t ns egress ports) s = (r, s')" by fastforce
  from BuildNetworkPolicy_emits run obtain l where "obslog s' = obslog s @ l" "lookups_only egress l"
    by (rule emitsE) blast
  with assms run show ?thesis by (cases l) (auto simp: HasHostnames_iff lookups_only_def)
qed

theorem no_hostnames_no_lookup_witness:
  "obslog (snd (run_state (BuildNetworkPolicy ref_ext (DefaultResolver ref_ext) ''t'' ''ns'' [''10.0.0.0/8''] [])
     \<lparr>world = sample_store, obslog = []\<rparr>)) = []"
proof -
  have "\<not> HasHostnames [''10.0.0.0/8'']" by code_simp
  from no_hostnames_no_lookup [OF this, of ref_ext "DefaultResolver ref_ext" "''t''" "''ns''" "[]"
      "\<lparr>world = sample_store, obslog = []\<rparr>"] show ?thesis by simp
qed

end
