(* ===== verification/Go_Float.thy ===== *)
theory Go_Float
  imports Go_Time
begin

text \<open>
  Accuracy of \<open>int64(d.Seconds())\<close>: what the way through \<open>float64\<close> may add to the whole seconds of
  a duration. The rounding of a quotient is off by at most half a unit in the last place, and
  never crosses a representable value.
\<close>

section \<open>Rounding\<close>

lemma div_half_even_ge: "0 < d \<Longrightarrow> c * d \<le> n \<Longrightarrow> c \<le> div_half_even n (d :: int)"
  using zdiv_mono1 [of "c * d" n d] by (simp add: div_half_even_def Let_def)

lemma div_below: "0 < d \<Longrightarrow> n < c * d \<Longrightarrow> n div d < (c :: int)"
proof -
  assume d: "0 < d" and "n < c * d"
  moreover have "n div d * d \<le> n" using pos_mod_sign [OF d, of n] div_mult_mod_eq [of n d] by linarith
  ultimately have "n div d * d < c * d" by linarith
  with d show ?thesis by simp
qed

lemma div_half_even_le: "0 < d \<Longrightarrow> n \<le> c * (d :: int) \<Longrightarrow> div_half_even n d \<le> c"
  by (cases "n = c * d") (use div_below [of d n c] in \<open>auto simp: div_half_even_def Let_def\<close>)

lemma div_half_even_nearest: "0 < d \<Longrightarrow> 2 * div_half_even n d * d \<le> 2 * n + (d :: int)"
proof -
  assume d: "0 < d"
  let ?q = "n div d * d" and ?r = "n mod d"
  have n: "n = ?q + ?r" by simp
  have r: "?r < d" "0 \<le> ?r" using d by simp_all
  show ?thesis
  proof (cases "2 * ?r < d \<or> 2 * ?r = d \<and> even (n div d)")
    case True
    then have "2 * div_half_even n d * d = 2 * ?q" by (auto simp: div_half_even_def)
    with n r d show ?thesis by linarith
  next
    case False
    then have "div_half_even n d = n div d + 1" by (auto simp: div_half_even_def Let_def)
    then have "2 * div_half_even n d * d = 2 * ?q + 2 * d" by (simp add: algebra_simps)
    moreover have "d \<le> 2 * ?r" using False by linarith
    ultimately show ?thesis using n by linarith
  qed
qed

lemma bitlen_bounds: "0 < n \<Longrightarrow> 0 < bitlen n \<and> 2 ^ (nat (bitlen n) - 1) \<le> n \<and> n < 2 ^ nat (bitlen n)"
proof -
  assume "0 < n"
  then have fl: "2 ^ (floorlog 2 (nat n) - 1) \<le> nat n" "nat n < 2 ^ floorlog 2 (nat n)" "0 < floorlog 2 (nat n)"
    using floorlog_bounds [of "nat n" 2] by (auto simp: floorlog_def)
  then have "int (2 ^ (floorlog 2 (nat n) - 1)) \<le> int (nat n)" "int (nat n) < int (2 ^ floorlog 2 (nat n))"
    by (simp_all only: of_nat_le_iff of_nat_less_iff)
  with \<open>0 < n\<close> fl(3) show ?thesis by (simp add: bitlen_def)
qed

text \<open>A quotient below \<open>2 ^ j\<close> keeps at least \<open>53 - j\<close> bits after the point.\<close>

lemma f64_quot_fraction:
  assumes n: "0 < n" and d: "0 < d" and small: "n < d * 2 ^ j" and j: "j < 53"
  shows "\<exists>s \<ge> 53 - j. f64_quot n d = (div_half_even (n * 2 ^ s) d, - int s)"
proof -
  let ?e0 = "bitlen n - bitlen d - 53"
  let ?q0 = "case scaled n d ?e0 of (a, b) \<Rightarrow> a div b"
  note bn = bitlen_bounds [OF n] and bd = bitlen_bounds [OF d]
  have "2 ^ (nat (bitlen n) - 1) < (2 :: int) ^ (nat (bitlen d) + j)"
  proof -
    have "d * 2 ^ j < 2 ^ nat (bitlen d) * 2 ^ j" using bd by simp
    with small bn have "2 ^ (nat (bitlen n) - 1) < 2 ^ nat (bitlen d) * (2 :: int) ^ j" by linarith
    then show ?thesis by (simp only: power_add)
  qed
  then have "nat (bitlen n) - 1 < nat (bitlen d) + j" by simp
  then have e0: "?e0 \<le> int j - 53" using bn bd by linarith
  define s0 where "s0 = nat (- ?e0)"
  have s0: "?e0 = - int s0" "53 - j \<le> s0" using e0 j by (simp_all add: s0_def)
  then have s0pos: "0 < s0" using j by simp
  have q0: "?q0 = n * 2 ^ s0 div d" using s0 s0pos by (simp add: scaled_def)
  show ?thesis
  proof (cases "?q0 < 2 ^ 53")
    case True
    then have "f64_quot n d = (div_half_even (n * 2 ^ s0) d, - int s0)"
      using n s0 s0pos by (simp add: f64_quot_def Let_def scaled_def)
    with s0(2) show ?thesis by blast
  next
    case False
    then have "2 ^ 53 * d \<le> (n * 2 ^ s0 div d) * d" using q0 d by simp
    also have "\<dots> \<le> n * 2 ^ s0" using d pos_mod_sign [OF d, of "n * 2 ^ s0"] div_mult_mod_eq [of "n * 2 ^ s0" d] by linarith
    also have "\<dots> < d * 2 ^ j * 2 ^ s0" using small by simp
    finally have "d * 2 ^ 53 < d * (2 :: int) ^ (j + s0)" by (simp add: power_add ac_simps)
    then have "(2 :: int) ^ 53 < 2 ^ (j + s0)" using d by (simp only: mult_less_cancel_left_pos)
    then have "53 < j + s0" by (rule power_less_imp_less_exp [rotated]) simp
    then have s: "53 - j \<le> s0 - 1" "?e0 + 1 = - int (s0 - 1)" "0 < s0 - 1" "nat (int s0 - 1) = s0 - 1" using s0 s0pos j by auto
    with False have "f64_quot n d = (div_half_even (n * 2 ^ (s0 - 1)) d, - int (s0 - 1))"
      using n by (simp add: f64_quot_def Let_def scaled_def)
    with s(1) show ?thesis by blast
  qed
qed

section \<open>Whole seconds\<close>

lemma f64_trunc_fraction: "0 \<le> m \<Longrightarrow> 0 < s \<Longrightarrow> f64_trunc (m, - int s) = m div 2 ^ s"
  by (cases "m = 0") (simp_all add: f64_trunc_def)

lemma trunc_whole:
  assumes "0 \<le> k" and "k < 2 ^ 34"
  shows "f64_trunc (f64_quot k 1) = k"
proof (cases "k = 0")
  case False
  with assms f64_quot_fraction [of k 1 34] obtain s where "s \<ge> 19" "f64_quot k 1 = (div_half_even (k * 2 ^ s) 1, - int s)" by auto
  with assms show ?thesis by (simp add: div_half_even_def f64_trunc_fraction)
qed (simp add: f64_quot_def f64_trunc_def)

lemma fraction_scaled:
  fixes A :: int
  assumes "r < Second" and "0 \<le> A" and "2 * m1 * Second \<le> 2 * (r * A) + Second"
  shows "2 * m1 * Second \<le> 2 * Second * A - 2 * A + Second"
proof -
  obtain p where p: "p = r * A" by simp
  have "p \<le> 999999999 * A" unfolding p using assms(1,2) by (intro mult_right_mono) auto
  with assms(3) show ?thesis unfolding p [symmetric] by linarith
qed

text \<open>With 30 bits after the point, the rounded sum stays below the next second.\<close>

lemma sum_below:
  fixes A B :: int
  assumes m1: "2 * m1 * Second \<le> 2 * Second * A - 2 * A + Second"
    and near: "2 * m2 * A \<le> 2 * ((k * A + m1) * B) + A" and A: "2 ^ 53 \<le> A" and B: "2 ^ 30 \<le> B"
  shows "m2 < (k + 1) * B"
proof (rule ccontr)
  assume "\<not> m2 < (k + 1) * B"
  then have "(k + 1) * B * (2 * A) \<le> m2 * (2 * A)" using A by (intro mult_right_mono) auto
  with near have "2 * A * B \<le> 2 * m1 * B + A" by (simp add: algebra_simps)
  then have "2 * A * B * Second \<le> (2 * m1 * Second) * B + A * Second" by (simp add: algebra_simps)
  also have "(2 * m1 * Second) * B \<le> (2 * Second * A - 2 * A + Second) * B" using m1 B by (intro mult_right_mono) auto
  finally have "2 * A * B \<le> Second * B + A * Second" by (simp add: algebra_simps)
  moreover have "Second * B < A * B" using A B by (intro mult_strict_right_mono) auto
  moreover have "A * Second < A * B" using A B by (intro mult_strict_left_mono) auto
  ultimately show False by linarith
qed

text \<open>The fraction of a second and then its sum with the whole seconds, each rounded once.\<close>

lemma trunc_sum:
  assumes k: "0 \<le> k" "k < 2 ^ j" and j: "j \<le> 34" and r: "0 < r" "r < Second"
  shows "f64_trunc (f64_add_int k (f64_quot r Second)) \<in> {k, k + 1} \<and>
    (j \<le> 23 \<longrightarrow> f64_trunc (f64_add_int k (f64_quot r Second)) = k)"
proof -
  from f64_quot_fraction [of r Second 0] r obtain s1 where s1: "s1 \<ge> 53"
    and q1: "f64_quot r Second = (div_half_even (r * 2 ^ s1) Second, - int s1)" by auto
  define m1 where "m1 = div_half_even (r * 2 ^ s1) Second"
  have P: "(2 :: int) ^ 53 \<le> 2 ^ s1" using s1 by (simp only: power_increasing_iff)
  have near1: "2 * m1 * Second \<le> 2 * (r * 2 ^ s1) + Second" unfolding m1_def by (rule div_half_even_nearest) simp
  have m1_pos: "1 \<le> m1"
  proof -
    have "Second \<le> 2 ^ s1" using P by simp
    also have "\<dots> = 1 * 2 ^ s1" by simp
    also have "\<dots> \<le> r * 2 ^ s1" using r by (intro mult_right_mono) auto
    finally have "1 * Second \<le> r * 2 ^ s1" by simp
    then show ?thesis unfolding m1_def by (intro div_half_even_ge) auto
  qed
  have m1_scaled: "2 * m1 * Second \<le> 2 * Second * 2 ^ s1 - 2 * 2 ^ s1 + Second"
    by (rule fraction_scaled [OF r(2) _ near1]) simp
  with P have m1_less: "m1 < 2 ^ s1" by simp
  define n where "n = k * 2 ^ s1 + m1"
  have "n < 2 ^ s1 * 2 ^ j"
  proof -
    have "(k + 1) * 2 ^ s1 \<le> 2 ^ j * 2 ^ s1" using k by (intro mult_right_mono) auto
    with m1_less show ?thesis by (simp add: n_def algebra_simps)
  qed
  moreover have "0 < n" using k m1_pos by (simp add: n_def add_nonneg_pos)
  ultimately obtain s2 where s2: "s2 \<ge> 53 - j" and q2: "f64_quot n (2 ^ s1) = (div_half_even (n * 2 ^ s2) (2 ^ s1), - int s2)"
    using f64_quot_fraction [of n "2 ^ s1" j] j by auto
  define m2 where "m2 = div_half_even (n * 2 ^ s2) (2 ^ s1)"
  have add: "f64_add_int k (f64_quot r Second) = (m2, - int s2)"
    using q1 q2 s1 by (simp add: f64_add_int_def m1_def [symmetric] n_def [symmetric] m2_def)
  have lower: "k * 2 ^ s2 \<le> m2" unfolding m2_def using m1_pos
    by (intro div_half_even_ge) (auto simp: n_def algebra_simps)
  have upper: "m2 \<le> (k + 1) * 2 ^ s2"
  proof -
    have "n * 2 ^ s2 \<le> (k + 1) * 2 ^ s1 * 2 ^ s2" using m1_less by (intro mult_right_mono) (auto simp: n_def algebra_simps)
    then show ?thesis unfolding m2_def by (intro div_half_even_le) (auto simp: algebra_simps)
  qed
  have trunc: "f64_trunc (m2, - int s2) = m2 div 2 ^ s2"
    by (rule f64_trunc_fraction) (use lower k s2 j in \<open>auto intro: order_trans [rotated]\<close>)
  have ge: "k \<le> m2 div 2 ^ s2" and le: "m2 div 2 ^ s2 \<le> k + 1"
    using zdiv_mono1 [OF lower, of "2 ^ s2"] zdiv_mono1 [OF upper, of "2 ^ s2"] by simp_all
  have "m2 div 2 ^ s2 = k" if "j \<le> 23"
  proof -
    have Q: "(2 :: int) ^ 30 \<le> 2 ^ s2" using s2 that by (intro power_increasing) auto
    have "2 * m2 * 2 ^ s1 \<le> 2 * (n * 2 ^ s2) + 2 ^ s1" unfolding m2_def by (rule div_half_even_nearest) simp
    then have "m2 < (k + 1) * 2 ^ s2" unfolding n_def by (rule sum_below [OF m1_scaled _ P Q])
    then have "m2 div 2 ^ s2 < k + 1" by (intro div_below) simp
    with ge show ?thesis by simp
  qed
  with ge le show ?thesis unfolding add trunc by auto
qed

section \<open>int64 of Seconds\<close>

lemma seconds_trunc:
  assumes "0 \<le> d" and "in_int64 d"
  shows "f64_trunc (Seconds d) \<in> {d div Second, d div Second + 1} \<and>
    (d mod Second = 0 \<or> d < 2 ^ 23 * Second \<longrightarrow> f64_trunc (Seconds d) = d div Second)"
proof -
  let ?k = "d div Second" and ?r = "d mod Second"
  have S: "Seconds d = f64_add_int ?k (f64_quot ?r Second)" using assms(1) by (simp add: Seconds_def Seconds_pos_def)
  have "d < 2 ^ 34 * Second" using assms(2) by (simp add: in_int64_def)
  then have k: "0 \<le> ?k" "?k < 2 ^ 34" using assms(1) by (auto simp: pos_imp_zdiv_nonneg_iff)
  show ?thesis
  proof (cases "?r = 0")
    case True
    then have "Seconds d = f64_quot ?k 1" unfolding S by (simp add: f64_add_int_def f64_quot_def [of 0])
    with trunc_whole [OF k] show ?thesis by simp
  next
    case False
    then have r: "0 < ?r" "?r < Second" using pos_mod_sign [of Second d] pos_mod_bound [of Second d] by linarith+
    show ?thesis
    proof (cases "d < 2 ^ 23 * Second")
      case True
      then have "?k < 2 ^ 23" by auto
      from trunc_sum [OF k(1) this _ r] show ?thesis unfolding S by simp
    next
      case False
      with trunc_sum [OF k _ r] \<open>?r \<noteq> 0\<close> show ?thesis unfolding S by simp
    qed
  qed
qed

end
