(* ===== verification/Controller_Build.thy ===== *)
theory Controller_Build
  imports Policy_Volumes Policy_Network Go_Float
begin

text \<open>
  \<open>internal/controller/build.go\<close> and \<open>validate.go\<close>: the hardened one-shot Job of a Task, its
  ServiceAccount, the label maps, and the validation that runs before anything is built.
\<close>

section \<open>validate.go\<close>

definition timeout_error :: gerr where
  "timeout_error = Plain ''spec.resources.timeout must be > 0''"

definition agent_ref_error :: gerr where
  "agent_ref_error = Plain ''spec.agent.ref is required''"

definition prompt_error :: gerr where
  "prompt_error = Plain ''spec.prompt requires exactly one of inline/secretRef/configMapRef''"

definition prompt_sources :: "PromptSource \<Rightarrow> nat" where
  "prompt_sources p = (if ps_Inline p \<noteq> [] then 1 else 0) + (if ps_SecretRef p \<noteq> None then 1 else 0) +
     (if ps_ConfigMapRef p \<noteq> None then 1 else 0)"

definition validateTask :: "'w ext \<Rightarrow> Task \<Rightarrow> gerr option" where
  "validateTask x task =
     (let r = ts_Resources (task_Spec task)
      in if tr_Timeout r \<le> 0 then Some timeout_error
         else if ar_Ref (ts_Agent (task_Spec task)) = [] then Some agent_ref_error
         else if prompt_sources (ts_Prompt (task_Spec task)) \<noteq> 1 then Some prompt_error
         else case (if tr_CPU r \<noteq> [] then x_parseQuantity x (tr_CPU r) else Inr (Quantity [])) of
           Inl e \<Rightarrow> Some (Wrapped ''spec.resources.cpu'' e)
         | Inr _ \<Rightarrow>
             (case (if tr_Memory r \<noteq> [] then x_parseQuantity x (tr_Memory r) else Inr (Quantity [])) of
                Inl e \<Rightarrow> Some (Wrapped ''spec.resources.memory'' e)
              | Inr _ \<Rightarrow> None))"

section \<open>build.go\<close>

abbreviation nonRootUID :: int where "nonRootUID \<equiv> 65532"
abbreviation DefaultJobTTLSeconds :: int where "DefaultJobTTLSeconds \<equiv> 3600"
abbreviation scratchVolumeName :: string where "scratchVolumeName \<equiv> ''scratch''"
abbreviation agentContainerName :: string where "agentContainerName \<equiv> ''agent''"
abbreviation terminationMessagePath :: string where "terminationMessagePath \<equiv> ''/dev/termination-log''"

definition taskResourceName :: "Task \<Rightarrow> string" where
  "taskResourceName task = task_Name task"

definition ownershipLabels :: "Task \<Rightarrow> strmap" where
  "ownershipLabels task = map_put (OwnershipLabels (task_Name task)) LabelComponent ComponentTask"

text \<open>\<open>maps.Copy\<close> assigns every entry of the second map.\<close>

fun copy_entries :: "strmap \<Rightarrow> (string \<times> string) list \<Rightarrow> strmap" where
  "copy_entries m [] = m"
| "copy_entries m ((k, v) # es) = copy_entries (map_put m k v) es"

definition podLabels :: "Task \<Rightarrow> strmap" where
  "podLabels task = copy_entries (ownershipLabels task)
     (case PodSelectorLabels (task_Name task) of None \<Rightarrow> [] | Some es \<Rightarrow> es)"

definition task_object_meta :: "Task \<Rightarrow> ObjectMeta" where
  "task_object_meta task = zero_meta\<lparr>om_Name := taskResourceName task,
     om_Namespace := task_Namespace task, om_Labels := ownershipLabels task\<rparr>"

definition buildServiceAccount :: "Task \<Rightarrow> ServiceAccount" where
  "buildServiceAccount task = \<lparr>sa_Meta = task_object_meta task,
     sa_AutomountServiceAccountToken = Some (NeedsServiceAccountToken (pm_RBAC (ts_Permissions (task_Spec task))))\<rparr>"

text \<open>Requests and limits are the same list; keys are the resource names.\<close>

definition buildResourceRequirements :: "'w ext \<Rightarrow> TaskResources \<Rightarrow> gerr + ResourceRequirements" where
  "buildResourceRequirements x r =
     (if tr_CPU r = [] \<and> tr_Memory r = [] then Inr \<lparr>rq_Requests = [], rq_Limits = []\<rparr>
      else case (if tr_CPU r = [] then Inr [] else case x_parseQuantity x (tr_CPU r) of
                   Inl e \<Rightarrow> Inl (PermanentError (Wrapped (''spec.resources.cpu '' @ Quote (x_unicode x) (tr_CPU r)) e))
                 | Inr q \<Rightarrow> Inr [(''cpu'', q)]) of
        Inl e \<Rightarrow> Inl e
      | Inr cpu \<Rightarrow>
          (case (if tr_Memory r = [] then Inr [] else case x_parseQuantity x (tr_Memory r) of
                   Inl e \<Rightarrow> Inl (PermanentError (Wrapped (''spec.resources.memory '' @ Quote (x_unicode x) (tr_Memory r)) e))
                 | Inr q \<Rightarrow> Inr [(''memory'', q)]) of
             Inl e \<Rightarrow> Inl e
           | Inr mem \<Rightarrow> Inr \<lparr>rq_Requests = cpu @ mem, rq_Limits = cpu @ mem\<rparr>))"

definition scratch_volume :: Volume where
  "scratch_volume = \<lparr>vol_Name = scratchVolumeName, vol_Source = EmptyDir\<rparr>"

definition scratch_mount :: VolumeMount where
  "scratch_mount = \<lparr>vm_Name = scratchVolumeName, vm_MountPath = ''/tmp'', vm_SubPath = [], vm_ReadOnly = False\<rparr>"

definition opt_list :: "'a option \<Rightarrow> 'a list" where
  "opt_list v = (case v of None \<Rightarrow> [] | Some a \<Rightarrow> [a])"

definition job_volumes :: "string list \<Rightarrow> PromptProjection \<Rightarrow> ConfigProjection \<Rightarrow> Volume list" where
  "job_volumes secrets prompt config =
     [scratch_volume] @ fst (BuildSecretVolumes secrets) @ opt_list (pp_Volume prompt) @ opt_list (cp_Volume config)"

definition job_mounts :: "string list \<Rightarrow> PromptProjection \<Rightarrow> ConfigProjection \<Rightarrow> VolumeMount list" where
  "job_mounts secrets prompt config =
     [scratch_mount] @ snd (BuildSecretVolumes secrets) @ opt_list (pp_Mount prompt) @ opt_list (cp_Mount config)"

definition agent_container ::
  "ClusterAgentClass \<Rightarrow> EnvVar list \<Rightarrow> ResourceRequirements \<Rightarrow> VolumeMount list \<Rightarrow> Container" where
  "agent_container agent env reqs mounts = \<lparr>
     co_Name = agentContainerName,
     co_Image = ac_Image (agc_Spec agent),
     co_ImagePullPolicy = (if ac_ImagePullPolicy (agc_Spec agent) \<noteq> [] then ac_ImagePullPolicy (agc_Spec agent)
       else ''IfNotPresent''),
     co_Command = ac_Command (agc_Spec agent),
     co_Args = ac_Args (agc_Spec agent),
     co_Env = env,
     co_Resources = reqs,
     co_SecurityContext = \<lparr>sc_RunAsNonRoot = Some True, sc_RunAsUser = Some nonRootUID, sc_RunAsGroup = Some nonRootUID,
       sc_ReadOnlyRootFilesystem = Some True, sc_AllowPrivilegeEscalation = Some False,
       sc_DropCapabilities = [''ALL''], sc_SeccompType = Some ''RuntimeDefault''\<rparr>,
     co_VolumeMounts = mounts,
     co_TerminationMessagePath = terminationMessagePath,
     co_TerminationMessagePolicy = ''File''\<rparr>"

definition pod_template :: "Task \<Rightarrow> Container \<Rightarrow> Volume list \<Rightarrow> PodTemplateSpec" where
  "pod_template task container volumes = \<lparr>
     pt_Labels = podLabels task,
     pt_Spec = \<lparr>
       pod_RestartPolicy = ''Never'',
       pod_ServiceAccountName = taskResourceName task,
       pod_AutomountServiceAccountToken = Some (NeedsServiceAccountToken (pm_RBAC (ts_Permissions (task_Spec task)))),
       pod_SecurityContext = \<lparr>psc_RunAsNonRoot = Some True, psc_RunAsUser = Some nonRootUID,
         psc_RunAsGroup = Some nonRootUID, psc_SeccompType = Some ''RuntimeDefault''\<rparr>,
       pod_Containers = [container],
       pod_Volumes = volumes\<rparr>\<rparr>"

definition zero_job_status :: JobStatus where
  "zero_job_status = \<lparr>js_Conditions = [], js_Active = 0, js_StartTime = None, js_CompletionTime = None\<rparr>"

definition buildJob :: "'w ext \<Rightarrow> Task \<Rightarrow> ClusterAgentClass \<Rightarrow> string list \<Rightarrow> int \<Rightarrow> gerr + Job" where
  "buildJob x task agent effectiveSecrets ttlSeconds =
     (case BuildPromptProjection (task_Name task) (ts_Prompt (task_Spec task)) (ac_Inputs (agc_Spec agent)) of
        Inl e \<Rightarrow> Inl e
      | Inr prompt \<Rightarrow>
          (case BuildConfigProjection x (task_Name task) (ar_Config (ts_Agent (task_Spec task))) (ac_Inputs (agc_Spec agent)) of
             Inl e \<Rightarrow> Inl e
           | Inr config \<Rightarrow>
               (case buildResourceRequirements x (ts_Resources (task_Spec task)) of
                  Inl e \<Rightarrow> Inl e
                | Inr reqs \<Rightarrow>
                    Inr \<lparr>job_Meta = task_object_meta task,
                      job_Spec = \<lparr>jb_BackoffLimit = Some 0,
                        jb_ActiveDeadlineSeconds = Some (f64_trunc (Seconds (tr_Timeout (ts_Resources (task_Spec task))))),
                        jb_TTLSecondsAfterFinished = Some ttlSeconds,
                        jb_Template = pod_template task
                          (agent_container agent (cp_Env config) reqs (job_mounts effectiveSecrets prompt config))
                          (job_volumes effectiveSecrets prompt config)\<rparr>,
                      job_Status = zero_job_status\<rparr>)))"

section \<open>Facts\<close>

lemma map_of_put: "map_of (the (map_put (Some f) k v)) = (map_of f)(k \<mapsto> v)"
  by (simp add: map_put_def)

lemma ownershipLabels_eq: "ownershipLabels task =
    Some [(LabelManagedBy, ManagedByValue), (LabelTaskName, task_Name task), (LabelComponent, ComponentTask)]"
  by (simp add: ownershipLabels_def OwnershipLabels_def map_put_def)

lemma podLabels_eq: "podLabels task = ownershipLabels task"
  by (simp add: podLabels_def ownershipLabels_eq PodSelectorLabels_def map_put_def)

lemma validateTask_None:
  assumes "validateTask x task = None"
  shows "tr_Timeout (ts_Resources (task_Spec task)) > 0 \<and> ar_Ref (ts_Agent (task_Spec task)) \<noteq> [] \<and>
    prompt_source n (ts_Prompt (task_Spec task)) \<noteq> None \<and>
    (tr_CPU (ts_Resources (task_Spec task)) \<noteq> [] \<longrightarrow> (\<exists>q. x_parseQuantity x (tr_CPU (ts_Resources (task_Spec task))) = Inr q)) \<and>
    (tr_Memory (ts_Resources (task_Spec task)) \<noteq> [] \<longrightarrow> (\<exists>q. x_parseQuantity x (tr_Memory (ts_Resources (task_Spec task))) = Inr q))"
  using assms unfolding validateTask_def Let_def
  by (auto simp: prompt_sources_def prompt_source_def split: if_splits sum.splits option.splits)

lemma buildResourceRequirements_ok:
  "(tr_CPU r \<noteq> [] \<longrightarrow> (\<exists>q. x_parseQuantity x (tr_CPU r) = Inr q)) \<Longrightarrow>
   (tr_Memory r \<noteq> [] \<longrightarrow> (\<exists>q. x_parseQuantity x (tr_Memory r) = Inr q)) \<Longrightarrow>
   \<exists>reqs. buildResourceRequirements x r = Inr reqs"
  by (auto simp: buildResourceRequirements_def)

lemma BuildPromptProjection_ok:
  "prompt_source n p \<noteq> None \<Longrightarrow> \<exists>pp. BuildPromptProjection n p i = Inr pp"
  by (auto simp: BuildPromptProjection_def split: option.splits)

lemma buildJob_Inr:
  assumes "buildJob x task agent ss ttl = Inr job"
  obtains prompt config reqs where
    "BuildPromptProjection (task_Name task) (ts_Prompt (task_Spec task)) (ac_Inputs (agc_Spec agent)) = Inr prompt"
    "BuildConfigProjection x (task_Name task) (ar_Config (ts_Agent (task_Spec task))) (ac_Inputs (agc_Spec agent)) = Inr config"
    "job_Meta job = task_object_meta task" "job_Status job = zero_job_status"
    "jb_Template (job_Spec job) = pod_template task
       (agent_container agent (cp_Env config) reqs (job_mounts ss prompt config)) (job_volumes ss prompt config)"
    "jb_BackoffLimit (job_Spec job) = Some 0"
    "jb_ActiveDeadlineSeconds (job_Spec job) = Some (f64_trunc (Seconds (tr_Timeout (ts_Resources (task_Spec task)))))"
    "jb_TTLSecondsAfterFinished (job_Spec job) = Some ttl"
  using assms by (fastforce simp: buildJob_def split: sum.splits)

lemma job_volume_names:
  assumes "BuildPromptProjection n p i = Inr prompt" and "BuildConfigProjection x n c i = Inr config"
  shows "map vol_Name (job_volumes ss prompt config) = [scratchVolumeName] @ map secretVolumeName (sort ss) @
    (if pp_Volume prompt = None then [] else [PromptVolumeName]) @ (if cp_Volume config = None then [] else [ConfigVolumeName])"
  using prompt_proj.volume_names [of "(n, p, i)" prompt] config_proj.volume_names [of "(x, n, c, i)" config] assms
  by (simp add: job_volumes_def scratch_volume_def secret_volume_names opt_list_def)

lemma mount_names:
  assumes "BuildPromptProjection n p i = Inr prompt" and "BuildConfigProjection x n c i = Inr config"
  shows "set (map vm_Name (job_mounts ss prompt config)) = set (map vol_Name (job_volumes ss prompt config))"
proof -
  have "set (map vm_Name (opt_list (pp_Mount prompt))) = set (map vol_Name (opt_list (pp_Volume prompt)))"
    using assms(1) prompt_proj.both_or_none [of "(n, p, i)" prompt] prompt_proj.volume_named [of "(n, p, i)" prompt]
      prompt_proj.mount_file [of "(n, p, i)" prompt] by (auto simp: opt_list_def split: option.splits)
  moreover have "set (map vm_Name (opt_list (cp_Mount config))) = set (map vol_Name (opt_list (cp_Volume config)))"
    using assms(2) config_proj.both_or_none [of "(x, n, c, i)" config] config_proj.volume_named [of "(x, n, c, i)" config]
      config_proj.mount_file [of "(x, n, c, i)" config] by (auto simp: opt_list_def split: option.splits)
  moreover have "set (map vm_Name (snd (BuildSecretVolumes ss))) = set (map vol_Name (fst (BuildSecretVolumes ss)))"
    by (simp only: secret_volume_names secret_mount_names)
  ultimately show ?thesis
    by (simp add: job_mounts_def job_volumes_def scratch_mount_def scratch_volume_def)
qed

lemma secretVolumeName_reserved [simp]:
  "secretVolumeName s \<noteq> scratchVolumeName" "secretVolumeName s \<noteq> PromptVolumeName" "secretVolumeName s \<noteq> ConfigVolumeName"
  "scratchVolumeName \<noteq> secretVolumeName s" "PromptVolumeName \<noteq> secretVolumeName s" "ConfigVolumeName \<noteq> secretVolumeName s"
  by (simp_all add: secretVolumeName_def)

lemma sample_job_built: "\<exists>job. buildJob ref_ext sample_task sample_agent [''s''] 3600 = Inr job"
proof -
  have "\<not> isl (buildJob ref_ext sample_task sample_agent [''s''] 3600)" by code_simp
  then show ?thesis by (cases "buildJob ref_ext sample_task sample_agent [''s''] 3600") auto
qed

section \<open>Properties\<close>



text \<open>
  The volumes of a Job: for a list of Secrets without duplicates the volume names are
  distinct, the mounted names are exactly the volume names, and the Secret volumes stand for
  exactly the given Secrets.
\<close>

theorem job_volumes_distinct_and_mounted:
  assumes "buildJob x task agent secrets ttl = Inr job" and "distinct secrets"
  shows "let pod = pt_Spec (jb_Template (job_Spec job))
    in distinct (map vol_Name (pod_Volumes pod)) \<and>
       set (map vm_Name (concat (map co_VolumeMounts (pod_Containers pod)))) = set (map vol_Name (pod_Volumes pod)) \<and>
       {s. \<exists>v \<in> set (pod_Volumes pod). vol_Source v = SecretVolume s \<and> vol_Name v = secretVolumeName s} = set secrets"
proof -
  let ?n = "task_Name task" and ?p = "ts_Prompt (task_Spec task)" and ?i = "ac_Inputs (agc_Spec agent)"
  let ?c = "ar_Config (ts_Agent (task_Spec task))"
  from assms(1) obtain prompt config reqs where
    p: "BuildPromptProjection ?n ?p ?i = Inr prompt" and c: "BuildConfigProjection x ?n ?c ?i = Inr config"
    and j: "jb_Template (job_Spec job) = pod_template task
       (agent_container agent (cp_Env config) reqs (job_mounts secrets prompt config)) (job_volumes secrets prompt config)"
    by (rule buildJob_Inr)
  let ?vs = "job_volumes secrets prompt config"
  have "distinct (map vol_Name ?vs)"
    using assms(2) by (auto simp: job_volume_names [OF p c] distinct_map inj_secretVolumeName inj_on_def)
  moreover have "{s. \<exists>v \<in> set ?vs. vol_Source v = SecretVolume s \<and> vol_Name v = secretVolumeName s} = set secrets"
  proof -
    have "s \<in> set secrets" if "v \<in> set ?vs" "vol_Name v = secretVolumeName s" for v s
    proof -
      from that have "secretVolumeName s \<in> set (map vol_Name ?vs)" by (metis image_eqI list.set_map)
      then show ?thesis unfolding job_volume_names [OF p c] by (auto split: if_splits)
    qed
    moreover have "secret_volume s \<in> set ?vs" if "s \<in> set secrets" for s
      using that by (auto simp: job_volumes_def BuildSecretVolumes_def Let_def)
    ultimately show ?thesis by (force simp: secret_volume_def)
  qed
  ultimately show ?thesis
    by (simp add: Let_def j pod_template_def agent_container_def mount_names [OF p c, simplified])
qed

theorem job_volumes_distinct_and_mounted_witness:
  "\<exists>job. buildJob ref_ext sample_task sample_agent [''s''] 3600 = Inr job \<and>
     distinct (map vol_Name (pod_Volumes (pt_Spec (jb_Template (job_Spec job)))))"
proof -
  obtain job where j: "buildJob ref_ext sample_task sample_agent [''s''] 3600 = Inr job"
    using sample_job_built by blast
  from job_volumes_distinct_and_mounted [OF j] j show ?thesis by (simp add: Let_def)
qed

text \<open>
  After validation only an undeliverable configuration stops the Job, and that error is
  permanent: for a Task that passes \<open>validateTask\<close>, \<open>buildJob\<close> fails exactly when the
  configuration projection fails, with the same PermanentError. So a Task never retries forever
  on a spec that cannot be built.
\<close>

theorem validated_buildJob_errors:
  assumes "validateTask x task = None"
  shows "case buildJob x task agent secrets ttl of
     Inr job \<Rightarrow> True
   | Inl e \<Rightarrow> IsPermanent e \<and>
       BuildConfigProjection x (task_Name task) (ar_Config (ts_Agent (task_Spec task))) (ac_Inputs (agc_Spec agent)) = Inl e"
proof -
  note v = validateTask_None [OF assms, of "task_Name task"]
  from v BuildPromptProjection_ok obtain pp where
    "BuildPromptProjection (task_Name task) (ts_Prompt (task_Spec task)) (ac_Inputs (agc_Spec agent)) = Inr pp" by blast
  moreover from v buildResourceRequirements_ok obtain reqs where
    "buildResourceRequirements x (ts_Resources (task_Spec task)) = Inr reqs" by blast
  ultimately show ?thesis
    by (auto simp: buildJob_def dest: BuildConfigProjection_Inl_permanent split: sum.splits)
qed

theorem validated_buildJob_errors_witness:
  "\<exists>e. buildJob ref_ext (sample_task\<lparr>task_Spec := (task_Spec sample_task)\<lparr>ts_Agent := \<lparr>ar_Ref = ''c'', ar_Config = Some ''[]''\<rparr>\<rparr>\<rparr>)
     sample_agent [''s''] 3600 = Inl e \<and> IsPermanent e"
proof -
  let ?t = "sample_task\<lparr>task_Spec := (task_Spec sample_task)\<lparr>ts_Agent := \<lparr>ar_Ref = ''c'', ar_Config = Some ''[]''\<rparr>\<rparr>\<rparr>"
  have v: "validateTask ref_ext ?t = None" by code_simp
  have "isl (buildJob ref_ext ?t sample_agent [''s''] 3600)" by code_simp
  with validated_buildJob_errors [OF v, of sample_agent "[''s'']" 3600] show ?thesis
    by (cases "buildJob ref_ext ?t sample_agent [''s''] 3600") auto
qed

text \<open>
  C34. The pods of a Job are covered by the Task's own NetworkPolicy and by no other Task's
  policy, whatever the rules of the policies are.
\<close>

theorem job_pods_selected_by_policy:
  assumes "buildJob x task agent secrets ttl = Inr job"
  shows "selector_matches (nps_PodSelector (netp_Spec (network_policy other ns rules)))
     (pt_Labels (jb_Template (job_Spec job))) \<longleftrightarrow> other = task_Name task"
  using assms by (rule buildJob_Inr)
    (auto simp: selector_matches_def network_policy_def PodSelectorLabels_def pod_template_def podLabels_eq ownershipLabels_eq)

theorem job_pods_selected_by_policy_witness:
  "\<exists>job. buildJob ref_ext sample_task sample_agent [''s''] 3600 = Inr job \<and>
     selector_matches (nps_PodSelector (netp_Spec (network_policy ''t'' ''ns'' [])))
       (pt_Labels (jb_Template (job_Spec job)))"
proof -
  obtain job where j: "buildJob ref_ext sample_task sample_agent [''s''] 3600 = Inr job"
    using sample_job_built by blast
  from job_pods_selected_by_policy [OF j, of "''t''" "''ns''" "[]"] j show ?thesis by (simp add: sample_task_def)
qed

text \<open>
  C33. The deadline of the Job is the timeout of the Task in whole seconds. The code goes through
  \<open>float64\<close>, and for every timeout that passes validation the result is the integer part of the
  timeout or one second more; it is exactly the integer part for a timeout of whole seconds and for every
  timeout below \<open>2 ^ 23\<close> seconds (97 days). It is never negative, and it is 0 exactly for
  a timeout below one second.
\<close>

theorem job_deadline_accurate:
  assumes "buildJob x task agent secrets ttl = Inr job" and "validateTask x task = None"
    and "tr_Timeout (ts_Resources (task_Spec task)) = timeout" and "in_int64 timeout"
  shows "\<exists>d. jb_ActiveDeadlineSeconds (job_Spec job) = Some d \<and> d \<in> {timeout div Second, timeout div Second + 1} \<and>
    (timeout mod Second = 0 \<or> timeout < 2 ^ 23 * Second \<longrightarrow> d = timeout div Second) \<and>
    0 \<le> d \<and> (d = 0 \<longleftrightarrow> timeout < Second)"
proof -
  from assms(1,3) have d: "jb_ActiveDeadlineSeconds (job_Spec job) = Some (f64_trunc (Seconds timeout))"
    by (auto elim: buildJob_Inr)
  from validateTask_None [OF assms(2)] assms(3) have t: "0 < timeout" by simp
  with seconds_trunc [OF _ assms(4)] d show ?thesis by (auto simp: pos_imp_zdiv_nonneg_iff)
qed

theorem job_deadline_accurate_witness:
  "\<exists>job. buildJob ref_ext sample_task sample_agent [''s''] 3600 = Inr job \<and> jb_ActiveDeadlineSeconds (job_Spec job) = Some 60"
proof -
  obtain job where j: "buildJob ref_ext sample_task sample_agent [''s''] 3600 = Inr job"
    using sample_job_built by blast
  have "validateTask ref_ext sample_task = None" by code_simp
  from job_deadline_accurate [OF j this, of "60 * Second"] j show ?thesis by (simp add: sample_task_def in_int64_def)
qed

end
