(* ===== verification/Metrics.thy ===== *)
theory Metrics
  imports Externals
begin

text \<open>
  \<open>internal/metrics/metrics.go\<close>: the label values, the four collectors and the observers. An
  observer appends the observation to the log; \<open>exposed\<close> says which collector it updates and with
  which label values, as the call \<open>WithLabelValues\<close> does. The registry that keeps the numbers is
  library code.
\<close>

section \<open>Label values\<close>

abbreviation ResultAccepted :: string where "ResultAccepted \<equiv> ''accepted''"
abbreviation ResultDuplicate :: string where "ResultDuplicate \<equiv> ''duplicate''"
abbreviation ResultFiltered :: string where "ResultFiltered \<equiv> ''filtered''"
abbreviation ResultRejectedSignature :: string where "ResultRejectedSignature \<equiv> ''rejected_signature''"
abbreviation ResultRejectedMethod :: string where "ResultRejectedMethod \<equiv> ''rejected_method''"
abbreviation ResultRejectedBodyTooLarge :: string where "ResultRejectedBodyTooLarge \<equiv> ''rejected_body_too_large''"
abbreviation ResultRejectedBadBody :: string where "ResultRejectedBadBody \<equiv> ''rejected_bad_body''"
abbreviation ResultNotFound :: string where "ResultNotFound \<equiv> ''not_found''"
abbreviation ResultBuildFailed :: string where "ResultBuildFailed \<equiv> ''build_failed''"
abbreviation ResultError :: string where "ResultError \<equiv> ''error''"

definition webhook_results :: "string list" where
  "webhook_results = [ResultAccepted, ResultDuplicate, ResultFiltered, ResultRejectedSignature, ResultRejectedMethod,
     ResultRejectedBodyTooLarge, ResultRejectedBadBody, ResultNotFound, ResultBuildFailed, ResultError]"

abbreviation StepValidate :: string where "StepValidate \<equiv> ''validate''"
abbreviation StepAgentClassLookup :: string where "StepAgentClassLookup \<equiv> ''agent_class_lookup''"
abbreviation StepServiceAccount :: string where "StepServiceAccount \<equiv> ''service_account''"
abbreviation StepRole :: string where "StepRole \<equiv> ''role''"
abbreviation StepRoleBinding :: string where "StepRoleBinding \<equiv> ''role_binding''"
abbreviation StepNetworkPolicy :: string where "StepNetworkPolicy \<equiv> ''network_policy''"
abbreviation StepPromptConfigMap :: string where "StepPromptConfigMap \<equiv> ''prompt_configmap''"
abbreviation StepAgentConfigMap :: string where "StepAgentConfigMap \<equiv> ''config_configmap''"
abbreviation StepJob :: string where "StepJob \<equiv> ''job''"
abbreviation StepStatus :: string where "StepStatus \<equiv> ''status''"

definition reconcile_step_names :: "string list" where
  "reconcile_step_names = [StepValidate, StepAgentClassLookup, StepServiceAccount, StepRole, StepRoleBinding,
     StepNetworkPolicy, StepPromptConfigMap, StepAgentConfigMap, StepJob, StepStatus]"

section \<open>Collectors\<close>

text \<open>A histogram has the arguments of \<open>prometheus.ExponentialBuckets\<close>: start, factor and count.\<close>

record collector =
  mc_Name :: string
  mc_Help :: string
  mc_Labels :: "string list"
  mc_Buckets :: "(int \<times> int \<times> int) option"

definition TaskPhaseTransitions :: collector where
  "TaskPhaseTransitions = \<lparr>mc_Name = ''conveyor_task_phase_transitions_total'',
     mc_Help = ''Count of Task phase transitions observed by the controller.'',
     mc_Labels = [''phase'', ''reason''], mc_Buckets = None\<rparr>"

definition TaskReconcileErrors :: collector where
  "TaskReconcileErrors = \<lparr>mc_Name = ''conveyor_task_reconcile_errors_total'',
     mc_Help = ''Count of Task reconcile failures, labelled by step.'',
     mc_Labels = [''step''], mc_Buckets = None\<rparr>"

definition TaskDurationSeconds :: collector where
  "TaskDurationSeconds = \<lparr>mc_Name = ''conveyor_task_duration_seconds'',
     mc_Help = ''Wall-clock duration of a Task'' @ [CHR 0x27] @ ''s Job, observed at terminal phase.'',
     mc_Labels = [''phase''], mc_Buckets = Some (1, 2, 12)\<rparr>"

definition WebhookRequests :: collector where
  "WebhookRequests = \<lparr>mc_Name = ''conveyor_webhook_requests_total'',
     mc_Help = ''Count of webhook requests processed by the trigger adapter.'',
     mc_Labels = [''trigger_class'', ''result''], mc_Buckets = None\<rparr>"

definition collectors :: "collector list" where
  "collectors = [TaskPhaseTransitions, TaskReconcileErrors, TaskDurationSeconds, WebhookRequests]"

section \<open>Observers\<close>

definition ObservePhaseTransition :: "string \<Rightarrow> string \<Rightarrow> ('w, unit) op" where
  "ObservePhaseTransition phase reason = observe (MetricPhase phase reason)"

definition ObserveReconcileError :: "string \<Rightarrow> ('w, unit) op" where
  "ObserveReconcileError step = observe (MetricReconcileError step)"

definition ObserveTaskDuration :: "string \<Rightarrow> f64 \<Rightarrow> ('w, unit) op" where
  "ObserveTaskDuration phase seconds = observe (MetricDuration phase seconds)"

definition ObserveWebhook :: "string \<Rightarrow> string \<Rightarrow> ('w, unit) op" where
  "ObserveWebhook triggerClass res = observe (MetricWebhook triggerClass res)"

lemmas metrics_defs [obs_defs] =
  ObservePhaseTransition_def ObserveReconcileError_def ObserveTaskDuration_def ObserveWebhook_def

fun exposed :: "obs \<Rightarrow> (collector \<times> string list) option" where
  "exposed (MetricPhase phase reason) = Some (TaskPhaseTransitions, [phase, reason])"
| "exposed (MetricReconcileError step) = Some (TaskReconcileErrors, [step])"
| "exposed (MetricDuration phase _) = Some (TaskDurationSeconds, [phase])"
| "exposed (MetricWebhook cls res) = Some (WebhookRequests, [cls, res])"
| "exposed _ = None"

text \<open>
  \<open>WithLabelValues\<close> panics when the number of values is not the number of labels, and registering
  two collectors under one name panics at start-up; neither happens.
\<close>

lemma exposed_arity: "exposed ob = Some (c, vs) \<Longrightarrow> length vs = length (mc_Labels c) \<and> c \<in> set collectors"
  by (cases ob) (auto simp: TaskPhaseTransitions_def TaskReconcileErrors_def TaskDurationSeconds_def
      WebhookRequests_def collectors_def)

lemma collector_names_distinct: "distinct (map mc_Name collectors)"
  by (simp add: collectors_def TaskPhaseTransitions_def TaskReconcileErrors_def TaskDurationSeconds_def WebhookRequests_def)

end
