(* ===== verification/Controller_Status.thy ===== *)
theory Controller_Status
  imports Controller_Build Metrics
begin

text \<open>
  \<open>internal/controller/status.go\<close> except \<open>syncStatus\<close> (theory \<open>Controller_Result\<close>): the Task phases, how a Job's conditions map to
  them, the writers of the Failed and Pending states, the deletion deadline and the comparison
  that suppresses status writes without a change.

  A method that mutates \<open>*task\<close> returns the new Task; a status write replaces the Task by the
  server's answer, as the client decodes the response into the same object.
\<close>

section \<open>The reconciler\<close>

record 'w reconciler =
  r_Resolver :: "'w resolver option"
  r_Recorder :: bool \<comment> \<open>whether a recorder is set\<close>
  r_EgressRefreshInterval :: duration
  r_JobTTLSeconds :: int
  r_DefaultTaskTTLSeconds :: "int option"
  r_ResultWait :: duration

abbreviation conditionReady :: string where "conditionReady \<equiv> ''Ready''"
abbreviation reasonAgentClassMissing :: string where "reasonAgentClassMissing \<equiv> ''AgentClassMissing''"
abbreviation reasonInvalidSpec :: string where "reasonInvalidSpec \<equiv> ''InvalidSpec''"
abbreviation reasonPending :: string where "reasonPending \<equiv> ''Pending''"
abbreviation reasonSuspended :: string where "reasonSuspended \<equiv> ''Suspended''"
abbreviation reasonRunning :: string where "reasonRunning \<equiv> ''Running''"
abbreviation reasonCompleted :: string where "reasonCompleted \<equiv> ''Completed''"
abbreviation reasonFailed :: string where "reasonFailed \<equiv> ''Failed''"
abbreviation reasonTimedOut :: string where "reasonTimedOut \<equiv> ''TimedOut''"
abbreviation reasonEgressResolveFail :: string where "reasonEgressResolveFail \<equiv> ''EgressResolveFailed''"

section \<open>Phases\<close>

definition isTerminal :: "TaskPhase \<Rightarrow> bool" where
  "isTerminal phase \<longleftrightarrow> phase = TaskPhaseCompleted \<or> phase = TaskPhaseFailed \<or> phase = TaskPhaseTimedOut"

definition eventTypeFor :: "TaskPhase \<Rightarrow> string" where
  "eventTypeFor phase = (if phase = TaskPhaseFailed \<or> phase = TaskPhaseTimedOut then ''Warning'' else ''Normal'')"

definition conditionStatusFor :: "TaskPhase \<Rightarrow> string" where
  "conditionStatusFor phase =
     (if phase = TaskPhaseCompleted then ''True''
      else if phase = TaskPhaseFailed \<or> phase = TaskPhaseTimedOut then ''False'' else ''Unknown'')"

definition messageOr :: "string \<Rightarrow> string \<Rightarrow> string" where
  "messageOr msg fallback = (if msg = [] then fallback else msg)"

definition job_completed_msg :: string where "job_completed_msg = ''Job completed''"
definition job_deadline_msg :: string where "job_deadline_msg = ''Job exceeded its deadline''"
definition job_failed_msg :: string where "job_failed_msg = ''Job failed''"
definition job_suspended_msg :: string where "job_suspended_msg = ''Job is suspended''"
definition job_running_msg :: string where "job_running_msg = ''Job is running''"
definition job_waiting_msg :: string where "job_waiting_msg = ''Waiting for pod to start''"

text \<open>The loop of \<open>derivePhase\<close> over the Job's conditions, in their order.\<close>

fun derive_loop :: "JobCondition list \<Rightarrow> (TaskPhase \<times> string \<times> string) option" where
  "derive_loop [] = None"
| "derive_loop (c # cs) =
     (if jc_Status c \<noteq> ''True'' then derive_loop cs
      else if jc_Type c = ''Complete'' \<or> jc_Type c = ''SuccessCriteriaMet'' then
        Some (TaskPhaseCompleted, reasonCompleted, messageOr (jc_Message c) job_completed_msg)
      else if jc_Type c = ''Failed'' then
        (if jc_Reason c = ''DeadlineExceeded''
         then Some (TaskPhaseTimedOut, reasonTimedOut, messageOr (jc_Message c) job_deadline_msg)
         else Some (TaskPhaseFailed, reasonFailed, messageOr (jc_Message c) job_failed_msg))
      else if jc_Type c = ''Suspended'' then
        Some (TaskPhasePending, reasonSuspended, messageOr (jc_Message c) job_suspended_msg)
      else derive_loop cs)"

definition derivePhase :: "Job \<Rightarrow> TaskPhase \<times> string \<times> string" where
  "derivePhase job =
     (case derive_loop (js_Conditions (job_Status job)) of
        Some p \<Rightarrow> p
      | None \<Rightarrow>
          if js_Active (job_Status job) > 0 \<or> js_StartTime (job_Status job) \<noteq> None
          then (TaskPhaseRunning, reasonRunning, job_running_msg)
          else (TaskPhasePending, reasonPending, job_waiting_msg))"

section \<open>Conditions and Events\<close>

text \<open>\<open>meta.SetStatusCondition(&task.Status.Conditions, c)\<close>, which reads the clock.\<close>

definition set_condition :: "'w ext \<Rightarrow> Task \<Rightarrow> Condition \<Rightarrow> ('w, Task) op" where
  "set_condition x task c = do {
     now \<leftarrow> clock x;
     State_Monad.return (task\<lparr>task_Status := (task_Status task)\<lparr>
       st_Conditions := x_setStatusCondition x now (st_Conditions (task_Status task)) c\<rparr>\<rparr>) }"

definition ready_condition :: "Task \<Rightarrow> string \<Rightarrow> string \<Rightarrow> string \<Rightarrow> Condition" where
  "ready_condition task status reason msg = \<lparr>cd_Type = conditionReady, cd_Status = status, cd_Reason = reason,
     cd_Message = msg, cd_ObservedGeneration = om_Generation (task_Meta task), cd_LastTransitionTime = 0\<rparr>"

definition recordEvent :: "'w reconciler \<Rightarrow> string \<Rightarrow> string \<Rightarrow> string \<Rightarrow> ('w, unit) op" where
  "recordEvent r eventType reason msg =
     (if \<not> r_Recorder r then State_Monad.return () else observe (Event eventType reason msg))"

definition set_phase :: "Task \<Rightarrow> TaskPhase \<Rightarrow> Task" where
  "set_phase task phase = task\<lparr>task_Status := (task_Status task)\<lparr>
     st_Phase := phase, st_ObservedGeneration := om_Generation (task_Meta task)\<rparr>\<rparr>"

section \<open>Failed\<close>

definition invalid_lead :: "string \<Rightarrow> string" where
  "invalid_lead reason =
     (if reason = reasonEgressResolveFail then ''Egress allowlist could not be resolved'' else ''Task spec is invalid'')"

definition invalidEventMessage :: "string \<Rightarrow> string \<Rightarrow> string" where
  "invalidEventMessage reason msg = invalid_lead reason @ '': '' @ msg"

definition markInvalid :: "'w ext \<Rightarrow> 'w reconciler \<Rightarrow> Task \<Rightarrow> string \<Rightarrow> string \<Rightarrow> ('w, gerr option) op" where
  "markInvalid x r task reason msg = do {
     let prevPhase = st_Phase (task_Status task);
     task1 \<leftarrow> set_condition x (set_phase task TaskPhaseFailed) (ready_condition task ''False'' reason msg);
     u \<leftarrow> client_StatusUpdate x task1;
     case u of
       Inl e \<Rightarrow> State_Monad.return (Some e)
     | Inr task2 \<Rightarrow>
         if prevPhase \<noteq> TaskPhaseFailed then do {
           ObservePhaseTransition TaskPhaseFailed reason;
           recordEvent r ''Warning'' reason (invalidEventMessage reason msg);
           State_Monad.return None }
         else State_Monad.return None }"

definition failTask :: "'w ext \<Rightarrow> 'w reconciler \<Rightarrow> Task \<Rightarrow> string \<Rightarrow> gerr \<Rightarrow> ('w, gerr option) op" where
  "failTask x r task reason cause = do {
     e \<leftarrow> markInvalid x r task reason (Error cause);
     State_Monad.return (case e of Some err \<Rightarrow> Some (Joined cause err) | None \<Rightarrow> None) }"

section \<open>Comparison of statuses\<close>

definition timesEqual :: "gotime option \<Rightarrow> gotime option \<Rightarrow> bool" where
  "timesEqual a b = (case (a, b) of (None, None) \<Rightarrow> True | (Some s, Some t) \<Rightarrow> s = t | _ \<Rightarrow> False)"

definition condition_same :: "'w ext \<Rightarrow> Condition list \<Rightarrow> Condition \<Rightarrow> bool" where
  "condition_same x cs ac =
     (case x_findStatusCondition x cs (cd_Type ac) of
        None \<Rightarrow> False
      | Some bc \<Rightarrow> cd_Status ac = cd_Status bc \<and> cd_Reason ac = cd_Reason bc \<and> cd_Message ac = cd_Message bc \<and>
          cd_ObservedGeneration ac = cd_ObservedGeneration bc)"

definition equalStatus :: "'w ext \<Rightarrow> TaskStatus \<Rightarrow> TaskStatus \<Rightarrow> bool" where
  "equalStatus x a b =
     (if st_Phase a \<noteq> st_Phase b \<or> st_JobName a \<noteq> st_JobName b then False
      else if st_ObservedGeneration a \<noteq> st_ObservedGeneration b then False
      else if \<not> timesEqual (st_StartTime a) (st_StartTime b) \<or> \<not> timesEqual (st_CompletionTime a) (st_CompletionTime b)
      then False
      else if \<not> x_deepEqualResult x (st_Result a) (st_Result b) then False
      else if length (st_Conditions a) \<noteq> length (st_Conditions b) then False
      else list_all (condition_same x (st_Conditions b)) (st_Conditions a))"

section \<open>Waiting for the class\<close>

definition waiting_message :: "'w ext \<Rightarrow> Task \<Rightarrow> string" where
  "waiting_message x task =
     ''Waiting for ClusterAgentClass '' @ Quote (x_unicode x) (ar_Ref (ts_Agent (task_Spec task))) @ '' to be created''"

definition markWaitingForAgentClass :: "'w ext \<Rightarrow> 'w reconciler \<Rightarrow> Task \<Rightarrow> ('w, gerr option) op" where
  "markWaitingForAgentClass x r task = do {
     let old = task_Status task;
     let msg = waiting_message x task;
     task1 \<leftarrow> set_condition x (set_phase task TaskPhasePending) (ready_condition task ''Unknown'' reasonAgentClassMissing msg);
     if equalStatus x old (task_Status task1) then State_Monad.return None
     else do {
       u \<leftarrow> client_StatusUpdate x task1;
       case u of
         Inl e \<Rightarrow> State_Monad.return (Some e)
       | Inr task2 \<Rightarrow> do {
           recordEvent r ''Warning'' reasonAgentClassMissing msg;
           State_Monad.return None } } }"

section \<open>The deletion deadline\<close>

definition finish_time :: "'w ext \<Rightarrow> Task \<Rightarrow> gotime option" where
  "finish_time x task =
     (case st_CompletionTime (task_Status task) of
        Some t \<Rightarrow> Some t
      | None \<Rightarrow>
          (case x_findStatusCondition x (st_Conditions (task_Status task)) conditionReady of
             Some c \<Rightarrow> if IsZero (cd_LastTransitionTime c) then None else Some (cd_LastTransitionTime c)
           | None \<Rightarrow> None))"

definition deletionDeadline :: "'w ext \<Rightarrow> Task \<Rightarrow> int option \<Rightarrow> gotime option" where
  "deletionDeadline x task defaultTTL =
     (let ttl = (case ts_TTLSecondsAfterFinished (task_Spec task) of Some t \<Rightarrow> Some t | None \<Rightarrow> defaultTTL)
      in case ttl of
           None \<Rightarrow> None
         | Some s \<Rightarrow>
             (case finish_time x task of
                None \<Rightarrow> None
              | Some finished \<Rightarrow> Some (finished + int64 (s * Second))))"

section \<open>Properties\<close>

text \<open>The Job conditions that decide the phase: true, and of a type that the controller knows.\<close>

definition decisive :: "JobCondition \<Rightarrow> bool" where
  "decisive c \<longleftrightarrow> jc_Status c = ''True'' \<and> jc_Type c \<in> set [''Complete'', ''SuccessCriteriaMet'', ''Failed'', ''Suspended'']"

definition decided_phase :: "JobCondition \<Rightarrow> TaskPhase" where
  "decided_phase c =
     (if jc_Type c = ''Failed'' then (if jc_Reason c = ''DeadlineExceeded'' then TaskPhaseTimedOut else TaskPhaseFailed)
      else if jc_Type c = ''Suspended'' then TaskPhasePending else TaskPhaseCompleted)"

lemma derive_loop_step:
  "\<exists>re fb. fb \<noteq> [] \<and> derive_loop (c # cs) =
     (if decisive c then Some (decided_phase c, re, messageOr (jc_Message c) fb) else derive_loop cs)"
proof -
  have msgs: "job_completed_msg \<noteq> []" "job_deadline_msg \<noteq> []" "job_failed_msg \<noteq> []" "job_suspended_msg \<noteq> []"
    by (simp_all add: job_completed_msg_def job_deadline_msg_def job_failed_msg_def job_suspended_msg_def)
  consider "jc_Status c \<noteq> ''True''" | "jc_Type c = ''Complete''" | "jc_Type c = ''SuccessCriteriaMet''" | "jc_Type c = ''Failed''"
    | "jc_Type c = ''Suspended''" | "jc_Type c \<notin> set [''Complete'', ''SuccessCriteriaMet'', ''Failed'', ''Suspended'']"
    by auto
  then show ?thesis using msgs by cases (auto simp: decisive_def decided_phase_def)
qed

lemma derive_loop_find:
  "case List.find decisive cs of
     None \<Rightarrow> derive_loop cs = None
   | Some c \<Rightarrow> \<exists>re fb. fb \<noteq> [] \<and> derive_loop cs = Some (decided_phase c, re, messageOr (jc_Message c) fb)"
proof (induction cs)
  case (Cons c cs)
  with derive_loop_step [of c cs] show ?case
    by (auto simp del: derive_loop.simps split: option.splits)
qed simp

text \<open>
  C38. The phase follows the first decisive condition of the Job: a true Complete or
  SuccessCriteriaMet condition gives Completed, Failed gives TimedOut or Failed by its reason,
  Suspended gives Pending; without one, the phase is Running if the Job has started and Pending
  otherwise. So a Job without a decisive condition, or a suspended one, is never terminal, and the message is never
  empty and is the Job's own when it has one. The Ready status and the Event type agree with the
  phase: True exactly for Completed, and False exactly when the Event is a Warning.
\<close>

theorem derivePhase_first_decisive:
  "case derivePhase job of (phase, reason, msg) \<Rightarrow>
     (case List.find decisive (js_Conditions (job_Status job)) of
        Some c \<Rightarrow> phase = decided_phase c \<and> (isTerminal phase \<longleftrightarrow> jc_Type c \<noteq> ''Suspended'') \<and>
          (jc_Message c = [] \<or> msg = jc_Message c)
      | None \<Rightarrow> phase = (if js_Active (job_Status job) \<le> 0 \<and> js_StartTime (job_Status job) = None
          then TaskPhasePending else TaskPhaseRunning) \<and> \<not> isTerminal phase) \<and>
     msg \<noteq> [] \<and> (conditionStatusFor phase = ''True'' \<longleftrightarrow> phase = TaskPhaseCompleted) \<and>
     (conditionStatusFor phase = ''False'' \<longleftrightarrow> eventTypeFor phase = ''Warning'')"
proof -
  let ?cs = "js_Conditions (job_Status job)"
  have coherent: "(conditionStatusFor p = ''True'' \<longleftrightarrow> p = TaskPhaseCompleted) \<and>
      (conditionStatusFor p = ''False'' \<longleftrightarrow> eventTypeFor p = ''Warning'')" for p
    by (simp add: conditionStatusFor_def eventTypeFor_def)
  show ?thesis
  proof (cases "List.find decisive ?cs")
    case None
    with derive_loop_find [of ?cs] coherent show ?thesis
      by (simp add: derivePhase_def isTerminal_def job_running_msg_def job_waiting_msg_def)
  next
    case (Some c)
    then have "decisive c" by (simp add: find_Some_iff) blast
    then have "isTerminal (decided_phase c) \<longleftrightarrow> jc_Type c \<noteq> ''Suspended''"
      by (auto simp: decided_phase_def decisive_def isTerminal_def)
    moreover from derive_loop_find [of ?cs] Some obtain re fb where "fb \<noteq> []"
      "derivePhase job = (decided_phase c, re, messageOr (jc_Message c) fb)" by (auto simp: derivePhase_def)
    ultimately show ?thesis using coherent [of "decided_phase c"] Some by (simp add: messageOr_def)
  qed
qed

end
