(* ===== verification/Go_Utf8.thy ===== *)
theory Go_Utf8
  imports Go_Strings
begin

text \<open>
  Facts about UTF-8 that the parser of the agent's Result rests on: decoding an encoded code
  point gives it back, decoding never yields a surrogate or a value above U+10FFFF, and so a
  string built by \<open>Builder.WriteRune\<close> reads back as exactly the code points written.
\<close>


definition valid_rune :: "nat \<Rightarrow> bool" where
  "valid_rune r \<longleftrightarrow> r < 0xD800 \<or> 0xE000 \<le> r \<and> r < 0x110000"

lemma payload_bits:
  "b < 64 \<Longrightarrow> (0x80 + b) mod 64 = (b :: nat)" "a < 32 \<Longrightarrow> (0xC0 + a) mod 32 = (a :: nat)"
  "a < 16 \<Longrightarrow> (0xE0 + a) mod 16 = (a :: nat)" "a < 8 \<Longrightarrow> (0xF0 + a) mod 8 = (a :: nat)"
  using mod_mult_self2 [of b 64 2] mod_mult_self2 [of a 32 6] mod_mult_self2 [of a 16 14]
    mod_mult_self2 [of a 8 30] by (simp_all add: add.commute)

lemma decode_digits2:
  "2 \<le> a \<Longrightarrow> a < 32 \<Longrightarrow> b < 64 \<Longrightarrow> decode_rune (0xC0 + a) ((0x80 + b) # bs) = (a * 64 + b, 2)"
  by (simp add: decode_rune_def cont_byte_def payload_bits)

lemma decode_digits3:
  "a < 16 \<Longrightarrow> b < 64 \<Longrightarrow> c < 64 \<Longrightarrow> (a = 0 \<longrightarrow> 32 \<le> b) \<Longrightarrow> (a = 13 \<longrightarrow> b < 32) \<Longrightarrow>
   decode_rune (0xE0 + a) ((0x80 + b) # (0x80 + c) # bs) = (a * 4096 + b * 64 + c, 3)"
  by (auto simp add: decode_rune_def cont_byte_def payload_bits Let_def)

lemma decode_digits4:
  "a \<le> 4 \<Longrightarrow> b < 64 \<Longrightarrow> c < 64 \<Longrightarrow> d < 64 \<Longrightarrow> (a = 0 \<longrightarrow> 16 \<le> b) \<Longrightarrow> (a = 4 \<longrightarrow> b < 16) \<Longrightarrow>
   decode_rune (0xF0 + a) ((0x80 + b) # (0x80 + c) # (0x80 + d) # bs) = (a * 262144 + b * 4096 + c * 64 + d, 4)"
  by (auto simp add: decode_rune_def cont_byte_def payload_bits Let_def)

lemma digits64:
  fixes r :: nat
  shows "r = r div 64 * 64 + r mod 64" "r = r div 4096 * 4096 + (r div 64) mod 64 * 64 + r mod 64"
    "r = r div 262144 * 262144 + (r div 4096) mod 64 * 4096 + (r div 64) mod 64 * 64 + r mod 64"
proof -
  show 1: "r = r div 64 * 64 + r mod 64" by simp
  have 2: "r div 64 = r div 4096 * 64 + (r div 64) mod 64"
    using div_mult_mod_eq [of "r div 64" 64] by (simp add: div_mult2_eq [symmetric])
  with 1 show "r = r div 4096 * 4096 + (r div 64) mod 64 * 64 + r mod 64" by linarith
  have "r div 4096 = r div 262144 * 64 + (r div 4096) mod 64"
    using div_mult_mod_eq [of "r div 4096" 64] by (simp add: div_mult2_eq [symmetric])
  with 1 2 show "r = r div 262144 * 262144 + (r div 4096) mod 64 * 4096 + (r div 64) mod 64 * 64 + r mod 64"
    by linarith
qed

lemma decode_encode2:
  assumes "0x80 \<le> r" "r < 0x800"
  shows "decode_rune (0xC0 + r div 64) ((0x80 + r mod 64) # bs) = (r, 2)"
  using decode_digits2 [of "r div 64" "r mod 64" bs] digits64(1) [of r] assms by simp

lemma decode_encode3:
  assumes "0x800 \<le> r" "r < 0x10000" "valid_rune r"
  shows "decode_rune (0xE0 + r div 4096) ((0x80 + (r div 64) mod 64) # (0x80 + r mod 64) # bs) = (r, 3)"
proof -
  let ?a = "r div 4096" and ?b = "(r div 64) mod 64" and ?c = "r mod 64"
  note r = digits64(2) [of r]
  have "?c < 64" "?b < 64" "?a < 16" using assms by auto
  moreover have "?a = 0 \<longrightarrow> 32 \<le> ?b" "?a = 13 \<longrightarrow> ?b < 32"
    using assms r \<open>?c < 64\<close> by (auto simp: valid_rune_def)
  ultimately show ?thesis using decode_digits3 [of ?a ?b ?c bs] r by simp
qed

lemma decode_encode4:
  assumes "0x10000 \<le> r" "r < 0x110000"
  shows "decode_rune (0xF0 + r div 262144)
     ((0x80 + (r div 4096) mod 64) # (0x80 + (r div 64) mod 64) # (0x80 + r mod 64) # bs) = (r, 4)"
proof -
  let ?a = "r div 262144" and ?b = "(r div 4096) mod 64" and ?c = "(r div 64) mod 64" and ?d = "r mod 64"
  note r = digits64(3) [of r]
  have "?d < 64" "?c < 64" "?b < 64" "?a \<le> 4" using assms by auto
  moreover have "?a = 0 \<longrightarrow> 16 \<le> ?b" "?a = 4 \<longrightarrow> ?b < 16"
    using assms r \<open>?c < 64\<close> \<open>?d < 64\<close> by auto
  ultimately show ?thesis using decode_digits4 [of ?a ?b ?c ?d bs] r by simp
qed

lemma rune_spans_encode:
  assumes "valid_rune r"
  shows "rune_spans (encode_rune r @ s) = (r, encode_rune r) # rune_spans s"
proof -
  consider "r < 0x80" | "0x80 \<le> r" "r < 0x800" | "0x800 \<le> r" "r < 0x10000" | "0x10000 \<le> r" "r < 0x110000"
    using assms by (fastforce simp: valid_rune_def)
  then show ?thesis
  proof cases
    case 1
    then show ?thesis by (simp add: encode_rune_def decode_rune_def)
  next
    case 2
    then have "192 + r div 64 < 256" "128 + r mod 64 < 256" by auto
    with 2 show ?thesis using decode_encode2 [OF 2, of "map byte s"] by (simp add: encode_rune_def)
  next
    case 3
    then have "0xE0 + r div 4096 < 256" "0x80 + (r div 64) mod 64 < 256" "0x80 + r mod 64 < 256" by auto
    with 3 show ?thesis using decode_encode3 [OF 3 assms, of "map byte s"] by (simp add: encode_rune_def)
  next
    case 4
    then have "0xF0 + r div 262144 < 256" "0x80 + (r div 4096) mod 64 < 256" "0x80 + (r div 64) mod 64 < 256" "0x80 + r mod 64 < 256" by auto
    with 4 show ?thesis using decode_encode4 [OF 4, of "map byte s"] by (simp add: encode_rune_def)
  qed
qed

lemma rune_spans_encode_all:
  "list_all valid_rune rs \<Longrightarrow> rune_spans (concat (map encode_rune rs)) = map (\<lambda>r. (r, encode_rune r)) rs"
  by (induction rs) (auto simp: rune_spans_encode)

lemma runes_encode_all [simp]: "list_all valid_rune rs \<Longrightarrow> runes (concat (map encode_rune rs)) = rs"
  by (simp add: runes_def rune_spans_encode_all comp_def)


lemma decode_rune2_valid: "0xC2 \<le> b0 \<Longrightarrow> b0 \<le> 0xDF \<Longrightarrow> valid_rune (fst (decode_rune2 b0 bs))"
proof (induction b0 bs rule: decode_rune2.induct)
  case (1 b0 b1 bs)
  have "b0 mod 32 < 32" "b1 mod 64 < 64" by simp_all
  then show ?case by (auto simp: valid_rune_def)
qed (simp add: valid_rune_def)

lemma decode_rune3_valid: "0xE0 \<le> b0 \<Longrightarrow> b0 \<le> 0xEF \<Longrightarrow> valid_rune (fst (decode_rune3 b0 bs))"
proof (induction b0 bs rule: decode_rune3.induct)
  case (1 b0 b1 b2 bs)
  define a where "a = b0 - 0xE0"
  with 1 have b0: "b0 = 0xE0 + a" "a < 16" by auto
  then have m: "b0 mod 16 = a" by (simp add: payload_bits)
  have "b1 mod 64 < 32" if "a = 13" "0x80 \<le> b1" "b1 \<le> 0x9F"
    using that payload_bits(1) [of "b1 - 0x80"] by simp
  moreover have "b1 mod 64 < 64" "b2 mod 64 < 64" by simp_all
  moreover have "a * 4096 + b1 mod 64 * 64 + b2 mod 64 < 0xD800" if "a < 13 \<or> a = 13 \<and> b1 mod 64 < 32"
    using that calculation by linarith
  moreover have "0xE000 \<le> a * 4096" if "13 < a" using that by simp
  ultimately show ?case using b0 m by (auto simp: valid_rune_def Let_def)
qed (simp_all add: valid_rune_def)

lemma decode_rune4_valid: "0xF0 \<le> b0 \<Longrightarrow> b0 \<le> 0xF4 \<Longrightarrow> valid_rune (fst (decode_rune4 b0 bs))"
proof (induction b0 bs rule: decode_rune4.induct)
  case (1 b0 b1 b2 b3 bs)
  define a where "a = b0 - 0xF0"
  with 1 have b0: "b0 = 0xF0 + a" "a \<le> 4" by auto
  then have m: "b0 mod 8 = a" by (simp add: payload_bits)
  have "b1 mod 64 < 16" if "a = 4" "0x80 \<le> b1" "b1 \<le> 0x8F"
    using that payload_bits(1) [of "b1 - 0x80"] by simp
  moreover have "16 \<le> b1 mod 64" if "a = 0" "0x90 \<le> b1" "b1 \<le> 0xBF"
    using that payload_bits(1) [of "b1 - 0x80"] by simp
  moreover have "b1 mod 64 < 64" "b2 mod 64 < 64" "b3 mod 64 < 64" by simp_all
  ultimately show ?case using b0 m by (auto simp: valid_rune_def Let_def)
qed (simp_all add: valid_rune_def)

lemma decode_rune_valid: "valid_rune (fst (decode_rune b0 bs))"
  using decode_rune2_valid [of b0 bs] decode_rune3_valid [of b0 bs] decode_rune4_valid [of b0 bs]
  by (auto simp: decode_rune_def) (simp_all add: valid_rune_def)

lemma runes_valid: "list_all valid_rune (runes s)"
proof (induction s rule: rune_spans.induct)
  case (2 c s)
  obtain r w where d: "decode_rune (byte c) (map byte s) = (r, w)" by fastforce
  with decode_rune_valid [of "byte c" "map byte s"] show ?case using "2" [OF d [symmetric]]
    by (simp add: d runes_def)
qed (simp add: runes_def)

text \<open>\<open>TrimSpace\<close> on code points.\<close>

definition trim_runes :: "nat list \<Rightarrow> nat list" where
  "trim_runes rs = rev (dropWhile IsSpace (rev (dropWhile IsSpace rs)))"

lemma set_trim_runes: "set (trim_runes rs) \<subseteq> set rs"
  by (auto simp: trim_runes_def dest!: set_dropWhileD)

lemma length_trim_runes: "length (trim_runes rs) \<le> length rs"
  by (metis length_rev trim_runes_def length_dropWhile_le order_trans)

lemma runes_TrimSpace:
  assumes "list_all valid_rune rs"
  shows "runes (TrimSpace (concat (map encode_rune rs))) = trim_runes rs"
proof -
  have "TrimSpace (concat (map encode_rune rs)) = concat (map encode_rune (trim_runes rs))"
    unfolding TrimSpace_def rune_spans_encode_all [OF assms]
    by (simp add: dropWhile_map rev_map comp_def trim_runes_def)
  moreover have "list_all valid_rune (trim_runes rs)"
    using assms set_trim_runes [of rs] by (auto simp: list_all_iff)
  ultimately show ?thesis by simp
qed

section \<open>Encoding what was decoded\<close>

text \<open>
  The other direction: a valid span of bytes is the encoding of the code point it decodes to, so
  every span of a string is a code point with its encoding or a single invalid byte.
\<close>

lemma undigits2: "b < 64 \<Longrightarrow> (a * 64 + b) div 64 = a" "b < 64 \<Longrightarrow> (a * 64 + b) mod 64 = (b :: nat)"
  by simp_all

lemma undigits3:
  fixes a b c :: nat
  assumes "b < 64" "c < 64"
  shows "(a * 4096 + b * 64 + c) div 4096 = a" "(a * 4096 + b * 64 + c) div 64 mod 64 = b" "(a * 4096 + b * 64 + c) mod 64 = c"
proof -
  have e: "a * 4096 + b * 64 + c = (a * 64 + b) * 64 + c" by simp
  show "(a * 4096 + b * 64 + c) mod 64 = c" "(a * 4096 + b * 64 + c) div 64 mod 64 = b"
    unfolding e using assms by (simp_all only: undigits2)
  show "(a * 4096 + b * 64 + c) div 4096 = a" using assms by (intro div_nat_eqI) auto
qed

lemma undigits4:
  fixes a b c d :: nat
  assumes "b < 64" "c < 64" "d < 64"
  shows "(a * 262144 + b * 4096 + c * 64 + d) div 262144 = a" "(a * 262144 + b * 4096 + c * 64 + d) div 4096 mod 64 = b"
    "(a * 262144 + b * 4096 + c * 64 + d) div 64 mod 64 = c" "(a * 262144 + b * 4096 + c * 64 + d) mod 64 = d"
proof -
  have e: "a * 262144 + b * 4096 + c * 64 + d = ((a * 64 + b) * 64 + c) * 64 + d" by simp
  have "(a * 262144 + b * 4096 + c * 64 + d) div 4096 = a * 64 + b" using assms by (intro div_nat_eqI) auto
  then show "(a * 262144 + b * 4096 + c * 64 + d) div 4096 mod 64 = b" using assms by simp
  show "(a * 262144 + b * 4096 + c * 64 + d) div 262144 = a" using assms by (intro div_nat_eqI) auto
  show "(a * 262144 + b * 4096 + c * 64 + d) div 64 mod 64 = c" "(a * 262144 + b * 4096 + c * 64 + d) mod 64 = d"
    unfolding e using assms by (simp_all only: undigits2)
qed

lemma encode_digits:
  "2 \<le> a \<Longrightarrow> a < 32 \<Longrightarrow> b < 64 \<Longrightarrow> encode_rune (a * 64 + b) = [char_of (0xC0 + a), char_of (0x80 + b)]"
  "a < 16 \<Longrightarrow> b < 64 \<Longrightarrow> c < 64 \<Longrightarrow> (a = 0 \<longrightarrow> 32 \<le> b) \<Longrightarrow>
     encode_rune (a * 4096 + b * 64 + c) = [char_of (0xE0 + a), char_of (0x80 + b), char_of (0x80 + c)]"
  "a \<le> 4 \<Longrightarrow> b < 64 \<Longrightarrow> c < 64 \<Longrightarrow> d < 64 \<Longrightarrow> (a = 0 \<longrightarrow> 16 \<le> b) \<Longrightarrow>
     encode_rune (a * 262144 + b * 4096 + c * 64 + d) = [char_of (0xF0 + a), char_of (0x80 + b), char_of (0x80 + c), char_of (0x80 + d)]"
proof -
  show "2 \<le> a \<Longrightarrow> a < 32 \<Longrightarrow> b < 64 \<Longrightarrow> encode_rune (a * 64 + b) = [char_of (0xC0 + a), char_of (0x80 + b)]"
    by (simp add: encode_rune_def)
  show "encode_rune (a * 4096 + b * 64 + c) = [char_of (0xE0 + a), char_of (0x80 + b), char_of (0x80 + c)]"
    if "a < 16" "b < 64" "c < 64" "a = 0 \<longrightarrow> 32 \<le> b"
  proof -
    have "0x800 \<le> a * 4096 + b * 64 + c" "a * 4096 + b * 64 + c < 0x10000" using that by auto
    then show ?thesis by (simp add: encode_rune_def undigits3 [OF that(2,3)])
  qed
  show "encode_rune (a * 262144 + b * 4096 + c * 64 + d) = [char_of (0xF0 + a), char_of (0x80 + b), char_of (0x80 + c), char_of (0x80 + d)]"
    if "a \<le> 4" "b < 64" "c < 64" "d < 64" "a = 0 \<longrightarrow> 16 \<le> b"
  proof -
    have "0x10000 \<le> a * 262144 + b * 4096 + c * 64 + d" using that by auto
    then show ?thesis by (simp add: encode_rune_def undigits4 [OF that(2-4)])
  qed
qed

lemma range_byteD:
  assumes "lo \<le> b" "b \<le> hi" "0x80 \<le> lo" "hi \<le> (0xBF :: nat)"
  obtains d where "d < 64" "b = 0x80 + d" "b mod 64 = d"
proof
  show "b - 0x80 < 64" "b = 0x80 + (b - 0x80)" using assms by auto
  then show "b mod 64 = b - 0x80" using payload_bits(1) [of "b - 0x80"] by simp
qed

text \<open>A sequence that decodes is the encoding of its code point.\<close>

definition spans_encode :: "nat \<Rightarrow> nat list \<Rightarrow> nat \<times> nat \<Rightarrow> bool" where
  "spans_encode b0 bs p \<longleftrightarrow> p = (RuneError, 1) \<or> encode_rune (fst p) = map char_of (take (snd p) (b0 # bs))"

lemma decode_rune2_encode:
  assumes "0xC2 \<le> b0" "b0 \<le> 0xDF"
  shows "spans_encode b0 bs (decode_rune2 b0 bs)"
proof (cases bs)
  case (Cons b1 t)
  define a where "a = b0 - 0xC0"
  with assms have a: "b0 = 0xC0 + a" "2 \<le> a" "a < 32" by auto
  then have m: "b0 mod 32 = a" by (simp add: payload_bits)
  show ?thesis
  proof (cases "cont_byte b1")
    case True
    then obtain d where "d < 64" "b1 = 0x80 + d" "b1 mod 64 = d" by (auto simp: cont_byte_def elim: range_byteD)
    with a m Cons True show ?thesis using encode_digits(1) [of a d] by (simp add: spans_encode_def)
  qed (use Cons in \<open>simp add: spans_encode_def\<close>)
qed (simp add: spans_encode_def)

lemma decode_rune3_encode:
  assumes "0xE0 \<le> b0" "b0 \<le> 0xEF"
  shows "spans_encode b0 bs (decode_rune3 b0 bs)"
proof (cases "decode_rune3 b0 bs = (RuneError, 1)")
  case False
  then obtain b1 b2 t where bs: "bs = b1 # b2 # t" by (cases bs rule: remdups_adj.cases) auto
  define a where "a = b0 - 0xE0"
  with assms have a: "b0 = 0xE0 + a" "a < 16" by auto
  then have m: "b0 mod 16 = a" by (simp add: payload_bits)
  from False bs have r: "(if b0 = 0xE0 then 0xA0 else 0x80) \<le> b1" "b1 \<le> (if b0 = 0xED then 0x9F else 0xBF)" "0x80 \<le> b2" "b2 \<le> 0xBF"
    by (auto simp: Let_def cont_byte_def split: if_splits)
  from r(1,2) obtain d where d: "d < 64" "b1 = 0x80 + d" "b1 mod 64 = d" by (rule range_byteD) auto
  from r(3,4) obtain e where e: "e < 64" "b2 = 0x80 + e" "b2 mod 64 = e" by (rule range_byteD) auto
  have "a = 0 \<longrightarrow> 32 \<le> d" using r(1) a d by auto
  with encode_digits(2) [OF a(2) d(1) e(1)] False bs a m d e show ?thesis
    by (auto simp: spans_encode_def Let_def split: if_splits)
qed (simp add: spans_encode_def)

lemma decode_rune4_encode:
  assumes "0xF0 \<le> b0" "b0 \<le> 0xF4"
  shows "spans_encode b0 bs (decode_rune4 b0 bs)"
proof (cases "decode_rune4 b0 bs = (RuneError, 1)")
  case False
  then obtain b1 b2 b3 t where bs: "bs = b1 # b2 # b3 # t" by (cases "(b0, bs)" rule: decode_rune4.cases) auto
  define a where "a = b0 - 0xF0"
  with assms have a: "b0 = 0xF0 + a" "a \<le> 4" by auto
  then have m: "b0 mod 8 = a" by (simp add: payload_bits)
  from False bs have r: "(if b0 = 0xF0 then 0x90 else 0x80) \<le> b1" "b1 \<le> (if b0 = 0xF4 then 0x8F else 0xBF)"
      "0x80 \<le> b2" "b2 \<le> 0xBF" "0x80 \<le> b3" "b3 \<le> 0xBF"
    by (auto simp: Let_def cont_byte_def split: if_splits)
  from r(1,2) obtain d where d: "d < 64" "b1 = 0x80 + d" "b1 mod 64 = d" by (rule range_byteD) auto
  from r(3,4) obtain e where e: "e < 64" "b2 = 0x80 + e" "b2 mod 64 = e" by (rule range_byteD) auto
  from r(5,6) obtain f where f: "f < 64" "b3 = 0x80 + f" "b3 mod 64 = f" by (rule range_byteD) auto
  have "a = 0 \<longrightarrow> 16 \<le> d" using r(1) a d by auto
  with encode_digits(3) [OF a(2) d(1) e(1) f(1)] False bs a m d e f show ?thesis
    by (auto simp: spans_encode_def Let_def split: if_splits)
qed (simp add: spans_encode_def)

lemma decode_rune_encode: "spans_encode b0 bs (decode_rune b0 bs)"
  using decode_rune2_encode [of b0 bs] decode_rune3_encode [of b0 bs] decode_rune4_encode [of b0 bs]
  by (auto simp: decode_rune_def) (auto simp: spans_encode_def encode_rune_def)

text \<open>A span is an invalid byte or the encoding of its code point.\<close>

definition good_span :: "nat \<times> string \<Rightarrow> bool" where
  "good_span p \<longleftrightarrow> valid_rune (fst p) \<and> (invalid_span p \<or> snd p = encode_rune (fst p))"

lemma rune_spans_good: "list_all good_span (rune_spans s)"
proof (induction s rule: rune_spans.induct)
  case (2 c s)
  obtain r0 w where d: "decode_rune (byte c) (map byte s) = (r0, w)" by fastforce
  have "valid_rune r0" using decode_rune_valid [of "byte c" "map byte s"] d by simp
  moreover have "invalid_span (r0, take w (c # s)) \<or> take w (c # s) = encode_rune r0"
    using decode_rune_encode [of "byte c" "map byte s"] d
    by (auto simp: spans_encode_def invalid_span_def take_map [symmetric] comp_def take_Cons')
  ultimately show ?case using "2.IH" [OF d [symmetric]] d by (simp add: good_span_def)
qed simp

end
