(* ===== verification/Policy_Result.thy ===== *)
theory Policy_Result
  imports Reference_Env Go_Json Go_Net Go_Utf8
begin

text \<open>
  \<open>internal/policy/result.go\<close>: the parser of the termination message, an untrusted input. It
  reads at most 4096 bytes, decodes one strict JSON object, removes control characters from the
  summary and keeps a link only when its name, its URL and its host obey the contract.
\<close>

abbreviation MaxResultBytes :: nat where "MaxResultBytes \<equiv> 2048"
abbreviation MaxResultSummaryChars :: nat where "MaxResultSummaryChars \<equiv> 512"
abbreviation MaxResultLinks :: nat where "MaxResultLinks \<equiv> 8"
abbreviation MaxResultLinkNameChars :: nat where "MaxResultLinkNameChars \<equiv> 32"
abbreviation MaxResultLinkURLChars :: nat where "MaxResultLinkURLChars \<equiv> 2048"
abbreviation maxTerminationMessageBytes :: nat where "maxTerminationMessageBytes \<equiv> 4096"

datatype ResultOutcome = ResultRecorded | ResultNotProvided | ResultInvalid

record ParsedResult =
  pr_Result :: "TaskResult option"
  pr_Outcome :: ResultOutcome
  pr_DroppedLinks :: nat
  pr_Problem :: string

section \<open>The strict decoder\<close>

record wireLink =
  wl_Name :: string
  wl_URL :: string

record wireResult =
  wr_Summary :: string
  wr_Links :: "wireLink list"

definition zero_link :: wireLink where
  "zero_link = \<lparr>wl_Name = [], wl_URL = []\<rparr>"

text \<open>
  How \<open>encoding/json\<close> finds the struct field of a key: the exact name, or else the name up to
  simple case folding. Among the code points outside ASCII only the long s (U+017F) and the
  Kelvin sign (U+212A) fold to ASCII letters.
\<close>

definition fold_rune :: "nat \<Rightarrow> nat" where
  "fold_rune r = (if 97 \<le> r \<and> r \<le> 122 then r - 32 else if r = 0x17F then 83 else if r = 0x212A then 75 else r)"

definition field_matches :: "string \<Rightarrow> string \<Rightarrow> bool" where
  "field_matches name key \<longleftrightarrow> map fold_rune (runes key) = map fold_rune (runes name)"

text \<open>
  Decoding a JSON value into a string field: null leaves the field, a string sets it, any
  other value is a type error.
\<close>

definition into_string :: "json \<Rightarrow> string \<Rightarrow> string option" where
  "into_string j old = (case j of JNull \<Rightarrow> Some old | JString s \<Rightarrow> Some s | _ \<Rightarrow> None)"

fun into_link_members :: "(string \<times> json) list \<Rightarrow> wireLink \<Rightarrow> wireLink option" where
  "into_link_members [] l = Some l"
| "into_link_members ((k, v) # ms) l =
     (if field_matches ''name'' k then
        (case into_string v (wl_Name l) of None \<Rightarrow> None | Some s \<Rightarrow> into_link_members ms (l\<lparr>wl_Name := s\<rparr>))
      else if field_matches ''url'' k then
        (case into_string v (wl_URL l) of None \<Rightarrow> None | Some s \<Rightarrow> into_link_members ms (l\<lparr>wl_URL := s\<rparr>))
      else None)"

definition into_link :: "json \<Rightarrow> wireLink \<Rightarrow> wireLink option" where
  "into_link j l = (case j of JNull \<Rightarrow> Some l | JObject ms \<Rightarrow> into_link_members ms l | _ \<Rightarrow> None)"

text \<open>
  Decoding an array into a slice writes over the elements that the backing array already
  holds: a repeated \<open>links\<close> member starts from the previous elements. \<open>backing\<close> is the array up
  to the longest length so far.
\<close>

fun into_elements :: "json list \<Rightarrow> wireLink list \<Rightarrow> wireLink list option" where
  "into_elements [] backing = Some backing"
| "into_elements (j # js) backing =
     (case into_link j (case backing of [] \<Rightarrow> zero_link | l # _ \<Rightarrow> l) of
        None \<Rightarrow> None
      | Some l \<Rightarrow> map_option (\<lambda>ls. l # ls) (into_elements js (case backing of [] \<Rightarrow> [] | _ # b \<Rightarrow> b)))"

text \<open>A slice is its backing array and its length. An empty array and null drop the array.\<close>

definition into_slice :: "json \<Rightarrow> wireLink list \<times> nat \<Rightarrow> (wireLink list \<times> nat) option" where
  "into_slice j sl = (case j of
     JNull \<Rightarrow> Some ([], 0)
   | JArray js \<Rightarrow> if js = [] then Some ([], 0)
                  else map_option (\<lambda>b. (b, length js)) (into_elements js (fst sl))
   | _ \<Rightarrow> None)"

fun into_result_members ::
  "(string \<times> json) list \<Rightarrow> string \<Rightarrow> wireLink list \<times> nat \<Rightarrow> wireResult option" where
  "into_result_members [] sm sl = Some \<lparr>wr_Summary = sm, wr_Links = take (snd sl) (fst sl)\<rparr>"
| "into_result_members ((k, v) # ms) sm sl =
     (if field_matches ''summary'' k then
        (case into_string v sm of None \<Rightarrow> None | Some s \<Rightarrow> into_result_members ms s sl)
      else if field_matches ''links'' k then
        (case into_slice v sl of None \<Rightarrow> None | Some sl' \<Rightarrow> into_result_members ms sm sl')
      else None)"

text \<open>\<open>decodeStrict\<close>: exactly one value, then only white space.\<close>

definition decodeStrict :: "string \<Rightarrow> wireResult option" where
  "decodeStrict data =
     (case Decode data of
        None \<Rightarrow> None
      | Some (j, rest) \<Rightarrow>
          if skip_space rest \<noteq> [] then None
          else (case j of
                  JObject ms \<Rightarrow> into_result_members ms [] ([], 0)
                | JNull \<Rightarrow> Some \<lparr>wr_Summary = [], wr_Links = []\<rparr>
                | _ \<Rightarrow> None))"

section \<open>The summary\<close>

text \<open>\<open>unicode.IsControl\<close>: category Cc.\<close>

definition IsControl :: "nat \<Rightarrow> bool" where
  "IsControl r \<longleftrightarrow> r < 0x20 \<or> 0x7F \<le> r \<and> r < 0xA0"

fun sanitize_loop :: "unicode \<Rightarrow> nat \<Rightarrow> nat list \<Rightarrow> nat list" where
  "sanitize_loop u n [] = []"
| "sanitize_loop u n (r # rs) =
     (if n = MaxResultSummaryChars then []
      else if r = 9 \<or> r = 10 \<or> r = 13 then 32 # sanitize_loop u (Suc n) rs
      else if IsControl r \<or> u_isFormat u r then sanitize_loop u n rs
      else r # sanitize_loop u (Suc n) rs)"

definition sanitizeSummary :: "unicode \<Rightarrow> string \<Rightarrow> string" where
  "sanitizeSummary u s = TrimSpace (concat (map encode_rune (sanitize_loop u 0 (runes (ToValidUTF8 s)))))"

section \<open>Links\<close>

text \<open>\<open>linkNamePattern\<close>: \<open>^[a-z0-9]+(-[a-z0-9]+)*$\<close>, kebab case.\<close>

definition kebab_char :: "char \<Rightarrow> bool" where
  "kebab_char c \<longleftrightarrow> 97 \<le> byte c \<and> byte c \<le> 122 \<or> 48 \<le> byte c \<and> byte c \<le> 57"

definition linkNamePattern :: "string \<Rightarrow> bool" where
  "linkNamePattern s \<longleftrightarrow> list_all (\<lambda>p. p \<noteq> [] \<and> list_all kebab_char p) (split_on (CHR ''-'') s)"

text \<open>The name under which a host is compared: lower case, without a trailing dot.\<close>

definition host_key :: "unicode \<Rightarrow> string \<Rightarrow> string" where
  "host_key u h = TrimSuffix (ToLower u h) ''.''"

fun host_in :: "unicode \<Rightarrow> string \<Rightarrow> ip option \<Rightarrow> string list \<Rightarrow> bool" where
  "host_in u host ip [] = False"
| "host_in u host ip (entry # es) =
     (let e = TrimSpace entry
      in case ip of
           Some a \<Rightarrow>
             if (case ParseCIDR e of Some n \<Rightarrow> Contains n a | None \<Rightarrow> False) then True
             else if (case ParseIP e of Some b \<Rightarrow> IP_Equal b a | None \<Rightarrow> False) then True
             else host_in u host ip es
         | None \<Rightarrow> if host_key u e = host then True else host_in u host ip es)"

definition hostAllowed :: "unicode \<Rightarrow> string \<Rightarrow> string list \<Rightarrow> bool" where
  "hostAllowed u host0 allowlist =
     (let host = host_key u host0 in host_in u host (ParseIP host) allowlist)"

definition validateLink :: "'w ext \<Rightarrow> wireLink \<Rightarrow> string list \<Rightarrow> ResultLink option" where
  "validateLink x l allowlist =
     (if length (wl_Name l) > MaxResultLinkNameChars \<or> \<not> linkNamePattern (wl_Name l) then None
      else if wl_URL l = [] \<or> length (wl_URL l) > MaxResultLinkURLChars then None
      else case x_urlParse x (wl_URL l) of
        None \<Rightarrow> None
      | Some u \<Rightarrow>
          if url_Scheme u \<noteq> ''https'' \<or> url_Opaque u \<noteq> [] \<or> url_User u \<or> url_Hostname u = [] then None
          else if \<not> hostAllowed (x_unicode x) (url_Hostname u) allowlist then None
          else if length (url_String u) > MaxResultLinkURLChars then None
          else Some \<lparr>rl_Name = wl_Name l, rl_URL = url_String u\<rparr>)"

section \<open>ParseResult\<close>

text \<open>
  The loop over the links: \<open>out\<close> are the links kept, \<open>dropped\<close> counts the others. \<open>seen\<close> holds
  exactly the names of \<open>out\<close>, so the model reads it from there.
\<close>

fun link_loop :: "'w ext \<Rightarrow> string list \<Rightarrow> wireLink list \<Rightarrow> ResultLink list \<Rightarrow> nat \<Rightarrow> ResultLink list \<times> nat" where
  "link_loop x allowlist [] out dropped = (out, dropped)"
| "link_loop x allowlist (l # ls) out dropped =
     (case validateLink x l allowlist of
        None \<Rightarrow> link_loop x allowlist ls out (Suc dropped)
      | Some link \<Rightarrow>
          if rl_Name link \<in> set (map rl_Name out) \<or> length out = MaxResultLinks
          then link_loop x allowlist ls out (Suc dropped)
          else link_loop x allowlist ls (out @ [link]) dropped)"

definition droppedProblem :: "nat \<Rightarrow> nat \<Rightarrow> string" where
  "droppedProblem dropped tot =
     ''Dropped '' @ itoa_nat dropped @ '' of '' @ itoa_nat tot @ '' links that broke the contract''"

definition parsed :: "TaskResult option \<Rightarrow> ResultOutcome \<Rightarrow> nat \<Rightarrow> string \<Rightarrow> ParsedResult" where
  "parsed res outc n problem =
     \<lparr>pr_Result = res, pr_Outcome = outc, pr_DroppedLinks = n, pr_Problem = problem\<rparr>"

definition ParseResult :: "'w ext \<Rightarrow> string \<Rightarrow> string list \<Rightarrow> ParsedResult" where
  "ParseResult x message0 allowlist =
     (let message = take maxTerminationMessageBytes message0
      in case IndexByte message (CHR ''{'') of
           None \<Rightarrow> parsed None ResultNotProvided 0
             (if TrimSpace message \<noteq> [] then ''Termination message holds no JSON object''
              else ''Termination message is empty'')
         | Some start \<Rightarrow>
             (let body = drop start message
              in if length body > MaxResultBytes
                 then parsed None ResultInvalid 0 (''Result is larger than '' @ itoa_nat MaxResultBytes @ '' bytes'')
                 else case decodeStrict body of
                   None \<Rightarrow> parsed None ResultInvalid 0 ''Result is not strict JSON of the contract shape''
                 | Some wire \<Rightarrow>
                     (case link_loop x allowlist (wr_Links wire) [] 0 of
                        (links, dropped) \<Rightarrow>
                          (let summary = sanitizeSummary (x_unicode x) (wr_Summary wire);
                               out = \<lparr>res_Summary = summary, res_Links = links\<rparr>;
                               empty = (summary = [] \<and> links = [])
                           in if dropped > 0 \<and> empty
                              then parsed None ResultInvalid dropped (droppedProblem dropped (length (wr_Links wire)))
                              else if dropped > 0
                              then parsed (Some out) ResultInvalid dropped (droppedProblem dropped (length (wr_Links wire)))
                              else if empty then parsed None ResultNotProvided 0 ''Result is empty''
                              else parsed (Some out) ResultRecorded 0 []))))"

section \<open>Facts\<close>

definition summary_rune :: "unicode \<Rightarrow> nat \<Rightarrow> bool" where
  "summary_rune u r \<longleftrightarrow> r = 32 \<or> \<not> IsControl r \<and> \<not> u_isFormat u r"

lemma sanitize_loop_runes:
  "list_all valid_rune rs \<Longrightarrow>
     list_all valid_rune (sanitize_loop u n rs) \<and> list_all (summary_rune u) (sanitize_loop u n rs)"
  by (induction u n rs rule: sanitize_loop.induct) (auto simp: summary_rune_def valid_rune_def)

lemma length_sanitize_loop:
  "n \<le> MaxResultSummaryChars \<Longrightarrow> length (sanitize_loop u n rs) \<le> MaxResultSummaryChars - n"
  by (induction u n rs rule: sanitize_loop.induct) (auto simp: le_diff_conv)

lemma sanitizeSummary_runes:
  "length (runes (sanitizeSummary u s)) \<le> MaxResultSummaryChars \<and>
   list_all (summary_rune u) (runes (sanitizeSummary u s))"
proof -
  let ?rs = "sanitize_loop u 0 (runes (ToValidUTF8 s))"
  have ok: "list_all valid_rune ?rs" "list_all (summary_rune u) ?rs"
    using sanitize_loop_runes [OF runes_valid] by blast+
  have eq: "runes (sanitizeSummary u s) = trim_runes ?rs"
    unfolding sanitizeSummary_def by (rule runes_TrimSpace [OF ok(1)])
  have "length (trim_runes ?rs) \<le> MaxResultSummaryChars"
    using length_trim_runes [of ?rs] length_sanitize_loop [of 0 u "runes (ToValidUTF8 s)"] by simp
  moreover have "list_all (summary_rune u) (trim_runes ?rs)"
    using ok(2) set_trim_runes [of ?rs] by (auto simp: list_all_iff)
  ultimately show ?thesis by (simp add: eq)
qed

text \<open>What \<open>validateLink\<close> promises of a link it accepts.\<close>

definition link_ok :: "'w ext \<Rightarrow> string list \<Rightarrow> ResultLink \<Rightarrow> bool" where
  "link_ok x allowlist l \<longleftrightarrow>
     linkNamePattern (rl_Name l) \<and> length (rl_Name l) \<le> MaxResultLinkNameChars \<and>
     length (rl_URL l) \<le> MaxResultLinkURLChars \<and>
     (\<exists>raw u. x_urlParse x raw = Some u \<and> url_String u = rl_URL l \<and> url_Scheme u = ''https'' \<and>
        url_Opaque u = [] \<and> \<not> url_User u \<and> url_Hostname u \<noteq> [] \<and>
        hostAllowed (x_unicode x) (url_Hostname u) allowlist)"

lemma validateLink_ok: "validateLink x l al = Some link \<Longrightarrow> link_ok x al link"
  by (fastforce simp: validateLink_def link_ok_def split: if_splits option.splits)

lemma link_loop_inv:
  assumes "link_loop x al ls out d = (links, dropped)" and "length out \<le> MaxResultLinks"
    and "distinct (map rl_Name out)" and "list_all (link_ok x al) out"
  shows "length links \<le> MaxResultLinks \<and> distinct (map rl_Name links) \<and> list_all (link_ok x al) links \<and>
    length links + dropped = length out + d + length ls"
  using assms
proof (induction x al ls out d arbitrary: links dropped rule: link_loop.induct)
  case (2 x al l ls out d)
  show ?case
  proof (cases "validateLink x l al")
    case None
    with 2 show ?thesis by fastforce
  next
    case (Some link)
    show ?thesis
    proof (cases "rl_Name link \<in> set (map rl_Name out) \<or> length out = MaxResultLinks")
      case True
      with 2 Some show ?thesis by fastforce
    next
      case False
      with "2.prems" Some validateLink_ok [OF Some] "2.IH"(3) [OF Some False, of links dropped]
      show ?thesis by simp
    qed
  qed
qed simp

text \<open>The reference for the loop: the first link of each name, at most eight of them.\<close>

fun first_by_name :: "string list \<Rightarrow> ResultLink list \<Rightarrow> ResultLink list" where
  "first_by_name seen [] = []"
| "first_by_name seen (l # ls) =
     (if rl_Name l \<in> set seen then first_by_name seen ls
      else l # first_by_name (rl_Name l # seen) ls)"

definition valid_links :: "'w ext \<Rightarrow> string list \<Rightarrow> wireLink list \<Rightarrow> ResultLink list" where
  "valid_links x al ls = List.map_filter (\<lambda>l. validateLink x l al) ls"

lemma first_by_name_cong: "set s = set t \<Longrightarrow> first_by_name s ls = first_by_name t ls"
proof (induction ls arbitrary: s t)
  case (Cons l ls)
  from Cons.prems have "set (rl_Name l # s) = set (rl_Name l # t)" by simp
  from Cons.IH [OF this] Cons.IH [OF Cons.prems] Cons.prems show ?case by simp
qed simp

lemma names_first_by_name: "rl_Name ` set (first_by_name seen ls) = rl_Name ` set ls - set seen"
  by (induction ls arbitrary: seen) auto

lemma distinct_first_by_name: "distinct (map rl_Name (first_by_name seen ls))"
  by (induction ls arbitrary: seen) (auto simp: names_first_by_name)

lemma length_first_by_name: "length (first_by_name [] ls) = card (rl_Name ` set ls)"
  using distinct_card [OF distinct_first_by_name [of "[]" ls]] names_first_by_name [of "[]" ls] by simp

lemma link_loop_reference:
  "length out \<le> MaxResultLinks \<Longrightarrow>
     fst (link_loop x al ls out d) =
       out @ take (MaxResultLinks - length out) (first_by_name (map rl_Name out) (valid_links x al ls))"
proof (induction x al ls out d rule: link_loop.induct)
  case (1 x al out d)
  show ?case by (simp add: valid_links_def map_filter_simps)
next
  case (2 x al l ls out d)
  show ?case
  proof (cases "validateLink x l al")
    case None
    with 2 show ?thesis by (simp add: valid_links_def map_filter_simps)
  next
    case (Some link)
    have c: "first_by_name (map rl_Name (out @ [link])) vs = first_by_name (rl_Name link # map rl_Name out) vs" for vs
      by (rule first_by_name_cong) auto
    show ?thesis
    proof (cases "rl_Name link \<in> set (map rl_Name out) \<or> length out = MaxResultLinks")
      case True
      with 2 Some show ?thesis by (auto simp: valid_links_def map_filter_simps)
    next
      case False
      moreover from False "2.prems" have "MaxResultLinks - length out = Suc (MaxResultLinks - Suc (length out))"
        by arith
      ultimately show ?thesis using 2 Some c by (simp add: valid_links_def map_filter_simps)
    qed
  qed
qed

text \<open>An allowlist entry that a host matches.\<close>

definition host_matches :: "unicode \<Rightarrow> string \<Rightarrow> string \<Rightarrow> bool" where
  "host_matches u host entry =
     (let e = TrimSpace entry
      in case ParseIP (host_key u host) of
           Some a \<Rightarrow>
             (case ParseCIDR e of Some n \<Rightarrow> Contains n a | None \<Rightarrow> False) \<or>
             (case ParseIP e of Some b \<Rightarrow> IP_Equal b a | None \<Rightarrow> False)
         | None \<Rightarrow> host_key u e = host_key u host)"

lemma hostAllowed_iff: "hostAllowed u host al \<longleftrightarrow> list_ex (host_matches u host) al"
proof -
  have step: "host_in u (host_key u host) (ParseIP (host_key u host)) (e # es) \<longleftrightarrow>
      host_matches u host e \<or> host_in u (host_key u host) (ParseIP (host_key u host)) es" for e es
    by (cases "ParseIP (host_key u host)") (simp_all add: host_matches_def Let_def)
  have "host_in u (host_key u host) (ParseIP (host_key u host)) al = list_ex (host_matches u host) al"
    by (induction al) (simp_all add: step del: host_in.simps(2))
  then show ?thesis by (simp add: hostAllowed_def Let_def)
qed

lemma hostAllowed_mono: "hostAllowed u h al \<Longrightarrow> set al \<subseteq> set al' \<Longrightarrow> hostAllowed u h al'"
  by (auto simp: hostAllowed_iff list_ex_iff)

lemma validateLink_mono:
  "validateLink x l al = Some link \<Longrightarrow> set al \<subseteq> set al' \<Longrightarrow> validateLink x l al' = Some link"
  using hostAllowed_mono [of "x_unicode x" _ al al']
  by (simp add: validateLink_def split: if_split_asm option.split_asm)

lemma valid_links_mono: "set al \<subseteq> set al' \<Longrightarrow> set (valid_links x al ls) \<subseteq> set (valid_links x al' ls)"
  using validateLink_mono [of x _ al _ al'] by (force simp: valid_links_def List.map_filter_def)

text \<open>The JSON object of a message, when the parser gets as far as decoding one.\<close>

definition wire_of :: "string \<Rightarrow> wireResult option" where
  "wire_of message =
     (let m = take maxTerminationMessageBytes message
      in case IndexByte m (CHR ''{'') of
           None \<Rightarrow> None
         | Some i \<Rightarrow> if length (drop i m) > MaxResultBytes then None else decodeStrict (drop i m))"

definition result_links :: "ParsedResult \<Rightarrow> ResultLink list" where
  "result_links p = (case pr_Result p of None \<Rightarrow> [] | Some r \<Rightarrow> res_Links r)"

definition too_large :: string where
  "too_large = ''Result is larger than '' @ itoa_nat MaxResultBytes @ '' bytes''"

definition fixed_problems :: "string list" where
  "fixed_problems = [[], ''Termination message is empty'', ''Termination message holds no JSON object'',
     too_large, ''Result is not strict JSON of the contract shape'', ''Result is empty'']"

lemma ParseResult_None:
  assumes "wire_of m = None"
  shows "pr_Result (ParseResult x m al) = None \<and> pr_Outcome (ParseResult x m al) \<noteq> ResultRecorded \<and>
    pr_DroppedLinks (ParseResult x m al) = 0 \<and> pr_Problem (ParseResult x m al) \<in> set fixed_problems"
  using assms unfolding wire_of_def ParseResult_def fixed_problems_def too_large_def
  by (simp add: Let_def parsed_def split: option.splits if_splits)

lemma ParseResult_wire:
  assumes "wire_of m = Some wire" and "link_loop x al (wr_Links wire) [] 0 = (links, dropped)"
  defines "summary \<equiv> sanitizeSummary (x_unicode x) (wr_Summary wire)"
  shows "ParseResult x m al =
    (if dropped > 0 then parsed (if summary = [] \<and> links = [] then None else Some \<lparr>res_Summary = summary, res_Links = links\<rparr>)
       ResultInvalid dropped (droppedProblem dropped (length (wr_Links wire)))
     else if summary = [] \<and> links = [] then parsed None ResultNotProvided 0 ''Result is empty''
     else parsed (Some \<lparr>res_Summary = summary, res_Links = links\<rparr>) ResultRecorded 0 [])"
proof -
  let ?m = "take maxTerminationMessageBytes m"
  from assms(1) obtain i where "IndexByte ?m (CHR ''{'') = Some i" "\<not> length (drop i ?m) > MaxResultBytes"
    "decodeStrict (drop i ?m) = Some wire"
    unfolding wire_of_def Let_def by (cases "IndexByte ?m (CHR ''{'')") (simp_all split: if_split_asm)
  then show ?thesis by (simp add: ParseResult_def Let_def assms(2) summary_def)
qed

lemma result_links_wire:
  assumes "wire_of m = Some wire"
  shows "result_links (ParseResult x m al) =
    take MaxResultLinks (first_by_name [] (valid_links x al (wr_Links wire)))"
proof -
  obtain links dropped where l: "link_loop x al (wr_Links wire) [] 0 = (links, dropped)" by fastforce
  with link_loop_reference [of "[]" x al "wr_Links wire" 0]
  have "links = take MaxResultLinks (first_by_name [] (valid_links x al (wr_Links wire)))" by simp
  then show ?thesis using ParseResult_wire [OF assms l] by (simp add: result_links_def parsed_def)
qed

text \<open>A sample message with two links, one of them to a host off the allowlist (\<open>~\<close> is the quote).\<close>

definition sample_message :: string where
  "sample_message = map (\<lambda>c. if c = CHR ''~'' then dquote else c)
     ''ok {~links~:[{~name~:~x~,~url~:~https://g/2~},{~name~:~pr~,~url~:~https://h/1~}]}''"

definition sample_wire :: wireResult where
  "sample_wire = \<lparr>wr_Summary = [], wr_Links = [\<lparr>wl_Name = ''x'', wl_URL = ''https://g/2''\<rparr>,
     \<lparr>wl_Name = ''pr'', wl_URL = ''https://h/1''\<rparr>]\<rparr>"

lemma parsed_result_ok:
  assumes "pr_Result (ParseResult x message allowlist) = Some r"
  shows "length (res_Links r) \<le> MaxResultLinks \<and> distinct (map rl_Name (res_Links r)) \<and>
    list_all (link_ok x allowlist) (res_Links r) \<and> length (runes (res_Summary r)) \<le> MaxResultSummaryChars \<and>
    list_all (summary_rune (x_unicode x)) (runes (res_Summary r))"
proof -
  from assms obtain wire where w: "wire_of message = Some wire" using ParseResult_None [of message x allowlist] by fastforce
  obtain links dropped where l: "link_loop x allowlist (wr_Links wire) [] 0 = (links, dropped)" by fastforce
  from link_loop_inv [OF l] have "length links \<le> 8" "distinct (map rl_Name links)" "list_all (link_ok x allowlist) links" by simp_all
  moreover from assms have "res_Links r = links" "res_Summary r = sanitizeSummary (x_unicode x) (wr_Summary wire)"
    by (auto simp: ParseResult_wire [OF w l] parsed_def split: if_splits)
  ultimately show ?thesis using sanitizeSummary_runes [of "x_unicode x" "wr_Summary wire"] by simp
qed

section \<open>Properties\<close>

text \<open>
  C10. The Result of an untrusted message obeys the contract, for every message, allowlist and
  URL parser: at most eight links with distinct kebab-case names of at most 32 characters; each
  URL has at most 2048 characters and is the normal form of an https URL without user info
  whose host is on the allowlist; and the summary reads back as at most 512 code points, none of
  which is a control or format character.
\<close>

theorem parsed_result_contract:
  "case pr_Result (ParseResult x message allowlist) of
     None \<Rightarrow> True
   | Some r \<Rightarrow>
       length (res_Links r) \<le> 8 \<and> distinct (map rl_Name (res_Links r)) \<and>
       list_all (\<lambda>l. linkNamePattern (rl_Name l) \<and> length (rl_Name l) \<le> 32 \<and> length (rl_URL l) \<le> 2048 \<and>
         (\<exists>raw u. x_urlParse x raw = Some u \<and> url_String u = rl_URL l \<and> url_Scheme u = ''https'' \<and>
            url_Opaque u = [] \<and> \<not> url_User u \<and> url_Hostname u \<noteq> [] \<and>
            hostAllowed (x_unicode x) (url_Hostname u) allowlist)) (res_Links r) \<and>
       length (runes (res_Summary r)) \<le> 512 \<and>
       list_all (\<lambda>c. c = 32 \<or> \<not> IsControl c \<and> \<not> u_isFormat (x_unicode x) c) (runes (res_Summary r))"
proof (cases "pr_Result (ParseResult x message allowlist)")
  case (Some r)
  with parsed_result_ok [OF Some] show ?thesis by (simp add: link_ok_def [abs_def] summary_rune_def [abs_def])
qed simp

text \<open>
  The outcome of the parser tells the truth: Recorded means that a non-empty Result was
  kept whole, a dropped link always gives Invalid, NotProvided never comes with a Result, and a
  Result that is returned is never empty. The Problem text is a fixed sentence (none when
  Recorded) or a sentence with two counts: no byte of the message reaches it.
\<close>

theorem parsed_outcome_truthful:
  "let p = ParseResult x message allowlist
   in (pr_Outcome p = ResultRecorded \<longleftrightarrow> pr_Result p \<noteq> None \<and> pr_DroppedLinks p = 0) \<and>
      (pr_DroppedLinks p > 0 \<longleftrightarrow> pr_Outcome p = ResultInvalid \<and>
         pr_Problem p = droppedProblem (pr_DroppedLinks p) (pr_DroppedLinks p + length (result_links p))) \<and>
      (case pr_Result p of None \<Rightarrow> True | Some r \<Rightarrow> \<not> (res_Summary r = [] \<and> res_Links r = [])) \<and>
      (pr_DroppedLinks p > 0 \<or> pr_Problem p \<in> set fixed_problems)"
proof (cases "wire_of message")
  case None
  have "\<not> (\<exists>s. droppedProblem 0 s \<in> set fixed_problems)"
    by (simp add: fixed_problems_def too_large_def droppedProblem_def)
  with ParseResult_None [OF None, of x allowlist] show ?thesis
    by (fastforce simp: Let_def result_links_def)
next
  case (Some wire)
  obtain links dropped where l: "link_loop x allowlist (wr_Links wire) [] 0 = (links, dropped)" by fastforce
  from link_loop_inv [OF l] have "dropped + length links = length (wr_Links wire)" by simp
  then show ?thesis unfolding ParseResult_wire [OF Some l]
    by (auto simp: Let_def parsed_def result_links_def fixed_problems_def)
qed

text \<open>
  C36. The links of a Result are, in the order of the message, the first valid link of each
  name, cut to eight; every other link is counted as dropped.
\<close>

theorem parsed_links_reference:
  assumes "wire_of message = Some wire"
  shows "result_links (ParseResult x message allowlist) =
      take 8 (first_by_name [] (valid_links x allowlist (wr_Links wire))) \<and>
    pr_DroppedLinks (ParseResult x message allowlist) =
      length (wr_Links wire) - min 8 (card (rl_Name ` set (valid_links x allowlist (wr_Links wire))))"
proof -
  obtain links dropped where l: "link_loop x allowlist (wr_Links wire) [] 0 = (links, dropped)" by fastforce
  from link_loop_inv [OF l] have tot: "length links + dropped = length (wr_Links wire)" by simp
  from link_loop_reference [of "[]" x allowlist "wr_Links wire" 0] l
  have "links = take 8 (first_by_name [] (valid_links x allowlist (wr_Links wire)))" by simp
  then have "length links = min 8 (card (rl_Name ` set (valid_links x allowlist (wr_Links wire))))"
    by (simp add: length_first_by_name min.commute)
  with tot have "dropped = length (wr_Links wire) - min 8 (card (rl_Name ` set (valid_links x allowlist (wr_Links wire))))"
    by arith
  moreover have "pr_DroppedLinks (ParseResult x message allowlist) = dropped"
    by (simp add: ParseResult_wire [OF assms l] parsed_def)
  ultimately show ?thesis using result_links_wire [OF assms, of x allowlist] by metis
qed

theorem parsed_links_reference_witness:
  "map rl_Name (result_links (ParseResult ref_ext sample_message [''h''])) = [''pr''] \<and>
   pr_DroppedLinks (ParseResult ref_ext sample_message [''h'']) = 1"
proof -
  have w: "wire_of sample_message = Some sample_wire" by code_simp
  have v: "valid_links ref_ext [''h''] (wr_Links sample_wire) = [\<lparr>rl_Name = ''pr'', rl_URL = ''https://h/1''\<rparr>]"
    by code_simp
  have n: "length (wr_Links sample_wire) = 2" by code_simp
  from parsed_links_reference [OF w, of ref_ext "[''h'']"] show ?thesis by (simp add: v n)
qed

text \<open>
  A narrower allowlist never accepts more: with the Task's own entries only (the fallback
  for a deleted ClusterAgentClass) the parser keeps at most as many links as with the full
  allowlist, and every link it keeps is acceptable under the full allowlist.
\<close>

theorem narrower_allowlist_fewer_links:
  assumes "set narrow \<subseteq> set wide"
  shows "length (result_links (ParseResult x message narrow)) \<le> length (result_links (ParseResult x message wide)) \<and>
    list_all (link_ok x wide) (result_links (ParseResult x message narrow))"
proof (cases "wire_of message")
  case None
  show ?thesis
    using ParseResult_None [OF None, of x narrow] ParseResult_None [OF None, of x wide]
    by (simp add: result_links_def)
next
  case (Some wire)
  let ?n = "valid_links x narrow (wr_Links wire)" and ?w = "valid_links x wide (wr_Links wire)"
  have sub: "set ?n \<subseteq> set ?w" by (rule valid_links_mono [OF assms])
  then have "card (rl_Name ` set ?n) \<le> card (rl_Name ` set ?w)" by (intro card_mono) auto
  moreover have "set (first_by_name [] ls) \<subseteq> set ls" for ls
  proof -
    have "set (first_by_name s ls) \<subseteq> set ls" for s by (induction ls arbitrary: s) auto
    then show ?thesis .
  qed
  moreover have "list_all (link_ok x wide) ?w"
    by (auto simp: valid_links_def List.map_filter_def list_all_iff dest: validateLink_ok)
  ultimately show ?thesis using sub
    by (auto simp: result_links_wire [OF Some] length_first_by_name list_all_iff dest!: in_set_takeD)
qed

theorem narrower_allowlist_fewer_links_witness:
  "length (result_links (ParseResult ref_ext sample_message [''h''])) \<le>
     length (result_links (ParseResult ref_ext sample_message [''h'', ''g'']))"
  using narrower_allowlist_fewer_links [of "[''h'']" "[''h'', ''g'']" ref_ext sample_message] by simp

end
