(* ===== verification/Controller_Result.thy ===== *)
theory Controller_Result
  imports Controller_Status Policy_Result
begin

text \<open>
  \<open>internal/controller/result.go\<close> and \<open>syncStatus\<close> of \<open>status.go\<close>: reading the agent's Result
  from the termination message of a pod that the Task's Job controls, once, and copying the
  Job's state onto the Task.
\<close>

abbreviation conditionResult :: string where "conditionResult \<equiv> ''Result''"
abbreviation reasonResultRecorded :: string where "reasonResultRecorded \<equiv> ''Recorded''"
abbreviation reasonResultNotProvided :: string where "reasonResultNotProvided \<equiv> ''NotProvided''"
abbreviation reasonResultUnavailable :: string where "reasonResultUnavailable \<equiv> ''Unavailable''"
abbreviation reasonResultInvalid :: string where "reasonResultInvalid \<equiv> ''Invalid''"

abbreviation DefaultResultWait :: duration where "DefaultResultWait \<equiv> 2 * (60 * Second)"
abbreviation resultRequeue :: duration where "resultRequeue \<equiv> 5 * Second"

definition pod_gone_msg :: string where
  "pod_gone_msg = ''The agent pod was gone before the controller read its termination message''"

definition pod_alive_msg :: string where
  "pod_alive_msg = ''The agent container did not terminate before the controller stopped to wait''"

definition recorded_msg :: string where
  "recorded_msg = ''The agent reported a Result''"

section \<open>The Result condition\<close>

definition resultDecided :: "'w ext \<Rightarrow> Task \<Rightarrow> bool" where
  "resultDecided x task \<longleftrightarrow> x_findStatusCondition x (st_Conditions (task_Status task)) conditionResult \<noteq> None"

definition result_condition :: "Task \<Rightarrow> string \<Rightarrow> string \<Rightarrow> Condition" where
  "result_condition task reason msg = \<lparr>cd_Type = conditionResult,
     cd_Status = (if reason = reasonResultRecorded then ''True'' else ''False''), cd_Reason = reason,
     cd_Message = msg, cd_ObservedGeneration = om_Generation (task_Meta task), cd_LastTransitionTime = 0\<rparr>"

definition setResultCondition :: "'w ext \<Rightarrow> Task \<Rightarrow> string \<Rightarrow> string \<Rightarrow> ('w, Task) op" where
  "setResultCondition x task reason msg = set_condition x task (result_condition task reason msg)"

definition applyParsedResult :: "'w ext \<Rightarrow> Task \<Rightarrow> ParsedResult \<Rightarrow> ('w, Task) op" where
  "applyParsedResult x task p =
     (let task1 = task\<lparr>task_Status := (task_Status task)\<lparr>st_Result := pr_Result p\<rparr>\<rparr>
      in case pr_Outcome p of
           ResultRecorded \<Rightarrow> setResultCondition x task1 reasonResultRecorded recorded_msg
         | ResultInvalid \<Rightarrow> setResultCondition x task1 reasonResultInvalid (pr_Problem p)
         | ResultNotProvided \<Rightarrow> setResultCondition x task1 reasonResultNotProvided (pr_Problem p))"

text \<open>The first terminated status of the agent container.\<close>

fun termination_loop :: "ContainerStatus list \<Rightarrow> string option" where
  "termination_loop [] = None"
| "termination_loop (cs # css) =
     (if cs_Name cs \<noteq> agentContainerName \<or> cs_Terminated cs = None then termination_loop css
      else cs_Terminated cs)"

definition agentTerminationMessage :: "Pod \<Rightarrow> string option" where
  "agentTerminationMessage pod = termination_loop (pd_ContainerStatuses pod)"

definition terminalSince :: "'w ext \<Rightarrow> Task \<Rightarrow> ('w, gotime) op" where
  "terminalSince x task =
     (case x_findStatusCondition x (st_Conditions (task_Status task)) conditionReady of
        Some c \<Rightarrow> if \<not> IsZero (cd_LastTransitionTime c) then State_Monad.return (cd_LastTransitionTime c) else clock x
      | None \<Rightarrow> clock x)"

definition resultWait :: "'w reconciler \<Rightarrow> duration" where
  "resultWait r = (if r_ResultWait r > 0 then r_ResultWait r else DefaultResultWait)"

section \<open>observeResult\<close>

definition job_controls :: "'w ext \<Rightarrow> string \<Rightarrow> Pod \<Rightarrow> bool" where
  "job_controls x jobUID pod =
     (case x_getControllerOf x (pd_Meta pod) of
        None \<Rightarrow> False
      | Some owner \<Rightarrow> or_Kind owner = ''Job'' \<and> or_UID owner = jobUID)"

text \<open>
  The loop over the pods: the message of the first pod that the Job controls and whose agent
  container has terminated, and whether the loop saw a pod of the Job before.
\<close>

fun pod_loop :: "'w ext \<Rightarrow> string \<Rightarrow> bool \<Rightarrow> obj list \<Rightarrow> string option \<times> bool" where
  "pod_loop x jobUID podSeen [] = (None, podSeen)"
| "pod_loop x jobUID podSeen (ob # obs) =
     (case ob of
        OPod pod \<Rightarrow>
          if \<not> job_controls x jobUID pod then pod_loop x jobUID podSeen obs
          else (case agentTerminationMessage pod of
                  Some msg \<Rightarrow> (Some msg, True)
                | None \<Rightarrow> pod_loop x jobUID True obs)
      | _ \<Rightarrow> pod_loop x jobUID podSeen obs)"

text \<open>\<open>observeResult\<close> after the list request.\<close>

definition observe_pods ::
  "'w ext \<Rightarrow> 'w reconciler \<Rightarrow> Task \<Rightarrow> string \<Rightarrow> string list \<Rightarrow> obj list \<Rightarrow> ('w, gerr + duration \<times> Task) op" where
  "observe_pods x r task jobUID egress items =
     (case pod_loop x jobUID False items of
        (Some msg, _) \<Rightarrow> do {
          task1 \<leftarrow> applyParsedResult x task (ParseResult x msg egress);
          State_Monad.return (Inr (0, task1)) }
      | (None, podSeen) \<Rightarrow>
          if \<not> isTerminal (st_Phase (task_Status task)) then State_Monad.return (Inr (0, task))
          else do {
            since \<leftarrow> terminalSince x task;
            now \<leftarrow> clock x;
            if time_Sub now since < resultWait r then State_Monad.return (Inr (resultRequeue, task))
            else do {
              task1 \<leftarrow> setResultCondition x task reasonResultUnavailable
                (if podSeen then pod_alive_msg else pod_gone_msg);
              State_Monad.return (Inr (0, task1)) } })"

definition observeResult ::
  "'w ext \<Rightarrow> 'w reconciler \<Rightarrow> Task \<Rightarrow> string \<Rightarrow> string list \<Rightarrow> ('w, gerr + duration \<times> Task) op" where
  "observeResult x r task jobUID egress =
     (if resultDecided x task then State_Monad.return (Inr (0, task))
      else do {
        pods \<leftarrow> client_List x KPod (Some (task_Namespace task)) (Some [(LabelTaskName, task_Name task)]);
        case pods of
          Inl e \<Rightarrow> State_Monad.return (Inl (Wrapped ''list task pods'' e))
        | Inr items \<Rightarrow> observe_pods x r task jobUID egress items })"

section \<open>recordTerminalResult\<close>

definition get_AgentClass :: "'w ext \<Rightarrow> string \<Rightarrow> ('w, gerr + ClusterAgentClass) op" where
  "get_AgentClass x name = do {
     g \<leftarrow> client_Get x KAgentClass ([], name);
     State_Monad.return (case g of
       Inl e \<Rightarrow> Inl e | Inr ob \<Rightarrow> (case ob of OAgentClass a \<Rightarrow> Inr a | _ \<Rightarrow> Inl undecodable)) }"

definition get_Job :: "'w ext \<Rightarrow> NamespacedName \<Rightarrow> ('w, gerr + Job) op" where
  "get_Job x key = do {
     g \<leftarrow> client_Get x KJob key;
     State_Monad.return (case g of
       Inl e \<Rightarrow> Inl e | Inr ob \<Rightarrow> (case ob of OJob j \<Rightarrow> Inr j | _ \<Rightarrow> Inl undecodable)) }"

definition terminalEgress :: "'w ext \<Rightarrow> Task \<Rightarrow> ('w, string list) op" where
  "terminalEgress x task = do {
     a \<leftarrow> get_AgentClass x (ar_Ref (ts_Agent (task_Spec task)));
     State_Monad.return (case a of
       Inl _ \<Rightarrow> MergeStringSets [pm_Egress (ts_Permissions (task_Spec task))]
     | Inr agent \<Rightarrow> MergeStringSets [pm_Egress (ts_Permissions (task_Spec task)), aq_Egress (ac_Requires (agc_Spec agent))]) }"

text \<open>The last lines of \<open>recordTerminalResult\<close>: write the status when it changed.\<close>

definition write_if_changed ::
  "'w ext \<Rightarrow> TaskStatus \<Rightarrow> duration \<Rightarrow> Task \<Rightarrow> ('w, gerr + duration \<times> Task) op" where
  "write_if_changed x old requeue task =
     (if equalStatus x old (task_Status task) then State_Monad.return (Inr (requeue, task))
      else do {
        u \<leftarrow> client_StatusUpdate x task;
        State_Monad.return (case u of Inl e \<Rightarrow> Inl e | Inr task' \<Rightarrow> Inr (requeue, task')) })"

definition recordTerminalResult ::
  "'w ext \<Rightarrow> 'w reconciler \<Rightarrow> Task \<Rightarrow> ('w, gerr + duration \<times> Task) op" where
  "recordTerminalResult x r task =
     (if resultDecided x task \<or> st_JobName (task_Status task) = [] then State_Monad.return (Inr (0, task))
      else do {
        let old = task_Status task;
        g \<leftarrow> get_Job x (task_Namespace task, st_JobName (task_Status task));
        case g of
          Inl e \<Rightarrow>
            if x_isNotFound x e then do {
              task1 \<leftarrow> setResultCondition x task reasonResultUnavailable pod_gone_msg;
              write_if_changed x old 0 task1 }
            else State_Monad.return (Inl (Wrapped ''get job'' e))
        | Inr job \<Rightarrow> do {
            egress \<leftarrow> terminalEgress x task;
            o1 \<leftarrow> observeResult x r task (om_UID (job_Meta job)) egress;
            case o1 of
              Inl e \<Rightarrow> State_Monad.return (Inl e)
            | Inr (requeue, task1) \<Rightarrow> write_if_changed x old requeue task1 } })"

section \<open>taskForPod and minRequeue\<close>

definition taskForPod :: "obj \<Rightarrow> NamespacedName list" where
  "taskForPod ob =
     (let name = map_get (GetLabels ob) LabelTaskName
      in if name = [] \<or> map_get (GetLabels ob) LabelManagedBy \<noteq> ManagedByValue then []
         else [(om_Namespace (meta_of ob), name)])"

text \<open>\<open>ctrl.Result\<close> is its \<open>RequeueAfter\<close>.\<close>

definition minRequeue :: "duration \<Rightarrow> duration \<Rightarrow> duration" where
  "minRequeue res d = (if d > 0 \<and> (res = 0 \<or> d < res) then d else res)"

section \<open>syncStatus\<close>

definition job_status_onto :: "Task \<Rightarrow> Job \<Rightarrow> Task" where
  "job_status_onto task job = task\<lparr>task_Status := (task_Status task)\<lparr>
     st_JobName := om_Name (job_Meta job), st_StartTime := js_StartTime (job_Status job),
     st_CompletionTime := js_CompletionTime (job_Status job),
     st_ObservedGeneration := om_Generation (task_Meta task), st_Phase := fst (derivePhase job)\<rparr>\<rparr>"

text \<open>What follows a successful write: the metrics and the Event of a phase change.\<close>

definition report_transition ::
  "'w reconciler \<Rightarrow> TaskPhase \<Rightarrow> TaskPhase \<times> string \<times> string \<Rightarrow> Task \<Rightarrow> ('w, unit) op" where
  "report_transition r oldPhase p task = (case p of (phase, reason, msg) \<Rightarrow>
     if oldPhase \<noteq> phase then do {
       ObservePhaseTransition phase reason;
       recordEvent r (eventTypeFor phase) reason msg;
       (case (st_StartTime (task_Status task), st_CompletionTime (task_Status task)) of
          (Some s, Some c) \<Rightarrow>
            if isTerminal phase then ObserveTaskDuration phase (Seconds (time_Sub c s)) else State_Monad.return ()
        | _ \<Rightarrow> State_Monad.return ()) }
     else State_Monad.return ())"

definition syncStatus ::
  "'w ext \<Rightarrow> 'w reconciler \<Rightarrow> Task \<Rightarrow> Job \<Rightarrow> string list \<Rightarrow> ('w, gerr + duration \<times> Task) op" where
  "syncStatus x r task job egress = do {
     let old = task_Status task;
     let (phase, reason, msg) = derivePhase job;
     task1 \<leftarrow> set_condition x (job_status_onto task job)
       (ready_condition task (conditionStatusFor phase) reason msg);
     o1 \<leftarrow> observeResult x r task1 (om_UID (job_Meta job)) egress;
     case o1 of
       Inl e \<Rightarrow> State_Monad.return (Inl e)
     | Inr (requeue, task2) \<Rightarrow>
         if equalStatus x old (task_Status task2) then State_Monad.return (Inr (requeue, task2))
         else do {
           u \<leftarrow> client_StatusUpdate x task2;
           case u of
             Inl e \<Rightarrow> State_Monad.return (Inl e)
           | Inr task3 \<Rightarrow> do {
               report_transition r (st_Phase old) (derivePhase job) task3;
               State_Monad.return (Inr (requeue, task3)) } } }"

end
