(* ===== verification/Controller_Reconcile.thy ===== *)
theory Controller_Reconcile
  imports Controller_Result
begin

text \<open>
  \<open>internal/controller/task_controller.go\<close>: the reconcile loop of a Task. \<open>ensureOwned\<close> is the
  upsert that six of the steps share, \<open>ensureJob\<close> creates the Job last, and \<open>Reconcile\<close> puts
  them in order. Every definition runs against an arbitrary API server, resolver and clock.
\<close>

section \<open>ensureOwned and deleteIfExists\<close>

text \<open>The \<open>mutate\<close> argument gets the existing and the desired object.\<close>

definition ensureOwned ::
  "'w ext \<Rightarrow> Task \<Rightarrow> obj \<Rightarrow> (obj \<Rightarrow> obj \<Rightarrow> obj) \<Rightarrow> ('w, gerr option) op" where
  "ensureOwned x task desired0 mutate =
     (case x_setControllerReference x task desired0 of
        Inl e \<Rightarrow> State_Monad.return (Some e)
      | Inr desired \<Rightarrow> do {
          g \<leftarrow> client_Get x (kind_of desired) (key_of desired);
          case g of
            Inl e \<Rightarrow>
              if x_isNotFound x e then do {
                c \<leftarrow> client_Create x desired;
                State_Monad.return (case c of Inl err \<Rightarrow> Some err | Inr _ \<Rightarrow> None) }
              else State_Monad.return (Some e)
          | Inr old \<Rightarrow>
              (let existing = SetLabels (GetLabels desired) (mutate old desired)
               in if x_deepEqual x old existing then State_Monad.return None
                  else do {
                    u \<leftarrow> client_Update x existing;
                    State_Monad.return (case u of Inl err \<Rightarrow> Some err | Inr _ \<Rightarrow> None) }) })"

definition deleteIfExists :: "'w ext \<Rightarrow> kind \<Rightarrow> NamespacedName \<Rightarrow> ('w, gerr option) op" where
  "deleteIfExists x k key = do {
     e \<leftarrow> client_Delete x k key None;
     State_Monad.return (case e of None \<Rightarrow> None | Some err \<Rightarrow> if x_isNotFound x err then None else Some err) }"

section \<open>The fields that an update copies\<close>

definition mutate_sa :: "obj \<Rightarrow> obj \<Rightarrow> obj" where
  "mutate_sa existing desired = (case (existing, desired) of
     (OServiceAccount a, OServiceAccount d) \<Rightarrow>
       OServiceAccount (a\<lparr>sa_AutomountServiceAccountToken := sa_AutomountServiceAccountToken d\<rparr>)
   | _ \<Rightarrow> existing)"

definition mutate_role :: "obj \<Rightarrow> obj \<Rightarrow> obj" where
  "mutate_role existing desired = (case (existing, desired) of
     (ORole a, ORole d) \<Rightarrow> ORole (a\<lparr>role_Rules := role_Rules d\<rparr>)
   | _ \<Rightarrow> existing)"

definition mutate_rolebinding :: "obj \<Rightarrow> obj \<Rightarrow> obj" where
  "mutate_rolebinding existing desired = (case (existing, desired) of
     (ORoleBinding a, ORoleBinding d) \<Rightarrow> ORoleBinding (a\<lparr>rb_Subjects := rb_Subjects d\<rparr>)
   | _ \<Rightarrow> existing)"

definition mutate_netpol :: "obj \<Rightarrow> obj \<Rightarrow> obj" where
  "mutate_netpol existing desired = (case (existing, desired) of
     (ONetworkPolicy a, ONetworkPolicy d) \<Rightarrow> ONetworkPolicy (a\<lparr>netp_Spec := netp_Spec d\<rparr>)
   | _ \<Rightarrow> existing)"

definition mutate_configmap :: "obj \<Rightarrow> obj \<Rightarrow> obj" where
  "mutate_configmap existing desired = (case (existing, desired) of
     (OConfigMap a, OConfigMap d) \<Rightarrow> OConfigMap (a\<lparr>cm_Data := cm_Data d\<rparr>)
   | _ \<Rightarrow> existing)"

section \<open>The steps\<close>

definition ensureServiceAccount :: "'w ext \<Rightarrow> Task \<Rightarrow> ('w, gerr option) op" where
  "ensureServiceAccount x task = ensureOwned x task (OServiceAccount (buildServiceAccount task)) mutate_sa"

definition ensureRole :: "'w ext \<Rightarrow> Task \<Rightarrow> ('w, gerr option) op" where
  "ensureRole x task =
     (case BuildRole (task_Name task) (task_Namespace task) (pm_RBAC (ts_Permissions (task_Spec task))) of
        None \<Rightarrow> deleteIfExists x KRole (task_Namespace task, taskResourceName task)
      | Some desired \<Rightarrow> ensureOwned x task (ORole desired) mutate_role)"

definition ensureRoleBinding :: "'w ext \<Rightarrow> Task \<Rightarrow> ('w, gerr option) op" where
  "ensureRoleBinding x task =
     (case BuildRoleBinding (task_Name task) (task_Namespace task) (pm_RBAC (ts_Permissions (task_Spec task))) of
        None \<Rightarrow> deleteIfExists x KRoleBinding (task_Namespace task, taskResourceName task)
      | Some desired \<Rightarrow> ensureOwned x task (ORoleBinding desired) mutate_rolebinding)"

definition resolver_of :: "'w ext \<Rightarrow> 'w reconciler \<Rightarrow> 'w resolver" where
  "resolver_of x r = (case r_Resolver r of None \<Rightarrow> DefaultResolver x | Some res \<Rightarrow> res)"

definition ensureNetworkPolicy :: "'w ext \<Rightarrow> 'w reconciler \<Rightarrow> Task \<Rightarrow> string list \<Rightarrow> ('w, gerr option) op" where
  "ensureNetworkPolicy x r task egress = do {
     b \<leftarrow> BuildNetworkPolicy x (resolver_of x r) (task_Name task) (task_Namespace task) egress
       (pm_EgressPorts (ts_Permissions (task_Spec task)));
     case b of
       Inl e \<Rightarrow> State_Monad.return (Some e)
     | Inr desired \<Rightarrow> ensureOwned x task (ONetworkPolicy desired) mutate_netpol }"

definition ensurePromptConfigMap :: "'w ext \<Rightarrow> Task \<Rightarrow> ('w, gerr option) op" where
  "ensurePromptConfigMap x task =
     (case BuildInlinePromptConfigMap (task_Name task) (task_Namespace task) (ts_Prompt (task_Spec task)) of
        None \<Rightarrow> deleteIfExists x KConfigMap (task_Namespace task, InlinePromptConfigMapName (task_Name task))
      | Some desired \<Rightarrow> ensureOwned x task (OConfigMap desired) mutate_configmap)"

definition ensureAgentConfigMap :: "'w ext \<Rightarrow> Task \<Rightarrow> ClusterAgentClass \<Rightarrow> ('w, gerr option) op" where
  "ensureAgentConfigMap x task agent =
     (case BuildAgentConfigMap (task_Name task) (task_Namespace task) (ar_Config (ts_Agent (task_Spec task)))
         (ac_Inputs (agc_Spec agent)) of
        None \<Rightarrow> deleteIfExists x KConfigMap (task_Namespace task, AgentConfigMapName (task_Name task))
      | Some desired \<Rightarrow> ensureOwned x task (OConfigMap desired) mutate_configmap)"

definition as_job :: "gerr + obj \<Rightarrow> gerr + Job" where
  "as_job g = (case g of Inl e \<Rightarrow> Inl e | Inr ob \<Rightarrow> (case ob of OJob j \<Rightarrow> Inr j | _ \<Rightarrow> Inl undecodable))"

definition ensureJob ::
  "'w ext \<Rightarrow> 'w reconciler \<Rightarrow> Task \<Rightarrow> ClusterAgentClass \<Rightarrow> string list \<Rightarrow> ('w, gerr + Job) op" where
  "ensureJob x r task agent effectiveSecrets =
     (case buildJob x task agent effectiveSecrets (r_JobTTLSeconds r) of
        Inl e \<Rightarrow> State_Monad.return (Inl e)
      | Inr job \<Rightarrow>
          (case x_setControllerReference x task (OJob job) of
             Inl e \<Rightarrow> State_Monad.return (Inl e)
           | Inr desired \<Rightarrow> do {
               g \<leftarrow> get_Job x (key_of desired);
               case g of
                 Inl e \<Rightarrow>
                   if x_isNotFound x e then do {
                     c \<leftarrow> client_Create x desired;
                     State_Monad.return (as_job c) }
                   else State_Monad.return (Inl e)
               | Inr existing \<Rightarrow> State_Monad.return (Inr existing) }))"

section \<open>collectTerminal and tasksForAgentClass\<close>

text \<open>A reconcile returns its \<open>RequeueAfter\<close> (zero for none) and its error.\<close>

type_synonym reconcile_result = "duration \<times> gerr option"

definition collectTerminal :: "'w ext \<Rightarrow> 'w reconciler \<Rightarrow> Task \<Rightarrow> ('w, reconcile_result) op" where
  "collectTerminal x r task =
     (case deletionDeadline x task (r_DefaultTaskTTLSeconds r) of
        None \<Rightarrow> State_Monad.return (0, None)
      | Some deadline \<Rightarrow> do {
          now \<leftarrow> clock x;
          let remaining = time_Sub deadline now;
          if remaining > 0 then State_Monad.return (remaining, None)
          else do {
            e \<leftarrow> client_Delete x KTask (key_of (OTask task)) (Some (om_UID (task_Meta task)));
            State_Monad.return (0, case e of None \<Rightarrow> None | Some err \<Rightarrow> x_ignoreNotFound x err) } })"

abbreviation taskAgentRefIndex :: string where "taskAgentRefIndex \<equiv> ''.spec.agent.ref''"

fun live_keys :: "obj list \<Rightarrow> NamespacedName list" where
  "live_keys [] = []"
| "live_keys (ob # obs) = (case ob of
     OTask t \<Rightarrow> if isTerminal (st_Phase (task_Status t)) then live_keys obs else key_of ob # live_keys obs
   | _ \<Rightarrow> live_keys obs)"

definition tasksForAgentClass :: "'w ext \<Rightarrow> obj \<Rightarrow> ('w, NamespacedName list) op" where
  "tasksForAgentClass x ob = do {
     l \<leftarrow> client_ListField x KTask taskAgentRefIndex (om_Name (meta_of ob));
     State_Monad.return (case l of Inl _ \<Rightarrow> [] | Inr items \<Rightarrow> live_keys items) }"

section \<open>Reconcile\<close>

record 'w step =
  step_metricsStep :: string
  step_wrap :: string
  step_invalidReason :: string
  step_run :: "('w, gerr option) op"

text \<open>What the loop does with the error of a step.\<close>

definition step_failed ::
  "'w ext \<Rightarrow> 'w reconciler \<Rightarrow> Task \<Rightarrow> 'w step \<Rightarrow> gerr \<Rightarrow> ('w, reconcile_result) op" where
  "step_failed x r task st err = do {
     ObserveReconcileError (step_metricsStep st);
     if step_invalidReason st \<noteq> [] \<and> IsPermanent err then do {
       f \<leftarrow> failTask x r task (step_invalidReason st) err;
       State_Monad.return (0, f) }
     else State_Monad.return (0, Some (Wrapped (step_wrap st) err)) }"

text \<open>The loop over the steps: \<open>None\<close> when all of them succeeded, or the result to return.\<close>

fun run_steps :: "'w ext \<Rightarrow> 'w reconciler \<Rightarrow> Task \<Rightarrow> 'w step list \<Rightarrow> ('w, reconcile_result option) op" where
  "run_steps x r task [] = State_Monad.return None"
| "run_steps x r task (st # sts) = do {
     e \<leftarrow> step_run st;
     case e of
       None \<Rightarrow> run_steps x r task sts
     | Some err \<Rightarrow> do {
         res \<leftarrow> step_failed x r task st err;
         State_Monad.return (Some res) } }"

definition reconcile_steps ::
  "'w ext \<Rightarrow> 'w reconciler \<Rightarrow> Task \<Rightarrow> ClusterAgentClass \<Rightarrow> string list \<Rightarrow> 'w step list" where
  "reconcile_steps x r task agent effectiveEgress = [
     \<lparr>step_metricsStep = StepServiceAccount, step_wrap = ''ensure service account'', step_invalidReason = [],
       step_run = ensureServiceAccount x task\<rparr>,
     \<lparr>step_metricsStep = StepRole, step_wrap = ''ensure role'', step_invalidReason = [],
       step_run = ensureRole x task\<rparr>,
     \<lparr>step_metricsStep = StepRoleBinding, step_wrap = ''ensure rolebinding'', step_invalidReason = [],
       step_run = ensureRoleBinding x task\<rparr>,
     \<lparr>step_metricsStep = StepNetworkPolicy, step_wrap = ''ensure network policy'',
       step_invalidReason = reasonEgressResolveFail, step_run = ensureNetworkPolicy x r task effectiveEgress\<rparr>,
     \<lparr>step_metricsStep = StepPromptConfigMap, step_wrap = ''ensure prompt configmap'', step_invalidReason = [],
       step_run = ensurePromptConfigMap x task\<rparr>,
     \<lparr>step_metricsStep = StepAgentConfigMap, step_wrap = ''ensure config configmap'', step_invalidReason = [],
       step_run = ensureAgentConfigMap x task agent\<rparr>]"

abbreviation agentClassMissingRequeue :: duration where "agentClassMissingRequeue \<equiv> 30 * Second"

definition effective_egress :: "Task \<Rightarrow> ClusterAgentClass \<Rightarrow> string list" where
  "effective_egress task agent =
     MergeStringSets [pm_Egress (ts_Permissions (task_Spec task)), aq_Egress (ac_Requires (agc_Spec agent))]"

definition effective_secrets :: "Task \<Rightarrow> ClusterAgentClass \<Rightarrow> string list" where
  "effective_secrets task agent =
     MergeStringSets [pm_Secrets (ts_Permissions (task_Spec task)), aq_Secrets (ac_Requires (agc_Spec agent))]"

text \<open>The end of \<open>Reconcile\<close>: the Job, the status and the requeue.\<close>

definition reconcile_job ::
  "'w ext \<Rightarrow> 'w reconciler \<Rightarrow> Task \<Rightarrow> ClusterAgentClass \<Rightarrow> ('w, reconcile_result) op" where
  "reconcile_job x r task agent = do {
     j \<leftarrow> ensureJob x r task agent (effective_secrets task agent);
     case j of
       Inl err \<Rightarrow> do {
         ObserveReconcileError StepJob;
         if IsPermanent err then do {
           f \<leftarrow> failTask x r task reasonInvalidSpec err;
           State_Monad.return (0, f) }
         else State_Monad.return (0, Some (Wrapped ''ensure job'' err)) }
     | Inr job \<Rightarrow> do {
         sy \<leftarrow> syncStatus x r task job (effective_egress task agent);
         case sy of
           Inl err \<Rightarrow> do {
             ObserveReconcileError StepStatus;
             State_Monad.return (0, Some err) }
         | Inr (requeue, task') \<Rightarrow>
             State_Monad.return
               (let res = minRequeue 0 requeue
                in if r_EgressRefreshInterval r > 0 \<and> \<not> isTerminal (st_Phase (task_Status task')) \<and>
                      HasHostnames (effective_egress task agent)
                   then minRequeue res (r_EgressRefreshInterval r) else res, None) } }"

definition reconcile_live :: "'w ext \<Rightarrow> 'w reconciler \<Rightarrow> Task \<Rightarrow> ('w, reconcile_result) op" where
  "reconcile_live x r task =
     (case validateTask x task of
        Some err \<Rightarrow> do {
          ObserveReconcileError StepValidate;
          f \<leftarrow> failTask x r task reasonInvalidSpec err;
          State_Monad.return (0, f) }
      | None \<Rightarrow> do {
          a \<leftarrow> get_AgentClass x (ar_Ref (ts_Agent (task_Spec task)));
          case a of
            Inl err \<Rightarrow>
              if x_isNotFound x err then do {
                ObserveReconcileError StepAgentClassLookup;
                w \<leftarrow> markWaitingForAgentClass x r task;
                State_Monad.return (case w of Some e \<Rightarrow> (0, Some e) | None \<Rightarrow> (agentClassMissingRequeue, None)) }
              else do {
                ObserveReconcileError StepAgentClassLookup;
                State_Monad.return (0, Some err) }
          | Inr agent \<Rightarrow> do {
              stopped \<leftarrow> run_steps x r task (reconcile_steps x r task agent (effective_egress task agent));
              case stopped of
                Some res \<Rightarrow> State_Monad.return res
              | None \<Rightarrow> reconcile_job x r task agent } })"

definition reconcile_terminal :: "'w ext \<Rightarrow> 'w reconciler \<Rightarrow> Task \<Rightarrow> ('w, reconcile_result) op" where
  "reconcile_terminal x r task = do {
     t \<leftarrow> recordTerminalResult x r task;
     case t of
       Inl err \<Rightarrow> do {
         ObserveReconcileError StepStatus;
         State_Monad.return (0, Some err) }
     | Inr (requeue, task') \<Rightarrow> do {
         c \<leftarrow> collectTerminal x r task';
         State_Monad.return (minRequeue (fst c) requeue, snd c) } }"

definition reconcile_task :: "'w ext \<Rightarrow> 'w reconciler \<Rightarrow> Task \<Rightarrow> ('w, reconcile_result) op" where
  "reconcile_task x r task =
     (if isTerminal (st_Phase (task_Status task)) then reconcile_terminal x r task
      else reconcile_live x r task)"

definition Reconcile :: "'w ext \<Rightarrow> 'w reconciler \<Rightarrow> NamespacedName \<Rightarrow> ('w, reconcile_result) op" where
  "Reconcile x r req = do {
     g \<leftarrow> client_Get x KTask req;
     case g of
       Inl err \<Rightarrow> State_Monad.return (0, x_ignoreNotFound x err)
     | Inr ob \<Rightarrow> (case ob of
         OTask task \<Rightarrow> reconcile_task x r task
       | _ \<Rightarrow> State_Monad.return (0, Some undecodable)) }"

section \<open>SetupWithManager\<close>

text \<open>The defaults that the set-up fills in, and the index of Tasks by their class.\<close>

definition setup_defaults :: "'w ext \<Rightarrow> 'w reconciler \<Rightarrow> 'w reconciler" where
  "setup_defaults x r = r\<lparr>r_Resolver := Some (resolver_of x r), r_Recorder := True\<rparr>"

definition agent_ref_index :: "Task \<Rightarrow> string list" where
  "agent_ref_index task =
     (if ar_Ref (ts_Agent (task_Spec task)) = [] then [] else [ar_Ref (ts_Agent (task_Spec task))])"

section \<open>A sample run\<close>

definition sample_reconciler :: "store reconciler" where
  "sample_reconciler = \<lparr>r_Resolver = None, r_Recorder = True, r_EgressRefreshInterval = 60 * Second,
     r_JobTTLSeconds = 3600, r_DefaultTaskTTLSeconds = None, r_ResultWait = 0\<rparr>"

definition sample_state :: "(store, obs) sys" where
  "sample_state = \<lparr>world = sample_store, obslog = []\<rparr>"

definition sample_log :: "obs list" where
  "sample_log = obslog (snd (run_state (Reconcile ref_ext sample_reconciler (''ns'', ''t'')) sample_state))"

end
