(* ===== verification/Controller_Safety.thy ===== *)
theory Controller_Safety
  imports Controller_Reconcile
begin

text \<open>
  Safety of the reconcile loop, for every behaviour of the API server, the resolver and the
  clock. Each lemma says what an operation may append to the log and what its value is.
\<close>

section \<open>Status and Result operations\<close>

text \<open>
  \<open>t\<close> is \<open>task\<close>, or \<open>task\<close> with the Result condition set, the Result kept or read from a message, and
  nothing else changed.
\<close>

definition with_result :: "'w ext \<Rightarrow> Task \<Rightarrow> gotime \<Rightarrow> string \<Rightarrow> string \<Rightarrow> TaskResult option \<Rightarrow> Task" where
  "with_result x task now reason msg res = task\<lparr>task_Status := (task_Status task)\<lparr>
     st_Conditions := x_setStatusCondition x now (st_Conditions (task_Status task)) (result_condition task reason msg),
     st_Result := res\<rparr>\<rparr>"

definition kept_or_parsed :: "'w ext \<Rightarrow> Task \<Rightarrow> TaskResult option \<Rightarrow> bool" where
  "kept_or_parsed x task res \<longleftrightarrow>
     res = st_Result (task_Status task) \<or> (\<exists>message allowlist. res = pr_Result (ParseResult x message allowlist))"

lemma kept_or_parsed_simps [simp]:
  "kept_or_parsed x task (st_Result (task_Status task))" "kept_or_parsed x task (pr_Result (ParseResult x message allowlist))"
  unfolding kept_or_parsed_def by blast+

definition same_but_result :: "'w ext \<Rightarrow> Task \<Rightarrow> Task \<Rightarrow> bool" where
  "same_but_result x task t \<longleftrightarrow> t = task \<or>
     (\<exists>now reason msg res. kept_or_parsed x task res \<and> t = with_result x task now reason msg res)"

lemma same_but_result_refl [simp]: "same_but_result x task task"
  by (simp add: same_but_result_def)

lemma same_but_result_with [simp]: "kept_or_parsed x task res \<Longrightarrow> same_but_result x task (with_result x task now reason msg res)"
  unfolding same_but_result_def by blast

lemma same_but_result_fields:
  "same_but_result x task t \<Longrightarrow> task_Meta t = task_Meta task \<and> task_Spec t = task_Spec task \<and>
     st_Phase (task_Status t) = st_Phase (task_Status task) \<and> st_JobName (task_Status t) = st_JobName (task_Status task) \<and>
     st_StartTime (task_Status t) = st_StartTime (task_Status task) \<and>
     st_CompletionTime (task_Status t) = st_CompletionTime (task_Status task) \<and>
     st_ObservedGeneration (task_Status t) = st_ObservedGeneration (task_Status task)"
  by (auto simp: same_but_result_def with_result_def)

lemma same_but_result_find:
  "condition_laws x \<Longrightarrow> same_but_result x task t \<Longrightarrow> ty \<noteq> conditionResult \<Longrightarrow>
   x_findStatusCondition x (st_Conditions (task_Status t)) ty = x_findStatusCondition x (st_Conditions (task_Status task)) ty"
  by (auto simp: same_but_result_def with_result_def condition_laws_def result_condition_def)

lemma yields_set_condition [yields_rules]:
  "(\<And>now. R (task\<lparr>task_Status := (task_Status task)\<lparr>
       st_Conditions := x_setStatusCondition x now (st_Conditions (task_Status task)) c\<rparr>\<rparr>)) \<Longrightarrow>
   yields p R (set_condition x task c)"
  unfolding set_condition_def by (intro yields_rules)

lemma yields_setResultCondition [yields_rules]:
  assumes "\<And>now. R (with_result x task now reason msg (st_Result (task_Status task)))"
  shows "yields p R (setResultCondition x task reason msg)"
  unfolding setResultCondition_def by (intro yields_rules) (use assms in \<open>simp add: with_result_def\<close>)

lemma yields_applyParsedResult [yields_rules]:
  assumes "\<And>now reason msg. R (with_result x task now reason msg (pr_Result pr))"
  shows "yields p R (applyParsedResult x task pr)"
proof -
  have "yields p R
      (setResultCondition x (task\<lparr>task_Status := (task_Status task)\<lparr>st_Result := pr_Result pr\<rparr>\<rparr>) reason msg)" for reason msg
    by (intro yields_rules) (use assms in \<open>simp add: with_result_def result_condition_def\<close>)
  then show ?thesis unfolding applyParsedResult_def by (simp add: Let_def split: ResultOutcome.split)
qed

lemma yields_terminalSince [yields_rules]: "(\<And>t. R t) \<Longrightarrow> yields p R (terminalSince x task)"
  unfolding terminalSince_def by (intro yields_rules) auto

lemma yields_observeResult [yields_rules]:
  assumes "\<And>rsp. p (Call (CList KPod (Some (task_Namespace task)) (Some [(LabelTaskName, task_Name task)])) rsp)"
    and "\<And>e. R (Inl e)" and "\<And>d t. same_but_result x task t \<Longrightarrow> (resultDecided x task \<Longrightarrow> t = task) \<Longrightarrow> R (Inr (d, t))"
  shows "yields p R (observeResult x r task uid egress)"
  unfolding observeResult_def observe_pods_def by (intro yields_rules assms) auto

lemma yields_get_AgentClass [yields_rules]:
  "(\<And>rsp. p (Call (CGet KAgentClass ([], n)) rsp)) \<Longrightarrow> (\<And>v. R v) \<Longrightarrow> yields p R (get_AgentClass x n)"
  unfolding get_AgentClass_def by (intro yields_rules)

lemma yields_get_Job [yields_rules]:
  "(\<And>rsp. p (Call (CGet KJob key) rsp)) \<Longrightarrow> (\<And>v. R v) \<Longrightarrow> yields p R (get_Job x key)"
  unfolding get_Job_def by (intro yields_rules)

lemma yields_terminalEgress [yields_rules]:
  "(\<And>rsp. p (Call (CGet KAgentClass ([], ar_Ref (ts_Agent (task_Spec task)))) rsp)) \<Longrightarrow> (\<And>v. R v) \<Longrightarrow>
   yields p R (terminalEgress x task)"
  unfolding terminalEgress_def by (intro yields_rules)

lemma yields_write_if_changed [yields_rules]:
  "(\<And>rsp. \<not> equalStatus x old (task_Status task) \<Longrightarrow> p (Call (CStatusUpdate task) rsp)) \<Longrightarrow> (\<And>v. R v) \<Longrightarrow>
   yields p R (write_if_changed x old d task)"
  unfolding write_if_changed_def by (intro yields_rules)

lemma yields_recordEvent [yields_rules]:
  "p (Event ty reason msg) \<Longrightarrow> R () \<Longrightarrow> yields p R (recordEvent r ty reason msg)"
  unfolding recordEvent_def by (intro yields_rules)

lemma yields_metrics [yields_rules]:
  "p (MetricPhase a b) \<Longrightarrow> R () \<Longrightarrow> yields p R (ObservePhaseTransition a b)"
  "p (MetricReconcileError a) \<Longrightarrow> R () \<Longrightarrow> yields p R (ObserveReconcileError a)"
  "p (MetricDuration a f) \<Longrightarrow> R () \<Longrightarrow> yields p R (ObserveTaskDuration a f)"
  unfolding metrics_defs by (intro yields_rules; assumption)+

section \<open>Terminal Tasks\<close>

text \<open>
  What a reconcile of a terminal Task may do: read, record the Result on the status as long as
  it is undecided, count an error, and delete the Task under a UID precondition.
\<close>

definition terminal_ok :: "'w ext \<Rightarrow> Task \<Rightarrow> obs \<Rightarrow> bool" where
  "terminal_ok x task ob =
     (case ob of
        Call c _ \<Rightarrow>
          (case c of
             CGet _ _ \<Rightarrow> True
           | CList _ _ _ \<Rightarrow> True
           | CStatusUpdate t \<Rightarrow> \<not> resultDecided x task \<and> same_but_result x task t
           | CDelete k _ uid \<Rightarrow> k = KTask \<and> uid \<noteq> None
           | _ \<Rightarrow> False)
      | MetricReconcileError _ \<Rightarrow> True
      | _ \<Rightarrow> False)"

lemma terminal_ok_simps [simp]:
  "terminal_ok x task (Call (CGet k key) rsp)" "terminal_ok x task (Call (CList k ns ls) rsp)"
  "terminal_ok x task (Call (CDelete KTask key (Some uid)) rsp)" "terminal_ok x task (MetricReconcileError st)"
  "terminal_ok x task (Call (CStatusUpdate t) rsp) \<longleftrightarrow> \<not> resultDecided x task \<and> same_but_result x task t"
  by (simp_all add: terminal_ok_def)

lemma yields_recordTerminalResult:
  "(\<And>v. R v) \<Longrightarrow> yields (terminal_ok x task) R (recordTerminalResult x r task)"
  unfolding recordTerminalResult_def Let_def by (intro yields_rules) auto

lemma yields_collectTerminal:
  "(\<And>v. R v) \<Longrightarrow> yields (terminal_ok x task) R (collectTerminal x r task')"
  unfolding collectTerminal_def Let_def by (intro yields_rules) auto

lemma reconcile_terminal_ok: "emits_only (terminal_ok x task) (reconcile_terminal x r task)"
  unfolding yields_only [symmetric] reconcile_terminal_def
  by (intro yields_rules yields_recordTerminalResult yields_collectTerminal) auto

section \<open>From a reconcile of a Task to Reconcile\<close>

lemma Reconcile_emits:
  assumes "\<And>task. emits (reconcile_task x r task) (Q task)"
  shows "emits (Reconcile x r req) (\<lambda>res l. \<exists>rsp l'. l = Call (CGet KTask req) rsp # l' \<and>
     (case rsp of RObj (OTask task) \<Rightarrow> Q task res l' | _ \<Rightarrow> l' = []))"
  unfolding Reconcile_def client_Get_def bind_assoc bind_left_identity request_def
proof (rule emits_bind)
  show "emits (outside (x_api x (CGet KTask req)) (Call (CGet KTask req)))
      (\<lambda>rsp l. l = [Call (CGet KTask req) rsp])"
    by (rule emits_outside) simp
next
  fix rsp l1 assume l1: "l1 = [Call (CGet KTask req) rsp]"
  let ?m = "case got_obj KTask rsp of
       Inl err \<Rightarrow> State_Monad.return (0, x_ignoreNotFound x err)
     | Inr ob \<Rightarrow> (case ob of OTask task \<Rightarrow> reconcile_task x r task | _ \<Rightarrow> State_Monad.return (0, Some undecodable))"
  have "emits ?m (\<lambda>res l'. case rsp of RObj (OTask task) \<Rightarrow> Q task res l' | _ \<Rightarrow> l' = [])"
    using assms by (auto simp: got_obj_def split: resp.split obj.split intro!: emits_return)
  then show "emits ?m (\<lambda>res l2. \<exists>rsp l'. l1 @ l2 = Call (CGet KTask req) rsp # l' \<and>
     (case rsp of RObj (OTask task) \<Rightarrow> Q task res l' | _ \<Rightarrow> l' = []))"
    by (rule emits_weaken) (simp add: l1)
qed

end
