(* ===== verification/Controller_Order.thy ===== *)
theory Controller_Order
  imports Controller_Safety
begin

text \<open>
  The order of the writes of a reconcile: the NetworkPolicy of a Task is in place before its
  Job is created, and everything that is created carries the Task's controller reference and
  labels.
\<close>

section \<open>What a successful upsert leaves in the log\<close>

text \<open>
  The object is in place: it was created, or the live object already agrees with it, or the
  live object was updated to agree with it.
\<close>

definition agreed :: "obj \<Rightarrow> (obj \<Rightarrow> obj \<Rightarrow> obj) \<Rightarrow> obj \<Rightarrow> obj" where
  "agreed desired mutate old = SetLabels (GetLabels desired) (mutate old desired)"

definition in_place :: "'w ext \<Rightarrow> Task \<Rightarrow> obj \<Rightarrow> (obj \<Rightarrow> obj \<Rightarrow> obj) \<Rightarrow> obs list \<Rightarrow> bool" where
  "in_place x task desired0 mutate l \<longleftrightarrow>
     (\<exists>desired. x_setControllerReference x task desired0 = Inr desired \<and>
        ((\<exists>ob. Call (CCreate desired) (RObj ob) \<in> set l) \<or>
         (\<exists>old. Call (CGet (kind_of desired) (key_of desired)) (RObj old) \<in> set l \<and> kind_of old = kind_of desired \<and>
            (x_deepEqual x old (agreed desired mutate old) \<or>
             (\<exists>ob. Call (CUpdate (agreed desired mutate old)) (RObj ob) \<in> set l)))))"

lemma in_place_append: "in_place x task d m l \<Longrightarrow> in_place x task d m (a @ l @ b)"
  unfolding in_place_def by auto

lemma ensureOwned_in_place:
  "emits (ensureOwned x task desired0 mutate) (\<lambda>e l. e = None \<longrightarrow> in_place x task desired0 mutate l)"
  unfolding ensureOwned_def Let_def agreed_def [symmetric]
  by (intro obs_rules) (auto simp: in_place_def dest: got_obj_kind split: sum.splits)

section \<open>Entries that create no Job\<close>

definition not_job :: "obs \<Rightarrow> bool" where
  "not_job ob = (case ob of Call (CCreate c) _ \<Rightarrow> kind_of c \<noteq> KJob | _ \<Rightarrow> True)"

lemma not_job_simps [simp]:
  "not_job (Call (CCreate c) rsp) \<longleftrightarrow> kind_of c \<noteq> KJob" "not_job (Call (CGet k key) rsp)"
  "not_job (Call (CUpdate c) rsp)" "not_job (Call (CStatusUpdate t) rsp)" "not_job (Call (CDelete k key u) rsp)"
  "not_job (Call (CList k ns ls) rsp)" "not_job (Dns h ans)" "not_job (Event a b msg)" "not_job (MetricPhase a b)"
  "not_job (MetricReconcileError a)" "not_job (MetricDuration a f)"
  by (simp_all add: not_job_def)

lemma owner_kind:
  "owner_laws x \<Longrightarrow> x_setControllerReference x task ob = Inr ob' \<Longrightarrow> kind_of ob' = kind_of ob"
  unfolding owner_laws_def by (metis kind_of_map_meta)

lemma yields_ensureOwned:
  assumes "\<And>d k key rsp. p (Call (CGet k key) rsp)"
    and "\<And>d rsp. x_setControllerReference x task desired0 = Inr d \<Longrightarrow> p (Call (CCreate d) rsp)"
    and "\<And>d rsp. p (Call (CUpdate d) rsp)" and "\<And>v. R v"
  shows "yields p R (ensureOwned x task desired0 mutate)"
  unfolding ensureOwned_def Let_def by (intro yields_rules assms) auto

lemma yields_deleteIfExists [yields_rules]:
  "(\<And>rsp. p (Call (CDelete k key None) rsp)) \<Longrightarrow> (\<And>v. R v) \<Longrightarrow> yields p R (deleteIfExists x k key)"
  unfolding deleteIfExists_def by (intro yields_rules)

lemma yields_markInvalid [yields_rules]:
  assumes "\<And>now rsp. p (Call (CStatusUpdate ((set_phase task TaskPhaseFailed)\<lparr>task_Status := (task_Status (set_phase task TaskPhaseFailed))\<lparr>
       st_Conditions := x_setStatusCondition x now (st_Conditions (task_Status task)) (ready_condition task ''False'' reason msg)\<rparr>\<rparr>)) rsp)"
    and "st_Phase (task_Status task) \<noteq> TaskPhaseFailed \<Longrightarrow> p (MetricPhase TaskPhaseFailed reason)" and "p (Event ''Warning'' reason (invalidEventMessage reason msg))"
    and "\<And>v. R v"
  shows "yields p R (markInvalid x r task reason msg)"
  unfolding markInvalid_def Let_def
  by (intro yields_rules) (use assms in \<open>auto simp: set_phase_def\<close>)

lemma yields_failTask [yields_rules]:
  assumes "\<And>now rsp. p (Call (CStatusUpdate ((set_phase task TaskPhaseFailed)\<lparr>task_Status := (task_Status (set_phase task TaskPhaseFailed))\<lparr>
       st_Conditions := x_setStatusCondition x now (st_Conditions (task_Status task)) (ready_condition task ''False'' reason (Error cause))\<rparr>\<rparr>)) rsp)"
    and "st_Phase (task_Status task) \<noteq> TaskPhaseFailed \<Longrightarrow> p (MetricPhase TaskPhaseFailed reason)" and "p (Event ''Warning'' reason (invalidEventMessage reason (Error cause)))"
    and "\<And>v. R v"
  shows "yields p R (failTask x r task reason cause)"
  unfolding failTask_def by (intro yields_rules assms)

lemma yields_markWaiting [yields_rules]:
  assumes "\<And>now rsp. p (Call (CStatusUpdate ((set_phase task TaskPhasePending)\<lparr>task_Status := (task_Status (set_phase task TaskPhasePending))\<lparr>
       st_Conditions := x_setStatusCondition x now (st_Conditions (task_Status task))
         (ready_condition task ''Unknown'' reasonAgentClassMissing (waiting_message x task))\<rparr>\<rparr>)) rsp)"
    and "p (Event ''Warning'' reasonAgentClassMissing (waiting_message x task))" and "\<And>v. R v"
  shows "yields p R (markWaitingForAgentClass x r task)"
  unfolding markWaitingForAgentClass_def Let_def
  by (intro yields_rules) (use assms in \<open>auto simp: set_phase_def\<close>)

lemma yields_report_transition [yields_rules]:
  assumes "\<And>f. oldPhase \<noteq> phase \<Longrightarrow> isTerminal phase \<Longrightarrow> p (MetricDuration phase f)"
    and "oldPhase \<noteq> phase \<Longrightarrow> p (MetricPhase phase reason)"
    and "oldPhase \<noteq> phase \<Longrightarrow> p (Event (eventTypeFor phase) reason msg)" and "R ()"
  shows "yields p R (report_transition r oldPhase (phase, reason, msg) task)"
  unfolding report_transition_def by (intro yields_rules) (use assms in auto)

section \<open>The contract of a step\<close>

text \<open>
  What \<open>run_steps\<close> needs of a step: it creates no Job, and when it succeeds its postcondition
  holds of what it logged and of every longer log. The contract is proved once for the loop and
  discharged for each of the six steps.
\<close>

definition quiet :: "'w ext \<Rightarrow> obs \<Rightarrow> bool" where
  "quiet x ob \<longleftrightarrow> owner_laws x \<longrightarrow> not_job ob"

lemma quiet_not_job [simp]: "not_job ob \<Longrightarrow> quiet x ob"
  by (simp add: quiet_def)

locale ensure_step =
  fixes x :: "'w ext" and run :: "('w, gerr option) op" and post :: "obs list \<Rightarrow> bool"
  assumes run_quiet: "yields (quiet x) (\<lambda>_. True) run"
    and run_post: "emits run (\<lambda>e l. e = None \<longrightarrow> post l)"
    and post_grows: "post l \<Longrightarrow> post (a @ l @ b)"
begin

lemma run_emits: "emits run (\<lambda>e l. list_all (quiet x) l \<and> (e = None \<longrightarrow> post l))"
  using emits_conj [OF _ run_post] run_quiet unfolding yields_def by fastforce

lemma post_suffix: "post l \<Longrightarrow> post (a @ l)"
  using post_grows [of l a "[]"] by simp

lemma post_prefix: "post l \<Longrightarrow> post (l @ b)"
  using post_grows [of l "[]" b] by simp

end

lemma ensureOwned_quiet:
  "kind_of d \<noteq> KJob \<Longrightarrow> yields (quiet x) (\<lambda>_. True) (ensureOwned x task d m)"
  by (rule yields_ensureOwned) (auto simp: quiet_def dest: owner_kind)

definition upserted_or_absent :: "'w ext \<Rightarrow> Task \<Rightarrow> obj option \<Rightarrow> (obj \<Rightarrow> obj \<Rightarrow> obj) \<Rightarrow> obs list \<Rightarrow> bool" where
  "upserted_or_absent x task d m l = (case d of None \<Rightarrow> True | Some ob \<Rightarrow> in_place x task ob m l)"

lemma upserted_grows: "upserted_or_absent x task d m l \<Longrightarrow> upserted_or_absent x task d m (a @ l @ b)"
  by (auto simp: upserted_or_absent_def in_place_append split: option.splits)

lemmas upserted_defs = upserted_or_absent_def ensureServiceAccount_def ensureRole_def ensureRoleBinding_def
  ensurePromptConfigMap_def ensureAgentConfigMap_def

interpretation sa_step: ensure_step x "ensureServiceAccount x task"
  "upserted_or_absent x task (Some (OServiceAccount (buildServiceAccount task))) mutate_sa" for x task
  by unfold_locales (auto simp: upserted_defs in_place_append intro: ensureOwned_quiet ensureOwned_in_place)

lemma deleteIfExists_quiet: "yields (quiet x) (\<lambda>_. True) (deleteIfExists x k key)"
  by (intro yields_rules) simp_all

lemma deleteIfExists_post: "emits (deleteIfExists x k key) (\<lambda>_ _. True)"
  by (rule emits_yields [OF deleteIfExists_quiet]) simp

interpretation role_step: ensure_step x "ensureRole x task"
  "upserted_or_absent x task (map_option ORole (BuildRole (task_Name task) (task_Namespace task)
     (pm_RBAC (ts_Permissions (task_Spec task))))) mutate_role" for x task
  by unfold_locales (auto simp: upserted_defs in_place_append split: option.split
      intro: deleteIfExists_quiet deleteIfExists_post ensureOwned_quiet ensureOwned_in_place)

interpretation rolebinding_step: ensure_step x "ensureRoleBinding x task"
  "upserted_or_absent x task (map_option ORoleBinding (BuildRoleBinding (task_Name task) (task_Namespace task)
     (pm_RBAC (ts_Permissions (task_Spec task))))) mutate_rolebinding" for x task
  by unfold_locales (auto simp: upserted_defs in_place_append split: option.split
      intro: deleteIfExists_quiet deleteIfExists_post ensureOwned_quiet ensureOwned_in_place)

interpretation prompt_step: ensure_step x "ensurePromptConfigMap x task"
  "upserted_or_absent x task (map_option OConfigMap (BuildInlinePromptConfigMap (task_Name task) (task_Namespace task)
     (ts_Prompt (task_Spec task)))) mutate_configmap" for x task
  by unfold_locales (auto simp: upserted_defs in_place_append split: option.split
      intro: deleteIfExists_quiet deleteIfExists_post ensureOwned_quiet ensureOwned_in_place)

interpretation config_step: ensure_step x "ensureAgentConfigMap x task agent"
  "upserted_or_absent x task (map_option OConfigMap (BuildAgentConfigMap (task_Name task) (task_Namespace task)
     (ar_Config (ts_Agent (task_Spec task))) (ac_Inputs (agc_Spec agent)))) mutate_configmap" for x task agent
  by unfold_locales (auto simp: upserted_defs in_place_append split: option.split
      intro: deleteIfExists_quiet deleteIfExists_post ensureOwned_quiet ensureOwned_in_place)

text \<open>
  The postcondition of the NetworkPolicy step: the policy of the Task, with rules for the CIDR
  blocks that the lookups of this run resolved, is in place.
\<close>

definition policy_in_place :: "'w ext \<Rightarrow> Task \<Rightarrow> string list \<Rightarrow> obs list \<Rightarrow> bool" where
  "policy_in_place x task egress l \<longleftrightarrow>
     (\<exists>cidrs ld. resolved [] egress (Inr cidrs) ld \<and> set ld \<subseteq> set l \<and>
        in_place x task (ONetworkPolicy (network_policy (task_Name task) (task_Namespace task)
          (egress_rules egress cidrs (pm_EgressPorts (ts_Permissions (task_Spec task)))))) mutate_netpol l)"

lemma policy_in_place_grows: "policy_in_place x task egress l \<Longrightarrow> policy_in_place x task egress (a @ l @ b)"
  unfolding policy_in_place_def by (metis (no_types, lifting) in_place_append le_supI1 le_supI2 set_append)

lemma BuildNetworkPolicy_lookups:
  "emits (BuildNetworkPolicy x res t ns egress ports) (\<lambda>r l. list_all (\<lambda>ob. \<exists>h a. ob = Dns h a) l)"
  by (rule emits_weaken [OF BuildNetworkPolicy_emits]) (auto simp: lookups_only_def list_all_iff)

lemma ensureNetworkPolicy_quiet: "yields (quiet x) (\<lambda>_. True) (ensureNetworkPolicy x r task egress)"
  unfolding ensureNetworkPolicy_def
proof (rule yields_bind)
  show "yields (quiet x) (\<lambda>_. True) (BuildNetworkPolicy x (resolver_of x r) (task_Name task) (task_Namespace task) egress
       (pm_EgressPorts (ts_Permissions (task_Spec task))))"
    unfolding yields_def by (rule emits_weaken [OF BuildNetworkPolicy_lookups]) (auto simp: list_all_iff)
qed (auto intro!: yields_rules ensureOwned_quiet)

lemma ensureNetworkPolicy_post:
  "emits (ensureNetworkPolicy x r task egress) (\<lambda>e l. e = None \<longrightarrow> policy_in_place x task egress l)"
  unfolding ensureNetworkPolicy_def
proof (rule emits_bind [OF BuildNetworkPolicy_emits])
  let ?ports = "pm_EgressPorts (ts_Permissions (task_Spec task))"
  fix b ld
  assume b: "lookups_only egress ld \<and> (case b of
        Inl err \<Rightarrow> resolved [] egress (Inl err) ld
      | Inr np \<Rightarrow> \<exists>cidrs. np = network_policy (task_Name task) (task_Namespace task) (egress_rules egress cidrs ?ports) \<and>
          resolved [] egress (Inr cidrs) ld \<and> sorted cidrs \<and> distinct cidrs)"
  show "emits (case b of Inl e \<Rightarrow> State_Monad.return (Some e)
      | Inr desired \<Rightarrow> ensureOwned x task (ONetworkPolicy desired) mutate_netpol)
     (\<lambda>e l. e = None \<longrightarrow> policy_in_place x task egress (ld @ l))"
  proof (cases b)
    case (Inr np)
    with b obtain cidrs where np: "np = network_policy (task_Name task) (task_Namespace task) (egress_rules egress cidrs ?ports)"
      and r: "resolved [] egress (Inr cidrs) ld" by auto
    have "policy_in_place x task egress (ld @ l)" if "in_place x task (ONetworkPolicy np) mutate_netpol l" for l
      using that r in_place_append [OF that, of ld "[]"] unfolding policy_in_place_def np by auto
    then show ?thesis using Inr by (auto intro: emits_weaken [OF ensureOwned_in_place])
  qed (auto intro: emits_return)
qed

interpretation netpol_step: ensure_step x "ensureNetworkPolicy x r task egress" "policy_in_place x task egress"
  for x r task egress
  by unfold_locales (auto intro: ensureNetworkPolicy_quiet ensureNetworkPolicy_post policy_in_place_grows)

section \<open>The loop over the steps\<close>

lemma yields_step_failed:
  assumes "\<And>t rsp. p (Call (CStatusUpdate t) rsp)" and "\<And>s. p (MetricReconcileError s)"
    and "\<And>a b. p (MetricPhase a b)" and "\<And>a b c. p (Event a b c)" and "\<And>v. R v"
  shows "yields p R (step_failed x r task st err)"
  unfolding step_failed_def by (intro yields_rules assms)

lemma run_steps_yields:
  assumes "\<And>st. st \<in> set sts \<Longrightarrow> yields p (\<lambda>_. True) (step_run st)"
    and "\<And>st err. st \<in> set sts \<Longrightarrow> yields p (\<lambda>_. True) (step_failed x r task st err)"
  shows "yields p (\<lambda>_. True) (run_steps x r task sts)"
  using assms
proof (induction sts)
  case (Cons st sts)
  from Cons have st: "yields p (\<lambda>_. True) (step_run st)" and sts: "yields p (\<lambda>_. True) (run_steps x r task sts)"
    and failed: "yields p (\<lambda>_. True) (step_failed x r task st err)" for err by simp_all
  show ?case unfolding run_steps.simps
    by (rule yields_bind [OF st], rule yields_option, rule sts, rule yields_bind [OF failed]) (intro yields_rules; simp)
qed (auto intro: yields_rules)

lemma run_steps_quiet:
  "(\<And>st. st \<in> set sts \<Longrightarrow> yields (quiet x) (\<lambda>_. True) (step_run st)) \<Longrightarrow>
   yields (quiet x) (\<lambda>_. True) (run_steps x r task sts)"
  by (rule run_steps_yields) (auto intro: yields_step_failed)

context ensure_step
begin

lemma loop_post:
  "st \<in> set sts \<Longrightarrow> step_run st = run \<Longrightarrow>
   (\<And>st. st \<in> set sts \<Longrightarrow> yields (quiet x) (\<lambda>_. True) (step_run st)) \<Longrightarrow>
   emits (run_steps x r task sts) (\<lambda>v l. v = None \<longrightarrow> post l)"
proof (induction sts)
  case (Cons s1 sts)
  have stop: "emits (State_Monad.bind (step_failed x r task s1 err) (\<lambda>res. State_Monad.return (Some res)))
      (\<lambda>v l2. v = None \<longrightarrow> P l2)" for err P
    by (rule emits_yields [where p = "\<lambda>_. True" and R = "\<lambda>v. v \<noteq> None"], intro yields_rules yields_step_failed) auto
  have tail: "yields (quiet x) (\<lambda>_. True) (run_steps x r task sts)"
    by (rule run_steps_quiet) (use Cons.prems(3) in auto)
  show ?case
  proof (cases "s1 = st")
    case True
    show ?thesis unfolding run_steps.simps
    proof (rule emits_bind)
      show "emits (step_run s1) (\<lambda>e l. e = None \<longrightarrow> post l)" using True Cons.prems(2) run_post by simp
    qed (auto intro!: obs_rules stop emits_yields [OF tail] post_prefix)
  next
    case False
    with Cons have IH: "emits (run_steps x r task sts) (\<lambda>v l. v = None \<longrightarrow> post l)" by simp
    show ?thesis unfolding run_steps.simps
    proof (rule emits_bind)
      show "emits (step_run s1) (\<lambda>e l. list_all (quiet x) l \<and> True)"
        using Cons.prems(3) [of s1] unfolding yields_def by simp
    qed (auto intro!: emits_option stop emits_weaken [OF IH] post_suffix)
  qed
qed simp

end

lemma reconcile_steps_quiet:
  "st \<in> set (reconcile_steps x r task agent egress) \<Longrightarrow> yields (quiet x) (\<lambda>_. True) (step_run st)"
  by (auto simp: reconcile_steps_def sa_step.run_quiet role_step.run_quiet rolebinding_step.run_quiet
      netpol_step.run_quiet prompt_step.run_quiet config_step.run_quiet)

lemma steps_policy:
  "emits (run_steps x r task (reconcile_steps x r task agent egress))
     (\<lambda>v l. list_all (quiet x) l \<and> (v = None \<longrightarrow> policy_in_place x task egress l))"
proof -
  have "emits (run_steps x r task (reconcile_steps x r task agent egress)) (\<lambda>v l. v = None \<longrightarrow> policy_in_place x task egress l)"
    by (rule netpol_step.loop_post [where st = "reconcile_steps x r task agent egress ! 3" and r = r])
       (auto intro: reconcile_steps_quiet simp: reconcile_steps_def)
  moreover have "emits (run_steps x r task (reconcile_steps x r task agent egress)) (\<lambda>v l. list_all (quiet x) l \<and> True)"
    unfolding yields_def [symmetric] by (rule run_steps_quiet) (rule reconcile_steps_quiet)
  ultimately show ?thesis by (auto dest: emits_conj)
qed

section \<open>The Job comes last\<close>

text \<open>\<open>ordered E l\<close>: whenever the log creates a Job, \<open>E\<close> holds of the log up to there.\<close>

definition ordered :: "(obs list \<Rightarrow> obj \<Rightarrow> bool) \<Rightarrow> obs list \<Rightarrow> bool" where
  "ordered E l \<longleftrightarrow> (\<forall>l1 ob rsp l2. l = l1 @ Call (CCreate ob) rsp # l2 \<longrightarrow> kind_of ob = KJob \<longrightarrow> E l1 ob)"

lemma ordered_Nil [simp]: "ordered E []"
  by (simp add: ordered_def)

lemma ordered_Cons:
  "ordered E (o1 # l) \<longleftrightarrow> (\<forall>ob rsp. o1 = Call (CCreate ob) rsp \<longrightarrow> kind_of ob = KJob \<longrightarrow> E [] ob) \<and> ordered (\<lambda>l1. E (o1 # l1)) l"
  unfolding ordered_def by (auto simp: Cons_eq_append_conv)

lemma ordered_append: "ordered E (a @ b) \<longleftrightarrow> ordered E a \<and> ordered (\<lambda>l1. E (a @ l1)) b"
  by (induction a arbitrary: E) (auto simp: ordered_Cons)

lemma ordered_not_job: "list_all not_job l \<Longrightarrow> ordered E l"
  by (induction l arbitrary: E) (auto simp: ordered_Cons)

text \<open>The class of the Task was read.\<close>

definition class_read :: "Task \<Rightarrow> ClusterAgentClass \<Rightarrow> obs list \<Rightarrow> bool" where
  "class_read task agent l \<longleftrightarrow> Call (CGet KAgentClass ([], ar_Ref (ts_Agent (task_Spec task)))) (RObj (OAgentClass agent)) \<in> set l"

text \<open>The guard of a Job: its Task's class was read, the policy is in place, and the Job is the one built for them.\<close>

definition job_guard :: "'w ext \<Rightarrow> 'w reconciler \<Rightarrow> Task \<Rightarrow> obs list \<Rightarrow> obj \<Rightarrow> bool" where
  "job_guard x r task l ob \<longleftrightarrow>
     (\<exists>agent job. class_read task agent l \<and> policy_in_place x task (effective_egress task agent) l \<and>
        buildJob x task agent (effective_secrets task agent) (r_JobTTLSeconds r) = Inr job \<and>
        x_setControllerReference x task (OJob job) = Inr ob)"

lemma emits_get_Job [obs_rules]:
  "(\<And>v rsp. Q v [Call (CGet KJob key) rsp]) \<Longrightarrow> emits (get_Job x key) Q"
  unfolding get_Job_def by (intro obs_rules) simp

lemma ensureJob_ordered:
  assumes "class_read task agent a" and "policy_in_place x task (effective_egress task agent) a"
  shows "emits (ensureJob x r task agent (effective_secrets task agent)) (\<lambda>_ l. ordered (\<lambda>l1. job_guard x r task (a @ l1)) l)"
proof -
  have "job_guard x r task (a @ l1) desired"
    if "buildJob x task agent (effective_secrets task agent) (r_JobTTLSeconds r) = Inr job"
      "x_setControllerReference x task (OJob job) = Inr desired" for l1 job desired
    using that assms(1) policy_in_place_grows [OF assms(2), of "[]" l1] unfolding job_guard_def class_read_def by auto
  then show ?thesis unfolding ensureJob_def
    by (intro obs_rules) (auto simp: ordered_Cons)
qed

lemma syncStatus_not_job: "yields not_job (\<lambda>_. True) (syncStatus x r task job egress)"
proof -
  obtain phase reason msg where d: "derivePhase job = (phase, reason, msg)" by (metis prod_cases3)
  show ?thesis unfolding syncStatus_def Let_def d prod.case by (intro yields_rules) auto
qed

lemma reconcile_job_ordered:
  assumes "class_read task agent a" and "policy_in_place x task (effective_egress task agent) a"
  shows "emits (reconcile_job x r task agent) (\<lambda>_ l. ordered (\<lambda>l1. job_guard x r task (a @ l1)) l)"
proof -
  have after: "yields not_job (\<lambda>_. True) (case j of
       Inl err \<Rightarrow> do {
         ObserveReconcileError StepJob;
         if IsPermanent err then do {
           f \<leftarrow> failTask x r task reasonInvalidSpec err;
           State_Monad.return (0, f) }
         else State_Monad.return (0, Some (Wrapped ''ensure job'' err)) }
     | Inr job \<Rightarrow> do {
         sy \<leftarrow> syncStatus x r task job (effective_egress task agent);
         case sy of
           Inl err \<Rightarrow> do {
             ObserveReconcileError StepStatus;
             State_Monad.return (0, Some err) }
         | Inr (requeue, task') \<Rightarrow>
             State_Monad.return
               (let res = minRequeue 0 requeue
                in if r_EgressRefreshInterval r > 0 \<and> \<not> isTerminal (st_Phase (task_Status task')) \<and>
                      HasHostnames (effective_egress task agent)
                   then minRequeue res (r_EgressRefreshInterval r) else res, None) })" for j
    by (intro yields_rules yields_bind [OF syncStatus_not_job]) auto
  show ?thesis unfolding reconcile_job_def
    by (rule emits_bind [OF ensureJob_ordered [OF assms]], rule emits_yields [OF after])
       (simp add: ordered_append ordered_not_job)
qed

lemma reconcile_live_ordered:
  assumes "owner_laws x"
  shows "emits (reconcile_live x r task) (\<lambda>_ l. ordered (job_guard x r task) l)"
proof -
  have quiet: "list_all (quiet x) l \<Longrightarrow> list_all not_job l" for l
    using assms by (auto simp: quiet_def list_all_iff)
  have steps: "emits (State_Monad.bind (run_steps x r task (reconcile_steps x r task agent (effective_egress task agent)))
      (\<lambda>stopped. case stopped of Some res \<Rightarrow> State_Monad.return res | None \<Rightarrow> reconcile_job x r task agent))
      (\<lambda>_ l. ordered (job_guard x r task) (l0 @ l))" if "list_all not_job l0" "class_read task agent l0" for agent l0
    by (rule emits_bind [OF steps_policy], rule emits_option)
       (use that quiet policy_in_place_grows [of x task "effective_egress task agent" _ l0 "[]"] in
         \<open>auto intro!: emits_return emits_weaken [OF reconcile_job_ordered [of task agent "l0 @ _" x]]
           simp: ordered_append ordered_not_job class_read_def\<close>)
  have agent: "emits (get_AgentClass x (ar_Ref (ts_Agent (task_Spec task)))) (\<lambda>v l. list_all not_job l \<and> (\<forall>agent. v = Inr agent \<longrightarrow> class_read task agent l))"
    unfolding get_AgentClass_def class_read_def
    by (intro obs_rules) (auto dest!: got_obj_kind split: sum.splits obj.splits)
  show ?thesis
  proof (cases "validateTask x task")
    case None
    show ?thesis unfolding reconcile_live_def None option.case
    proof (rule emits_bind [OF agent], rule emits_sum)
      fix a l1 err assume l1: "list_all not_job l1 \<and> (\<forall>agent. a = Inr agent \<longrightarrow> class_read task agent l1)"
      show "emits (if x_isNotFound x err then do {
                ObserveReconcileError StepAgentClassLookup;
                w \<leftarrow> markWaitingForAgentClass x r task;
                State_Monad.return (case w of Some e \<Rightarrow> (0, Some e) | None \<Rightarrow> (agentClassMissingRequeue, None)) }
              else do {
                ObserveReconcileError StepAgentClassLookup;
                State_Monad.return (0, Some err) }) (\<lambda>_ l2. ordered (job_guard x r task) (l1 @ l2))"
        by (rule emits_yields [where p = not_job and R = "\<lambda>_. True"], intro yields_rules)
           (use l1 in \<open>auto simp: ordered_append ordered_not_job\<close>)
    qed (auto intro: steps)
  next
    case (Some err)
    show ?thesis unfolding reconcile_live_def Some option.case
      by (rule emits_yields [where p = not_job and R = "\<lambda>_. True"], intro yields_rules) (auto intro: ordered_not_job)
  qed
qed

lemma terminal_ok_not_job: "terminal_ok x task ob \<Longrightarrow> not_job ob"
  by (auto simp: terminal_ok_def not_job_def split: obs.splits call.splits)

lemma reconcile_task_ordered:
  assumes "owner_laws x"
  shows "emits (reconcile_task x r task)
    (\<lambda>_ l. ordered (\<lambda>l1 ob. \<not> isTerminal (st_Phase (task_Status task)) \<and> job_guard x r task l1 ob) l)"
proof (cases "isTerminal (st_Phase (task_Status task))")
  case True
  have "yields not_job (\<lambda>_. True) (reconcile_terminal x r task)"
    using reconcile_terminal_ok [of x task r, folded yields_only] terminal_ok_not_job by (rule yields_mono)
  with True show ?thesis by (auto simp: reconcile_task_def intro: ordered_not_job emits_yields)
next
  case False
  then show ?thesis using reconcile_live_ordered [OF assms] by (simp add: reconcile_task_def)
qed

lemma owner_laws_job:
  assumes "owner_laws x" and "x_setControllerReference x task (OJob built) = Inr (OJob job)"
  shows "\<exists>rs. job = built\<lparr>job_Meta := (job_Meta built)\<lparr>om_OwnerReferences := rs\<rparr>\<rparr>"
  using assms unfolding owner_laws_def by (metis map_meta.simps(9) obj.inject(9))

lemma created_job_guarded:
  assumes "owner_laws x" and "run_state (Reconcile x r req) s = (res, s')"
    and "obslog s' = obslog s @ l1 @ Call (CCreate (OJob job)) rsp # l2"
  shows "\<exists>task agent built rs.
    Call (CGet KTask req) (RObj (OTask task)) \<in> set l1 \<and> \<not> isTerminal (st_Phase (task_Status task)) \<and>
    class_read task agent l1 \<and> policy_in_place x task (effective_egress task agent) l1 \<and>
    buildJob x task agent (effective_secrets task agent) (r_JobTTLSeconds r) = Inr built \<and>
    job = built\<lparr>job_Meta := (job_Meta built)\<lparr>om_OwnerReferences := rs\<rparr>\<rparr> \<and>
    selector_matches (PodSelectorLabels (task_Name task)) (pt_Labels (jb_Template (job_Spec job)))"
proof -
  from Reconcile_emits [OF reconcile_task_ordered [OF assms(1)]] assms(2)
  obtain l where l: "obslog s' = obslog s @ l"
    and "\<exists>g l'. l = Call (CGet KTask req) g # l' \<and> (case g of RObj (OTask task) \<Rightarrow>
       ordered (\<lambda>l1 ob. \<not> isTerminal (st_Phase (task_Status task)) \<and> job_guard x r task l1 ob) l' | _ \<Rightarrow> l' = [])"
    by (rule emitsE)
  then obtain g l' where g: "l = Call (CGet KTask req) g # l'" and q: "case g of RObj (OTask task) \<Rightarrow>
       ordered (\<lambda>l1 ob. \<not> isTerminal (st_Phase (task_Status task)) \<and> job_guard x r task l1 ob) l' | _ \<Rightarrow> l' = []" by blast
  from l g assms(3) obtain k where k: "l1 = Call (CGet KTask req) g # k" "l' = k @ Call (CCreate (OJob job)) rsp # l2"
    by (cases l1) auto
  from q k(2) obtain task where t: "g = RObj (OTask task)" by (auto split: resp.splits obj.splits)
  from q have "ordered (\<lambda>l1 ob. \<not> isTerminal (st_Phase (task_Status task)) \<and> job_guard x r task l1 ob)
      (k @ Call (CCreate (OJob job)) rsp # l2)" by (simp add: t k(2))
  then have live: "\<not> isTerminal (st_Phase (task_Status task))" and "job_guard x r task k (OJob job)"
    by (simp_all add: ordered_append ordered_Cons)
  then obtain agent built where c: "class_read task agent k" and p: "policy_in_place x task (effective_egress task agent) k"
    and b: "buildJob x task agent (effective_secrets task agent) (r_JobTTLSeconds r) = Inr built"
    and o: "x_setControllerReference x task (OJob built) = Inr (OJob job)" by (auto simp: job_guard_def)
  from owner_laws_job [OF assms(1) o] obtain rs
    where j: "job = built\<lparr>job_Meta := (job_Meta built)\<lparr>om_OwnerReferences := rs\<rparr>\<rparr>" by blast
  have "pt_Labels (jb_Template (job_Spec built)) = podLabels task"
    using b by (rule buildJob_Inr) (simp add: pod_template_def)
  then have "selector_matches (PodSelectorLabels (task_Name task)) (pt_Labels (jb_Template (job_Spec job)))"
    by (simp add: j selector_matches_def PodSelectorLabels_def podLabels_eq ownershipLabels_eq)
  moreover have "policy_in_place x task (effective_egress task agent) l1"
    using policy_in_place_grows [OF p, of "[Call (CGet KTask req) g]" "[]"] by (simp add: k(1))
  moreover have "class_read task agent l1" using c by (simp add: class_read_def k(1))
  ultimately show ?thesis using t k(1) live b j by auto
qed

section \<open>Properties\<close>

text \<open>
  C1. The NetworkPolicy comes before the Job. In every run of \<open>Reconcile\<close>, against every
  behaviour of the API server and the resolver, a Job is created only after the Task was read
  and is not terminal, and after its NetworkPolicy is in place: created in this run, found to
  agree, or updated in this run, with the rules for the effective allowlist of the Task and its
  class, which was read before. The Job is the one that \<open>buildJob\<close> makes for that Task and class, with owner references
  added, and that policy selects its pods. (The law assumed of the third-party
  \<open>SetControllerReference\<close> is that it changes only the owner references.)
\<close>

theorem network_policy_before_job:
  assumes "owner_laws x" and "run_state (Reconcile x r req) s = (res, s')"
    and "obslog s' = obslog s @ l1 @ Call (CCreate (OJob job)) rsp # l2"
  shows "\<exists>task agent built rs.
    Call (CGet KTask req) (RObj (OTask task)) \<in> set l1 \<and> \<not> isTerminal (st_Phase (task_Status task)) \<and>
    class_read task agent l1 \<and> policy_in_place x task (effective_egress task agent) l1 \<and>
    buildJob x task agent (effective_secrets task agent) (r_JobTTLSeconds r) = Inr built \<and>
    job = built\<lparr>job_Meta := (job_Meta built)\<lparr>om_OwnerReferences := rs\<rparr>\<rparr> \<and>
    selector_matches (PodSelectorLabels (task_Name task)) (pt_Labels (jb_Template (job_Spec job)))"
  by (rule created_job_guarded [OF assms])

theorem network_policy_before_job_witness:
  "\<exists>task agent. policy_in_place ref_ext task (effective_egress task agent) (take 12 sample_log)"
proof -
  have "12 < length sample_log \<and> (case sample_log ! 12 of Call (CCreate ob) rsp \<Rightarrow> kind_of ob = KJob | _ \<Rightarrow> False)"
    by code_simp
  then obtain job rsp where j: "sample_log ! 12 = Call (CCreate (OJob job)) rsp" "12 < length sample_log"
    by (auto split: obs.splits call.splits elim: kind_of.elims)
  obtain res s' where run: "run_state (Reconcile ref_ext sample_reconciler (''ns'', ''t'')) sample_state = (res, s')"
    by fastforce
  then have "obslog s' = obslog sample_state @ take 12 sample_log @ Call (CCreate (OJob job)) rsp # drop 13 sample_log"
    using id_take_nth_drop [OF j(2)] j(1) by (simp add: sample_log_def sample_state_def)
  from network_policy_before_job [OF ref_owner_laws run this] show ?thesis by blast
qed

end
