(* ===== verification/Controller_Writes.thy ===== *)
theory Controller_Writes
  imports Controller_Order
begin

text \<open>
  The status writes of the reconcile loop: which statuses a reconcile may write for the Task it
  read, why a Task fails, that terminal phases are final and that a Result is decided once.
\<close>

section \<open>The statuses that a reconcile may write\<close>

definition writes_ok :: "(Task \<Rightarrow> bool) \<Rightarrow> obs \<Rightarrow> bool" where
  "writes_ok W ob = (case ob of Call (CStatusUpdate t) _ \<Rightarrow> W t | _ \<Rightarrow> True)"

lemma writes_ok_simps [simp]:
  "writes_ok W (Call (CStatusUpdate t) rsp) \<longleftrightarrow> W t"
  "writes_ok W (Call (CCreate d) rsp)" "writes_ok W (Call (CGet k key) rsp)"
  "writes_ok W (Call (CUpdate d) rsp)" "writes_ok W (Call (CDelete k key u) rsp)"
  "writes_ok W (Call (CList k ns ls) rsp)" "writes_ok W (Dns h ans)" "writes_ok W (Event a b msg)"
  "writes_ok W (MetricPhase a b)" "writes_ok W (MetricReconcileError a)" "writes_ok W (MetricDuration a f)"
  by (simp_all add: writes_ok_def)

text \<open>Why a reconcile fails a Task, by the reason it records.\<close>

definition fail_cause :: "'w ext \<Rightarrow> Task \<Rightarrow> string \<Rightarrow> gerr \<Rightarrow> bool" where
  "fail_cause x task reason cause \<longleftrightarrow>
     reason = reasonInvalidSpec \<and> validateTask x task = Some cause \<or>
     reason = reasonEgressResolveFail \<and> validateTask x task = None \<and> IsPermanent cause \<or>
     reason = reasonInvalidSpec \<and> validateTask x task = None \<and> IsPermanent cause"

definition failed_write :: "'w ext \<Rightarrow> Task \<Rightarrow> gotime \<Rightarrow> string \<Rightarrow> string \<Rightarrow> Task" where
  "failed_write x task now reason msg = (set_phase task TaskPhaseFailed)\<lparr>task_Status := (task_Status (set_phase task TaskPhaseFailed))\<lparr>
     st_Conditions := x_setStatusCondition x now (st_Conditions (task_Status task)) (ready_condition task ''False'' reason msg)\<rparr>\<rparr>"

definition waiting_write :: "'w ext \<Rightarrow> Task \<Rightarrow> gotime \<Rightarrow> Task" where
  "waiting_write x task now = (set_phase task TaskPhasePending)\<lparr>task_Status := (task_Status (set_phase task TaskPhasePending))\<lparr>
     st_Conditions := x_setStatusCondition x now (st_Conditions (task_Status task))
       (ready_condition task ''Unknown'' reasonAgentClassMissing (waiting_message x task))\<rparr>\<rparr>"

definition synced :: "'w ext \<Rightarrow> Task \<Rightarrow> gotime \<Rightarrow> Job \<Rightarrow> Task" where
  "synced x task now job = (case derivePhase job of (phase, reason, msg) \<Rightarrow>
     (job_status_onto task job)\<lparr>task_Status := (task_Status (job_status_onto task job))\<lparr>
       st_Conditions := x_setStatusCondition x now (st_Conditions (task_Status (job_status_onto task job)))
         (ready_condition task (conditionStatusFor phase) reason msg)\<rparr>\<rparr>)"

text \<open>
  The contract between the steps of the loop and a property of log entries: every API call but a
  status write has the property, and so has every DNS lookup. The steps and the creation of the
  Job then have it whole, since the status is written elsewhere.
\<close>

locale routine =
  fixes p :: "obs \<Rightarrow> bool"
  assumes routine_call: "(\<And>t. c \<noteq> CStatusUpdate t) \<Longrightarrow> p (Call c rsp)"
    and routine_dns: "p (Dns h ans)"
begin

lemma ensures:
  "yields p (\<lambda>_. True) (ensureOwned x t ob m)" "yields p (\<lambda>_. True) (deleteIfExists x k key)"
  by (rule yields_ensureOwned; simp add: routine_call) (intro yields_rules; simp add: routine_call)

lemma netpol: "yields p (\<lambda>_. True) (ensureNetworkPolicy x r t egress)"
proof -
  have "yields p (\<lambda>_. True) (BuildNetworkPolicy x (resolver_of x r) (task_Name t) (task_Namespace t) egress
       (pm_EgressPorts (ts_Permissions (task_Spec t))))"
    unfolding yields_def by (rule emits_weaken [OF BuildNetworkPolicy_lookups]) (auto simp: list_all_iff routine_dns)
  then show ?thesis unfolding ensureNetworkPolicy_def
    by (rule yields_bind) (intro yields_rules ensures; simp)
qed

lemma step_runs:
  "st \<in> set (reconcile_steps x r task agent egress) \<Longrightarrow> yields p (\<lambda>_. True) (step_run st)"
  by (auto simp: reconcile_steps_def ensureServiceAccount_def ensureRole_def ensureRoleBinding_def
      ensurePromptConfigMap_def ensureAgentConfigMap_def netpol ensures split: option.split)

lemma job_runs: "yields p (\<lambda>_. True) (ensureJob x r task agent ss)"
  unfolding ensureJob_def by (intro yields_rules) (simp_all add: routine_call)

lemma agent_runs: "yields p (\<lambda>_. True) (get_AgentClass x n)"
  by (intro yields_rules) (simp_all add: routine_call)

end

text \<open>
  The contract between the reconcile loop and a property of written statuses: the property
  holds of the three kinds of status that a live reconcile writes.
\<close>

locale write_property =
  fixes x :: "'w ext" and task :: Task and W :: "Task \<Rightarrow> bool"
  assumes W_failed: "fail_cause x task reason cause \<Longrightarrow> W (failed_write x task now reason (Error cause))"
    and W_waiting: "validateTask x task = None \<Longrightarrow> W (waiting_write x task now)"
    and W_synced: "validateTask x task = None \<Longrightarrow> same_but_result x (synced x task now job) t \<Longrightarrow>
      (resultDecided x (synced x task now job) \<Longrightarrow> t = synced x task now job) \<Longrightarrow> W t"

sublocale write_property < routine "writes_ok W"
  by unfold_locales (auto simp: writes_ok_def split: call.splits)

context write_property
begin

lemmas W_failed' = W_failed [unfolded failed_write_def]
lemmas W_waiting' = W_waiting [unfolded waiting_write_def]

lemma syncs:
  assumes "validateTask x task = None"
  shows "yields (writes_ok W) (\<lambda>_. True) (syncStatus x r task job egress)"
proof -
  obtain phase reason msg where d: "derivePhase job = (phase, reason, msg)" by (metis prod_cases3)
  note W = W_synced [OF assms, of _ job, unfolded synced_def d prod.case]
  show ?thesis unfolding syncStatus_def Let_def d prod.case by (intro yields_rules) (auto intro: W)
qed

lemma step_fails:
  assumes "validateTask x task = None" and "step_invalidReason st \<in> {[], reasonEgressResolveFail}"
  shows "yields (writes_ok W) (\<lambda>_. True) (step_failed x r task st err)"
  unfolding step_failed_def
  by (intro yields_rules) (use assms in \<open>auto simp: fail_cause_def intro: W_failed'\<close>)

lemma live: "yields (writes_ok W) (\<lambda>_. True) (reconcile_live x r task)"
proof (cases "validateTask x task")
  case (Some err)
  then have "fail_cause x task reasonInvalidSpec err" by (simp add: fail_cause_def)
  then show ?thesis unfolding reconcile_live_def Some option.case
    by (intro yields_rules) (auto intro: W_failed')
next
  case None
  have rj: "yields (writes_ok W) (\<lambda>_. True) (reconcile_job x r task agent)" for agent
    unfolding reconcile_job_def
    by (intro yields_bind [OF job_runs] yields_rules yields_bind [OF syncs [OF None]])
       (auto intro: W_failed' simp: fail_cause_def None)
  have "yields (writes_ok W) (\<lambda>_. True) (run_steps x r task (reconcile_steps x r task agent egress))" for agent egress
    by (rule run_steps_yields [OF step_runs step_fails [OF None]]) (auto simp: reconcile_steps_def)
  then have steps: "yields (writes_ok W) (\<lambda>_. True) (State_Monad.bind (run_steps x r task (reconcile_steps x r task agent egress))
      (\<lambda>stopped. case stopped of Some res \<Rightarrow> State_Monad.return res | None \<Rightarrow> reconcile_job x r task agent))" for agent egress
    by (rule yields_bind) (intro yields_rules rj; simp)
  show ?thesis unfolding reconcile_live_def None option.case
    by (rule yields_bind [OF agent_runs], rule yields_sum, intro yields_rules)
       (auto intro: W_waiting' steps simp: None)
qed

end

text \<open>The statuses that a log writes, in order.\<close>

definition status_write :: "obs \<Rightarrow> Task option" where
  "status_write ob = (case ob of Call (CStatusUpdate t) _ \<Rightarrow> Some t | _ \<Rightarrow> None)"

definition status_writes :: "obs list \<Rightarrow> Task list" where
  "status_writes l = List.map_filter status_write l"

lemma status_write_Some: "status_write ob = Some t \<longleftrightarrow> (\<exists>rsp. ob = Call (CStatusUpdate t) rsp)"
  by (cases ob) (auto simp: status_write_def split: call.splits)

lemma set_status_writes: "t \<in> set (status_writes l) \<longleftrightarrow> (\<exists>rsp. Call (CStatusUpdate t) rsp \<in> set l)"
proof -
  have "t \<in> set (status_writes l) \<longleftrightarrow> (\<exists>ob \<in> set l. status_write ob = Some t)"
    by (force simp: status_writes_def List.map_filter_def)
  then show ?thesis by (auto simp: status_write_Some)
qed

lemma writes_ok_status_writes: "list_all (writes_ok W) l \<Longrightarrow> t \<in> set (status_writes l) \<Longrightarrow> W t"
  by (auto simp: set_status_writes list_all_iff dest!: bspec)

section \<open>Justified statuses\<close>

text \<open>
  A status that a live reconcile may write for \<open>task\<close>: its Ready condition agrees with the
  phase and is of the current generation, and the phase has one of three justifications.
\<close>

definition ready_of :: "'w ext \<Rightarrow> Task \<Rightarrow> Condition option" where
  "ready_of x t = x_findStatusCondition x (st_Conditions (task_Status t)) conditionReady"

definition from_job :: "Job \<Rightarrow> Task \<Rightarrow> Condition \<Rightarrow> bool" where
  "from_job job t c \<longleftrightarrow> derivePhase job = (st_Phase (task_Status t), cd_Reason c, cd_Message c) \<and>
     st_JobName (task_Status t) = om_Name (job_Meta job) \<and> st_StartTime (task_Status t) = js_StartTime (job_Status job) \<and>
     st_CompletionTime (task_Status t) = js_CompletionTime (job_Status job)"

definition justified :: "'w ext \<Rightarrow> Task \<Rightarrow> Task \<Rightarrow> bool" where
  "justified x task t \<longleftrightarrow>
     task_Meta t = task_Meta task \<and> task_Spec t = task_Spec task \<and>
     st_ObservedGeneration (task_Status t) = om_Generation (task_Meta task) \<and>
     (\<exists>c. ready_of x t = Some c \<and> cd_Status c = conditionStatusFor (st_Phase (task_Status t)) \<and>
        cd_ObservedGeneration c = om_Generation (task_Meta task) \<and>
        ((\<exists>cause. st_Phase (task_Status t) = TaskPhaseFailed \<and> fail_cause x task (cd_Reason c) cause \<and> cd_Message c = Error cause) \<or>
         st_Phase (task_Status t) = TaskPhasePending \<and> cd_Reason c = reasonAgentClassMissing \<and> cd_Message c = waiting_message x task \<or>
         (\<exists>job. from_job job t c)))"

lemma find_set_ready:
  "condition_laws x \<Longrightarrow>
   \<exists>c'. x_findStatusCondition x (x_setStatusCondition x now cs (ready_condition task st reason msg)) conditionReady = Some c' \<and>
     cd_Status c' = st \<and> cd_Reason c' = reason \<and> cd_Message c' = msg \<and> cd_ObservedGeneration c' = om_Generation (task_Meta task)"
proof -
  assume "condition_laws x"
  then have "x_findStatusCondition x (x_setStatusCondition x now cs (ready_condition task st reason msg))
      (cd_Type (ready_condition task st reason msg)) =
      Some (condition_set now (x_findStatusCondition x cs (cd_Type (ready_condition task st reason msg))) (ready_condition task st reason msg))"
    unfolding condition_laws_def by blast
  then show ?thesis by (auto simp: ready_condition_def condition_set_def split: option.splits)
qed

lemma synced_fields:
  assumes "derivePhase job = (phase, reason, msg)"
  shows "task_Meta (synced x task now job) = task_Meta task" "task_Spec (synced x task now job) = task_Spec task"
    "st_ObservedGeneration (task_Status (synced x task now job)) = om_Generation (task_Meta task)"
    "st_Phase (task_Status (synced x task now job)) = phase"
    "st_JobName (task_Status (synced x task now job)) = om_Name (job_Meta job)"
    "st_StartTime (task_Status (synced x task now job)) = js_StartTime (job_Status job)"
    "st_CompletionTime (task_Status (synced x task now job)) = js_CompletionTime (job_Status job)"
    "st_Result (task_Status (synced x task now job)) = st_Result (task_Status task)"
    "st_Conditions (task_Status (synced x task now job)) =
      x_setStatusCondition x now (st_Conditions (task_Status task)) (ready_condition task (conditionStatusFor phase) reason msg)"
  by (simp_all add: synced_def assms job_status_onto_def)

lemma justified_synced:
  assumes "condition_laws x" and "same_but_result x (synced x task now job) t"
  shows "justified x task t"
proof -
  obtain phase reason msg where d: "derivePhase job = (phase, reason, msg)" by (metis prod_cases3)
  note f = synced_fields [OF d] same_but_result_fields [OF assms(2)]
  have "ready_of x t = ready_of x (synced x task now job)"
    unfolding ready_of_def by (rule same_but_result_find [OF assms]) simp
  moreover from find_set_ready [OF assms(1), of now "st_Conditions (task_Status task)" task "conditionStatusFor phase" reason msg]
  obtain c where "ready_of x (synced x task now job) = Some c" "cd_Status c = conditionStatusFor phase"
    "cd_Reason c = reason" "cd_Message c = msg" "cd_ObservedGeneration c = om_Generation (task_Meta task)"
    by (auto simp: ready_of_def f)
  moreover then have "from_job job t c" by (simp add: from_job_def d f)
  ultimately show ?thesis unfolding justified_def by (auto simp: f)
qed

interpretation justification: write_property x task "\<lambda>t. condition_laws x \<longrightarrow> justified x task t" for x task
proof unfold_locales
  fix reason cause now assume c: "fail_cause x task reason cause"
  show "condition_laws x \<longrightarrow> justified x task (failed_write x task now reason (Error cause))"
  proof
    assume "condition_laws x"
    from find_set_ready [OF this, of now "st_Conditions (task_Status task)" task "''False''" reason "Error cause"] c
    show "justified x task (failed_write x task now reason (Error cause))"
      by (auto simp: justified_def failed_write_def ready_of_def set_phase_def conditionStatusFor_def)
  qed
next
  fix now
  show "condition_laws x \<longrightarrow> justified x task (waiting_write x task now)"
  proof
    assume "condition_laws x"
    from find_set_ready [OF this, of now "st_Conditions (task_Status task)" task "''Unknown''" reasonAgentClassMissing "waiting_message x task"]
    show "justified x task (waiting_write x task now)"
      by (auto simp: justified_def waiting_write_def ready_of_def set_phase_def conditionStatusFor_def)
  qed
qed (auto intro: justified_synced)

section \<open>A decided Result stays\<close>

definition keeps_result :: "'w ext \<Rightarrow> Task \<Rightarrow> Task \<Rightarrow> bool" where
  "keeps_result x task t \<longleftrightarrow> (resultDecided x task \<longrightarrow>
     st_Result (task_Status t) = st_Result (task_Status task) \<and>
     x_findStatusCondition x (st_Conditions (task_Status t)) conditionResult =
       x_findStatusCondition x (st_Conditions (task_Status task)) conditionResult)"

lemma find_result_ready:
  "condition_laws x \<Longrightarrow>
   x_findStatusCondition x (x_setStatusCondition x now cs (ready_condition task st reason msg)) conditionResult =
     x_findStatusCondition x cs conditionResult"
  by (simp add: condition_laws_def ready_condition_def)

interpretation result_once: write_property x task "\<lambda>t. condition_laws x \<longrightarrow> keeps_result x task t" for x task
proof unfold_locales
  fix now job t
  assume same: "resultDecided x (synced x task now job) \<Longrightarrow> t = synced x task now job"
  obtain phase reason msg where d: "derivePhase job = (phase, reason, msg)" by (metis prod_cases3)
  show "condition_laws x \<longrightarrow> keeps_result x task t"
  proof
    assume "condition_laws x"
    then have "resultDecided x (synced x task now job) \<longleftrightarrow> resultDecided x task"
      by (simp add: resultDecided_def synced_fields [OF d] find_result_ready)
    with same \<open>condition_laws x\<close> show "keeps_result x task t"
      by (auto simp: keeps_result_def synced_fields [OF d] find_result_ready)
  qed
qed (auto simp: keeps_result_def failed_write_def waiting_write_def set_phase_def find_result_ready)

section \<open>From Reconcile to its Task\<close>

lemma Reconcile_log:
  assumes "run_state (Reconcile x r req) s = (res, s')"
    and "obslog s' = obslog s @ Call (CGet KTask req) (RObj (OTask task)) # l"
    and "\<And>task. emits (reconcile_task x r task) (Q task)"
  shows "Q task res l"
proof -
  from Reconcile_emits [OF assms(3)] assms(1) obtain l0 where "obslog s' = obslog s @ l0"
    "\<exists>rsp l'. l0 = Call (CGet KTask req) rsp # l' \<and> (case rsp of RObj (OTask task) \<Rightarrow> Q task res l' | _ \<Rightarrow> l' = [])"
    by (rule emitsE)
  with assms(2) show ?thesis by auto
qed

lemma reconcile_task_terminal:
  "emits (reconcile_task x r task) (\<lambda>_ l. isTerminal (st_Phase (task_Status task)) \<longrightarrow> list_all (terminal_ok x task) l)"
proof (cases "isTerminal (st_Phase (task_Status task))")
  case True
  then show ?thesis using reconcile_terminal_ok [of x task r] by (simp add: reconcile_task_def emits_only_def)
next
  case False
  have "emits (reconcile_live x r task) (\<lambda>_ _. True)" by (rule emits_yields [OF justification.live]) simp
  with False show ?thesis by (simp add: reconcile_task_def)
qed

context write_property
begin

lemma task_writes:
  "emits (reconcile_task x r task) (\<lambda>_ l. \<not> isTerminal (st_Phase (task_Status task)) \<longrightarrow> list_all (writes_ok W) l)"
proof (cases "isTerminal (st_Phase (task_Status task))")
  case True
  then show ?thesis using emits_weaken [OF reconcile_task_terminal] by fastforce
next
  case False
  then show ?thesis using live [of r] by (auto simp: reconcile_task_def intro: emits_yields)
qed

end

section \<open>A sample terminal Task\<close>

definition done_task :: Task where
  "done_task = sample_task\<lparr>task_Spec := (task_Spec sample_task)\<lparr>ts_TTLSecondsAfterFinished := Some 0\<rparr>,
     task_Status := (task_Status sample_task)\<lparr>st_Phase := TaskPhaseCompleted, st_JobName := ''t'', st_CompletionTime := Some 10\<rparr>\<rparr>"

definition done_state :: "(store, obs) sys" where
  "done_state = \<lparr>world = sample_store\<lparr>sto_objs := [OTask done_task]\<rparr>, obslog = []\<rparr>"

definition done_log :: "obs list" where
  "done_log = obslog (snd (run_state (Reconcile ref_ext sample_reconciler (''ns'', ''t'')) done_state))"

definition decided_task :: Task where
  "decided_task = sample_task\<lparr>task_Status := (task_Status sample_task)\<lparr>
     st_Result := Some \<lparr>res_Summary = ''ok'', res_Links = []\<rparr>,
     st_Conditions := [result_condition sample_task reasonResultRecorded recorded_msg]\<rparr>\<rparr>"

definition decided_state :: "(store, obs) sys" where
  "decided_state = \<lparr>world = sample_store\<lparr>sto_objs := [OTask decided_task, OAgentClass sample_agent]\<rparr>, obslog = []\<rparr>"

definition decided_log :: "obs list" where
  "decided_log = obslog (snd (run_state (Reconcile ref_ext sample_reconciler (''ns'', ''t'')) decided_state))"

lemma decided_log_split:
  "decided_log = Call (CGet KTask (''ns'', ''t'')) (RObj (OTask decided_task)) # tl decided_log \<and>
   length (status_writes (tl decided_log)) = 1"
  by code_simp

lemma done_log_split: "done_log = Call (CGet KTask (''ns'', ''t'')) (RObj (OTask done_task)) # tl done_log \<and> tl done_log \<noteq> []"
  by code_simp

lemma sample_log_split: "sample_log = Call (CGet KTask (''ns'', ''t'')) (RObj (OTask sample_task)) # tl sample_log \<and>
    length (status_writes (tl sample_log)) = 1"
  by code_simp

section \<open>Properties\<close>

text \<open>
  C6. A terminal Task never runs again. When a reconcile reads a Task in a terminal phase, then
  against every behaviour of the API server it creates and updates no object, publishes no
  Event and counts no transition; it may read, write a status that equals the one it read up to
  the Result and the Result condition (and only while the Result is undecided), and delete the
  Task under a UID precondition.
\<close>

theorem terminal_task_inert:
  assumes "run_state (Reconcile x r req) s = (res, s')"
    and "obslog s' = obslog s @ Call (CGet KTask req) (RObj (OTask task)) # l"
    and "isTerminal (st_Phase (task_Status task))"
  shows "list_all (terminal_ok x task) l"
  using Reconcile_log [OF assms(1,2) reconcile_task_terminal] assms(3) by blast

theorem terminal_task_inert_witness:
  "list_all (terminal_ok ref_ext done_task) (tl done_log) \<and> tl done_log \<noteq> []"
proof -
  obtain res s' where run: "run_state (Reconcile ref_ext sample_reconciler (''ns'', ''t'')) done_state = (res, s')" by fastforce
  then have "obslog s' = obslog done_state @ Call (CGet KTask (''ns'', ''t'')) (RObj (OTask done_task)) # tl done_log"
    using done_log_split by (simp add: done_log_def done_state_def)
  from terminal_task_inert [OF run this] have "list_all (terminal_ok ref_ext done_task) (tl done_log)"
    by (simp add: done_task_def isTerminal_def)
  with done_log_split show ?thesis by blast
qed



text \<open>
  C28. A Result is decided once: when a reconcile reads a Task that has a Result condition, no
  status it writes changes the Result or that condition, in any phase.
\<close>

theorem result_decided_once:
  assumes "condition_laws x" and "run_state (Reconcile x r req) s = (res, s')"
    and "obslog s' = obslog s @ Call (CGet KTask req) (RObj (OTask task)) # l"
    and "resultDecided x task" and "t \<in> set (status_writes l)"
  shows "st_Result (task_Status t) = st_Result (task_Status task) \<and>
    x_findStatusCondition x (st_Conditions (task_Status t)) conditionResult =
      x_findStatusCondition x (st_Conditions (task_Status task)) conditionResult"
proof (cases "isTerminal (st_Phase (task_Status task))")
  case True
  with Reconcile_log [OF assms(2,3) reconcile_task_terminal] have "list_all (terminal_ok x task) l" by blast
  with assms(4,5) show ?thesis by (auto simp: list_all_iff set_status_writes dest!: bspec)
next
  case False
  with Reconcile_log [OF assms(2,3) result_once.task_writes]
  have "list_all (writes_ok (\<lambda>t. condition_laws x \<longrightarrow> keeps_result x task t)) l" by blast
  from writes_ok_status_writes [OF this assms(5)] assms(1,4) show ?thesis by (simp add: keeps_result_def)
qed

theorem result_decided_once_witness:
  "\<exists>t. status_writes (tl decided_log) = [t] \<and> st_Result (task_Status t) = Some \<lparr>res_Summary = ''ok'', res_Links = []\<rparr>"
proof -
  from decided_log_split obtain t where t: "status_writes (tl decided_log) = [t]" by (auto simp: length_Suc_conv)
  obtain res s' where run: "run_state (Reconcile ref_ext sample_reconciler (''ns'', ''t'')) decided_state = (res, s')" by fastforce
  then have log: "obslog s' = obslog decided_state @ Call (CGet KTask (''ns'', ''t'')) (RObj (OTask decided_task)) # tl decided_log"
    using decided_log_split by (simp add: decided_log_def decided_state_def)
  have "resultDecided ref_ext decided_task" by code_simp
  from result_decided_once [OF ref_condition_laws run log this, of t] show ?thesis
    using t by (simp add: decided_task_def)
qed

section \<open>The life of a Task\<close>

text \<open>
  One step in the life of a Task object: the controller writes a status it computed from the
  Task it read, or another client changes metadata or spec (the status subresource keeps the
  status out of reach of such an update).
\<close>

inductive task_step :: "'w ext \<Rightarrow> 'w reconciler \<Rightarrow> Task \<Rightarrow> Task \<Rightarrow> bool" for x r where
  written: "run_state (Reconcile x r req) s = (res, s') \<Longrightarrow>
     obslog s' = obslog s @ Call (CGet KTask req) (RObj (OTask task)) # l \<Longrightarrow>
     t \<in> set (status_writes l) \<Longrightarrow> task_step x r task t"
| edited: "task_Status t = task_Status task \<Longrightarrow> task_step x r task t"

inductive_cases task_stepE: "task_step x r task t"

lemma terminal_step:
  assumes "task_step x r task t" and "isTerminal (st_Phase (task_Status task))"
  shows "st_Phase (task_Status t) = st_Phase (task_Status task) \<and>
    st_JobName (task_Status t) = st_JobName (task_Status task) \<and>
    st_StartTime (task_Status t) = st_StartTime (task_Status task) \<and>
    st_CompletionTime (task_Status t) = st_CompletionTime (task_Status task) \<and>
    (resultDecided x task \<longrightarrow> task_Status t = task_Status task)"
proof -
  from assms(1) consider (w) req s res s' l where "run_state (Reconcile x r req) s = (res, s')"
      "obslog s' = obslog s @ Call (CGet KTask req) (RObj (OTask task)) # l" "t \<in> set (status_writes l)"
    | (e) "task_Status t = task_Status task"
    by (elim task_stepE) blast+
  then show ?thesis
  proof cases
  case w
  from Reconcile_log [OF w(1,2) reconcile_task_terminal] assms(2) have "list_all (terminal_ok x task) l" by blast
  with w(3) have "\<not> resultDecided x task" "same_but_result x task t"
    by (auto simp: list_all_iff set_status_writes dest!: bspec)
  with same_but_result_fields [of x task t] show ?thesis by simp
  qed simp
qed

lemma terminal_steps:
  assumes "(task_step x r)\<^sup>*\<^sup>* task t" and "isTerminal (st_Phase (task_Status task))"
  shows "st_Phase (task_Status t) = st_Phase (task_Status task) \<and>
    st_JobName (task_Status t) = st_JobName (task_Status task) \<and>
    st_CompletionTime (task_Status t) = st_CompletionTime (task_Status task) \<and>
    (resultDecided x task \<longrightarrow> task_Status t = task_Status task)"
  using assms
proof (induction rule: rtranclp_induct)
  case (step u t)
  from step terminal_step [OF step.hyps(2)] show ?case by (auto simp: resultDecided_def)
qed simp

text \<open>
  C16. Terminal phases are final: along every sequence of steps from a terminal Task, through any
  number of reconciles against any API server and any edits of the spec, the phase, the Job name
  and the times stay, and once the Result is decided the whole status stays.
\<close>

theorem terminal_is_final:
  assumes "(task_step x r)\<^sup>*\<^sup>* task t" and "isTerminal (st_Phase (task_Status task))"
  shows "st_Phase (task_Status t) = st_Phase (task_Status task) \<and>
    st_JobName (task_Status t) = st_JobName (task_Status task) \<and>
    st_CompletionTime (task_Status t) = st_CompletionTime (task_Status task) \<and>
    (resultDecided x task \<longrightarrow> task_Status t = task_Status task)"
  using assms by (rule terminal_steps)

theorem terminal_is_final_witness:
  "\<exists>t. (task_step ref_ext sample_reconciler)\<^sup>*\<^sup>* done_task t \<and> t \<noteq> done_task \<and> st_Phase (task_Status t) = TaskPhaseCompleted"
proof -
  obtain t where t: "t \<in> set (status_writes (tl done_log))" "t \<noteq> done_task"
  proof -
    have "list_ex (\<lambda>t. t \<noteq> done_task) (status_writes (tl done_log))" by code_simp
    then show thesis using that by (auto simp: list_ex_iff)
  qed
  obtain res s' where run: "run_state (Reconcile ref_ext sample_reconciler (''ns'', ''t'')) done_state = (res, s')" by fastforce
  then have log: "obslog s' = obslog done_state @ Call (CGet KTask (''ns'', ''t'')) (RObj (OTask done_task)) # tl done_log"
    using done_log_split by (simp add: done_log_def done_state_def)
  have step: "(task_step ref_ext sample_reconciler)\<^sup>*\<^sup>* done_task t"
    by (rule r_into_rtranclp, rule task_step.written [OF run log t(1)])
  from terminal_is_final [OF step] step t(2) show ?thesis by (auto simp: done_task_def isTerminal_def)
qed

end
