(* ===== verification/Controller_Effects.thy ===== *)
theory Controller_Effects
  imports Controller_Writes
begin

text \<open>
  Effects of the reconcile loop on the cluster: which objects it creates, updates and deletes,
  that it writes nothing in a steady state, that an error leaves the recorded status alone,
  where a Result may come from, and when a terminal Task is deleted.
\<close>

section \<open>The mutators\<close>

text \<open>
  The contract of the \<open>mutate\<close> functions: they change neither the kind nor the metadata of the
  live object, and applying one twice is applying it once.
\<close>

locale owned_mutator =
  fixes mutate :: "obj \<Rightarrow> obj \<Rightarrow> obj"
  assumes mutate_kind: "kind_of (mutate old d) = kind_of old"
    and mutate_meta: "meta_of (mutate old d) = meta_of old"
    and mutate_twice: "mutate (map_meta f (mutate old d)) d = map_meta f (mutate old d)"
begin

lemma agreed_kind: "kind_of (agreed d mutate old) = kind_of old"
  by (simp add: agreed_def mutate_kind)

lemma agreed_key: "key_of (agreed d mutate old) = key_of old"
  by (simp add: agreed_def key_of_def mutate_meta SetLabels_def)

lemma agreed_labels: "GetLabels (agreed d mutate old) = GetLabels d"
  by (simp add: agreed_def)

lemma agreed_owners: "om_OwnerReferences (meta_of (agreed d mutate old)) = om_OwnerReferences (meta_of old)"
  by (simp add: agreed_def SetLabels_def mutate_meta)

lemma agreed_twice: "agreed d mutate (agreed d mutate old) = agreed d mutate old"
proof -
  have same: "map_meta (\<lambda>m. m\<lparr>om_Labels := ls\<rparr>) (map_meta (\<lambda>m. m\<lparr>om_Labels := ls\<rparr>) ob) = map_meta (\<lambda>m. m\<lparr>om_Labels := ls\<rparr>) ob"
    for ls ob by (cases ob) simp_all
  show ?thesis by (simp add: agreed_def SetLabels_def mutate_twice same)
qed

end

interpretation sa_mutator: owned_mutator mutate_sa
  by unfold_locales (auto simp: mutate_sa_def split: obj.splits)

interpretation role_mutator: owned_mutator mutate_role
  by unfold_locales (auto simp: mutate_role_def split: obj.splits)

interpretation rolebinding_mutator: owned_mutator mutate_rolebinding
  by unfold_locales (auto simp: mutate_rolebinding_def split: obj.splits)

interpretation netpol_mutator: owned_mutator mutate_netpol
  by unfold_locales (auto simp: mutate_netpol_def split: obj.splits)

interpretation configmap_mutator: owned_mutator mutate_configmap
  by unfold_locales (auto simp: mutate_configmap_def split: obj.splits)

definition mutators :: "(obj \<Rightarrow> obj \<Rightarrow> obj) list" where
  "mutators = [mutate_sa, mutate_role, mutate_rolebinding, mutate_netpol, mutate_configmap]"

lemmas agreed_twices = sa_mutator.agreed_twice role_mutator.agreed_twice rolebinding_mutator.agreed_twice
  netpol_mutator.agreed_twice configmap_mutator.agreed_twice

lemmas mutate_kinds = sa_mutator.mutate_kind role_mutator.mutate_kind rolebinding_mutator.mutate_kind
  netpol_mutator.mutate_kind configmap_mutator.mutate_kind

section \<open>A steady state\<close>

lemma ensureOwned_agreeing:
  assumes "deepEqual_refl x" and "x_setControllerReference x task desired0 = Inr desired"
    and "x_api x (CGet (kind_of desired) (key_of desired)) (world s) = (RObj old, w)"
    and "kind_of old = kind_of desired" and "agreed desired mutate old = old"
  shows "run_state (ensureOwned x task desired0 mutate) s =
    (None, s\<lparr>world := w, obslog := obslog s @ [Call (CGet (kind_of desired) (key_of desired)) (RObj old)]\<rparr>)"
  using assms
  by (simp add: ensureOwned_def client_Get_def request_def outside_def got_obj_def agreed_def [symmetric]
      deepEqual_refl_def Let_def)

text \<open>
  Reconciles do not churn: when the live object is one that an earlier upsert of the same
  desired object left (the server stores what it is sent), \<open>ensureOwned\<close> with any of the
  controller's mutators reads it once, writes nothing and succeeds.
\<close>

theorem upsert_is_idempotent:
  assumes "deepEqual_refl x" and "x_setControllerReference x task desired0 = Inr desired"
    and "mutate \<in> set mutators" and "old = agreed desired mutate previous" and "kind_of old = kind_of desired"
    and "x_api x (CGet (kind_of desired) (key_of desired)) (world s) = (RObj old, w)"
  shows "run_state (ensureOwned x task desired0 mutate) s =
    (None, s\<lparr>world := w, obslog := obslog s @ [Call (CGet (kind_of desired) (key_of desired)) (RObj old)]\<rparr>)"
proof (rule ensureOwned_agreeing [OF assms(1,2,6,5)])
  show "agreed desired mutate old = old" using assms(3) by (auto simp: assms(4) mutators_def agreed_twices)
qed

theorem upsert_is_idempotent_witness:
  "\<exists>old s'. run_state (ensureOwned ref_ext sample_task (OServiceAccount (buildServiceAccount sample_task)) mutate_sa)
     \<lparr>world = \<lparr>sto_objs = [old], sto_hosts = [], sto_now = 0\<rparr>, obslog = []\<rparr> = (None, s') \<and> length (obslog s') = 1"
proof -
  let ?d0 = "OServiceAccount (buildServiceAccount sample_task)"
  obtain d where d: "x_setControllerReference ref_ext sample_task ?d0 = Inr d"
    and k: "kind_of d = KServiceAccount" "key_of d = (''ns'', ''t'')"
    by (simp add: ref_ext_def ref_setControllerReference_def key_of_def buildServiceAccount_def task_object_meta_def
        taskResourceName_def sample_task_def)
  let ?old = "agreed d mutate_sa d"
  have old: "kind_of ?old = kind_of d" "key_of ?old = key_of d"
    by (simp_all add: sa_mutator.agreed_kind sa_mutator.agreed_key)
  let ?s = "\<lparr>world = \<lparr>sto_objs = [?old], sto_hosts = [], sto_now = 0\<rparr>, obslog = []\<rparr> :: (store, obs) sys"
  have get: "x_api ref_ext (CGet (kind_of d) (key_of d)) (world ?s) = (RObj ?old, world ?s)"
    by (simp add: ref_ext_def same_obj_def old)
  have m: "mutate_sa \<in> set mutators" by (simp add: mutators_def)
  show ?thesis
    using upsert_is_idempotent [OF ref_deepEqual_refl d m refl old(1) get]
    by (intro exI [of _ ?old] exI conjI) (assumption, simp)
qed

section \<open>Ownership of what is written\<close>

text \<open>
  What a reconcile of \<open>task\<close> may do to other objects: create objects that the Task controls and
  that carry its ownership labels, update objects to carry them, and delete the Role, the
  RoleBinding and the two ConfigMaps of the Task, and nothing else.
\<close>

definition controlled_by :: "'w ext \<Rightarrow> Task \<Rightarrow> obj \<Rightarrow> bool" where
  "controlled_by x task ob \<longleftrightarrow>
     (\<exists>r. x_getControllerOf x (meta_of ob) = Some r \<and> or_Kind r = ''Task'' \<and> or_UID r = om_UID (task_Meta task))"

definition labelled :: "Task \<Rightarrow> obj \<Rightarrow> bool" where
  "labelled task ob \<longleftrightarrow> map_get (GetLabels ob) LabelManagedBy = ManagedByValue \<and>
     map_get (GetLabels ob) LabelTaskName = task_Name task"

definition own_deletes :: "Task \<Rightarrow> (kind \<times> NamespacedName) list" where
  "own_deletes task = [(KRole, task_Namespace task, task_Name task), (KRoleBinding, task_Namespace task, task_Name task),
     (KConfigMap, task_Namespace task, task_Name task @ ''-prompt''), (KConfigMap, task_Namespace task, task_Name task @ ''-config'')]"

definition effect_ok :: "'w ext \<Rightarrow> Task \<Rightarrow> obs \<Rightarrow> bool" where
  "effect_ok x task ob =
     (case ob of
        Call c _ \<Rightarrow>
          (case c of
             CCreate d \<Rightarrow> controlled_by x task d \<and> labelled task d \<and> om_Namespace (meta_of d) = task_Namespace task \<and>
               kind_of d \<in> {KServiceAccount, KRole, KRoleBinding, KNetworkPolicy, KConfigMap, KJob}
           | CUpdate d \<Rightarrow> labelled task d \<and> kind_of d \<in> {KServiceAccount, KRole, KRoleBinding, KNetworkPolicy, KConfigMap}
           | CDelete k key _ \<Rightarrow> (k, key) \<in> set (own_deletes task) \<or> k = KTask
           | _ \<Rightarrow> True)
      | _ \<Rightarrow> True)"

lemma effect_ok_simps [simp]:
  "effect_ok x task (Call (CGet k key) rsp)" "effect_ok x task (Call (CStatusUpdate t) rsp)"
  "effect_ok x task (Call (CList k ns ls) rsp)" "effect_ok x task (Dns h ans)" "effect_ok x task (Event a b msg)"
  "effect_ok x task (MetricPhase a b)" "effect_ok x task (MetricReconcileError a)" "effect_ok x task (MetricDuration a f)"
  by (simp_all add: effect_ok_def)

lemma owner_laws_Inr:
  assumes "owner_laws x" and "x_setControllerReference x task ob = Inr ob'"
  shows "kind_of ob' = kind_of ob \<and> GetLabels ob' = GetLabels ob \<and> om_Namespace (meta_of ob') = om_Namespace (meta_of ob) \<and>
    controlled_by x task ob'"
proof -
  from assms obtain rs where "ob' = map_meta (\<lambda>m. m\<lparr>om_OwnerReferences := rs\<rparr>) ob" "controlled_by x task ob'"
    unfolding owner_laws_def controlled_by_def by blast
  then show ?thesis by (simp add: GetLabels_def)
qed

text \<open>An upsert of an object that the Task's builders make stays within the bounds.\<close>

definition own_object :: "Task \<Rightarrow> obj \<Rightarrow> bool" where
  "own_object task ob \<longleftrightarrow> labelled task ob \<and> om_Namespace (meta_of ob) = task_Namespace task \<and>
     kind_of ob \<in> {KServiceAccount, KRole, KRoleBinding, KNetworkPolicy, KConfigMap}"

lemma ensureOwned_effects:
  assumes "owner_laws x" and "own_object task desired0" and "mutate \<in> set mutators"
  shows "yields (effect_ok x task) (\<lambda>_. True) (ensureOwned x task desired0 mutate)"
proof (cases "x_setControllerReference x task desired0")
  case (Inl e)
  then show ?thesis unfolding ensureOwned_def by (auto intro: yields_rules)
next
  case (Inr d)
  note o = owner_laws_Inr [OF assms(1) Inr]
  have create: "effect_ok x task (Call (CCreate d) rsp)" for rsp
    using o assms(2) by (auto simp: effect_ok_def own_object_def labelled_def)
  have agreed: "kind_of (agreed d mutate old) = kind_of old" "GetLabels (agreed d mutate old) = GetLabels d" for old
    using assms(3) by (auto simp: mutators_def agreed_def mutate_kinds)
  have update: "effect_ok x task (Call (CUpdate (agreed d mutate old)) rsp)" if "kind_of old = kind_of d" for old rsp
    using o assms(2) that by (auto simp: effect_ok_def own_object_def labelled_def agreed)
  show ?thesis
    unfolding ensureOwned_def Inr sum.case Let_def agreed_def [symmetric]
    by (intro yields_rules) (auto dest: got_obj_kind intro: create update)
qed

lemma owned_by_label_own:
  "owned_by_label (task_Name task) (task_Namespace task) ob \<Longrightarrow>
   kind_of ob \<in> {KServiceAccount, KRole, KRoleBinding, KNetworkPolicy, KConfigMap} \<Longrightarrow> own_object task ob"
  by (simp add: owned_by_label_def own_object_def labelled_def)

lemma own_sa: "own_object task (OServiceAccount (buildServiceAccount task))"
  by (simp add: own_object_def labelled_def GetLabels_def buildServiceAccount_def task_object_meta_def
      ownershipLabels_eq map_get_def)

lemma delete_effects:
  "(k, key) \<in> set (own_deletes task) \<Longrightarrow> yields (effect_ok x task) (\<lambda>_. True) (deleteIfExists x k key)"
  by (intro yields_rules) (auto simp: effect_ok_def)

lemma built_own:
  "BuildRole (task_Name task) (task_Namespace task) rules = Some ro \<Longrightarrow> own_object task (ORole ro)"
  "BuildRoleBinding (task_Name task) (task_Namespace task) rules = Some rb \<Longrightarrow> own_object task (ORoleBinding rb)"
  "BuildInlinePromptConfigMap (task_Name task) (task_Namespace task) pr = Some cm \<Longrightarrow> own_object task (OConfigMap cm)"
  "BuildAgentConfigMap (task_Name task) (task_Namespace task) c i = Some cm \<Longrightarrow> own_object task (OConfigMap cm)"
  "own_object task (ONetworkPolicy (network_policy (task_Name task) (task_Namespace task) rs))"
  using role_builder.built_owned [of "task_Name task" "task_Namespace task" rules]
    rolebinding_builder.built_owned [of "task_Name task" "task_Namespace task" rules]
    prompt_builder.built_owned [of "task_Name task" "task_Namespace task" pr]
    config_builder.built_owned [of "task_Name task" "task_Namespace task" "(c, i)"]
    netpol_builder.built_owned [of "task_Name task" "task_Namespace task" rs]
  by (auto intro!: owned_by_label_own)

lemma ensureNetworkPolicy_effects:
  assumes "owner_laws x"
  shows "yields (effect_ok x task) (\<lambda>_. True) (ensureNetworkPolicy x r task egress)"
proof -
  let ?np = "\<lambda>np. \<exists>rs. np = network_policy (task_Name task) (task_Namespace task) rs"
  have "yields (effect_ok x task) (\<lambda>b. \<forall>np. b = Inr np \<longrightarrow> ?np np)
      (BuildNetworkPolicy x (resolver_of x r) (task_Name task) (task_Namespace task) egress
       (pm_EgressPorts (ts_Permissions (task_Spec task))))"
    unfolding yields_def
    by (rule emits_weaken [OF BuildNetworkPolicy_emits])
       (auto simp: lookups_only_def list_all_iff split: sum.splits)
  then show ?thesis unfolding ensureNetworkPolicy_def
    by (rule yields_bind) (auto intro!: yields_rules ensureOwned_effects assms built_own simp: mutators_def)
qed

lemma step_effects:
  assumes "owner_laws x" and "st \<in> set (reconcile_steps x r task agent egress)"
  shows "yields (effect_ok x task) (\<lambda>_. True) (step_run st)"
  using assms(2)
  by (auto simp: reconcile_steps_def ensureServiceAccount_def ensureRole_def ensureRoleBinding_def
      ensurePromptConfigMap_def ensureAgentConfigMap_def mutators_def own_deletes_def taskResourceName_def
      InlinePromptConfigMapName_def AgentConfigMapName_def split: option.split
      intro!: ensureOwned_effects ensureNetworkPolicy_effects delete_effects assms(1) own_sa intro: built_own)

lemma ensureJob_effects:
  assumes "owner_laws x"
  shows "yields (effect_ok x task) (\<lambda>_. True) (ensureJob x r task agent ss)"
proof -
  have "effect_ok x task (Call (CCreate d) rsp)"
    if b: "buildJob x task agent ss ttl = Inr job" and o: "x_setControllerReference x task (OJob job) = Inr d" for job d rsp ttl
  proof -
    from b have "job_Meta job = task_object_meta task" by (rule buildJob_Inr)
    then show ?thesis using owner_laws_Inr [OF assms o]
      by (simp add: effect_ok_def labelled_def GetLabels_def task_object_meta_def ownershipLabels_eq map_get_def)
  qed
  then show ?thesis unfolding ensureJob_def by (intro yields_rules) auto
qed

lemma reconcile_live_effects:
  assumes "owner_laws x"
  shows "yields (effect_ok x task) (\<lambda>_. True) (reconcile_live x r task)"
proof -
  have sync: "yields (effect_ok x task) (\<lambda>_. True) (syncStatus x r task job egress)" for job egress
  proof -
    obtain phase reason msg where d: "derivePhase job = (phase, reason, msg)" by (metis prod_cases3)
    show ?thesis unfolding syncStatus_def Let_def d prod.case by (intro yields_rules) auto
  qed
  have rj: "yields (effect_ok x task) (\<lambda>_. True) (reconcile_job x r task agent)" for agent
    unfolding reconcile_job_def
    by (intro yields_bind [OF ensureJob_effects [OF assms]] yields_rules yields_bind [OF sync]) auto
  have run: "yields (effect_ok x task) (\<lambda>_. True) (run_steps x r task (reconcile_steps x r task agent egress))" for agent egress
    by (rule run_steps_yields [OF step_effects [OF assms]]) (auto intro: yields_step_failed)
  have steps: "yields (effect_ok x task) (\<lambda>_. True) (State_Monad.bind (run_steps x r task (reconcile_steps x r task agent egress))
      (\<lambda>stopped. case stopped of Some res \<Rightarrow> State_Monad.return res | None \<Rightarrow> reconcile_job x r task agent))" for agent egress
    by (rule yields_bind [OF run]) (intro yields_rules rj; simp)
  have agent: "yields (effect_ok x task) (\<lambda>_. True) (get_AgentClass x n)" for n by (intro yields_rules) auto
  show ?thesis
  proof (cases "validateTask x task")
    case None
    show ?thesis unfolding reconcile_live_def None option.case
      by (rule yields_bind [OF agent], rule yields_sum, intro yields_rules) (auto intro: steps)
  next
    case (Some err)
    show ?thesis unfolding reconcile_live_def Some option.case by (intro yields_rules) auto
  qed
qed

lemma reconcile_task_effects:
  assumes "owner_laws x"
  shows "emits (reconcile_task x r task) (\<lambda>_ l. list_all (effect_ok x task) l)"
proof (cases "isTerminal (st_Phase (task_Status task))")
  case True
  have "terminal_ok x task ob \<Longrightarrow> effect_ok x task ob" for ob
    by (auto simp: terminal_ok_def effect_ok_def split: obs.splits call.splits)
  with True reconcile_terminal_ok [of x task r] show ?thesis
    by (auto simp: reconcile_task_def emits_only_def list_all_iff elim!: emits_weaken)
next
  case False
  then show ?thesis using reconcile_live_effects [OF assms] by (auto simp: reconcile_task_def intro: emits_yields)
qed



section \<open>Errors leave the recorded status alone\<close>

text \<open>A status write that the server did not accept.\<close>

definition unwritten :: "obs \<Rightarrow> bool" where
  "unwritten ob = (case ob of Call (CStatusUpdate t) rsp \<Rightarrow> isl (got_task rsp) | _ \<Rightarrow> True)"

lemma unwritten_simps [simp]:
  "unwritten (Call (CStatusUpdate t) rsp) \<longleftrightarrow> isl (got_task rsp)"
  "unwritten (Call (CCreate d) rsp)" "unwritten (Call (CGet k key) rsp)"
  "unwritten (Call (CUpdate d) rsp)" "unwritten (Call (CDelete k key u) rsp)"
  "unwritten (Call (CList k ns ls) rsp)" "unwritten (Dns h ans)" "unwritten (Event a b msg)"
  "unwritten (MetricPhase a b)" "unwritten (MetricReconcileError a)" "unwritten (MetricDuration a f)"
  by (simp_all add: unwritten_def)

lemma emits_set_condition [obs_rules]:
  "(\<And>t. Q t []) \<Longrightarrow> emits (set_condition x task c) Q"
  unfolding set_condition_def by (intro obs_rules) simp

lemma emits_recordEvent: "emits (recordEvent r ty reason msg) (\<lambda>_ l. True)"
  unfolding recordEvent_def by (intro obs_rules) simp_all

lemma markInvalid_error: "emits (markInvalid x r task reason msg) (\<lambda>e l. e \<noteq> None \<longrightarrow> list_all unwritten l)"
  unfolding markInvalid_def Let_def metrics_defs
  by (intro obs_rules emits_weaken [OF emits_recordEvent]) (auto simp: isl_def)

lemma failTask_error: "emits (failTask x r task reason cause) (\<lambda>e l. e \<noteq> None \<longrightarrow> list_all unwritten l)"
  unfolding failTask_def
  by (rule emits_bind [OF markInvalid_error]) (auto intro!: obs_rules split: option.splits)

lemma markWaiting_error: "emits (markWaitingForAgentClass x r task) (\<lambda>e l. e \<noteq> None \<longrightarrow> list_all unwritten l)"
  unfolding markWaitingForAgentClass_def Let_def
  by (intro obs_rules emits_weaken [OF emits_recordEvent]) (auto simp: isl_def)

lemma observeResult_unwritten: "emits (observeResult x r task uid egress) (\<lambda>_ l. list_all unwritten l)"
  by (rule emits_yields [where p = unwritten and R = "\<lambda>_. True"], intro yields_rules) auto

lemma syncStatus_error: "emits (syncStatus x r task job egress) (\<lambda>v l. isl v \<longrightarrow> list_all unwritten l)"
proof -
  obtain phase reason msg where d: "derivePhase job = (phase, reason, msg)" by (metis prod_cases3)
  have report: "emits (report_transition r q (phase, reason, msg) t) (\<lambda>_ l. True)" for q t
    by (rule emits_yields [where p = "\<lambda>_. True" and R = "\<lambda>_. True"], intro yields_rules) auto
  show ?thesis unfolding syncStatus_def Let_def d prod.case
    by (intro emits_bind_wp emits_set_condition emits_weaken [OF observeResult_unwritten])
       (auto intro!: obs_rules emits_weaken [OF report] simp: isl_def)
qed

interpretation unwritten: routine unwritten
  by unfold_locales (auto simp: unwritten_def split: call.splits)

lemma run_steps_error:
  "(\<And>st. st \<in> set sts \<Longrightarrow> emits (step_run st) (\<lambda>_ l. list_all unwritten l)) \<Longrightarrow>
   emits (run_steps x r task sts) (\<lambda>v l. (v = None \<longrightarrow> list_all unwritten l) \<and>
     (\<forall>res. v = Some res \<longrightarrow> snd res \<noteq> None \<longrightarrow> list_all unwritten l))"
proof (induction sts)
  case (Cons st sts)
  have failed: "emits (step_failed x r task st err) (\<lambda>res l. snd res \<noteq> None \<longrightarrow> list_all unwritten l)" for err
    unfolding step_failed_def metrics_defs
    by (intro obs_rules emits_weaken [OF failTask_error]) auto
  show ?case unfolding run_steps.simps
    by (rule emits_bind [OF Cons.prems], simp, rule emits_option, rule emits_weaken [OF Cons.IH])
       (auto intro!: Cons.prems emits_bind [OF failed] emits_return)
qed (auto intro: obs_rules)

lemma reconcile_job_error:
  "emits (reconcile_job x r task agent) (\<lambda>res l. snd res \<noteq> None \<longrightarrow> list_all unwritten l)"
proof -
  have job: "emits (ensureJob x r task agent ss) (\<lambda>_ l. list_all unwritten l)" for ss
    by (rule emits_yields [OF unwritten.job_runs])
  show ?thesis unfolding reconcile_job_def metrics_defs
    by (rule emits_bind [OF job], rule emits_sum)
       (auto intro!: obs_rules emits_bind [OF failTask_error] emits_bind [OF syncStatus_error] simp: isl_def)
qed

lemma reconcile_live_error:
  "emits (reconcile_live x r task) (\<lambda>res l. snd res \<noteq> None \<longrightarrow> list_all unwritten l)"
proof (cases "validateTask x task")
  case (Some err)
  show ?thesis unfolding reconcile_live_def Some option.case metrics_defs
    by (intro obs_rules emits_weaken [OF failTask_error]) auto
next
  case None
  have agent: "emits (get_AgentClass x n) (\<lambda>_ l. list_all unwritten l)" for n
    by (rule emits_yields [OF unwritten.agent_runs])
  have steps: "emits (State_Monad.bind (run_steps x r task (reconcile_steps x r task agent egress))
      (\<lambda>stopped. case stopped of Some res \<Rightarrow> State_Monad.return res | None \<Rightarrow> reconcile_job x r task agent))
      (\<lambda>res l. snd res \<noteq> None \<longrightarrow> list_all unwritten l)" for agent egress
    by (rule emits_bind [OF run_steps_error [OF emits_yields [OF unwritten.step_runs]]], assumption, assumption, rule emits_option,
        rule emits_weaken [OF reconcile_job_error]) (auto intro!: emits_return)
  have waiting: "emits (State_Monad.bind (markWaitingForAgentClass x r task)
      (\<lambda>w. State_Monad.return (case w of Some e \<Rightarrow> (0, Some e) | None \<Rightarrow> (agentClassMissingRequeue, None))))
      (\<lambda>res l. snd res \<noteq> None \<longrightarrow> list_all unwritten l)"
    by (rule emits_bind [OF markWaiting_error]) (auto intro!: emits_return split: option.splits)
  show ?thesis unfolding reconcile_live_def None option.case metrics_defs
  proof (rule emits_bind [OF agent], rule emits_sum)
    fix l1 err assume "list_all unwritten l1"
    then show "emits (if x_isNotFound x err then do {
          observe (MetricReconcileError ''agent_class_lookup'');
          w \<leftarrow> markWaitingForAgentClass x r task;
          State_Monad.return (case w of Some e \<Rightarrow> (0, Some e) | None \<Rightarrow> (agentClassMissingRequeue, None)) }
        else do { observe (MetricReconcileError ''agent_class_lookup''); State_Monad.return (0, Some err) })
        (\<lambda>res l2. snd res \<noteq> None \<longrightarrow> list_all unwritten (l1 @ l2))"
      by (intro emits_if emits_bind_wp [of "observe _"] emits_observe emits_weaken [OF waiting] emits_return) auto
  next
    fix l1 agent assume "list_all unwritten l1"
    then show "emits (do {
          stopped \<leftarrow> run_steps x r task (reconcile_steps x r task agent (effective_egress task agent));
          case stopped of Some res \<Rightarrow> State_Monad.return res | None \<Rightarrow> reconcile_job x r task agent })
        (\<lambda>res l2. snd res \<noteq> None \<longrightarrow> list_all unwritten (l1 @ l2))"
      by (intro emits_weaken [OF steps]) auto
  qed
qed

text \<open>
  C17. An error leaves the recorded status alone: when a reconcile of a live Task returns an
  error, the server accepted no status write in that run, so the retry starts from the status
  that was read.
\<close>

theorem error_writes_no_status:
  assumes "run_state (Reconcile x r req) s = ((requeue, Some err), s')"
    and "obslog s' = obslog s @ Call (CGet KTask req) (RObj (OTask task)) # l"
    and "\<not> isTerminal (st_Phase (task_Status task))"
  shows "list_all unwritten l"
proof -
  have "emits (reconcile_task x r task) (\<lambda>res l. \<not> isTerminal (st_Phase (task_Status task)) \<longrightarrow> snd res \<noteq> None \<longrightarrow>
      list_all unwritten l)" for task
  proof (cases "isTerminal (st_Phase (task_Status task))")
    case True
    then show ?thesis using reconcile_task_terminal [of x r task] by (auto elim!: emits_weaken)
  next
    case False
    then show ?thesis using reconcile_live_error [of x r task] by (simp add: reconcile_task_def)
  qed
  from Reconcile_log [OF assms(1,2) this] assms(3) show ?thesis by simp
qed

text \<open>A server that rejects status writes.\<close>

definition rejecting_ext :: "store ext" where
  "rejecting_ext = ref_ext\<lparr>x_api := (\<lambda>c s. case c of CStatusUpdate t \<Rightarrow> (RErr (Plain ''conflict''), s) | _ \<Rightarrow> ref_api c s)\<rparr>"

theorem error_writes_no_status_witness:
  "\<exists>requeue err s' l. run_state (Reconcile rejecting_ext sample_reconciler (''ns'', ''t'')) sample_state = ((requeue, Some err), s') \<and>
     obslog s' = Call (CGet KTask (''ns'', ''t'')) (RObj (OTask sample_task)) # l \<and> list_all unwritten l \<and> length (status_writes l) = 1"
proof -
  let ?run = "run_state (Reconcile rejecting_ext sample_reconciler (''ns'', ''t'')) sample_state"
  have eval: "snd (fst ?run) \<noteq> None \<and>
      obslog (snd ?run) = Call (CGet KTask (''ns'', ''t'')) (RObj (OTask sample_task)) # tl (obslog (snd ?run)) \<and>
      length (status_writes (tl (obslog (snd ?run)))) = 1" by code_simp
  obtain requeue e s' where run: "?run = ((requeue, e), s')" by (metis prod.collapse)
  with eval obtain err where e: "e = Some err" by auto
  have log: "obslog s' = obslog sample_state @ Call (CGet KTask (''ns'', ''t'')) (RObj (OTask sample_task)) # tl (obslog s')"
    using eval run by (simp add: sample_state_def)
  have "list_all unwritten (tl (obslog s'))"
    by (rule error_writes_no_status [OF run [unfolded e] log]) (simp add: sample_task_def isTerminal_def)
  with eval run e show ?thesis by auto
qed

section \<open>Where a Result comes from\<close>

lemma pod_loop_Some:
  "pod_loop x uid seen obs = (Some msg, b) \<Longrightarrow>
   \<exists>pod. OPod pod \<in> set obs \<and> job_controls x uid pod \<and> agentTerminationMessage pod = Some msg"
proof (induction x uid seen obs rule: pod_loop.induct)
  case (2 x uid seen ob obs)
  then show ?case by (cases ob) (auto split: if_splits option.splits)
qed simp

definition from_pod :: "'w ext \<Rightarrow> string \<Rightarrow> string list \<Rightarrow> obj list \<Rightarrow> Task \<Rightarrow> bool" where
  "from_pod x uid egress items t \<longleftrightarrow>
     (\<exists>pod msg. OPod pod \<in> set items \<and> job_controls x uid pod \<and> agentTerminationMessage pod = Some msg \<and>
        st_Result (task_Status t) = pr_Result (ParseResult x msg egress))"

lemma observe_pods_source:
  "emits (observe_pods x r task uid egress items) (\<lambda>v _. case v of Inl _ \<Rightarrow> True | Inr (d, t) \<Rightarrow>
     st_Result (task_Status t) = st_Result (task_Status task) \<or> from_pod x uid egress items t)"
proof -
  obtain m seen where loop: "pod_loop x uid False items = (m, seen)" by fastforce
  have p: "yields (\<lambda>_. True) (\<lambda>v. case v of Inl _ \<Rightarrow> True | Inr (d, t) \<Rightarrow>
     st_Result (task_Status t) = st_Result (task_Status task) \<or> from_pod x uid egress items t)
     (observe_pods x r task uid egress items)"
  proof (cases m)
    case None
    then show ?thesis unfolding observe_pods_def loop prod.case option.case
      by (simp only: option.case) (intro yields_rules; simp add: with_result_def)
  next
    case (Some msg)
    with pod_loop_Some [of x uid False items msg seen] loop have "from_pod x uid egress items t"
      if "st_Result (task_Status t) = pr_Result (ParseResult x msg egress)" for t
      using that by (auto simp: from_pod_def)
    then show ?thesis unfolding observe_pods_def loop Some prod.case option.case
      by (intro yields_rules) (simp add: with_result_def)
  qed
  then show ?thesis by (rule emits_yields)
qed


text \<open>Two pods with the Task's label; the Job with UID \<open>j1\<close> controls the second one only.\<close>

definition sample_pod :: "string \<Rightarrow> string \<Rightarrow> string \<Rightarrow> obj" where
  "sample_pod name uid msg = OPod \<lparr>pd_Meta = zero_meta\<lparr>om_Name := name, om_Namespace := ''ns'',
     om_Labels := Some [(LabelTaskName, ''t'')], om_OwnerReferences := [\<lparr>or_APIVersion = ''batch/v1'', or_Kind = ''Job'',
       or_Name = ''t'', or_UID = uid, or_Controller = Some True\<rparr>]\<rparr>,
     pd_ContainerStatuses = [\<lparr>cs_Name = ''agent'', cs_Terminated = Some msg\<rparr>]\<rparr>"


section \<open>Deletion of terminal Tasks\<close>

lemma time_Sub_nonpos: "time_Sub t u \<le> 0 \<longleftrightarrow> t \<le> u"
  by (auto simp: time_Sub_def)

lemma deletionDeadline_Some:
  assumes "deletionDeadline x task dflt = Some deadline" and "\<And>s. ts_TTLSecondsAfterFinished (task_Spec task) = Some s \<Longrightarrow> in_int32 s"
    and "\<And>s. dflt = Some s \<Longrightarrow> in_int32 s"
  shows "\<exists>ttl fin. (case ts_TTLSecondsAfterFinished (task_Spec task) of Some s \<Rightarrow> Some s | None \<Rightarrow> dflt) = Some ttl \<and>
    finish_time x task = Some fin \<and> deadline = fin + ttl * Second"
proof -
  have "int64 (s * Second) = s * Second" if "in_int32 s" for s
    by (rule int64_id) (use that in \<open>auto simp: in_int32_def in_int64_def\<close>)
  with assms show ?thesis by (fastforce simp: deletionDeadline_def Let_def split: option.splits)
qed

text \<open>
  C19. A terminal Task is deleted only after its time to live, exactly: for TTLs in the range of
  their 32-bit type, collecting a Task sends a request only when it has a TTL (its own or the
  cluster default) and a finish time, and the clock has reached the finish time plus the TTL
  computed without overflow; the request deletes that Task under its UID. Otherwise nothing is
  sent and, when there is a deadline, the requeue delay is positive and ends at the deadline
  (or is the longest representable delay).
\<close>

theorem collect_only_after_deadline:
  assumes "run_state (collectTerminal x r task) s = (res, s')" and "x_now x (world s) = (now, w)"
    and "\<And>s. ts_TTLSecondsAfterFinished (task_Spec task) = Some s \<Longrightarrow> in_int32 s"
    and "\<And>s. r_DefaultTaskTTLSeconds r = Some s \<Longrightarrow> in_int32 s"
  shows "case deletionDeadline x task (r_DefaultTaskTTLSeconds r) of
     None \<Rightarrow> obslog s' = obslog s \<and> res = (0, None)
   | Some deadline \<Rightarrow>
       (\<exists>ttl fin. (case ts_TTLSecondsAfterFinished (task_Spec task) of Some s \<Rightarrow> Some s | None \<Rightarrow> r_DefaultTaskTTLSeconds r) = Some ttl \<and>
          finish_time x task = Some fin \<and> deadline = fin + ttl * 1000000000) \<and>
       (if now < deadline then obslog s' = obslog s \<and> snd res = None \<and> 0 < fst res \<and> fst res = min (2 ^ 63 - 1) (deadline - now)
        else \<exists>rsp. obslog s' = obslog s @ [Call (CDelete KTask (task_Namespace task, task_Name task) (Some (om_UID (task_Meta task)))) rsp])"
proof (cases "deletionDeadline x task (r_DefaultTaskTTLSeconds r)")
  case None
  with assms(1) show ?thesis by (simp add: collectTerminal_def)
next
  case (Some deadline)
  from deletionDeadline_Some [OF Some assms(3,4)]
  have ttl: "\<exists>ttl fin. (case ts_TTLSecondsAfterFinished (task_Spec task) of Some s \<Rightarrow> Some s | None \<Rightarrow> r_DefaultTaskTTLSeconds r) = Some ttl \<and>
      finish_time x task = Some fin \<and> deadline = fin + ttl * 1000000000" by simp
  show ?thesis
  proof (cases "now < deadline")
    case True
    then have "time_Sub deadline now > 0" using time_Sub_nonpos [of deadline now] by linarith
    moreover from True have "time_Sub deadline now = min (2 ^ 63 - 1) (deadline - now)" by (simp add: time_Sub_def)
    ultimately show ?thesis using assms(1,2) True ttl
      by (auto simp: Some collectTerminal_def Let_def clock_def silent_def)
  next
    case False
    then have "\<not> time_Sub deadline now > 0" using time_Sub_nonpos [of deadline now] by linarith
    then show ?thesis using assms(1,2) False ttl
      by (auto simp: Some collectTerminal_def Let_def clock_def silent_def client_Delete_def request_def outside_def
          key_of_def split: prod.splits)
  qed
qed

theorem collect_only_after_deadline_witness:
  "\<exists>rsp. obslog (snd (run_state (collectTerminal ref_ext sample_reconciler done_task) done_state)) =
     [Call (CDelete KTask (''ns'', ''t'') (Some ''u1'')) rsp]"
proof -
  obtain res s' where run: "run_state (collectTerminal ref_ext sample_reconciler done_task) done_state = (res, s')" by fastforce
  have now: "x_now ref_ext (world done_state) = (1000, world done_state)"
    by (simp add: ref_ext_def done_state_def sample_store_def)
  have d: "deletionDeadline ref_ext done_task (r_DefaultTaskTTLSeconds sample_reconciler) = Some 10" by code_simp
  from collect_only_after_deadline [OF run now] d run show ?thesis
    by (simp add: done_task_def sample_task_def sample_reconciler_def in_int32_def done_state_def zero_meta_def)
qed

end
