(* ===== verification/Trigger_Signature.thy ===== *)
theory Trigger_Signature
  imports Externals Go_Crypto
begin

text \<open>
  \<open>internal/trigger/signature.go\<close>: the HMAC check on which every webhook depends. The sentinel
  errors are a datatype, since the handler tells them apart with \<open>errors.Is\<close>; \<open>hmac.Equal\<close>
  compares byte sequences and \<open>hash.Hash.Write\<close> never fails.
\<close>

section \<open>signature.go\<close>

abbreviation algorithmSHA256 :: string where "algorithmSHA256 \<equiv> ''sha256''"

datatype sig_error = ErrMissingSignature | ErrSignatureMismatch | ErrEmptySecret | ErrUnsupportedAlgorithm

definition supported_algorithm :: "unicode \<Rightarrow> string \<Rightarrow> bool" where
  "supported_algorithm u algorithm \<longleftrightarrow> ToLower u (TrimSpace algorithm) \<in> set [[], algorithmSHA256]"

text \<open>\<open>hex.EncodeToString(h.Sum(nil))\<close> after the body has been written.\<close>

definition wanted_signature :: "string \<Rightarrow> string \<Rightarrow> string" where
  "wanted_signature secret body = EncodeToString (hmac_sha256 (map byte secret) (map byte body))"

definition VerifyHMAC ::
  "unicode \<Rightarrow> string \<Rightarrow> string \<Rightarrow> string \<Rightarrow> string \<Rightarrow> string \<Rightarrow> sig_error option" where
  "VerifyHMAC u algorithm pfx headerValue secret body =
     (if headerValue = [] then Some ErrMissingSignature
      else if length secret = 0 then Some ErrEmptySecret
      else
        (let sig = TrimPrefix (TrimSpace headerValue) pfx
         in if \<not> supported_algorithm u algorithm then Some ErrUnsupportedAlgorithm
            else if ToLower u sig \<noteq> wanted_signature secret body then Some ErrSignatureMismatch
            else None))"

section \<open>Hexadecimal signatures\<close>

text \<open>A lower-case hexadecimal digit, and a character that is one after lower-casing.\<close>

definition is_hex :: "char \<Rightarrow> bool" where
  "is_hex c \<longleftrightarrow> 48 \<le> byte c \<and> byte c \<le> 57 \<or> 97 \<le> byte c \<and> byte c \<le> 102"

lemma hex_digit_is_hex: "d < 16 \<Longrightarrow> is_hex (hex_digit d)"
  by (auto simp: is_hex_def hex_digit_def)

lemma hex_pad_is_hex: "list_all is_hex (hex_pad k n)"
  by (induction k n rule: hex_pad.induct) (auto simp: hex_digit_is_hex)

lemma wanted_signature_hex: "list_all is_hex (wanted_signature secret body)"
  using hex_pad_is_hex by (auto simp: wanted_signature_def EncodeToString_def list_all_iff)

lemma length_be_bytes [simp]: "length (be_bytes n v) = n"
  by (simp add: be_bytes_def)

text \<open>Every block of SHA-256 keeps eight chaining words, so a digest has 32 bytes.\<close>

lemma length_sha_rounds [simp]: "length (sha_rounds ks ws st) = length st"
  by (induction ks ws st rule: sha_rounds.induct) (auto simp: Let_def split: list.splits)

lemma length_foldl_sha_block: "length (foldl sha_block st bs) = length st"
  by (induction bs arbitrary: st) (simp_all add: sha_block_def)

lemma length_sha256 [simp]: "length (sha256 bs) = 32"
proof -
  have "length (concat (map (\<lambda>w. be_bytes 4 (f w)) ws)) = 4 * length ws" for f and ws :: "word32 list"
    by (induction ws) auto
  then show ?thesis by (simp add: sha256_def length_foldl_sha_block sha_init_def)
qed

lemma length_wanted_signature [simp]: "length (wanted_signature secret body) = 64"
proof -
  have "length (EncodeToString bs) = 2 * length bs" for bs
    by (induction bs) (auto simp: EncodeToString_def)
  then show ?thesis by (simp add: wanted_signature_def hmac_sha256_def Let_def)
qed

lemma is_hex_lower:
  "is_hex (ascii_lower c) \<Longrightarrow> byte c < 0x80 \<and> \<not> IsSpace (byte c)"
  by (auto simp: is_hex_def ascii_lower_def IsSpace_def split: if_splits)

lemma hex_after_lower:
  assumes "map ascii_lower sig = wanted_signature secret body"
  shows "ascii sig" and "\<forall>c \<in> set sig. \<not> IsSpace (byte c)" and "sig \<noteq> []"
proof -
  have h: "is_hex (ascii_lower c)" if "c \<in> set sig" for c
    using that wanted_signature_hex [of secret body] unfolding assms [symmetric] by (auto simp: list_all_iff)
  show "ascii sig" "\<forall>c \<in> set sig. \<not> IsSpace (byte c)"
    using is_hex_lower h by (auto simp: ascii_def list_all_iff)
  have "length sig = 64" by (metis assms length_map length_wanted_signature)
  then show "sig \<noteq> []" by auto
qed

section \<open>What the check accepts\<close>

definition blank :: "string \<Rightarrow> bool" where
  "blank s \<longleftrightarrow> list_all (\<lambda>c. byte c < 0x80 \<and> IsSpace (byte c)) s"

lemma TrimSpace_pad:
  assumes "blank a" "blank b" "ascii s" "s \<noteq> []" "\<not> IsSpace (byte (hd s))" "\<not> IsSpace (byte (last s))"
  shows "TrimSpace (a @ s @ b) = s"
proof -
  have asc: "ascii (a @ s @ b)" using assms(1-3) by (auto simp: ascii_def blank_def list_all_iff)
  have "dropWhile (\<lambda>c. IsSpace (byte c)) (a @ s @ b) = s @ b"
    using assms(1,4,5) by (subst dropWhile_append2) (auto simp: blank_def list_all_iff neq_Nil_conv)
  moreover have "dropWhile (\<lambda>c. IsSpace (byte c)) (rev (s @ b)) = rev s"
    using assms(2,4,6) unfolding rev_append
    by (subst dropWhile_append2) (auto simp: blank_def list_all_iff, cases s rule: rev_cases, auto)
  ultimately show ?thesis by (simp add: TrimSpace_ascii [OF asc])
qed

lemma VerifyHMAC_padded:
  assumes "supported_algorithm u algorithm" "secret \<noteq> []"
    and "ascii pfx" "pfx = [] \<or> \<not> IsSpace (byte (hd pfx))"
    and "blank ws1" "blank ws2"
    and "map ascii_lower sig = wanted_signature secret body"
  shows "VerifyHMAC u algorithm pfx (ws1 @ pfx @ sig @ ws2) secret body = None"
proof -
  note h = hex_after_lower [OF assms(7)]
  have "TrimSpace (ws1 @ (pfx @ sig) @ ws2) = pfx @ sig"
    using assms h by (intro TrimSpace_pad) (auto simp: ascii_def hd_append)
  then show ?thesis
    using assms h by (simp add: VerifyHMAC_def Let_def ToLower_ascii)
qed

lemma wanted_signature_lower [simp]: "map ascii_lower (wanted_signature secret body) = wanted_signature secret body"
  using wanted_signature_hex [of secret body]
  by (intro map_idI) (auto simp: list_all_iff is_hex_def ascii_lower_def)

text \<open>The signature as a sender that follows the convention of the prefix writes it.\<close>

lemma VerifyHMAC_plain:
  assumes "supported_algorithm u algorithm" "secret \<noteq> []" "ascii pfx" "pfx = [] \<or> \<not> IsSpace (byte (hd pfx))"
  shows "VerifyHMAC u algorithm pfx (pfx @ wanted_signature secret body) secret body = None"
  using VerifyHMAC_padded [OF assms, of "[]" "[]" "wanted_signature secret body" body] by (simp add: blank_def)

text \<open>
  C24. Round trip: a sender that puts the hexadecimal HMAC-SHA-256 of the body under the shared
  secret after the configured prefix is accepted, in upper or lower case, with any white space
  around it, for every spelling of a supported algorithm.
\<close>

theorem signature_round_trip:
  assumes "supported_algorithm u algorithm" "secret \<noteq> []"
    and "ascii pfx" "pfx = [] \<or> \<not> IsSpace (byte (hd pfx))"
    and "blank ws1" "blank ws2"
    and "map ascii_lower sig = wanted_signature secret body"
  shows "VerifyHMAC u algorithm pfx (ws1 @ pfx @ sig @ ws2) secret body = None"
  using assms by (rule VerifyHMAC_padded)

theorem signature_round_trip_witness:
  "VerifyHMAC \<lparr>u_isPrint = (\<lambda>_. True), u_toLower = id, u_isFormat = (\<lambda>_. False)\<rparr> ''SHA256'' ''sha256=''
     ('' '' @ ''sha256='' @ wanted_signature ''key'' ''{}'' @ []) ''key'' ''{}'' = None"
  by (rule signature_round_trip) (simp | code_simp)+



end
