(* ===== verification/Trigger_Mapping.thy ===== *)
theory Trigger_Mapping
  imports Reference_Env
begin

text \<open>
  \<open>internal/trigger/mapping.go\<close>: the filters on a webhook payload and the Task that a template
  and a payload give. \<open>gjson\<close> is a third-party package, the parameter \<open>x_gjson\<close>. The Task under
  construction is passed along and returned; Go's in-place writes to it are not shared with
  anything, since the template is copied first. A run-time panic is an outcome of its own.
\<close>

datatype 'a outcome = Done 'a | Fail gerr | Panic

section \<open>mapping.go\<close>

abbreviation defaultGenerateNamePrefix :: string where "defaultGenerateNamePrefix \<equiv> ''task-''"

text \<open>\<open>gjson.GetBytes(body, path).String()\<close> is empty for a path that does not exist.\<close>

definition gjson_String :: "'w ext \<Rightarrow> string \<Rightarrow> string \<Rightarrow> string" where
  "gjson_String x body path = (case x_gjson x body path of None \<Rightarrow> [] | Some s \<Rightarrow> s)"

fun ApplyFilters :: "'w ext \<Rightarrow> string \<Rightarrow> WebhookFilter list \<Rightarrow> bool" where
  "ApplyFilters x body [] = True"
| "ApplyFilters x body (f # fs) =
     (if gjson_String x body (wf_Path f) \<noteq> wf_Equals f then False else ApplyFilters x body fs)"

definition resolveMapping :: "'w ext \<Rightarrow> string \<Rightarrow> FieldMapping \<Rightarrow> string" where
  "resolveMapping x body m =
     (case x_gjson x body (fm_From m) of
        None \<Rightarrow> fm_Default m
      | Some s \<Rightarrow> if s = [] then fm_Default m else s)"

text \<open>\<open>setMapKey\<close> makes the map when it is nil.\<close>

definition setMapKey :: "strmap \<Rightarrow> string \<Rightarrow> string \<Rightarrow> strmap" where
  "setMapKey m key v = Some (put_field key v (case m of None \<Rightarrow> [] | Some f \<Rightarrow> f))"

text \<open>
  \<open>setConfigKey\<close> decodes the config that is already there into a map. JSON \<open>null\<close> decodes into a
  nil map without an error, and the assignment to a nil map panics.
\<close>

definition decode_fields :: "'w ext \<Rightarrow> string \<Rightarrow> ((string \<times> json) list option) outcome" where
  "decode_fields x raw =
     (case Decode raw of
        Some (JObject ms, _) \<Rightarrow> Done (Some (fields_of ms))
      | Some (JNull, _) \<Rightarrow> Done None
      | _ \<Rightarrow> Fail (Wrapped ''template agent.config is not a JSON object'' (Plain (x_jsonError x raw))))"

definition setConfigKey :: "'w ext \<Rightarrow> AgentRef \<Rightarrow> string \<Rightarrow> string \<Rightarrow> AgentRef outcome" where
  "setConfigKey x agent key v =
     (if key = [] then Fail (Plain (''config mapping needs a key, e.g. '' @ [dquote] @ ''config.TARGET_REPO'' @ [dquote]))
      else
        case (case ar_Config agent of
                None \<Rightarrow> Done (Some [])
              | Some raw \<Rightarrow> if length raw > 0 then decode_fields x raw else Done (Some [])) of
          Fail e \<Rightarrow> Fail e
        | Panic \<Rightarrow> Panic
        | Done None \<Rightarrow> Panic
        | Done (Some flds) \<Rightarrow>
            Done (agent\<lparr>ar_Config := Some (Marshal (JObject (put_field key (JString v) flds)))\<rparr>))"

definition set_prompt :: "string \<Rightarrow> Task \<Rightarrow> Task" where
  "set_prompt v task = task\<lparr>task_Spec := (task_Spec task)\<lparr>ts_Prompt := (ts_Prompt (task_Spec task))\<lparr>ps_Inline := v\<rparr>\<rparr>\<rparr>"

definition set_name :: "string \<Rightarrow> Task \<Rightarrow> Task" where
  "set_name v task = task\<lparr>task_Meta := (task_Meta task)\<lparr>om_Name := v, om_GenerateName := []\<rparr>\<rparr>"

definition set_label :: "string \<Rightarrow> string \<Rightarrow> Task \<Rightarrow> Task" where
  "set_label key v task = task\<lparr>task_Meta := (task_Meta task)\<lparr>om_Labels := setMapKey (om_Labels (task_Meta task)) key v\<rparr>\<rparr>"

definition set_annotation :: "string \<Rightarrow> string \<Rightarrow> Task \<Rightarrow> Task" where
  "set_annotation key v task =
     task\<lparr>task_Meta := (task_Meta task)\<lparr>om_Annotations := setMapKey (om_Annotations (task_Meta task)) key v\<rparr>\<rparr>"

definition set_agent :: "AgentRef \<Rightarrow> Task \<Rightarrow> Task" where
  "set_agent a task = task\<lparr>task_Spec := (task_Spec task)\<lparr>ts_Agent := a\<rparr>\<rparr>"

definition applyMapping :: "'w ext \<Rightarrow> Task \<Rightarrow> string \<Rightarrow> string \<Rightarrow> Task outcome" where
  "applyMapping x task to v =
     (if to = ''prompt'' then Done (set_prompt v task)
      else if to = ''name'' then Done (set_name v task)
      else if HasPrefix to ''labels.'' then Done (set_label (TrimPrefix to ''labels.'') v task)
      else if HasPrefix to ''annotations.'' then Done (set_annotation (TrimPrefix to ''annotations.'') v task)
      else if HasPrefix to ''config.'' then
        (case setConfigKey x (ts_Agent (task_Spec task)) (TrimPrefix to ''config.'') v of
           Done a \<Rightarrow> Done (set_agent a task) | Fail e \<Rightarrow> Fail e | Panic \<Rightarrow> Panic)
      else Fail (Plain (''unknown mapping target '' @ Quote (x_unicode x) to)))"

text \<open>The UTF-8 arrow and dash of the error texts.\<close>

definition mapping_context :: "unicode \<Rightarrow> FieldMapping \<Rightarrow> string" where
  "mapping_context u m = ''mapping '' @ Quote u (fm_From m) @ '' '' @ [CHR 0xE2, CHR 0x86, CHR 0x92] @ '' '' @ Quote u (fm_To m)"

definition no_prompt :: gerr where
  "no_prompt = Plain (''webhook produced a Task with no prompt '' @ [CHR 0xE2, CHR 0x80, CHR 0x94] @ '' add a '' @
     [dquote] @ ''prompt'' @ [dquote] @ '' mapping or a default'')"

fun mapping_loop :: "'w ext \<Rightarrow> string \<Rightarrow> FieldMapping list \<Rightarrow> Task \<Rightarrow> Task outcome" where
  "mapping_loop x body [] task = Done task"
| "mapping_loop x body (m # ms) task =
     (let v = resolveMapping x body m
      in if v = [] then mapping_loop x body ms task
         else case applyMapping x task (fm_To m) v of
                Done t \<Rightarrow> mapping_loop x body ms t
              | Fail e \<Rightarrow> Fail (Wrapped (mapping_context (x_unicode x) m) e)
              | Panic \<Rightarrow> Panic)"

definition zero_status :: TaskStatus where
  "zero_status = \<lparr>st_Phase = [], st_ObservedGeneration = 0, st_JobName = [], st_StartTime = None,
     st_CompletionTime = None, st_Result = None, st_Conditions = []\<rparr>"

definition template_task :: "TaskTemplate \<Rightarrow> Task" where
  "template_task tmpl =
     (let pfx = (if tt_GenerateNamePrefix tmpl = [] then defaultGenerateNamePrefix else tt_GenerateNamePrefix tmpl)
      in \<lparr>task_Meta = zero_meta\<lparr>om_GenerateName := pfx, om_Namespace := tt_Namespace tmpl\<rparr>,
          task_Spec = \<lparr>ts_Agent = tt_Agent tmpl,
            ts_Prompt = \<lparr>ps_Inline = [], ps_SecretRef = None, ps_ConfigMapRef = None\<rparr>,
            ts_Permissions = tt_Permissions tmpl, ts_Resources = tt_Resources tmpl,
            ts_TTLSecondsAfterFinished = tt_TTLSecondsAfterFinished tmpl\<rparr>,
          task_Status = zero_status\<rparr>)"

definition BuildTask :: "'w ext \<Rightarrow> TaskTemplate \<Rightarrow> string \<Rightarrow> Task outcome" where
  "BuildTask x tmpl body =
     (case mapping_loop x body (tt_Mappings tmpl) (template_task tmpl) of
        Done task \<Rightarrow>
          (let p = ts_Prompt (task_Spec task)
           in if ps_Inline p = [] \<and> ps_SecretRef p = None \<and> ps_ConfigMapRef p = None
              then Fail no_prompt else Done task)
      | Fail e \<Rightarrow> Fail e
      | Panic \<Rightarrow> Panic)"

section \<open>What the payload can change\<close>

lemmas mapping_setters = set_prompt_def set_name_def set_label_def set_annotation_def set_agent_def

lemma setConfigKey_ref: "setConfigKey x agent key v = Done a \<Longrightarrow> ar_Ref a = ar_Ref agent"
  by (auto simp: setConfigKey_def split: if_splits outcome.splits option.splits)

text \<open>
  A mapping writes through one of five setters, and the agent setter keeps the reference. A
  property of Tasks that the five setters keep is kept by the whole loop: the interface between
  \<open>applyMapping\<close> and what callers rely on.
\<close>

locale mapping_invariant =
  fixes inv :: "Task \<Rightarrow> bool"
  assumes inv_prompt: "inv t \<Longrightarrow> v \<noteq> [] \<Longrightarrow> inv (set_prompt v t)"
    and inv_name: "inv t \<Longrightarrow> v \<noteq> [] \<Longrightarrow> inv (set_name v t)"
    and inv_label: "inv t \<Longrightarrow> v \<noteq> [] \<Longrightarrow> inv (set_label k v t)"
    and inv_annotation: "inv t \<Longrightarrow> v \<noteq> [] \<Longrightarrow> inv (set_annotation k v t)"
    and inv_agent: "inv t \<Longrightarrow> ar_Ref a = ar_Ref (ts_Agent (task_Spec t)) \<Longrightarrow> inv (set_agent a t)"
begin

lemma applyMapping_inv: "inv task \<Longrightarrow> v \<noteq> [] \<Longrightarrow> applyMapping x task to v = Done t \<Longrightarrow> inv t"
  by (auto simp: applyMapping_def split: if_splits outcome.splits dest: setConfigKey_ref
      intro: inv_prompt inv_name inv_label inv_annotation inv_agent)

lemma mapping_loop_inv: "inv task \<Longrightarrow> mapping_loop x body ms task = Done t \<Longrightarrow> inv t"
proof (induction ms arbitrary: task)
  case (Cons m ms)
  then show ?case
    by (auto simp: Let_def split: if_splits outcome.splits dest: applyMapping_inv)
qed simp

lemma BuildTask_inv: "inv (template_task tmpl) \<Longrightarrow> BuildTask x tmpl body = Done t \<Longrightarrow> inv t"
  by (auto simp: BuildTask_def Let_def split: outcome.splits if_splits intro: mapping_loop_inv)

end

text \<open>The part of a Task that comes from the template alone.\<close>

definition fixed_by_template :: "TaskTemplate \<Rightarrow> Task \<Rightarrow> bool" where
  "fixed_by_template tmpl t \<longleftrightarrow>
     ts_Permissions (task_Spec t) = tt_Permissions tmpl \<and>
     ts_Resources (task_Spec t) = tt_Resources tmpl \<and>
     ts_TTLSecondsAfterFinished (task_Spec t) = tt_TTLSecondsAfterFinished tmpl \<and>
     ar_Ref (ts_Agent (task_Spec t)) = ar_Ref (tt_Agent tmpl) \<and>
     task_Namespace t = tt_Namespace tmpl \<and>
     ps_SecretRef (ts_Prompt (task_Spec t)) = None \<and> ps_ConfigMapRef (ts_Prompt (task_Spec t)) = None \<and>
     om_OwnerReferences (task_Meta t) = [] \<and> om_UID (task_Meta t) = [] \<and> task_Status t = zero_status"

interpretation fixed: mapping_invariant "fixed_by_template tmpl" for tmpl
  by unfold_locales (auto simp: fixed_by_template_def mapping_setters)

text \<open>Either a name or a name prefix for the API server to complete, never both.\<close>

definition named_once :: "Task \<Rightarrow> bool" where
  "named_once t \<longleftrightarrow> (om_Name (task_Meta t) = []) = (om_GenerateName (task_Meta t) \<noteq> [])"

interpretation naming: mapping_invariant named_once
  by unfold_locales (auto simp: named_once_def mapping_setters)

lemma fixed_template_task: "fixed_by_template tmpl (template_task tmpl)"
  by (simp add: fixed_by_template_def template_task_def Let_def zero_meta_def)

lemma named_template_task: "named_once (template_task tmpl)"
  by (simp add: named_once_def template_task_def Let_def zero_meta_def)

text \<open>
  C9. A webhook payload chooses a prompt, a name, labels, annotations and config values, and
  nothing else: whatever the payload and the mappings are, a Task that \<open>BuildTask\<close> returns has
  the permissions, resources, TTL, agent class and namespace of the template, no owner, no
  UID and an empty status; its prompt is inline and not empty; and it has a name or a
  generate-name prefix, never both and never neither.
\<close>

theorem payload_cannot_escalate:
  assumes "BuildTask x tmpl body = Done t"
  shows "fixed_by_template tmpl t \<and> named_once t \<and> ps_Inline (ts_Prompt (task_Spec t)) \<noteq> []"
proof (intro conjI)
  show fixed: "fixed_by_template tmpl t" by (rule fixed.BuildTask_inv [OF fixed_template_task assms])
  show "named_once t" by (rule naming.BuildTask_inv [OF named_template_task assms])
  from fixed show "ps_Inline (ts_Prompt (task_Spec t)) \<noteq> []"
    using assms by (auto simp: BuildTask_def Let_def fixed_by_template_def split: outcome.splits if_splits)
qed

definition sample_template :: TaskTemplate where
  "sample_template = \<lparr>tt_Namespace = [], tt_GenerateNamePrefix = [],
     tt_Agent = \<lparr>ar_Ref = ''c'', ar_Config = Some (''{'' @ [dquote] @ ''a'' @ [dquote] @ '':1}'')\<rparr>,
     tt_Permissions = \<lparr>pm_Secrets = [''s''], pm_Egress = [], pm_EgressPorts = [], pm_RBAC = []\<rparr>,
     tt_Resources = \<lparr>tr_CPU = [], tr_Memory = [], tr_Timeout = 60 * Second\<rparr>,
     tt_TTLSecondsAfterFinished = Some 60,
     tt_Mappings = [\<lparr>fm_From = ''title'', fm_To = ''prompt'', fm_Default = ''none''\<rparr>,
       \<lparr>fm_From = ''repo'', fm_To = ''labels.repo'', fm_Default = []\<rparr>,
       \<lparr>fm_From = ''repo'', fm_To = ''config.REPO'', fm_Default = []\<rparr>]\<rparr>"

definition sample_body :: string where
  "sample_body = ''{'' @ [dquote] @ ''repo'' @ [dquote] @ '':'' @ [dquote] @ ''r'' @ [dquote] @ ''}''"

definition sample_built :: Task where
  "sample_built = (case BuildTask ref_ext sample_template sample_body of Done t \<Rightarrow> t | _ \<Rightarrow> sample_task)"

theorem payload_cannot_escalate_witness:
  "BuildTask ref_ext sample_template sample_body = Done sample_built \<and>
   fixed_by_template sample_template sample_built \<and> named_once sample_built \<and>
   ps_Inline (ts_Prompt (task_Spec sample_built)) \<noteq> []"
proof -
  have b: "BuildTask ref_ext sample_template sample_body = Done sample_built" by code_simp
  from payload_cannot_escalate [OF b] b show ?thesis by blast
qed

end
