(* ===== verification/Trigger_Handler.thy ===== *)
theory Trigger_Handler
  imports Trigger_Signature Trigger_Mapping Controller_Status
begin

text \<open>
  \<open>internal/trigger/dedupe.go\<close> and \<open>internal/trigger/handler.go\<close>: one webhook request, from the
  method check to the created Task. The request is what \<open>net/http\<close> hands to \<open>ServeHTTP\<close>; the
  reply is the status code, the headers and the body that the handler writes. A reply \<open>None\<close> is
  a panic, after which \<open>net/http\<close> drops the connection. The cached client and the live reader are
  one arbitrary API server here, since nothing is assumed about its answers. Log lines are not
  modelled.
\<close>

section \<open>Requests and replies of net/http\<close>

text \<open>
  The body is the bytes that the connection delivers and whether reading then fails. Header
  keys are canonical, as the server stores them.
\<close>

record http_request =
  rq_Method :: string
  rq_Path :: string
  rq_Header :: "(string \<times> string list) list"
  rq_Body :: string
  rq_BodyFails :: bool

record http_reply =
  rp_Code :: int
  rp_Header :: "(string \<times> string) list"
  rp_Body :: string

text \<open>\<open>textproto.CanonicalMIMEHeaderKey\<close>: a key with a byte that is no token byte stays as it is.\<close>

definition token_byte :: "char \<Rightarrow> bool" where
  "token_byte c \<longleftrightarrow> (let b = byte c in
     48 \<le> b \<and> b \<le> 57 \<or> 65 \<le> b \<and> b \<le> 90 \<or> 97 \<le> b \<and> b \<le> 122) \<or> c \<in> set ''!#$%&*+-.^_|~'' \<or> byte c \<in> {39, 96}"

fun canonical_bytes :: "bool \<Rightarrow> string \<Rightarrow> string" where
  "canonical_bytes up [] = []"
| "canonical_bytes up (c # cs) =
     (let b = byte c;
          d = (if up \<and> 97 \<le> b \<and> b \<le> 122 then char_of (b - 32)
               else if \<not> up \<and> 65 \<le> b \<and> b \<le> 90 then char_of (b + 32) else c)
      in d # canonical_bytes (d = CHR ''-'') cs)"

definition CanonicalMIMEHeaderKey :: "string \<Rightarrow> string" where
  "CanonicalMIMEHeaderKey k = (if list_all token_byte k then canonical_bytes True k else k)"

definition Header_Get :: "(string \<times> string list) list \<Rightarrow> string \<Rightarrow> string" where
  "Header_Get h k = (case map_of h (CanonicalMIMEHeaderKey k) of Some (v # _) \<Rightarrow> v | _ \<Rightarrow> [])"

text \<open>\<open>io.ReadAll(http.MaxBytesReader(w, r.Body, n))\<close>\<close>

datatype body_read = ReadOk string | ReadTooLarge | ReadFailed

definition maxBodyBytes :: nat where
  "maxBodyBytes = 2 ^ 20"

definition read_body :: "http_request \<Rightarrow> body_read" where
  "read_body r =
     (if length (rq_Body r) > maxBodyBytes then ReadTooLarge
      else if rq_BodyFails r then ReadFailed else ReadOk (rq_Body r))"

text \<open>\<open>json.Valid\<close>: one value and nothing but white space after it.\<close>

definition json_Valid :: "string \<Rightarrow> bool" where
  "json_Valid body = (case Decode body of None \<Rightarrow> False | Some (_, rest) \<Rightarrow> skip_space rest = [])"

definition writeJSON :: "(string \<times> string) list \<Rightarrow> int \<Rightarrow> (string \<times> json) list \<Rightarrow> http_reply" where
  "writeJSON hdr code payload = \<lparr>rp_Code = code, rp_Header = put_field ''Content-Type'' ''application/json'' hdr,
     rp_Body = Marshal (JObject payload) @ [CHR 0x0A]\<rparr>"

definition writeStatus :: "(string \<times> string) list \<Rightarrow> int \<Rightarrow> string \<Rightarrow> http_reply" where
  "writeStatus hdr code msg = writeJSON hdr code [(''error'', JString msg)]"

section \<open>dedupe.go\<close>

definition stampTriggerClass :: "'w ext \<Rightarrow> Task \<Rightarrow> ClusterTriggerClass \<Rightarrow> Task" where
  "stampTriggerClass x task ctc =
     (if \<not> x_isValidLabelValue x (om_Name (ctc_Meta ctc)) then task
      else set_label LabelTriggerClass (om_Name (ctc_Meta ctc)) task)"

definition isTerminalPhase :: "TaskPhase \<Rightarrow> bool" where
  "isTerminalPhase phase \<longleftrightarrow> phase = TaskPhaseCompleted \<or> phase = TaskPhaseFailed \<or> phase = TaskPhaseTimedOut"

text \<open>The selector loop; \<open>None\<close> is the early return on a missing label.\<close>

fun selector_loop :: "strmap \<Rightarrow> string list \<Rightarrow> (string \<times> string) list \<Rightarrow> (string \<times> string) list option" where
  "selector_loop ls [] sel = Some sel"
| "selector_loop ls (key # keys) sel =
     (let v = map_get ls key in if v = [] then None else selector_loop ls keys (put_field key v sel))"

definition dedupe_selector :: "ClusterTriggerClass \<Rightarrow> Task \<Rightarrow> (string \<times> string) list option" where
  "dedupe_selector ctc task =
     (case ct_Dedupe (ctc_Spec ctc) of
        None \<Rightarrow> None
      | Some d \<Rightarrow>
          if length (td_UniqueBy d) = 0 then None
          else (let v = map_get (task_Labels task) LabelTriggerClass
                in if v = [] then None
                   else selector_loop (task_Labels task) (td_UniqueBy d) [(LabelTriggerClass, v)]))"

text \<open>The loop over the list: the name of the first Task that still blocks.\<close>

definition blocks :: "Task \<Rightarrow> bool" where
  "blocks t \<longleftrightarrow> \<not> (om_DeletionTimestamp (task_Meta t) \<noteq> None \<or> isTerminalPhase (st_Phase (task_Status t)))"

fun first_blocking :: "obj list \<Rightarrow> string" where
  "first_blocking [] = []"
| "first_blocking (ob # obs) =
     (case ob of OTask t \<Rightarrow> if \<not> blocks t then first_blocking obs else task_Name t | _ \<Rightarrow> first_blocking obs)"

definition findActiveDuplicate :: "'w ext \<Rightarrow> ClusterTriggerClass \<Rightarrow> Task \<Rightarrow> ('w, gerr + string) op" where
  "findActiveDuplicate x ctc task =
     (case dedupe_selector ctc task of
        None \<Rightarrow> State_Monad.return (Inr [])
      | Some sel \<Rightarrow> do {
          r \<leftarrow> client_List x KTask (Some (task_Namespace task)) (Some sel);
          State_Monad.return (case r of
            Inl err \<Rightarrow> Inl (Wrapped ''list tasks for dedupe'' err)
          | Inr obs \<Rightarrow> Inr (first_blocking obs)) })"

section \<open>handler.go\<close>

record handler =
  hd_SecretNamespace :: string
  hd_DefaultTaskNamespace :: string

definition route :: "string \<Rightarrow> string" where
  "route path = (let p = TrimRight path (CHR ''/'') in if p = [] then ''/'' else p)"

fun matching_classes :: "string \<Rightarrow> obj list \<Rightarrow> ClusterTriggerClass list" where
  "matching_classes path [] = []"
| "matching_classes path (ob # obs) =
     (case ob of
        OTriggerClass ctc \<Rightarrow>
          (if route (ct_Path (ctc_Spec ctc)) = path then ctc # matching_classes path obs
           else matching_classes path obs)
      | _ \<Rightarrow> matching_classes path obs)"

definition findTriggerClass :: "'w ext \<Rightarrow> string \<Rightarrow> ('w, gerr + ClusterTriggerClass option) op" where
  "findTriggerClass x path0 = (let path = route path0 in do {
     r \<leftarrow> client_List x KTriggerClass None None;
     State_Monad.return (case r of
       Inl err \<Rightarrow> Inl err
     | Inr items \<Rightarrow>
         (case matching_classes path items of
            [] \<Rightarrow> Inr None
          | [ctc] \<Rightarrow> Inr (Some ctc)
          | ms \<Rightarrow> Inl (Plain (''path '' @ Quote (x_unicode x) path @ '' is claimed by '' @
              itoa (int (length ms)) @ '' ClusterTriggerClasses'')))) })"

definition secret_data :: "'w ext \<Rightarrow> handler \<Rightarrow> KeySelector \<Rightarrow> obj \<Rightarrow> gerr + string" where
  "secret_data x h ref ob =
     (case ob of
        OSecret sec \<Rightarrow>
          (case (case sec_Data sec of None \<Rightarrow> None | Some f \<Rightarrow> map_of f (ks_Key ref)) of
             None \<Rightarrow> Inl (Plain (''secret '' @ hd_SecretNamespace h @ ''/'' @ ks_Name ref @ '' has no key '' @
               Quote (x_unicode x) (ks_Key ref)))
           | Some v \<Rightarrow> Inr v)
      | _ \<Rightarrow> Inl undecodable)"

definition lookupSignatureSecret :: "'w ext \<Rightarrow> handler \<Rightarrow> ClusterTriggerClass \<Rightarrow> ('w, gerr + string) op" where
  "lookupSignatureSecret x h ctc =
     (let ref = ws_SecretRef (ct_Signature (ctc_Spec ctc))
      in if ks_Name ref = [] \<or> ks_Key ref = [] then
           State_Monad.return (Inl (Plain ''signature.secretRef is incomplete''))
         else do {
           r \<leftarrow> client_Get x KSecret (hd_SecretNamespace h, ks_Name ref);
           State_Monad.return (case r of
             Inl err \<Rightarrow>
               if x_isNotFound x err
               then Inl (Wrapped (''secret '' @ hd_SecretNamespace h @ ''/'' @ ks_Name ref @ '' not found'') err)
               else Inl err
           | Inr ob \<Rightarrow> secret_data x h ref ob) })"

text \<open>Count the request and answer it: the last two calls of every branch of \<open>ServeHTTP\<close>.\<close>

definition answer :: "string \<Rightarrow> string \<Rightarrow> http_reply \<Rightarrow> ('w, http_reply option) op" where
  "answer cls res reply = do { ObserveWebhook cls res; State_Monad.return (Some reply) }"

definition with_namespace :: "handler \<Rightarrow> Task \<Rightarrow> Task" where
  "with_namespace h task =
     (if task_Namespace task = [] then task\<lparr>task_Meta := (task_Meta task)\<lparr>om_Namespace := hd_DefaultTaskNamespace h\<rparr>\<rparr>
      else task)"

text \<open>The Task is built: dedupe and create.\<close>

definition emit_task :: "'w ext \<Rightarrow> ClusterTriggerClass \<Rightarrow> Task \<Rightarrow> ('w, http_reply option) op" where
  "emit_task x ctc task = (let cls = om_Name (ctc_Meta ctc) in do {
     dup \<leftarrow> findActiveDuplicate x ctc task;
     (case dup of
        Inl err \<Rightarrow> answer cls ResultError (writeStatus [] 500 ''dedupe check failed'')
      | Inr existing \<Rightarrow>
          if existing \<noteq> [] then
            answer cls ResultDuplicate (writeJSON [] 202 [(''duplicate'', JBool True), (''task'', JString existing)])
          else do {
            r \<leftarrow> client_Create x (OTask task);
            (case r of
               Inl err \<Rightarrow> answer cls ResultError (writeStatus [] 500 (''create task: '' @ Error err))
             | Inr ob \<Rightarrow> answer cls ResultAccepted (writeJSON [] 200
                 [(''task'', JString (om_Name (meta_of ob))), (''namespace'', JString (om_Namespace (meta_of ob)))])) }) })"

text \<open>The signature is verified: filters, mapping, namespace and class label.\<close>

definition serve_verified :: "'w ext \<Rightarrow> handler \<Rightarrow> ClusterTriggerClass \<Rightarrow> string \<Rightarrow> ('w, http_reply option) op" where
  "serve_verified x h ctc body = (let cls = om_Name (ctc_Meta ctc) in
     if \<not> ApplyFilters x body (ct_Filters (ctc_Spec ctc)) then
       answer cls ResultFiltered (writeJSON [] 202 [(''filtered'', JBool True)])
     else case BuildTask x (ct_Task (ctc_Spec ctc)) body of
         Fail err \<Rightarrow> answer cls ResultBuildFailed (writeStatus [] 400 (''build task: '' @ Error err))
       | Panic \<Rightarrow> State_Monad.return None
       | Done task \<Rightarrow> emit_task x ctc (stampTriggerClass x (with_namespace h task) ctc))"

text \<open>The class is found: load the secret and verify the signature.\<close>

definition serve_class ::
  "'w ext \<Rightarrow> handler \<Rightarrow> http_request \<Rightarrow> ClusterTriggerClass \<Rightarrow> string \<Rightarrow> ('w, http_reply option) op" where
  "serve_class x h r ctc body =
     (let cls = om_Name (ctc_Meta ctc); sg = ct_Signature (ctc_Spec ctc) in do {
     sec \<leftarrow> lookupSignatureSecret x h ctc;
     (case sec of
        Inl err \<Rightarrow> answer cls ResultError (writeStatus [] 500 ''load signature secret'')
      | Inr secret \<Rightarrow>
          (case VerifyHMAC (x_unicode x) (ws_Algorithm sg) (ws_Prefix sg) (Header_Get (rq_Header r) (ws_Header sg)) secret body of
             Some err \<Rightarrow>
               if err = ErrEmptySecret \<or> err = ErrUnsupportedAlgorithm
               then answer cls ResultError (writeStatus [] 500 ''signature configuration error'')
               else answer cls ResultRejectedSignature (writeStatus [] 401 ''signature verification failed'')
           | None \<Rightarrow> serve_verified x h ctc body)) })"

definition serve_body :: "'w ext \<Rightarrow> handler \<Rightarrow> http_request \<Rightarrow> string \<Rightarrow> ('w, http_reply option) op" where
  "serve_body x h r body =
     (if \<not> json_Valid body then answer [] ResultRejectedBadBody (writeStatus [] 400 ''body is not valid JSON'')
      else do {
        found \<leftarrow> findTriggerClass x (rq_Path r);
        (case found of
           Inl err \<Rightarrow> answer [] ResultError (writeStatus [] 500 ''lookup trigger class'')
         | Inr c \<Rightarrow>
             (case c of
                None \<Rightarrow> answer [] ResultNotFound (writeStatus [] 404 (''no ClusterTriggerClass registered for path '' @ rq_Path r))
              | Some ctc \<Rightarrow> serve_class x h r ctc body)) })"

definition ServeHTTP :: "'w ext \<Rightarrow> handler \<Rightarrow> http_request \<Rightarrow> ('w, http_reply option) op" where
  "ServeHTTP x h r =
     (if rq_Method r \<noteq> ''POST'' then
        answer [] ResultRejectedMethod (writeStatus [(''Allow'', ''POST'')] 405 ''method not allowed'')
      else case read_body r of
          ReadTooLarge \<Rightarrow> answer [] ResultRejectedBodyTooLarge (writeStatus [] 413 ''body too large'')
        | ReadFailed \<Rightarrow> answer [] ResultRejectedBadBody (writeStatus [] 400 ''malformed request body'')
        | ReadOk body \<Rightarrow> serve_body x h r body)"

end
