(* ===== verification/Trigger_Safety.thy ===== *)
theory Trigger_Safety
  imports Trigger_Handler
begin

text \<open>
  What a webhook request may do. The relation \<open>webhook\<close> is the abstract specification: the table
  of responses in the comment of \<open>ServeHTTP\<close>, one rule per row, each with the reason for the
  response, the requests to the API server that precede it and the counter that records it. The
  handler refines it, for every API server; the safety properties are read off the table.
\<close>

section \<open>The table of responses\<close>

text \<open>The signature check of a class on a request.\<close>

definition signature_check :: "'w ext \<Rightarrow> http_request \<Rightarrow> ClusterTriggerClass \<Rightarrow> string \<Rightarrow> sig_error option" where
  "signature_check x r ctc secret = (let sg = ct_Signature (ctc_Spec ctc) in
     VerifyHMAC (x_unicode x) (ws_Algorithm sg) (ws_Prefix sg) (Header_Get (rq_Header r) (ws_Header sg)) secret (rq_Body r))"

abbreviation class_list :: "resp \<Rightarrow> obs" where
  "class_list rsp \<equiv> Call (CList KTriggerClass None None) rsp"

definition secret_key :: "handler \<Rightarrow> ClusterTriggerClass \<Rightarrow> NamespacedName" where
  "secret_key h ctc = (hd_SecretNamespace h, ks_Name (ws_SecretRef (ct_Signature (ctc_Spec ctc))))"

text \<open>A well-formed request: a POST whose body is read, is small enough and is JSON.\<close>

definition acceptable :: "http_request \<Rightarrow> bool" where
  "acceptable r \<longleftrightarrow> rq_Method r = ''POST'' \<and> length (rq_Body r) \<le> maxBodyBytes \<and> \<not> rq_BodyFails r \<and> json_Valid (rq_Body r)"

text \<open>
  The request reaches exactly one class, whose Secret the API server returned; the check of the
  signature against that Secret gave \<open>res\<close>. The two calls are the log so far.
\<close>

definition checked :: "'w ext \<Rightarrow> handler \<Rightarrow> http_request \<Rightarrow> ClusterTriggerClass \<Rightarrow> sig_error option \<Rightarrow> obs list \<Rightarrow> bool" where
  "checked x h r ctc res l \<longleftrightarrow> acceptable r \<and>
     (\<exists>items sec secret.
        l = [class_list (RList items), Call (CGet KSecret (secret_key h ctc)) (RObj (OSecret sec))] \<and>
        matching_classes (route (rq_Path r)) items = [ctc] \<and>
        (\<exists>f. sec_Data sec = Some f \<and> map_of f (ks_Key (ws_SecretRef (ct_Signature (ctc_Spec ctc)))) = Some secret) \<and>
        signature_check x r ctc secret = res)"

text \<open>The Secret of the class cannot be used: its reference is incomplete, or the answer has no such key.\<close>

definition secret_unusable :: "handler \<Rightarrow> ClusterTriggerClass \<Rightarrow> obs list \<Rightarrow> bool" where
  "secret_unusable h ctc l \<longleftrightarrow>
     (let ref = ws_SecretRef (ct_Signature (ctc_Spec ctc))
      in l = [] \<and> (ks_Name ref = [] \<or> ks_Key ref = []) \<or>
         (\<exists>rsp. l = [Call (CGet KSecret (secret_key h ctc)) rsp] \<and>
            (\<forall>sec f. rsp = RObj (OSecret sec) \<longrightarrow> sec_Data sec = Some f \<longrightarrow> map_of f (ks_Key ref) = None)))"

definition prepared :: "'w ext \<Rightarrow> handler \<Rightarrow> ClusterTriggerClass \<Rightarrow> Task \<Rightarrow> Task" where
  "prepared x h ctc t = stampTriggerClass x (with_namespace h t) ctc"

text \<open>The verified request passes the filters and gives the Task \<open>task\<close>.\<close>

definition admitted :: "'w ext \<Rightarrow> handler \<Rightarrow> http_request \<Rightarrow> ClusterTriggerClass \<Rightarrow> Task \<Rightarrow> obs list \<Rightarrow> bool" where
  "admitted x h r ctc task l \<longleftrightarrow> checked x h r ctc None l \<and>
     ApplyFilters x (rq_Body r) (ct_Filters (ctc_Spec ctc)) \<and>
     (\<exists>t. BuildTask x (ct_Task (ctc_Spec ctc)) (rq_Body r) = Done t \<and> task = prepared x h ctc t)"

text \<open>The dedupe list: not made without a selector, or else answered.\<close>

definition dedupe_list :: "Task \<Rightarrow> (string \<times> string) list \<Rightarrow> resp \<Rightarrow> obs" where
  "dedupe_list task sel rsp = Call (CList KTask (Some (task_Namespace task)) (Some sel)) rsp"

definition unblocked :: "ClusterTriggerClass \<Rightarrow> Task \<Rightarrow> obs list \<Rightarrow> bool" where
  "unblocked ctc task l \<longleftrightarrow>
     (case dedupe_selector ctc task of
        None \<Rightarrow> l = []
      | Some sel \<Rightarrow> \<exists>obs. l = [dedupe_list task sel (RList obs)] \<and> first_blocking obs = [])"

abbreviation counted :: "ClusterTriggerClass \<Rightarrow> string \<Rightarrow> obs" where
  "counted ctc res \<equiv> MetricWebhook (om_Name (ctc_Meta ctc)) res"

inductive webhook :: "'w ext \<Rightarrow> handler \<Rightarrow> http_request \<Rightarrow> http_reply option \<Rightarrow> obs list \<Rightarrow> bool"
  for x h r where
  bad_method: "rq_Method r \<noteq> ''POST'' \<Longrightarrow> rp_Code rep = 405 \<Longrightarrow>
    webhook x h r (Some rep) [MetricWebhook [] ResultRejectedMethod]"
| too_large: "rq_Method r = ''POST'' \<Longrightarrow> length (rq_Body r) > maxBodyBytes \<Longrightarrow> rp_Code rep = 413 \<Longrightarrow>
    webhook x h r (Some rep) [MetricWebhook [] ResultRejectedBodyTooLarge]"
| bad_body: "rq_Method r = ''POST'' \<Longrightarrow> length (rq_Body r) \<le> maxBodyBytes \<Longrightarrow> rq_BodyFails r \<or> \<not> json_Valid (rq_Body r) \<Longrightarrow> rp_Code rep = 400 \<Longrightarrow>
    webhook x h r (Some rep) [MetricWebhook [] ResultRejectedBadBody]"
| class_error: "acceptable r \<Longrightarrow> rp_Code rep = 500 \<Longrightarrow>
    (\<And>items. rsp = RList items \<Longrightarrow> list_all (\<lambda>ob. kind_of ob = KTriggerClass) items \<Longrightarrow>
       length (matching_classes (route (rq_Path r)) items) > 1) \<Longrightarrow>
    webhook x h r (Some rep) [class_list rsp, MetricWebhook [] ResultError]"
| not_found: "acceptable r \<Longrightarrow> rp_Code rep = 404 \<Longrightarrow> matching_classes (route (rq_Path r)) items = [] \<Longrightarrow>
    webhook x h r (Some rep) [class_list (RList items), MetricWebhook [] ResultNotFound]"
| secret_error: "acceptable r \<Longrightarrow> rp_Code rep = 500 \<Longrightarrow> matching_classes (route (rq_Path r)) items = [ctc] \<Longrightarrow>
    secret_unusable h ctc l \<Longrightarrow>
    webhook x h r (Some rep) (class_list (RList items) # l @ [counted ctc ResultError])"
| misconfigured: "checked x h r ctc (Some err) l \<Longrightarrow> err \<in> {ErrEmptySecret, ErrUnsupportedAlgorithm} \<Longrightarrow> rp_Code rep = 500 \<Longrightarrow>
    webhook x h r (Some rep) (l @ [counted ctc ResultError])"
| unauthenticated: "checked x h r ctc (Some err) l \<Longrightarrow> err \<in> {ErrMissingSignature, ErrSignatureMismatch} \<Longrightarrow> rp_Code rep = 401 \<Longrightarrow>
    webhook x h r (Some rep) (l @ [counted ctc ResultRejectedSignature])"
| filtered: "checked x h r ctc None l \<Longrightarrow> \<not> ApplyFilters x (rq_Body r) (ct_Filters (ctc_Spec ctc)) \<Longrightarrow> rp_Code rep = 202 \<Longrightarrow>
    webhook x h r (Some rep) (l @ [counted ctc ResultFiltered])"
| build_failed: "checked x h r ctc None l \<Longrightarrow> ApplyFilters x (rq_Body r) (ct_Filters (ctc_Spec ctc)) \<Longrightarrow>
    BuildTask x (ct_Task (ctc_Spec ctc)) (rq_Body r) = Fail err \<Longrightarrow> rp_Code rep = 400 \<Longrightarrow>
    webhook x h r (Some rep) (l @ [counted ctc ResultBuildFailed])"
| panic: "checked x h r ctc None l \<Longrightarrow> ApplyFilters x (rq_Body r) (ct_Filters (ctc_Spec ctc)) \<Longrightarrow>
    BuildTask x (ct_Task (ctc_Spec ctc)) (rq_Body r) = Panic \<Longrightarrow> webhook x h r None l"
| dedupe_error: "admitted x h r ctc task l \<Longrightarrow> dedupe_selector ctc task = Some sel \<Longrightarrow> got_list KTask rsp = Inl err \<Longrightarrow> rp_Code rep = 500 \<Longrightarrow>
    webhook x h r (Some rep) (l @ [dedupe_list task sel rsp, counted ctc ResultError])"
| duplicate: "admitted x h r ctc task l \<Longrightarrow> dedupe_selector ctc task = Some sel \<Longrightarrow> first_blocking obs = name \<Longrightarrow> name \<noteq> [] \<Longrightarrow>
    rep = writeJSON [] 202 [(''duplicate'', JBool True), (''task'', JString name)] \<Longrightarrow>
    webhook x h r (Some rep) (l @ [dedupe_list task sel (RList obs), counted ctc ResultDuplicate])"
| create_error: "admitted x h r ctc task l \<Longrightarrow> unblocked ctc task d \<Longrightarrow> got_obj KTask rsp = Inl err \<Longrightarrow> rp_Code rep = 500 \<Longrightarrow>
    webhook x h r (Some rep) (l @ d @ [Call (CCreate (OTask task)) rsp, counted ctc ResultError])"
| created: "admitted x h r ctc task l \<Longrightarrow> unblocked ctc task d \<Longrightarrow>
    rep = writeJSON [] 200 [(''task'', JString (task_Name t)), (''namespace'', JString (task_Namespace t))] \<Longrightarrow>
    webhook x h r (Some rep) (l @ d @ [Call (CCreate (OTask task)) (RObj (OTask t)), counted ctc ResultAccepted])"

section \<open>The handler refines the table\<close>

lemma codes [simp]:
  "rp_Code (writeJSON hdr code payload) = code" "rp_Code (writeStatus hdr code msg) = code"
  by (simp_all add: writeStatus_def writeJSON_def)

lemma emits_answer: "Q (Some rep) [MetricWebhook cls res] \<Longrightarrow> emits (answer cls res rep) Q"
  unfolding answer_def ObserveWebhook_def by (intro obs_rules) simp

lemma kind_KTask: "kind_of ob = KTask \<Longrightarrow> \<exists>t. ob = OTask t"
  by (cases ob) auto

lemma kind_KSecret: "kind_of ob = KSecret \<Longrightarrow> \<exists>s. ob = OSecret s"
  by (cases ob) auto

text \<open>What the duplicate search returns and leaves in the log.\<close>

definition dedupe_outcome :: "ClusterTriggerClass \<Rightarrow> Task \<Rightarrow> gerr + string \<Rightarrow> obs list \<Rightarrow> bool" where
  "dedupe_outcome ctc task v d \<longleftrightarrow> (case v of
       Inl _ \<Rightarrow> \<exists>sel rsp err. dedupe_selector ctc task = Some sel \<and> d = [dedupe_list task sel rsp] \<and> got_list KTask rsp = Inl err
     | Inr name \<Rightarrow>
         if name = [] then unblocked ctc task d
         else \<exists>sel obs. dedupe_selector ctc task = Some sel \<and> d = [dedupe_list task sel (RList obs)] \<and> first_blocking obs = name)"

lemma emits_findActiveDuplicate: "emits (findActiveDuplicate x ctc task) (dedupe_outcome ctc task)"
  unfolding findActiveDuplicate_def
  by (intro obs_rules)
     (auto simp: dedupe_outcome_def unblocked_def dedupe_list_def split: sum.splits dest: got_list_Inr)

lemma emit_task_refines:
  assumes adm: "admitted x h r ctc task l"
  shows "emits (emit_task x ctc task) (\<lambda>rep l'. webhook x h r rep (l @ l'))"
  unfolding emit_task_def Let_def
proof (intro emits_bind [OF emits_findActiveDuplicate] emits_sum emits_if emits_bind_wp emits_Create emits_answer)
  fix v d e assume "dedupe_outcome ctc task v d" "v = Inl e"
  then show "webhook x h r (Some (writeStatus [] 500 ''dedupe check failed'')) (l @ d @ [counted ctc ResultError])"
    using webhook.dedupe_error [OF adm] by (auto simp: dedupe_outcome_def)
next
  fix v d name assume "dedupe_outcome ctc task v d" "v = Inr name" "name \<noteq> []"
  then show "webhook x h r (Some (writeJSON [] 202 [(''duplicate'', JBool True), (''task'', JString name)]))
      (l @ d @ [counted ctc ResultDuplicate])"
    using webhook.duplicate [OF adm] by (auto simp: dedupe_outcome_def)
next
  fix v d name rsp err
  assume "dedupe_outcome ctc task v d" "v = Inr name" "\<not> name \<noteq> []" "got_obj (kind_of (OTask task)) rsp = Inl err"
  then show "webhook x h r (Some (writeStatus [] 500 (''create task: '' @ Error err)))
      (l @ d @ [Call (CCreate (OTask task)) rsp] @ [counted ctc ResultError])"
    using webhook.create_error [OF adm, of d] by (simp add: dedupe_outcome_def)
next
  fix v d name rsp ob
  assume d: "dedupe_outcome ctc task v d" "v = Inr name" "\<not> name \<noteq> []" and "got_obj (kind_of (OTask task)) rsp = Inr ob"
  with got_obj_kind obtain t where "rsp = RObj (OTask t)" "ob = OTask t" by (metis kind_KTask kind_of.simps(1))
  with d show "webhook x h r (Some (writeJSON [] 200
        [(''task'', JString (om_Name (meta_of ob))), (''namespace'', JString (om_Namespace (meta_of ob)))]))
      (l @ d @ [Call (CCreate (OTask task)) rsp] @ [counted ctc ResultAccepted])"
    using webhook.created [OF adm, of d, OF _ refl] by (simp add: dedupe_outcome_def)
qed

lemma serve_verified_refines:
  assumes c: "checked x h r ctc None l"
  shows "emits (serve_verified x h ctc (rq_Body r)) (\<lambda>rep l'. webhook x h r rep (l @ l'))"
proof (cases "BuildTask x (ct_Task (ctc_Spec ctc)) (rq_Body r)")
  case (Done t)
  then show ?thesis
    unfolding serve_verified_def Let_def
    by (auto intro!: emits_if emits_answer emit_task_refines [where h = h and r = r] webhook.filtered [OF c]
        simp: admitted_def prepared_def c)
qed (auto simp: serve_verified_def Let_def intro!: emits_if emits_answer emits_return
       webhook.filtered [OF c] webhook.build_failed [OF c] webhook.panic [OF c])

text \<open>What the Secret lookup returns and leaves in the log.\<close>

definition secret_outcome :: "handler \<Rightarrow> ClusterTriggerClass \<Rightarrow> gerr + string \<Rightarrow> obs list \<Rightarrow> bool" where
  "secret_outcome h ctc v l \<longleftrightarrow> (case v of
       Inl _ \<Rightarrow> secret_unusable h ctc l
     | Inr secret \<Rightarrow> \<exists>sec f. l = [Call (CGet KSecret (secret_key h ctc)) (RObj (OSecret sec))] \<and> sec_Data sec = Some f \<and>
         map_of f (ks_Key (ws_SecretRef (ct_Signature (ctc_Spec ctc)))) = Some secret)"

lemma emits_lookupSignatureSecret: "emits (lookupSignatureSecret x h ctc) (secret_outcome h ctc)"
  unfolding lookupSignatureSecret_def Let_def
  by (intro obs_rules)
     (auto simp: secret_outcome_def secret_unusable_def secret_key_def secret_data_def Let_def got_obj_def
        split: sum.splits obj.splits option.splits resp.splits if_splits)

lemma serve_class_refines:
  assumes "acceptable r" "matching_classes (route (rq_Path r)) items = [ctc]"
  shows "emits (serve_class x h r ctc (rq_Body r)) (\<lambda>rep l'. webhook x h r rep (class_list (RList items) # l'))"
  unfolding serve_class_def Let_def
proof (rule emits_bind [OF emits_lookupSignatureSecret], rule emits_sum)
  fix v l e assume "secret_outcome h ctc v l" "v = Inl e"
  then show "emits (answer (om_Name (ctc_Meta ctc)) ''error'' (writeStatus [] 500 ''load signature secret''))
      (\<lambda>rep l'. webhook x h r rep (class_list (RList items) # l @ l'))"
    by (auto intro!: emits_answer webhook.secret_error [OF assms(1) _ assms(2)] simp: secret_outcome_def)
next
  fix v l secret assume v: "secret_outcome h ctc v l" "v = Inr secret"
  let ?sg = "ct_Signature (ctc_Spec ctc)"
  let ?chk = "VerifyHMAC (x_unicode x) (ws_Algorithm ?sg) (ws_Prefix ?sg) (Header_Get (rq_Header r) (ws_Header ?sg)) secret (rq_Body r)"
  have chk: "checked x h r ctc ?chk (class_list (RList items) # l)"
    using v assms by (auto simp: secret_outcome_def checked_def signature_check_def Let_def)
  show "emits (case ?chk of
       Some err \<Rightarrow> if err = ErrEmptySecret \<or> err = ErrUnsupportedAlgorithm
         then answer (om_Name (ctc_Meta ctc)) ''error'' (writeStatus [] 500 ''signature configuration error'')
         else answer (om_Name (ctc_Meta ctc)) ''rejected_signature'' (writeStatus [] 401 ''signature verification failed'')
     | None \<Rightarrow> serve_verified x h ctc (rq_Body r))
      (\<lambda>rep l'. webhook x h r rep (class_list (RList items) # l @ l'))"
  proof (cases ?chk)
    case None
    with chk serve_verified_refines show ?thesis by fastforce
  next
    case (Some err)
    from Some chk have c: "checked x h r ctc (Some err) (class_list (RList items) # l)" by simp
    show ?thesis unfolding Some option.case
      using webhook.misconfigured [OF c] webhook.unauthenticated [OF c]
      by (intro emits_if emits_answer) (auto, cases err, auto)
  qed
qed

text \<open>What the class lookup returns and leaves in the log.\<close>

definition class_outcome :: "string \<Rightarrow> gerr + ClusterTriggerClass option \<Rightarrow> obs list \<Rightarrow> bool" where
  "class_outcome path v l \<longleftrightarrow> (case v of
       Inl _ \<Rightarrow> \<exists>rsp. l = [class_list rsp] \<and> (\<forall>items. rsp = RList items \<longrightarrow>
         list_all (\<lambda>ob. kind_of ob = KTriggerClass) items \<longrightarrow> length (matching_classes (route path) items) > 1)
     | Inr c \<Rightarrow> \<exists>items. l = [class_list (RList items)] \<and>
         matching_classes (route path) items = (case c of None \<Rightarrow> [] | Some ctc \<Rightarrow> [ctc]))"

lemma emits_findTriggerClass: "emits (findTriggerClass x path) (class_outcome path)"
  unfolding findTriggerClass_def Let_def
  by (intro obs_rules)
     (auto simp: class_outcome_def got_list_def split: sum.splits list.splits resp.splits if_splits option.splits)

lemma serve_body_refines:
  assumes "rq_Method r = ''POST''" "read_body r = ReadOk body"
  shows "emits (serve_body x h r body) (webhook x h r)"
proof -
  have b: "body = rq_Body r" "length (rq_Body r) \<le> maxBodyBytes" "\<not> rq_BodyFails r"
    using assms(2) by (auto simp: read_body_def split: if_splits)
  show ?thesis unfolding serve_body_def b(1)
  proof (intro emits_if emits_bind [OF emits_findTriggerClass] emits_sum emits_option emits_answer)
    assume "\<not> json_Valid (rq_Body r)"
    then show "webhook x h r (Some (writeStatus [] 400 ''body is not valid JSON'')) [MetricWebhook [] ResultRejectedBadBody]"
      using assms b by (intro webhook.bad_body) auto
  next
    fix v l e assume "\<not> \<not> json_Valid (rq_Body r)" "class_outcome (rq_Path r) v l" "v = Inl e"
    then show "webhook x h r (Some (writeStatus [] 500 ''lookup trigger class'')) (l @ [MetricWebhook [] ResultError])"
      using assms b by (auto simp: class_outcome_def acceptable_def intro!: webhook.class_error)
  next
    fix v l c assume "\<not> \<not> json_Valid (rq_Body r)" "class_outcome (rq_Path r) v l" "v = Inr c" "c = None"
    then show "webhook x h r (Some (writeStatus [] 404 (''no ClusterTriggerClass registered for path '' @ rq_Path r)))
        (l @ [MetricWebhook [] ResultNotFound])"
      using assms b by (auto simp: class_outcome_def acceptable_def intro!: webhook.not_found)
  next
    fix v l c ctc assume "\<not> \<not> json_Valid (rq_Body r)" "class_outcome (rq_Path r) v l" "v = Inr c" "c = Some ctc"
    then show "emits (serve_class x h r ctc (rq_Body r)) (\<lambda>rep l'. webhook x h r rep (l @ l'))"
      using assms b by (auto simp: class_outcome_def acceptable_def intro!: serve_class_refines)
  qed
qed

lemma ServeHTTP_webhook: "emits (ServeHTTP x h r) (webhook x h r)"
proof (cases "rq_Method r = ''POST''")
  case True
  show ?thesis
  proof (cases "read_body r")
    case (ReadOk body)
    with True serve_body_refines show ?thesis by (simp add: ServeHTTP_def)
  qed (use True in \<open>auto simp: ServeHTTP_def read_body_def split: if_splits
         intro!: emits_answer webhook.too_large webhook.bad_body\<close>)
qed (auto simp: ServeHTTP_def intro!: emits_answer webhook.bad_method)


section \<open>Safety, read off the table\<close>

definition is_create :: "obs \<Rightarrow> bool" where
  "is_create ob = (case ob of Call (CCreate _) _ \<Rightarrow> True | _ \<Rightarrow> False)"

definition is_webhook_metric :: "obs \<Rightarrow> bool" where
  "is_webhook_metric ob = (case ob of MetricWebhook _ _ \<Rightarrow> True | _ \<Rightarrow> False)"

lemma is_createD: "is_create ob \<Longrightarrow> \<exists>c rsp. ob = Call (CCreate c) rsp"
proof (cases ob)
  case (Call c rsp)
  then show "is_create ob \<Longrightarrow> ?thesis" by (cases c) (simp_all add: is_create_def)
qed (simp_all add: is_create_def)

text \<open>
  What the RBAC markers of the handler grant: list ClusterTriggerClasses, get Secrets (of its own
  namespace), list and create Tasks. Counters are not requests.
\<close>

definition granted :: "handler \<Rightarrow> obs \<Rightarrow> bool" where
  "granted h ob = (case ob of
     Call (CList k _ _) _ \<Rightarrow> k = KTriggerClass \<or> k = KTask
   | Call (CGet k key) _ \<Rightarrow> k = KSecret \<and> fst key = hd_SecretNamespace h
   | Call (CCreate c) _ \<Rightarrow> kind_of c = KTask
   | MetricWebhook _ _ \<Rightarrow> True
   | _ \<Rightarrow> False)"

lemmas entry_defs = is_create_def is_webhook_metric_def granted_def

lemma checked_entries:
  assumes "checked x h r ctc res l"
  shows "filter is_create l = []" "filter is_webhook_metric l = []" "list_all (granted h) l"
  using assms by (auto simp: checked_def entry_defs secret_key_def)

lemma admitted_checked: "admitted x h r ctc task l \<Longrightarrow> checked x h r ctc None l"
  by (simp add: admitted_def)

lemmas admitted_entries = checked_entries [OF admitted_checked]

lemma unblocked_entries:
  assumes "unblocked ctc task d"
  shows "filter is_create d = []" "filter is_webhook_metric d = []" "list_all (granted h) d"
  using assms by (auto simp: unblocked_def dedupe_list_def entry_defs split: option.splits)

lemma secret_unusable_entries:
  assumes "secret_unusable h ctc l"
  shows "filter is_create l = []" "filter is_webhook_metric l = []" "list_all (granted h) l"
  using assms by (auto simp: secret_unusable_def secret_key_def entry_defs Let_def)

lemmas all_entries = checked_entries admitted_entries unblocked_entries secret_unusable_entries

lemma created_in: "filter is_create l = [] \<Longrightarrow> Call (CCreate ob) rsp \<notin> set l"
  by (auto simp: is_create_def dest!: filter_empty_conv [THEN iffD1] bspec)

lemma dedupe_list_entries [simp]:
  "\<not> is_create (dedupe_list task sel rsp)" "\<not> is_webhook_metric (dedupe_list task sel rsp)" "granted h (dedupe_list task sel rsp)"
  by (simp_all add: dedupe_list_def entry_defs)

lemmas no_creates = all_entries(1,4,7,10) [THEN created_in]

lemma webhook_create:
  assumes "webhook x h r rep l" "Call (CCreate ob) rsp \<in> set l"
  shows "\<exists>ctc task l0 d. admitted x h r ctc task l0 \<and> unblocked ctc task d \<and> ob = OTask task \<and> prefix (l0 @ d) l"
  using assms by cases (auto simp: no_creates dedupe_list_def, (metis append.assoc prefixI)+)

text \<open>
  C2. Nothing is created for a request that is not authentic. Every object that a run of the
  handler creates is the Task that the one class at the request's path prescribes for the
  payload; and before it was created the API server returned that class and its Secret, the
  signature header verified against that Secret and this body, the filters matched, and the
  body was JSON of at most 1 MiB sent with POST.
\<close>

theorem create_only_authenticated:
  "emits (ServeHTTP x h r) (\<lambda>rep l. {ob. \<exists>rsp. Call (CCreate ob) rsp \<in> set l} \<subseteq>
     {OTask task |ctc task l0. admitted x h r ctc task l0 \<and> prefix l0 l})"
proof (rule emits_weaken [OF ServeHTTP_webhook])
  fix rep l assume w: "webhook x h r rep l"
  show "{ob. \<exists>rsp. Call (CCreate ob) rsp \<in> set l} \<subseteq> {OTask task |ctc task l0. admitted x h r ctc task l0 \<and> prefix l0 l}"
    using webhook_create [OF w] by (blast dest: append_prefixD)
qed

text \<open>
  C29. The requests of a run stay within the RBAC markers of the handler, every request that is
  answered is counted exactly once and a panic not at all, at most one object is created, and
  the answer is 200 exactly when the API server accepted the created Task.
\<close>

theorem webhook_accounting:
  "emits (ServeHTTP x h r) (\<lambda>rep l.
     list_all (granted h) l \<and>
     length (filter is_webhook_metric l) = (if rep = None then 0 else 1) \<and>
     length (filter is_create l) \<le> 1 \<and>
     ((\<exists>rep'. rep = Some rep' \<and> rp_Code rep' = 200) \<longleftrightarrow> (\<exists>ob t. Call (CCreate ob) (RObj (OTask t)) \<in> set l)))"
proof (rule emits_weaken [OF ServeHTTP_webhook])
  fix rep l assume "webhook x h r rep l"
  then show "list_all (granted h) l \<and> length (filter is_webhook_metric l) = (if rep = None then 0 else 1) \<and>
     length (filter is_create l) \<le> 1 \<and>
     ((\<exists>rep'. rep = Some rep' \<and> rp_Code rep' = 200) \<longleftrightarrow> (\<exists>ob t. Call (CCreate ob) (RObj (OTask t)) \<in> set l))"
    by cases (auto simp: all_entries no_creates entry_defs dedupe_list_def got_obj_def)
qed

end
