(* ===== verification/Trigger_Dedupe.thy ===== *)
theory Trigger_Dedupe
  imports Trigger_Safety
begin

text \<open>
  The dedupe rule (ADR-0009) and the successful path of a request. The selector of the duplicate
  search finds exactly the Tasks with the labels of the new one, a Task that still runs blocks the
  creation, and an authentic request that nothing blocks creates its Task and is answered with 200.
\<close>

section \<open>The selector\<close>

lemma selector_loop_Some:
  assumes "selector_loop ls keys sel = Some sel'"
  shows "map_of sel' = (\<lambda>k. if k \<in> set keys then Some (map_get ls k) else map_of sel k)"
    and "k \<in> set keys \<Longrightarrow> map_get ls k \<noteq> []"
    and "distinct (map fst sel) \<Longrightarrow> distinct (map fst sel')"
  using assms
  by (induction ls keys sel rule: selector_loop.induct)
     (auto simp: Let_def fun_eq_iff distinct_put_field split: if_splits)

lemma selector_loop_None: "selector_loop ls keys sel = None \<longleftrightarrow> (\<exists>k \<in> set keys. map_get ls k = [])"
  by (induction ls keys sel rule: selector_loop.induct) (auto simp: Let_def)

lemma selector_matches_map_of:
  assumes "distinct (map fst sel)"
  shows "selector_matches (Some sel) ls \<longleftrightarrow>
    (\<forall>k v. map_of sel k = Some v \<longrightarrow> (\<exists>f. ls = Some f \<and> map_of f k = Some v))"
  using assms map_of_eq_Some_iff [OF assms]
  by (fastforce simp: selector_matches_def list_all_iff split: option.splits)

lemma map_get_map_of: "map_get ls k \<noteq> [] \<Longrightarrow> \<exists>f. ls = Some f \<and> map_of f k = Some (map_get ls k)"
  by (auto simp: map_get_def split: option.splits)

definition dedupe_keys :: "ClusterTriggerClass \<Rightarrow> string list" where
  "dedupe_keys ctc = (case ct_Dedupe (ctc_Spec ctc) of None \<Rightarrow> [] | Some d \<Rightarrow> td_UniqueBy d)"

lemma dedupe_selector_Some:
  assumes "dedupe_selector ctc task = Some sel"
  shows "map_of sel = (\<lambda>k. if k \<in> insert LabelTriggerClass (set (dedupe_keys ctc)) then Some (map_get (task_Labels task) k) else None)"
    and "k \<in> insert LabelTriggerClass (set (dedupe_keys ctc)) \<Longrightarrow> map_get (task_Labels task) k \<noteq> []"
    and "distinct (map fst sel)" and "dedupe_keys ctc \<noteq> []"
  using assms selector_loop_Some [of "task_Labels task" "dedupe_keys ctc" "[(LabelTriggerClass, map_get (task_Labels task) LabelTriggerClass)]" sel]
  by (auto simp: dedupe_selector_def dedupe_keys_def Let_def fun_eq_iff split: option.splits if_splits)

text \<open>
  When the duplicate search runs, its selector matches an object exactly when that object
  carries the new Task's trigger-class label and the new Task's value for every \<open>uniqueBy\<close> key.
  The new Task matches it too: as long as the created Task is active, it blocks a redelivery of
  the event. The search runs exactly when the class has \<open>uniqueBy\<close> keys and the Task has a value
  for the class label and for every key.
\<close>

theorem dedupe_selector_exact:
  assumes "dedupe_selector ctc task = Some sel"
  shows "(selector_matches (Some sel) ls \<longleftrightarrow>
      (\<forall>k \<in> insert LabelTriggerClass (set (dedupe_keys ctc)). \<exists>f. ls = Some f \<and> map_of f k = Some (map_get (task_Labels task) k)))
    \<and> selector_matches (Some sel) (task_Labels task)"
proof -
  note sel = dedupe_selector_Some [OF assms]
  have iff: "selector_matches (Some sel) ls' \<longleftrightarrow>
      (\<forall>k \<in> insert LabelTriggerClass (set (dedupe_keys ctc)). \<exists>f. ls' = Some f \<and> map_of f k = Some (map_get (task_Labels task) k))" for ls'
    unfolding selector_matches_map_of [OF sel(3)] sel(1) by auto
  have "selector_matches (Some sel) (task_Labels task)"
    unfolding iff using map_get_map_of sel(2) by blast
  with iff [of ls] show ?thesis by (rule conjI)
qed

section \<open>Blocking\<close>

lemma first_blocking_Nil:
  "first_blocking obs = [] \<Longrightarrow> OTask t \<in> set obs \<Longrightarrow> list_all (\<lambda>ob. om_Name (meta_of ob) \<noteq> []) obs \<Longrightarrow> \<not> blocks t"
  by (induction obs rule: first_blocking.induct) (auto split: obj.splits if_splits)

lemma dedupe_list_not_checked: "checked x h r ctc res l \<Longrightarrow> dedupe_list task sel rsp \<notin> set l"
  by (auto simp: checked_def dedupe_list_def)

lemma dedupe_list_not_admitted: "admitted x h r ctc t l \<Longrightarrow> dedupe_list task sel rsp \<notin> set l"
  by (rule dedupe_list_not_checked [OF admitted_checked])

lemma webhook_blocked:
  assumes "webhook x h r rep l" "dedupe_list task sel (RList obs) \<in> set l"
    and "first_blocking obs \<noteq> []" "list_all (\<lambda>ob. kind_of ob = KTask) obs"
  shows "rep = Some (writeJSON [] 202 [(''duplicate'', JBool True), (''task'', JString (first_blocking obs))]) \<and>
    filter is_create l = []"
  using assms
proof cases
  case (dedupe_error ctc t l0 sel' rsp err rep')
  then have "rsp = RList obs" using assms(2) dedupe_list_not_admitted by (fastforce simp: dedupe_list_def)
  with dedupe_error assms(4) show ?thesis by (simp add: got_list_def)
next
  case (duplicate ctc t l0 sel' obs' name rep')
  then have "obs' = obs" using assms(2) dedupe_list_not_admitted by (fastforce simp: dedupe_list_def)
  with duplicate show ?thesis by (simp add: admitted_entries entry_defs dedupe_list_def)
next
  case (secret_error rep' items ctc l0)
  then show ?thesis using assms(2) by (auto simp: secret_unusable_def dedupe_list_def Let_def)
next
  case (create_error ctc t l0 d rsp err rep')
  then show ?thesis
    using assms(2,3) dedupe_list_not_admitted by (fastforce simp: unblocked_def dedupe_list_def split: option.splits)
next
  case (created ctc t l0 d rep' t')
  then show ?thesis
    using assms(2,3) dedupe_list_not_admitted by (fastforce simp: unblocked_def dedupe_list_def split: option.splits)
qed (auto dest: dedupe_list_not_checked simp: dedupe_list_def)


section \<open>The successful path\<close>

lemma run_request:
  "x_api x c w = (rsp, w') \<Longrightarrow>
   run_state (request x c) \<lparr>world = w, obslog = l\<rparr> = (rsp, \<lparr>world = w', obslog = l @ [Call c rsp]\<rparr>)"
  by (simp add: request_def outside_def)

lemma run_answer: "run_state (answer cls res rep) \<lparr>world = w, obslog = l\<rparr> = (Some rep, \<lparr>world = w, obslog = l @ [MetricWebhook cls res]\<rparr>)"
  by (simp add: answer_def ObserveWebhook_def observe_def run_bind run_return)

lemmas run_rules = run_bind run_return run_request run_answer

text \<open>
  The answers that lead an authentic request to its Task: the one class, its Secret, and the
  result of the mapping. Two requests are then in the log.
\<close>

definition authentic ::
  "'w ext \<Rightarrow> handler \<Rightarrow> http_request \<Rightarrow> 'w \<Rightarrow> ClusterTriggerClass \<Rightarrow> Task \<Rightarrow> obs list \<Rightarrow> 'w \<Rightarrow> bool" where
  "authentic x h r w ctc t l w2 \<longleftrightarrow> acceptable r \<and>
     ks_Name (ws_SecretRef (ct_Signature (ctc_Spec ctc))) \<noteq> [] \<and> ks_Key (ws_SecretRef (ct_Signature (ctc_Spec ctc))) \<noteq> [] \<and>
     (\<exists>items sec f secret w1.
        x_api x (CList KTriggerClass None None) w = (RList items, w1) \<and> list_all (\<lambda>ob. kind_of ob = KTriggerClass) items \<and>
        matching_classes (route (rq_Path r)) items = [ctc] \<and>
        x_api x (CGet KSecret (secret_key h ctc)) w1 = (RObj (OSecret sec), w2) \<and>
        sec_Data sec = Some f \<and> map_of f (ks_Key (ws_SecretRef (ct_Signature (ctc_Spec ctc)))) = Some secret \<and>
        signature_check x r ctc secret = None \<and>
        l = [class_list (RList items), Call (CGet KSecret (secret_key h ctc)) (RObj (OSecret sec))]) \<and>
     ApplyFilters x (rq_Body r) (ct_Filters (ctc_Spec ctc)) \<and> BuildTask x (ct_Task (ctc_Spec ctc)) (rq_Body r) = Done t"

lemma run_findTriggerClass:
  assumes "x_api x (CList KTriggerClass None None) w = (RList items, w')" "list_all (\<lambda>ob. kind_of ob = KTriggerClass) items"
    and "matching_classes (route path) items = [ctc]"
  shows "run_state (findTriggerClass x path) \<lparr>world = w, obslog = l\<rparr> =
    (Inr (Some ctc), \<lparr>world = w', obslog = l @ [class_list (RList items)]\<rparr>)"
  using assms by (simp add: findTriggerClass_def client_List_def Let_def run_rules got_list_def)

lemma run_lookupSignatureSecret:
  assumes "ks_Name (ws_SecretRef (ct_Signature (ctc_Spec ctc))) \<noteq> []" "ks_Key (ws_SecretRef (ct_Signature (ctc_Spec ctc))) \<noteq> []"
    and "x_api x (CGet KSecret (secret_key h ctc)) w = (RObj (OSecret sec), w')"
    and "sec_Data sec = Some f" "map_of f (ks_Key (ws_SecretRef (ct_Signature (ctc_Spec ctc)))) = Some secret"
  shows "run_state (lookupSignatureSecret x h ctc) \<lparr>world = w, obslog = l\<rparr> =
    (Inr secret, \<lparr>world = w', obslog = l @ [Call (CGet KSecret (secret_key h ctc)) (RObj (OSecret sec))]\<rparr>)"
  using assms by (simp add: lookupSignatureSecret_def client_Get_def Let_def run_rules got_obj_def secret_data_def secret_key_def)

lemma run_authentic:
  assumes "authentic x h r w ctc t l w2"
  shows "run_state (ServeHTTP x h r) \<lparr>world = w, obslog = l0\<rparr> =
    run_state (emit_task x ctc (prepared x h ctc t)) \<lparr>world = w2, obslog = l0 @ l\<rparr>"
proof -
  obtain items sec f secret w1 where a:
    "x_api x (CList KTriggerClass None None) w = (RList items, w1)" "list_all (\<lambda>ob. kind_of ob = KTriggerClass) items"
    "matching_classes (route (rq_Path r)) items = [ctc]"
    "x_api x (CGet KSecret (secret_key h ctc)) w1 = (RObj (OSecret sec), w2)"
    "sec_Data sec = Some f" "map_of f (ks_Key (ws_SecretRef (ct_Signature (ctc_Spec ctc)))) = Some secret"
    "signature_check x r ctc secret = None"
    "l = [class_list (RList items), Call (CGet KSecret (secret_key h ctc)) (RObj (OSecret sec))]"
    using assms unfolding authentic_def by blast
  have b: "ks_Name (ws_SecretRef (ct_Signature (ctc_Spec ctc))) \<noteq> []" "ks_Key (ws_SecretRef (ct_Signature (ctc_Spec ctc))) \<noteq> []"
      "acceptable r" "ApplyFilters x (rq_Body r) (ct_Filters (ctc_Spec ctc))" "BuildTask x (ct_Task (ctc_Spec ctc)) (rq_Body r) = Done t"
    using assms by (auto simp: authentic_def)
  from b(3) have "read_body r = ReadOk (rq_Body r)" "rq_Method r = ''POST''" "json_Valid (rq_Body r)"
    by (auto simp: acceptable_def read_body_def)
  then have "run_state (ServeHTTP x h r) \<lparr>world = w, obslog = l0\<rparr> =
      run_state (serve_class x h r ctc (rq_Body r)) \<lparr>world = w1, obslog = l0 @ [class_list (RList items)]\<rparr>"
    by (simp add: ServeHTTP_def serve_body_def run_bind run_findTriggerClass [OF a(1-3)])
  also have "\<dots> = run_state (serve_verified x h ctc (rq_Body r)) \<lparr>world = w2, obslog = l0 @ l\<rparr>"
    using a(7,8) by (simp add: serve_class_def Let_def run_bind run_lookupSignatureSecret [OF b(1,2) a(4-6)] signature_check_def)
  also have "\<dots> = run_state (emit_task x ctc (prepared x h ctc t)) \<lparr>world = w2, obslog = l0 @ l\<rparr>"
    using b(4,5) by (simp add: serve_verified_def Let_def prepared_def)
  finally show ?thesis .
qed

lemma run_emit_new:
  assumes "dedupe_selector ctc task = None" "x_api x (CCreate (OTask task)) w = (RObj (OTask t), w')"
  shows "run_state (emit_task x ctc task) \<lparr>world = w, obslog = l\<rparr> =
    (Some (writeJSON [] 200 [(''task'', JString (task_Name t)), (''namespace'', JString (task_Namespace t))]),
     \<lparr>world = w', obslog = l @ [Call (CCreate (OTask task)) (RObj (OTask t)), counted ctc ResultAccepted]\<rparr>)"
  using assms by (simp add: emit_task_def Let_def findActiveDuplicate_def client_Create_def run_rules got_obj_def)

lemma run_emit_checked:
  assumes "dedupe_selector ctc task = Some sel" "list_all (\<lambda>ob. kind_of ob = KTask) obs" "first_blocking obs = []"
    and "x_api x (CList KTask (Some (task_Namespace task)) (Some sel)) w = (RList obs, w1)"
    and "x_api x (CCreate (OTask task)) w1 = (RObj (OTask t), w')"
  shows "run_state (emit_task x ctc task) \<lparr>world = w, obslog = l\<rparr> =
    (Some (writeJSON [] 200 [(''task'', JString (task_Name t)), (''namespace'', JString (task_Namespace t))]),
     \<lparr>world = w', obslog = l @ [dedupe_list task sel (RList obs), Call (CCreate (OTask task)) (RObj (OTask t)), counted ctc ResultAccepted]\<rparr>)"
  using assms by (simp add: emit_task_def Let_def findActiveDuplicate_def client_List_def client_Create_def run_rules got_obj_def
      got_list_def dedupe_list_def)

lemma run_emit_blocked:
  assumes "dedupe_selector ctc task = Some sel" "list_all (\<lambda>ob. kind_of ob = KTask) obs" "first_blocking obs \<noteq> []"
    and "x_api x (CList KTask (Some (task_Namespace task)) (Some sel)) w = (RList obs, w')"
  shows "run_state (emit_task x ctc task) \<lparr>world = w, obslog = l\<rparr> =
    (Some (writeJSON [] 202 [(''duplicate'', JBool True), (''task'', JString (first_blocking obs))]),
     \<lparr>world = w', obslog = l @ [dedupe_list task sel (RList obs), counted ctc ResultDuplicate]\<rparr>)"
  using assms by (simp add: emit_task_def Let_def findActiveDuplicate_def client_List_def run_rules got_list_def dedupe_list_def)

section \<open>A sample webhook\<close>

definition sample_class :: ClusterTriggerClass where
  "sample_class = \<lparr>ctc_Meta = zero_meta\<lparr>om_Name := ''cls''\<rparr>,
     ctc_Spec = \<lparr>ct_Path = ''/hook'',
       ct_Signature = \<lparr>ws_Header = ''x-sig'', ws_Algorithm = ''sha256'', ws_Prefix = ''sha256='',
         ws_SecretRef = \<lparr>ks_Name = ''s'', ks_Key = ''k''\<rparr>\<rparr>,
       ct_Filters = [\<lparr>wf_Path = ''repo'', wf_Equals = ''r''\<rparr>], ct_Task = sample_template,
       ct_Dedupe = Some \<lparr>td_UniqueBy = [''repo'']\<rparr>\<rparr>\<rparr>"

definition sample_secret :: Secret where
  "sample_secret = \<lparr>sec_Meta = zero_meta\<lparr>om_Name := ''s'', om_Namespace := ''sys''\<rparr>, sec_Data = Some [(''k'', ''key'')]\<rparr>"

definition sample_handler :: handler where
  "sample_handler = \<lparr>hd_SecretNamespace = ''sys'', hd_DefaultTaskNamespace = ''sys''\<rparr>"

definition sample_request :: http_request where
  "sample_request = \<lparr>rq_Method = ''POST'', rq_Path = ''/hook/'',
     rq_Header = [(''X-Sig'', [''sha256='' @ wanted_signature ''key'' sample_body])],
     rq_Body = sample_body, rq_BodyFails = False\<rparr>"

text \<open>A store with a Task of the same class and label that is active, or one that is terminal.\<close>

definition sample_hook_store :: "TaskPhase \<Rightarrow> store" where
  "sample_hook_store phase = \<lparr>sto_objs = [OTriggerClass sample_class, OSecret sample_secret,
     OTask (sample_task\<lparr>task_Meta := zero_meta\<lparr>om_Name := ''t1'', om_Namespace := ''sys'',
         om_Labels := Some [(LabelTriggerClass, ''cls''), (''repo'', ''r'')]\<rparr>,
       task_Status := zero_status\<lparr>st_Phase := phase\<rparr>\<rparr>)], sto_hosts = [], sto_now = 0\<rparr>"

lemma sample_signature: "signature_check ref_ext sample_request sample_class ''key'' = None"
proof -
  have "supported_algorithm (x_unicode ref_ext) ''sha256''" "CanonicalMIMEHeaderKey ''x-sig'' = ''X-Sig''" by code_simp+
  then show ?thesis
    using VerifyHMAC_plain [of "x_unicode ref_ext" "''sha256''" "''key''" "''sha256=''" sample_body]
    by (simp add: signature_check_def Let_def sample_class_def sample_request_def Header_Get_def ascii_def IsSpace_def)
qed

lemma sample_acceptable: "acceptable sample_request"
proof -
  have "json_Valid sample_body" "length sample_body \<le> maxBodyBytes" by code_simp+
  then show ?thesis by (simp add: acceptable_def sample_request_def)
qed

definition sample_hook_log :: "obs list" where
  "sample_hook_log = [class_list (RList [OTriggerClass sample_class]), Call (CGet KSecret (''sys'', ''s'')) (RObj (OSecret sample_secret))]"

lemma sample_authentic:
  "authentic ref_ext sample_handler sample_request (sample_hook_store phase) sample_class sample_built sample_hook_log (sample_hook_store phase)"
proof -
  have api: "x_api ref_ext (CList KTriggerClass None None) (sample_hook_store phase) = (RList [OTriggerClass sample_class], sample_hook_store phase)"
      "x_api ref_ext (CGet KSecret (''sys'', ''s'')) (sample_hook_store phase) = (RObj (OSecret sample_secret), sample_hook_store phase)"
    by (simp_all add: ref_ext_def sample_hook_store_def same_obj_def key_of_def sample_secret_def selector_matches_def zero_meta_def)
  have route: "matching_classes (route ''/hook/'') [OTriggerClass sample_class] = [sample_class]"
    by code_simp
  have built: "BuildTask ref_ext (ct_Task (ctc_Spec sample_class)) sample_body = Done sample_built"
      "ApplyFilters ref_ext sample_body (ct_Filters (ctc_Spec sample_class))" by code_simp+
  have flds: "rq_Path sample_request = ''/hook/''" "rq_Body sample_request = sample_body" by (simp_all add: sample_request_def)
  have key: "secret_key sample_handler sample_class = (''sys'', ''s'')" "ws_SecretRef (ct_Signature (ctc_Spec sample_class)) = \<lparr>ks_Name = ''s'', ks_Key = ''k''\<rparr>"
    by (simp_all add: secret_key_def sample_handler_def sample_class_def)
  show ?thesis unfolding authentic_def flds key
    using api route built sample_acceptable sample_signature by (auto simp: sample_hook_log_def sample_secret_def)
qed

definition sample_prepared :: Task where
  "sample_prepared = prepared ref_ext sample_handler sample_class sample_built"

lemma sample_selector:
  "dedupe_selector sample_class sample_prepared = Some [(LabelTriggerClass, ''cls''), (''repo'', ''r'')]"
  by code_simp

theorem dedupe_selector_exact_witness:
  "selector_matches (Some [(LabelTriggerClass, ''cls''), (''repo'', ''r'')]) (task_Labels sample_prepared)"
  using dedupe_selector_exact [OF sample_selector] by blast

section \<open>Deliveries\<close>

text \<open>The duplicate search lets the Task pass: it is skipped, or it lists no Task that blocks.\<close>

definition dedupe_passes :: "'w ext \<Rightarrow> ClusterTriggerClass \<Rightarrow> Task \<Rightarrow> 'w \<Rightarrow> 'w \<Rightarrow> bool" where
  "dedupe_passes x ctc task w w' \<longleftrightarrow>
     (case dedupe_selector ctc task of
        None \<Rightarrow> w' = w
      | Some sel \<Rightarrow> \<exists>obs. x_api x (CList KTask (Some (task_Namespace task)) (Some sel)) w = (RList obs, w') \<and>
          list_all (\<lambda>ob. case ob of OTask t \<Rightarrow> \<not> blocks t | _ \<Rightarrow> False) obs)"

lemma unblocking_list:
  assumes "list_all (\<lambda>ob. case ob of OTask t \<Rightarrow> \<not> blocks t | _ \<Rightarrow> False) obs"
  shows "list_all (\<lambda>ob. kind_of ob = KTask) obs" "first_blocking obs = []"
  using assms by (induction obs) (auto split: obj.splits)

text \<open>
  C22. An authentic request is served: when the API server lists one class for the path and returns
  its Secret, the signature verifies, the filters match, the mappings give a Task, no active
  duplicate is listed and the creation is accepted, the answer is 200 with the name and the
  namespace that the server gave the Task, and the run made that creation.
\<close>

theorem authentic_request_served:
  assumes "authentic x h r w ctc t l w2"
    and "dedupe_passes x ctc (prepared x h ctc t) w2 w3"
    and "x_api x (CCreate (OTask (prepared x h ctc t))) w3 = (RObj (OTask t'), w4)"
  shows "\<exists>s'. run_state (ServeHTTP x h r) \<lparr>world = w, obslog = []\<rparr> =
      (Some (writeJSON [] 200 [(''task'', JString (task_Name t')), (''namespace'', JString (task_Namespace t'))]), s')
    \<and> world s' = w4 \<and> Call (CCreate (OTask (prepared x h ctc t))) (RObj (OTask t')) \<in> set (obslog s')"
proof (cases "dedupe_selector ctc (prepared x h ctc t)")
  case None
  with assms(2) have "w3 = w2" by (simp add: dedupe_passes_def)
  with run_authentic [OF assms(1), of "[]"] run_emit_new [OF None, of x w2] assms(3) show ?thesis by auto
next
  case (Some sel)
  with assms(2) obtain obs where o: "x_api x (CList KTask (Some (task_Namespace (prepared x h ctc t))) (Some sel)) w2 = (RList obs, w3)"
      "list_all (\<lambda>ob. case ob of OTask t \<Rightarrow> \<not> blocks t | _ \<Rightarrow> False) obs"
    by (auto simp: dedupe_passes_def)
  from run_emit_checked [OF Some unblocking_list [OF o(2)] o(1) assms(3), of "[] @ l"] run_authentic [OF assms(1), of "[]"]
  show ?thesis by auto
qed

lemma sample_dedupe_passes:
  "dedupe_passes ref_ext sample_class sample_prepared (sample_hook_store TaskPhaseCompleted) (sample_hook_store TaskPhaseCompleted)"
proof -
  have "list_all (\<lambda>ob. case ob of OTask t \<Rightarrow> \<not> blocks t | _ \<Rightarrow> False)
      (case ref_api (CList KTask (Some (task_Namespace sample_prepared)) (Some [(LabelTriggerClass, ''cls''), (''repo'', ''r'')]))
         (sample_hook_store TaskPhaseCompleted) of (RList obs, _) \<Rightarrow> obs | _ \<Rightarrow> [])"
    by code_simp
  then show ?thesis unfolding dedupe_passes_def sample_selector by (simp add: ref_ext_def)
qed

theorem authentic_request_served_witness:
  "\<exists>s'. run_state (ServeHTTP ref_ext sample_handler sample_request) \<lparr>world = sample_hook_store TaskPhaseCompleted, obslog = []\<rparr> =
      (Some (writeJSON [] 200 [(''task'', JString (task_Name sample_prepared)), (''namespace'', JString (task_Namespace sample_prepared))]), s')
    \<and> OTask sample_prepared \<in> set (sto_objs (world s'))"
proof -
  let ?w = "sample_hook_store TaskPhaseCompleted"
  have "\<not> list_ex (same_obj KTask (key_of (OTask sample_prepared))) (sto_objs ?w)" by code_simp
  then have c: "x_api ref_ext (CCreate (OTask sample_prepared)) ?w =
      (RObj (OTask sample_prepared), ?w\<lparr>sto_objs := sto_objs ?w @ [OTask sample_prepared]\<rparr>)"
    by (simp add: ref_ext_def)
  from authentic_request_served [OF sample_authentic sample_dedupe_passes [unfolded sample_prepared_def] c [unfolded sample_prepared_def]]
  show ?thesis unfolding sample_prepared_def by fastforce
qed

text \<open>
  C21. An active Task blocks: when the API server answers the duplicate search with a list of
  (named) Tasks of which one is neither terminal nor being deleted, the run creates nothing and
  answers 202 with the name of such a Task.
\<close>

theorem active_task_blocks:
  assumes "run_state (ServeHTTP x h r) s = (rep, s')" "obslog s = []"
    and "dedupe_list task sel (RList obs) \<in> set (obslog s')"
    and "list_all (\<lambda>ob. kind_of ob = KTask \<and> om_Name (meta_of ob) \<noteq> []) obs"
    and "OTask t \<in> set obs" "blocks t"
  shows "\<exists>u. OTask u \<in> set obs \<and> blocks u \<and>
    rep = Some (writeJSON [] 202 [(''duplicate'', JBool True), (''task'', JString (task_Name u))]) \<and>
    filter is_create (obslog s') = []"
proof -
  have w: "webhook x h r rep (obslog s')" by (rule emits_run [OF ServeHTTP_webhook assms(1,2)])
  have ne: "first_blocking obs \<noteq> []" using first_blocking_Nil assms(4-6) by (fastforce simp: list_all_iff)
  have "first_blocking os \<noteq> [] \<Longrightarrow> \<exists>u. OTask u \<in> set os \<and> blocks u \<and> first_blocking os = task_Name u" for os
    by (induction os) (auto split: obj.splits if_splits)
  with ne obtain u where "OTask u \<in> set obs" "blocks u" "first_blocking obs = task_Name u" by blast
  moreover have "list_all (\<lambda>ob. kind_of ob = KTask) obs" using assms(4) by (auto simp: list_all_iff)
  ultimately show ?thesis using webhook_blocked [OF w assms(3) ne] by auto
qed

theorem active_task_blocks_witness:
  "\<exists>rep s'. run_state (ServeHTTP ref_ext sample_handler sample_request) \<lparr>world = sample_hook_store TaskPhaseRunning, obslog = []\<rparr> = (Some rep, s')
     \<and> rp_Code rep = 202 \<and> filter is_create (obslog s') = []"
proof -
  let ?w = "sample_hook_store TaskPhaseRunning"
  let ?sel = "[(LabelTriggerClass, ''cls''), (''repo'', ''r'')]"
  define obs where "obs = (case ref_api (CList KTask (Some (task_Namespace sample_prepared)) (Some ?sel)) ?w of (RList obs, _) \<Rightarrow> obs | _ \<Rightarrow> [])"
  have obs: "list_all (\<lambda>ob. kind_of ob = KTask \<and> om_Name (meta_of ob) \<noteq> []) obs"
      "list_ex (\<lambda>ob. case ob of OTask t \<Rightarrow> blocks t | _ \<Rightarrow> False) obs" "first_blocking obs = ''t1''"
    unfolding obs_def by code_simp+
  from obs(2) obtain ob where "ob \<in> set obs" "case ob of OTask t \<Rightarrow> blocks t | _ \<Rightarrow> False" by (auto simp: list_ex_iff)
  then obtain t where t: "OTask t \<in> set obs" "blocks t" by (cases rule: obj.exhaust [of ob]) auto
  have kinds: "list_all (\<lambda>ob. kind_of ob = KTask) obs" using obs(1) by (auto simp: list_all_iff)
  have api: "x_api ref_ext (CList KTask (Some (task_Namespace sample_prepared)) (Some ?sel)) ?w = (RList obs, ?w)"
    by (simp add: ref_ext_def obs_def)
  have run: "run_state (ServeHTTP ref_ext sample_handler sample_request) \<lparr>world = ?w, obslog = []\<rparr> =
      (Some (writeJSON [] 202 [(''duplicate'', JBool True), (''task'', JString (first_blocking obs))]),
       \<lparr>world = ?w, obslog = sample_hook_log @ [dedupe_list sample_prepared ?sel (RList obs), counted sample_class ResultDuplicate]\<rparr>)"
    using run_authentic [OF sample_authentic, of "TaskPhaseRunning" "[]"] run_emit_blocked [OF sample_selector kinds _ api, of sample_hook_log] obs(3)
    unfolding sample_prepared_def by simp
  from active_task_blocks [OF run _ _ obs(1) t] run show ?thesis by fastforce
qed

end
