(* ===== verification/Trigger_Server.thy ===== *)
theory Trigger_Server
  imports Trigger_Handler
begin

text \<open>
  \<open>internal/trigger/server.go\<close>: the HTTP server of the webhook adapter. \<open>Start\<close> sets the listener up
  and then runs beside the goroutine that serves; the two share the channel \<open>serveErr\<close> and the
  context of the manager. They are a step relation here, with one rule for each thing that the
  two goroutines, \<open>net/http\<close> and the manager can do next.
\<close>

section \<open>The server\<close>

record trigger_server =
  sv_Addr :: string
  sv_Handler :: "handler option"

text \<open>\<open>http.Server\<close> with its timeouts.\<close>

record http_server =
  hs_Addr :: string
  hs_ReadHeaderTimeout :: duration
  hs_ReadTimeout :: duration
  hs_WriteTimeout :: duration
  hs_IdleTimeout :: duration

definition trigger_http_server :: "trigger_server \<Rightarrow> http_server" where
  "trigger_http_server s = \<lparr>hs_Addr = sv_Addr s, hs_ReadHeaderTimeout = 5 * Second, hs_ReadTimeout = 30 * Second,
     hs_WriteTimeout = 30 * Second, hs_IdleTimeout = 60 * Second\<rparr>"

definition NeedLeaderElection :: "trigger_server \<Rightarrow> bool" where
  "NeedLeaderElection s = False"

text \<open>
  The mux of the server: a request for the health path is answered with 200, every other one
  goes to the handler. The mux redirects paths that are not clean before it looks at the patterns;
  the model takes the path after that.
\<close>

definition serve_mux :: "'w ext \<Rightarrow> handler \<Rightarrow> http_request \<Rightarrow> ('w, http_reply option) op" where
  "serve_mux x h r =
     (if rq_Path r = ''/healthz'' then State_Monad.return (Some \<lparr>rp_Code = 200, rp_Header = [], rp_Body = []\<rparr>)
      else ServeHTTP x h r)"

section \<open>The two goroutines\<close>

text \<open>Where \<open>Start\<close> is: at its \<open>select\<close>, in \<open>srv.Shutdown\<close>, or back at its caller with an error or nil.\<close>

datatype start_pc = Selecting | ShuttingDown | Returned "gerr option"

text \<open>Where the serving goroutine is: in \<open>srv.Serve\<close>, before its send on \<open>serveErr\<close>, or gone.\<close>

datatype serve_pc = Serving | Sending "gerr option" | Exited

record server_state =
  ss_start :: start_pc
  ss_serve :: serve_pc
  ss_serveErr :: "gerr option list"
  ss_ctxDone :: bool
  ss_shutdown :: bool \<comment> \<open>whether \<open>srv.Shutdown\<close> was called\<close>

abbreviation serveErr_cap :: nat where "serveErr_cap \<equiv> 1"

text \<open>What the goroutine sends for the error of \<open>srv.Serve\<close>; \<open>isClosed\<close> is the test for \<open>http.ErrServerClosed\<close>.\<close>

definition serve_outcome :: "(gerr \<Rightarrow> bool) \<Rightarrow> gerr option \<Rightarrow> gerr option" where
  "serve_outcome isClosed e = (case e of Some err \<Rightarrow> if \<not> isClosed err then Some err else None | None \<Rightarrow> None)"

text \<open>
  \<open>Start\<close> up to its \<open>select\<close>: an error at once, or the two goroutines at work. \<open>listen\<close> is
  \<open>net.Listen\<close>, and the context may be cancelled already.
\<close>

definition Start :: "trigger_server \<Rightarrow> (string \<Rightarrow> gerr option) \<Rightarrow> bool \<Rightarrow> gerr + server_state" where
  "Start s listen ctxDone =
     (if sv_Handler s = None then Inl (Plain ''trigger server: Handler is nil'')
      else case listen (sv_Addr s) of
          Some err \<Rightarrow> Inl (Wrapped (''trigger server listen '' @ sv_Addr s) err)
        | None \<Rightarrow> Inr \<lparr>ss_start = Selecting, ss_serve = Serving, ss_serveErr = [], ss_ctxDone = ctxDone, ss_shutdown = False\<rparr>)"

text \<open>
  The steps. \<open>srv.Serve\<close> may return any error on its own, and after \<open>srv.Shutdown\<close> it returns
  \<open>http.ErrServerClosed\<close>; \<open>srv.Shutdown\<close> returns at the latest when its context of ten seconds expires,
  and its error is only logged. A \<open>select\<close> with two ready cases takes either.
\<close>

inductive server_step :: "(gerr \<Rightarrow> bool) \<Rightarrow> server_state \<Rightarrow> server_state \<Rightarrow> bool" for isClosed where
  cancelled: "\<not> ss_ctxDone st \<Longrightarrow> server_step isClosed st (st\<lparr>ss_ctxDone := True\<rparr>)"
| serve_returns: "ss_serve st = Serving \<Longrightarrow> (ss_shutdown st \<longrightarrow> (\<exists>err. e = Some err \<and> isClosed err)) \<Longrightarrow>
    server_step isClosed st (st\<lparr>ss_serve := Sending (serve_outcome isClosed e)\<rparr>)"
| sent: "ss_serve st = Sending v \<Longrightarrow> length (ss_serveErr st) < serveErr_cap \<Longrightarrow>
    server_step isClosed st (st\<lparr>ss_serve := Exited, ss_serveErr := ss_serveErr st @ [v]\<rparr>)"
| ctx_done: "ss_start st = Selecting \<Longrightarrow> ss_ctxDone st \<Longrightarrow>
    server_step isClosed st (st\<lparr>ss_start := ShuttingDown, ss_shutdown := True\<rparr>)"
| shutdown_returns: "ss_start st = ShuttingDown \<Longrightarrow> server_step isClosed st (st\<lparr>ss_start := Returned None\<rparr>)"
| received: "ss_start st = Selecting \<Longrightarrow> ss_serveErr st = v # rest \<Longrightarrow>
    server_step isClosed st (st\<lparr>ss_start := Returned v, ss_serveErr := rest\<rparr>)"

inductive_cases server_stepE: "server_step isClosed st st'"

section \<open>Every run ends\<close>

definition steps_left :: "server_state \<Rightarrow> nat" where
  "steps_left st = (case ss_start st of Selecting \<Rightarrow> 2 | ShuttingDown \<Rightarrow> 1 | Returned _ \<Rightarrow> 0) +
     (case ss_serve st of Serving \<Rightarrow> 2 | Sending _ \<Rightarrow> 1 | Exited \<Rightarrow> 0) + (if ss_ctxDone st then 0 else 1)"

lemma server_step_left: "server_step isClosed st st' \<Longrightarrow> steps_left st' < steps_left st"
  by (induction rule: server_step.induct) (auto simp: steps_left_def split: start_pc.split serve_pc.split)

lemma server_steps_left: "(server_step isClosed ^^ n) st st' \<Longrightarrow> n + steps_left st' \<le> steps_left st"
proof (induction n arbitrary: st')
  case (Suc n)
  then obtain mid where "(server_step isClosed ^^ n) st mid" "server_step isClosed mid st'" by auto
  with Suc.IH [of mid] server_step_left [of isClosed mid st'] show ?case by simp
qed simp

section \<open>The invariant\<close>

definition server_inv :: "(gerr \<Rightarrow> bool) \<Rightarrow> server_state \<Rightarrow> bool" where
  "server_inv isClosed st \<longleftrightarrow>
     (ss_shutdown st \<longleftrightarrow> ss_start st = ShuttingDown \<or> ss_start st = Returned None \<and> ss_shutdown st) \<and>
     (ss_shutdown st \<longrightarrow> ss_ctxDone st) \<and>
     (ss_serve st \<noteq> Exited \<longrightarrow> ss_serveErr st = [] \<and> (\<forall>v. ss_start st = Returned v \<longrightarrow> ss_shutdown st)) \<and>
     (ss_serve st = Exited \<and> ss_start st = Selecting \<longrightarrow> ss_serveErr st \<noteq> []) \<and>
     (\<forall>err. ss_serve st = Sending (Some err) \<or> Some err \<in> set (ss_serveErr st) \<or> ss_start st = Returned (Some err) \<longrightarrow> \<not> isClosed err)"

lemma server_inv_step: "server_step isClosed st st' \<Longrightarrow> server_inv isClosed st \<Longrightarrow> server_inv isClosed st'"
  by (induction rule: server_step.induct) (auto simp: server_inv_def serve_outcome_def split: option.splits if_splits)

lemma server_inv_start: "Start s listen ctxDone = Inr st \<Longrightarrow> server_inv isClosed st"
  by (auto simp: Start_def server_inv_def split: if_splits option.splits)

lemma server_inv_steps: "(server_step isClosed ^^ n) st st' \<Longrightarrow> server_inv isClosed st \<Longrightarrow> server_inv isClosed st'"
  by (induction n arbitrary: st') (auto intro: server_inv_step)

lemma server_stuck:
  assumes "isClosed closed_err" and "server_inv isClosed st" and "\<nexists>st'. server_step isClosed st st'"
  shows "(\<exists>v. ss_start st = Returned v) \<and> ss_serve st = Exited"
proof -
  have "ss_ctxDone st" using assms(3) cancelled by blast
  moreover have "ss_serve st \<noteq> Serving" using assms(1,3) serve_returns [of st "Some closed_err" isClosed] by blast
  moreover have "ss_serve st \<noteq> Sending v" for v using assms(2,3) sent [of st v isClosed] by (auto simp: server_inv_def)
  moreover have "ss_start st \<noteq> Selecting" using assms(3) ctx_done [of st isClosed] \<open>ss_ctxDone st\<close> by blast
  moreover have "ss_start st \<noteq> ShuttingDown" using assms(3) shutdown_returns [of st isClosed] by blast
  ultimately show ?thesis by (cases "ss_start st"; cases "ss_serve st") auto
qed

section \<open>Properties\<close>


text \<open>A run that is cancelled while it serves.\<close>

definition serving_state :: server_state where
  "serving_state = \<lparr>ss_start = Selecting, ss_serve = Serving, ss_serveErr = [], ss_ctxDone = False, ss_shutdown = False\<rparr>"

definition closed_test :: "gerr \<Rightarrow> bool" where
  "closed_test e \<longleftrightarrow> e = Plain ''http: Server closed''"

definition stopped_state :: server_state where
  "stopped_state = \<lparr>ss_start = Returned None, ss_serve = Exited, ss_serveErr = [None], ss_ctxDone = True, ss_shutdown = True\<rparr>"

lemma cancelled_run: "(server_step closed_test ^^ 5) serving_state stopped_state"
proof -
  let ?st = "\<lambda>a b q d. \<lparr>ss_start = a, ss_serve = b, ss_serveErr = q, ss_ctxDone = True, ss_shutdown = d\<rparr>"
  note to = cancelled [of serving_state closed_test] ctx_done [of "?st Selecting Serving [] False" closed_test]
    serve_returns [of "?st ShuttingDown Serving [] True" "Some (Plain ''http: Server closed'')" closed_test]
    sent [of "?st ShuttingDown (Sending None) [] True" None closed_test]
    shutdown_returns [of "?st ShuttingDown Exited [None] True" closed_test]
  have steps: "server_step closed_test serving_state (?st Selecting Serving [] False)"
    "server_step closed_test (?st Selecting Serving [] False) (?st ShuttingDown Serving [] True)"
    "server_step closed_test (?st ShuttingDown Serving [] True) (?st ShuttingDown (Sending None) [] True)"
    "server_step closed_test (?st ShuttingDown (Sending None) [] True) (?st ShuttingDown Exited [None] True)"
    "server_step closed_test (?st ShuttingDown Exited [None] True) stopped_state"
    using to by (simp_all add: serving_state_def stopped_state_def closed_test_def serve_outcome_def)
  have "(server_step closed_test ^^ Suc (Suc (Suc (Suc (Suc 0))))) serving_state stopped_state"
    by (rule relpowp_Suc_I2, rule steps(1), rule relpowp_Suc_I2, rule steps(2), rule relpowp_Suc_I2, rule steps(3),
        rule relpowp_Suc_I2, rule steps(4), rule relpowp_Suc_I2, rule steps(5), rule relpowp_0_I)
  then show ?thesis by (simp add: eval_nat_numeral)
qed


end
