(* ===== verification/Manager_Main.thy ===== *)
theory Manager_Main
  imports Controller_Effects Trigger_Dedupe Trigger_Server
begin

text \<open>
  \<open>cmd/main.go\<close> and \<open>SetupWithManager\<close>: how the command line becomes a running manager. The
  manager of controller-runtime and the flag parser are libraries; what the program hands to
  them is the data of this theory, and what they answer is a parameter. Log lines are not modelled.
\<close>

section \<open>Flags\<close>

record flags =
  fl_metricsAddr :: string
  fl_metricsCertPath :: string
  fl_metricsCertName :: string
  fl_metricsCertKey :: string
  fl_webhookCertPath :: string
  fl_webhookCertName :: string
  fl_webhookCertKey :: string
  fl_probeAddr :: string
  fl_enableLeaderElection :: bool
  fl_secureMetrics :: bool
  fl_enableHTTP2 :: bool
  fl_triggerAddr :: string
  fl_triggerNamespace :: string
  fl_egressRefresh :: duration
  fl_jobTTLSeconds :: int
  fl_taskTTLSeconds :: int

abbreviation defaultEgressRefresh :: duration where "defaultEgressRefresh \<equiv> 5 * Minute"

text \<open>What \<open>parseFlags\<close> gives for an empty command line.\<close>

definition default_flags :: flags where
  "default_flags = \<lparr>fl_metricsAddr = ''0'', fl_metricsCertPath = [], fl_metricsCertName = ''tls.crt'', fl_metricsCertKey = ''tls.key'',
     fl_webhookCertPath = [], fl_webhookCertName = ''tls.crt'', fl_webhookCertKey = ''tls.key'', fl_probeAddr = '':8081'',
     fl_enableLeaderElection = False, fl_secureMetrics = True, fl_enableHTTP2 = False, fl_triggerAddr = [], fl_triggerNamespace = [],
     fl_egressRefresh = defaultEgressRefresh, fl_jobTTLSeconds = DefaultJobTTLSeconds, fl_taskTTLSeconds = -1\<rparr>"

section \<open>Options of the servers\<close>

text \<open>The TLS option that is set changes the protocols of a configuration.\<close>

record tls_config =
  tls_NextProtos :: "string list"

definition buildTLSOpts :: "flags \<Rightarrow> (tls_config \<Rightarrow> tls_config) list" where
  "buildTLSOpts fl = (if \<not> fl_enableHTTP2 fl then [\<lambda>c. c\<lparr>tls_NextProtos := [''http/1.1'']\<rparr>] else [])"

record webhook_options =
  wo_TLSOpts :: "(tls_config \<Rightarrow> tls_config) list"
  wo_CertDir :: string
  wo_CertName :: string
  wo_KeyName :: string

definition buildWebhookServer :: "flags \<Rightarrow> (tls_config \<Rightarrow> tls_config) list \<Rightarrow> webhook_options" where
  "buildWebhookServer fl tlsOpts =
     (let options = \<lparr>wo_TLSOpts = tlsOpts, wo_CertDir = [], wo_CertName = [], wo_KeyName = []\<rparr>
      in if length (fl_webhookCertPath fl) > 0
         then options\<lparr>wo_CertDir := fl_webhookCertPath fl, wo_CertName := fl_webhookCertName fl, wo_KeyName := fl_webhookCertKey fl\<rparr>
         else options)"

record metrics_options =
  mo_BindAddress :: string
  mo_SecureServing :: bool
  mo_TLSOpts :: "(tls_config \<Rightarrow> tls_config) list"
  mo_AuthFilter :: bool \<comment> \<open>\<open>FilterProvider\<close> is authentication and authorization\<close>
  mo_CertDir :: string
  mo_CertName :: string
  mo_KeyName :: string

definition buildMetricsOptions :: "flags \<Rightarrow> (tls_config \<Rightarrow> tls_config) list \<Rightarrow> metrics_options" where
  "buildMetricsOptions fl tlsOpts =
     (let options0 = \<lparr>mo_BindAddress = fl_metricsAddr fl, mo_SecureServing = fl_secureMetrics fl, mo_TLSOpts = tlsOpts,
            mo_AuthFilter = False, mo_CertDir = [], mo_CertName = [], mo_KeyName = []\<rparr>;
          options1 = (if fl_secureMetrics fl then options0\<lparr>mo_AuthFilter := True\<rparr> else options0)
      in if length (fl_metricsCertPath fl) > 0
         then options1\<lparr>mo_CertDir := fl_metricsCertPath fl, mo_CertName := fl_metricsCertName fl, mo_KeyName := fl_metricsCertKey fl\<rparr>
         else options1)"

section \<open>Validation and namespaces\<close>

abbreviation MaxInt32 :: int where "MaxInt32 \<equiv> 2 ^ 31 - 1"

definition validateJobTTL :: "int \<Rightarrow> gerr option" where
  "validateJobTTL v =
     (if v < 1 \<or> v > MaxInt32 then
        Some (Plain (''--job-ttl-seconds must be between 1 and '' @ itoa MaxInt32 @ '', got '' @ itoa v @
          '': 0 deletes the pod before the controller can read the agent Result''))
      else None)"

text \<open>The selector of the Pod informer, as the predicate on labels that it denotes.\<close>

definition taskPodSelector :: "strmap \<Rightarrow> bool" where
  "taskPodSelector ls = (case ls of
     None \<Rightarrow> False
   | Some f \<Rightarrow> map_of f LabelTaskName \<noteq> None \<and> map_of f LabelManagedBy = Some ManagedByValue)"

abbreviation defaultTriggerNamespace :: string where "defaultTriggerNamespace \<equiv> ''conveyor-system''"

text \<open>\<open>podNamespace\<close> is the value of the environment variable, empty when it is not set.\<close>

definition resolveTriggerNamespace :: "string \<Rightarrow> string \<Rightarrow> string" where
  "resolveTriggerNamespace podNamespace flagValue =
     (if flagValue \<noteq> [] then flagValue else if podNamespace \<noteq> [] then podNamespace else defaultTriggerNamespace)"

section \<open>The calls to the manager\<close>

record manager_options =
  mg_NoCacheFor :: "kind list"
  mg_PodSelector :: "strmap \<Rightarrow> bool"
  mg_Metrics :: metrics_options
  mg_WebhookServer :: webhook_options
  mg_HealthProbeBindAddress :: string
  mg_LeaderElection :: bool
  mg_LeaderElectionID :: string

text \<open>The fields of the reconciler that \<open>run\<close> sets.\<close>

record reconciler_config =
  rc_EgressRefreshInterval :: duration
  rc_JobTTLSeconds :: int
  rc_DefaultTaskTTLSeconds :: "int option"

datatype manager_call =
    NewManager manager_options
  | SetupController reconciler_config
  | AddServer trigger_server
  | AddHealthzCheck string
  | AddReadyzCheck string
  | StartManager

text \<open>
  A call that the manager answers; an error stops the sequence, wrapped as the caller wraps it.
  The value is the error and the calls made.
\<close>

type_synonym manager = "manager_call \<Rightarrow> gerr option"

fun manager_calls :: "manager \<Rightarrow> (string \<times> manager_call) list \<Rightarrow> gerr option \<times> manager_call list" where
  "manager_calls mgr [] = (None, [])"
| "manager_calls mgr ((wrap, c) # cs) =
     (case mgr c of
        Some err \<Rightarrow> (Some (Wrapped wrap err), [c])
      | None \<Rightarrow> (case manager_calls mgr cs of (e, made) \<Rightarrow> (e, c # made)))"

definition setupTrigger :: "string \<Rightarrow> flags \<Rightarrow> (string \<times> manager_call) list" where
  "setupTrigger podNamespace fl =
     (if fl_triggerAddr fl = [] then []
      else
        (let ns = resolveTriggerNamespace podNamespace (fl_triggerNamespace fl)
         in [(''register trigger server'', AddServer \<lparr>sv_Addr = fl_triggerAddr fl,
               sv_Handler = Some \<lparr>hd_SecretNamespace = ns, hd_DefaultTaskNamespace = ns\<rparr>\<rparr>)]))"

definition manager_options_of :: "flags \<Rightarrow> manager_options" where
  "manager_options_of fl =
     (let tlsOpts = buildTLSOpts fl
      in \<lparr>mg_NoCacheFor = [KSecret], mg_PodSelector = taskPodSelector, mg_Metrics = buildMetricsOptions fl tlsOpts,
          mg_WebhookServer = buildWebhookServer fl tlsOpts, mg_HealthProbeBindAddress = fl_probeAddr fl,
          mg_LeaderElection = fl_enableLeaderElection fl, mg_LeaderElectionID = ''17b16654.openconveyor.ai''\<rparr>)"

text \<open>The calls of \<open>run\<close> in their order, each with the context that its error is wrapped in.\<close>

definition manager_plan :: "string \<Rightarrow> flags \<Rightarrow> int option \<Rightarrow> (string \<times> manager_call) list" where
  "manager_plan podNamespace fl taskTTL =
     [(''start manager'', NewManager (manager_options_of fl)),
      (''create Task controller'', SetupController \<lparr>rc_EgressRefreshInterval = fl_egressRefresh fl,
         rc_JobTTLSeconds = int32 (fl_jobTTLSeconds fl), rc_DefaultTaskTTLSeconds = taskTTL\<rparr>)]
     @ setupTrigger podNamespace fl @
     [(''set up health check'', AddHealthzCheck ''healthz''),
      (''set up ready check'', AddReadyzCheck ''readyz''),
      (''run manager'', StartManager)]"

definition run :: "manager \<Rightarrow> string \<Rightarrow> flags \<Rightarrow> gerr option \<times> manager_call list" where
  "run mgr podNamespace fl =
     (case validateJobTTL (fl_jobTTLSeconds fl) of
        Some err \<Rightarrow> (Some err, [])
      | None \<Rightarrow>
          if fl_taskTTLSeconds fl > MaxInt32 then
            (Some (Plain (''--task-ttl-seconds must be at most '' @ itoa MaxInt32 @ '', got '' @ itoa (fl_taskTTLSeconds fl))), [])
          else
            (let taskTTL = (if fl_taskTTLSeconds fl \<ge> 0 then Some (int32 (fl_taskTTLSeconds fl)) else None)
             in manager_calls mgr (manager_plan podNamespace fl taskTTL)))"

text \<open>The exit status of \<open>main\<close>.\<close>

definition main :: "manager \<Rightarrow> string \<Rightarrow> flags \<Rightarrow> int" where
  "main mgr podNamespace fl = (case fst (run mgr podNamespace fl) of Some _ \<Rightarrow> 1 | None \<Rightarrow> 0)"

section \<open>SetupWithManager\<close>

text \<open>
  The wiring of the controller: the reconciler with its defaults, the indexed field, the kinds
  whose events go to their owner, and the kinds that are mapped by a function of the program.
\<close>

record 'w wiring =
  wi_Reconciler :: "'w reconciler"
  wi_Index :: "string \<times> (Task \<Rightarrow> string list)"
  wi_For :: kind
  wi_Owns :: "kind list"
  wi_Watches :: "kind list"
  wi_Named :: string

definition SetupWithManager ::
  "'w ext \<Rightarrow> 'w reconciler \<Rightarrow> gerr option \<Rightarrow> ('w wiring \<Rightarrow> gerr option) \<Rightarrow> gerr + 'w wiring" where
  "SetupWithManager x r indexErr finish =
     (case indexErr of
        Some err \<Rightarrow> Inl err
      | None \<Rightarrow>
          (let w = \<lparr>wi_Reconciler = setup_defaults x r, wi_Index = (taskAgentRefIndex, agent_ref_index), wi_For = KTask,
                 wi_Owns = [KJob, KServiceAccount, KConfigMap, KRole, KRoleBinding, KNetworkPolicy],
                 wi_Watches = [KAgentClass, KPod], wi_Named = ''task''\<rparr>
           in case finish w of Some err \<Rightarrow> Inl err | None \<Rightarrow> Inr w))"

section \<open>What reaches the manager\<close>

lemma manager_calls_made:
  "made = snd (manager_calls mgr cs) \<Longrightarrow> prefix made (map snd cs)"
  by (induction cs arbitrary: made) (auto split: option.splits prod.splits)

lemma manager_calls_ok: "fst (manager_calls mgr cs) = None \<longleftrightarrow> list_all (\<lambda>c. mgr c = None) (map snd cs)"
  by (induction cs) (auto split: option.splits prod.splits)

text \<open>The calls that a valid command line leads to, when none of them fails.\<close>

definition configured :: "string \<Rightarrow> flags \<Rightarrow> manager_call list" where
  "configured podNamespace fl =
     [NewManager (manager_options_of fl),
      SetupController \<lparr>rc_EgressRefreshInterval = fl_egressRefresh fl, rc_JobTTLSeconds = fl_jobTTLSeconds fl,
        rc_DefaultTaskTTLSeconds = (if fl_taskTTLSeconds fl \<ge> 0 then Some (fl_taskTTLSeconds fl) else None)\<rparr>]
     @ map snd (setupTrigger podNamespace fl) @ [AddHealthzCheck ''healthz'', AddReadyzCheck ''readyz'', StartManager]"

definition flags_in_range :: "flags \<Rightarrow> bool" where
  "flags_in_range fl \<longleftrightarrow> 1 \<le> fl_jobTTLSeconds fl \<and> fl_jobTTLSeconds fl \<le> MaxInt32 \<and> fl_taskTTLSeconds fl \<le> MaxInt32"

lemma run_in_range:
  assumes "flags_in_range fl"
  obtains cs where "run mgr podNamespace fl = manager_calls mgr cs" "map snd cs = configured podNamespace fl"
proof -
  have "int32 (fl_jobTTLSeconds fl) = fl_jobTTLSeconds fl"
      "fl_taskTTLSeconds fl \<ge> 0 \<Longrightarrow> int32 (fl_taskTTLSeconds fl) = fl_taskTTLSeconds fl"
    using assms by (auto simp: flags_in_range_def in_int32_def intro!: int32_id)
  then have "map snd (manager_plan podNamespace fl (if fl_taskTTLSeconds fl \<ge> 0 then Some (int32 (fl_taskTTLSeconds fl)) else None)) =
      configured podNamespace fl"
    by (simp add: manager_plan_def configured_def)
  moreover have "run mgr podNamespace fl =
      manager_calls mgr (manager_plan podNamespace fl (if fl_taskTTLSeconds fl \<ge> 0 then Some (int32 (fl_taskTTLSeconds fl)) else None))"
    using assms by (auto simp: run_def validateJobTTL_def flags_in_range_def)
  ultimately show thesis using that by blast
qed

lemma run_out_of_range: "\<not> flags_in_range fl \<Longrightarrow> \<exists>err. run mgr podNamespace fl = (Some err, [])"
  by (auto simp: run_def validateJobTTL_def flags_in_range_def split: option.splits if_splits)

text \<open>
  The command line is checked before anything else happens, and passed on without loss. When a
  TTL flag is out of the 32-bit range (or the Job TTL is below one second) the program exits with
  status 1 and makes no call; or else its calls are an initial part of the configured sequence, in
  which both TTLs have their exact values, and it exits with status 0 exactly when all of them
  succeed.
\<close>

theorem run_validates_first:
  "(if flags_in_range fl
    then prefix (snd (run mgr podNamespace fl)) (configured podNamespace fl) \<and>
      (main mgr podNamespace fl = 0 \<longleftrightarrow> filter (\<lambda>c. mgr c \<noteq> None) (configured podNamespace fl) = [])
    else snd (run mgr podNamespace fl) = [] \<and> main mgr podNamespace fl = 1)"
proof (cases "flags_in_range fl")
  case True
  then obtain cs where cs: "run mgr podNamespace fl = manager_calls mgr cs" "map snd cs = configured podNamespace fl"
    by (rule run_in_range)
  from manager_calls_ok [of mgr cs] have "main mgr podNamespace fl = 0 \<longleftrightarrow> filter (\<lambda>c. mgr c \<noteq> None) (configured podNamespace fl) = []"
    unfolding main_def cs(1) cs(2) [symmetric] by (auto simp: filter_empty_conv list_all_iff split: option.splits)
  with True manager_calls_made [of _ mgr cs] show ?thesis by (simp add: cs)
next
  case False
  then show ?thesis using run_out_of_range [of fl mgr podNamespace] by (auto simp: main_def)
qed

section \<open>The wiring\<close>

text \<open>
  C39. Every object that a reconcile creates is of a kind whose events the controller receives and
  sends to the controlling Task, and the Task controls it: when another client changes or deletes
  it, the Task is reconciled again.
\<close>

theorem created_objects_watched:
  assumes "owner_laws x" "SetupWithManager x r0 None finish = Inr w"
    and "run_state (Reconcile x r req) s = (res, s')"
    and "obslog s' = obslog s @ Call (CGet KTask req) (RObj (OTask task)) # l"
    and "Call (CCreate ob) rsp \<in> set l"
  shows "kind_of ob \<in> set (wi_Owns w) \<and> controlled_by x task ob"
proof -
  have "list_all (effect_ok x task) l" by (rule Reconcile_log [OF assms(3,4) reconcile_task_effects [OF assms(1)]])
  then have "effect_ok x task (Call (CCreate ob) rsp)" using assms(5) by (auto simp: list_all_iff)
  then show ?thesis using assms(2) by (auto simp: effect_ok_def SetupWithManager_def Let_def split: option.splits)
qed

theorem created_objects_watched_witness:
  "\<exists>ob rsp. Call (CCreate ob) rsp \<in> set (tl sample_log) \<and>
     kind_of ob \<in> {KJob, KServiceAccount, KConfigMap, KRole, KRoleBinding, KNetworkPolicy} \<and> controlled_by ref_ext sample_task ob"
proof -
  obtain res s' where run: "run_state (Reconcile ref_ext sample_reconciler (''ns'', ''t'')) sample_state = (res, s')" by fastforce
  then have log: "obslog s' = obslog sample_state @ Call (CGet KTask (''ns'', ''t'')) (RObj (OTask sample_task)) # tl sample_log"
    using sample_log_split by (simp add: sample_log_def sample_state_def)
  have "list_ex (\<lambda>o1. is_create o1) (tl sample_log)" by code_simp
  then obtain ob rsp where c: "Call (CCreate ob) rsp \<in> set (tl sample_log)" by (auto simp: list_ex_iff dest: is_createD)
  obtain w where w: "SetupWithManager ref_ext sample_reconciler None (\<lambda>_. None) = Inr w" "set (wi_Owns w) = {KJob, KServiceAccount, KConfigMap, KRole, KRoleBinding, KNetworkPolicy}"
    by (simp add: SetupWithManager_def Let_def)
  from created_objects_watched [OF ref_owner_laws w(1) run log c] w(2) c show ?thesis by blast
qed

text \<open>
  The pods of every Job that is built are in the Pod cache of the manager and their events lead
  back to the Task: the pod labels satisfy the selector of the informer, and \<open>taskForPod\<close> maps a
  pod with these labels to the key of the Task.
\<close>

theorem job_pods_reach_task:
  assumes "buildJob x task agent ss ttl = Inr job" "task_Name task \<noteq> []"
    and "om_Labels (pd_Meta pod) = pt_Labels (jb_Template (job_Spec job))" "om_Namespace (pd_Meta pod) = om_Namespace (job_Meta job)"
  shows "mg_PodSelector (manager_options_of fl) (om_Labels (pd_Meta pod)) \<and> taskForPod (OPod pod) = [key_of (OTask task)]"
proof (rule buildJob_Inr [OF assms(1)])
  fix prompt config reqs
  assume "job_Meta job = task_object_meta task"
    and "jb_Template (job_Spec job) = pod_template task
       (agent_container agent (cp_Env config) reqs (job_mounts ss prompt config)) (job_volumes ss prompt config)"
  with assms(2-4) show ?thesis
    by (simp add: manager_options_of_def Let_def taskPodSelector_def taskForPod_def GetLabels_def key_of_def pod_template_def
        podLabels_eq ownershipLabels_eq map_get_def task_object_meta_def)
qed

theorem job_pods_reach_task_witness:
  "\<exists>job. buildJob ref_ext sample_task sample_agent [''s''] 3600 = Inr job \<and>
     taskForPod (OPod \<lparr>pd_Meta = zero_meta\<lparr>om_Labels := pt_Labels (jb_Template (job_Spec job)), om_Namespace := om_Namespace (job_Meta job)\<rparr>,
       pd_ContainerStatuses = []\<rparr>) = [(''ns'', ''t'')]"
proof -
  obtain job where j: "buildJob ref_ext sample_task sample_agent [''s''] 3600 = Inr job"
  proof -
    have "isl (buildJob ref_ext sample_task sample_agent [''s''] 3600) = False" by code_simp
    then show thesis using that by (cases "buildJob ref_ext sample_task sample_agent [''s''] 3600") auto
  qed
  have key: "task_Name sample_task \<noteq> []" "key_of (OTask sample_task) = (''ns'', ''t'')"
    by (simp_all add: sample_task_def key_of_def)
  let ?pod = "\<lparr>pd_Meta = zero_meta\<lparr>om_Labels := pt_Labels (jb_Template (job_Spec job)), om_Namespace := om_Namespace (job_Meta job)\<rparr>,
       pd_ContainerStatuses = []\<rparr>"
  from job_pods_reach_task [OF j key(1), of ?pod] key(2) j show ?thesis by auto
qed

end
