(* ===== verification/Go_Json_Roundtrip.thy ===== *)
theory Go_Json_Roundtrip
  imports Go_Json Go_Utf8
begin

text \<open>
  The round trip of \<open>encoding/json\<close>. Decoding what \<open>Marshal\<close> prints gives the value back in its
  canonical form: members sorted and without duplicates, invalid UTF-8 replaced
  (\<open>Decode_Marshal\<close>). Every value that \<open>Decode\<close> returns satisfies the hypotheses of that theorem
  (\<open>Decode_readable\<close>), so a program that reads, edits and prints a document can rely on it.
\<close>

section \<open>String literals\<close>

definition span_elems :: "nat \<times> string \<Rightarrow> strelem list" where
  "span_elems p = (case p of (r, bs) \<Rightarrow>
      if invalid_span (r, bs) then [UEsc RuneError]
      else if r \<in> {0x22, 0x5C, 8, 12, 10, 13, 9} then [Esc (char_of r)]
      else if r < 0x20 \<or> r \<in> {0x3C, 0x3E, 0x26, 0x2028, 0x2029} then [UEsc r]
      else map Raw bs)"

lemma hex4_val_hex_digit [simp]: "d < 16 \<Longrightarrow> hex4_val (hex_digit d) = Some d"
  by (auto simp: hex4_val_def hex_digit_def Let_def)

lemma hex4_hex_pad: "r < 256 \<Longrightarrow> hex4 CHR ''0'' CHR ''0'' (hex_digit (r div 16 mod 16)) (hex_digit (r mod 16)) = Some r"
  by (simp add: hex4_def) (simp add: hex4_val_def)

lemma hex_pad_2: "hex_pad 2 r = [hex_digit (r div 16 mod 16), hex_digit (r mod 16)]"
  by (simp add: numeral_2_eq_2)

lemma encode_rune_high:
  assumes "valid_rune r" "0x80 \<le> r" "c \<in> set (encode_rune r)"
  shows "0x80 \<le> byte c"
proof -
  have "192 + r div 64 < 256" if "r < 0x800" using that by auto
  moreover have "0xE0 + r div 4096 < 256" if "r < 0x10000" using that by auto
  moreover have "0xF0 + r div 262144 < 256" using assms(1) by (auto simp: valid_rune_def)
  moreover have "0x80 + m mod 64 < 256" for m :: nat by (rule less_le_trans [of _ "0x80 + 64"]) simp_all
  ultimately show ?thesis using assms by (auto simp: encode_rune_def split: if_splits)
qed

definition plain :: "char \<Rightarrow> bool" where
  "plain c \<longleftrightarrow> c \<noteq> dquote \<and> c \<noteq> backslash \<and> 0x20 \<le> byte c"

lemma lex_string_plain:
  "list_all plain bs \<Longrightarrow> lex_string (bs @ t) = map_option (\<lambda>(es, u). (map Raw bs @ es, u)) (lex_string t)"
  by (induction bs) (cases "lex_string t", auto simp: plain_def)+

lemma encode_rune_plain:
  assumes "valid_rune r" "0x20 \<le> r" "r \<noteq> 0x22" "r \<noteq> 0x5C"
  shows "list_all plain (encode_rune r)"
proof (cases "r < 0x80")
  case True
  then have "byte (char_of r :: char) = r" by simp
  with True assms show ?thesis by (auto simp: encode_rune_def plain_def dest!: arg_cong [where f = byte])
next
  case False
  have "plain c" if "c \<in> set (encode_rune r)" for c
  proof -
    have "0x80 \<le> byte c" using encode_rune_high [OF assms(1) _ that] False by simp
    then show ?thesis by (auto simp: plain_def)
  qed
  then show ?thesis by (simp add: list_all_iff)
qed

lemma simple_escapes:
  "simple_escape dquote = Some dquote" "simple_escape backslash = Some backslash" "simple_escape CHR ''b'' = Some (CHR 0x08)"
  "simple_escape CHR ''f'' = Some (CHR 0x0C)" "simple_escape CHR ''n'' = Some (CHR 0x0A)"
  "simple_escape CHR ''r'' = Some (CHR 0x0D)" "simple_escape CHR ''t'' = Some (CHR 0x09)"
  by (simp_all add: simple_escape_def)

lemma char_of_escapes:
  "char_of (34 :: nat) = dquote" "char_of (92 :: nat) = backslash" "char_of (8 :: nat) = CHR 0x08" "char_of (12 :: nat) = CHR 0x0C"
  "char_of (10 :: nat) = CHR 0x0A" "char_of (13 :: nat) = CHR 0x0D" "char_of (9 :: nat) = CHR 0x09"
  by code_simp+

lemma lex_string_Esc:
  "e \<noteq> CHR ''u'' \<Longrightarrow> simple_escape e = Some d \<Longrightarrow>
   lex_string (backslash # e # t) = map_option (\<lambda>(es, u). (Esc d # es, u)) (lex_string t)"
  by simp

lemma lex_string_UEsc:
  "hex4 a b c d = Some u \<Longrightarrow>
   lex_string (backslash # CHR ''u'' # a # b # c # d # t) = map_option (\<lambda>(es, v). (UEsc u # es, v)) (lex_string t)"
  by simp

text \<open>What the lexer reads from the encoding of one span.\<close>

lemma lex_string_span:
  assumes "good_span (r, bs)"
  shows "lex_string (encode_span (r, bs) @ t) = map_option (\<lambda>(es, u). (span_elems (r, bs) @ es, u)) (lex_string t)"
proof -
  have v: "valid_rune r" "invalid_span (r, bs) \<or> bs = encode_rune r" using assms by (simp_all add: good_span_def)
  have hexd: "hex4 CHR ''f'' CHR ''f'' CHR ''f'' CHR ''d'' = Some RuneError" by (simp add: hex4_def hex4_val_def)
  have hex2: "hex4 CHR ''2'' CHR ''0'' CHR ''2'' (hex_digit (r mod 16)) = Some r" if "r = 0x2028 \<or> r = 0x2029"
    using that by (auto simp: hex4_def) (simp_all add: hex4_val_def)
  consider "invalid_span (r, bs)" | "\<not> invalid_span (r, bs)" "r \<in> {0x22, 0x5C, 8, 12, 10, 13, 9}"
    | "\<not> invalid_span (r, bs)" "r \<notin> {0x22, 0x5C, 8, 12, 10, 13, 9}" "r < 0x20 \<or> r \<in> {0x3C, 0x3E, 0x26}"
    | "\<not> invalid_span (r, bs)" "r = 0x2028 \<or> r = 0x2029"
    | "\<not> invalid_span (r, bs)" "r \<notin> {0x22, 0x5C, 8, 12, 10, 13, 9, 0x3C, 0x3E, 0x26, 0x2028, 0x2029}" "0x20 \<le> r"
    by (cases "r < 0x20") auto
  then show ?thesis
  proof cases
    case 1
    then show ?thesis by (simp add: encode_span_def span_elems_def lex_string_UEsc [OF hexd] del: lex_string.simps)
  next
    case 2
    then show ?thesis
      by (auto simp: encode_span_def span_elems_def lex_string_Esc simple_escapes char_of_escapes simp del: lex_string.simps)
  next
    case 3
    then have "r < 256" by auto
    moreover from 3 have "encode_span (r, bs) = backslash # ''u00'' @ hex_pad 2 r" "span_elems (r, bs) = [UEsc r]"
      by (auto simp: encode_span_def span_elems_def)
    ultimately show ?thesis using lex_string_UEsc [OF hex4_hex_pad, of r t] by (simp add: hex_pad_2 del: lex_string.simps)
  next
    case 4
    then show ?thesis
      by (auto simp: encode_span_def span_elems_def lex_string_UEsc [OF hex2 [OF 4(2)]] simp del: lex_string.simps)
  next
    case 5
    then have "bs = encode_rune r" using v(2) by simp
    with 5 encode_rune_plain [OF v(1)] show ?thesis
      by (auto simp: encode_span_def span_elems_def lex_string_plain simp del: lex_string.simps)
  qed
qed

lemma lex_string_spans:
  "list_all good_span ps \<Longrightarrow>
   lex_string (concat (map encode_span ps) @ dquote # t) = Some (concat (map span_elems ps), t)"
proof (induction ps)
  case (Cons p ps)
  obtain r bs where "p = (r, bs)" by fastforce
  with Cons lex_string_span [of r bs "concat (map encode_span ps) @ dquote # t"] show ?case by simp
qed simp

text \<open>What \<open>unquote\<close> makes of the elements.\<close>

lemma unquote_Raw: "unquote_elems raw (map Raw bs @ es) = unquote_elems (rev bs @ raw) es"
  by (induction bs arbitrary: raw) auto

lemma unquote_UEsc:
  "\<not> surr1 u \<Longrightarrow> \<not> surr2 u \<Longrightarrow> unquote_elems raw (UEsc u # es) = fix_utf8 (rev raw) @ encode_rune u @ unquote_elems [] es"
  by (cases es rule: list.exhaust, simp, cases "hd es") auto

lemma not_invalid_encode: "\<not> invalid_span (r, encode_rune r)"
  by (auto simp: invalid_span_def encode_rune_def)

lemma fix_utf8_encoded: "list_all valid_rune vs \<Longrightarrow> fix_utf8 (concat (map encode_rune vs)) = concat (map encode_rune vs)"
  by (simp add: fix_utf8_def rune_spans_encode_all comp_def not_invalid_encode)

definition fix_span :: "nat \<times> string \<Rightarrow> string" where
  "fix_span p = (if invalid_span p then encode_rune RuneError else snd p)"

lemma fix_utf8_spans: "fix_utf8 s = concat (map fix_span (rune_spans s))"
  by (simp add: fix_utf8_def fix_span_def [abs_def])

lemma unquote_spans:
  assumes "list_all good_span ps" and "list_all valid_rune vs"
  shows "unquote_elems (rev (concat (map encode_rune vs))) (concat (map span_elems ps)) =
    concat (map encode_rune vs) @ concat (map fix_span ps)"
  using assms
proof (induction ps arbitrary: vs)
  case (Cons p ps)
  obtain r bs where p: "p = (r, bs)" by fastforce
  with Cons.prems(1) have v: "valid_rune r" "invalid_span (r, bs) \<or> bs = encode_rune r" by (auto simp: good_span_def)
  have tail: "unquote_elems [] (concat (map span_elems ps)) = concat (map fix_span ps)"
    using Cons.IH [of "[]"] Cons.prems(1) by simp
  note fixed = fix_utf8_encoded [OF Cons.prems(2)]
  have surr: "\<not> surr1 r \<and> \<not> surr2 r" "\<not> surr1 RuneError" "\<not> surr2 RuneError"
    using v(1) by (auto simp: valid_rune_def surr1_def surr2_def)
  have raw: "\<not> invalid_span p \<Longrightarrow> r \<notin> {0x22, 0x5C, 8, 12, 10, 13, 9} \<Longrightarrow>
      \<not> (r < 0x20 \<or> r \<in> {0x3C, 0x3E, 0x26, 0x2028, 0x2029}) \<Longrightarrow> span_elems p = map Raw bs"
    unfolding p span_elems_def by simp
  consider "invalid_span p" | "\<not> invalid_span p" "r \<in> {0x22, 0x5C, 8, 12, 10, 13, 9}"
    | "\<not> invalid_span p" "r \<notin> {0x22, 0x5C, 8, 12, 10, 13, 9}" "r < 0x20 \<or> r \<in> {0x3C, 0x3E, 0x26, 0x2028, 0x2029}"
    | "\<not> invalid_span p" "span_elems p = map Raw bs"
    using raw by blast
  then show ?case
  proof cases
    case 1
    then have "span_elems p = [UEsc RuneError]" "fix_span p = encode_rune RuneError"
      using p by (simp_all add: span_elems_def fix_span_def)
    then show ?thesis by (simp add: unquote_UEsc [OF surr(2,3)] tail fixed del: unquote_elems.simps)
  next
    case 2
    then have "span_elems p = [Esc (char_of r)]" "fix_span p = [char_of r]"
      using p v(2) by (simp_all add: span_elems_def fix_span_def) (auto simp: encode_rune_def)
    then show ?thesis by (simp add: tail fixed)
  next
    case 3
    then have "span_elems p = [UEsc r]" "fix_span p = encode_rune r"
      using p v(2) by (simp_all add: span_elems_def fix_span_def)
    then show ?thesis using surr(1) by (simp add: unquote_UEsc tail fixed del: unquote_elems.simps)
  next
    case 4
    then have "bs = encode_rune r" using p v by simp
    with Cons.IH [of "vs @ [r]"] Cons.prems v(1) 4 p show ?thesis by (simp add: unquote_Raw fix_span_def)
  qed
qed (simp add: fix_utf8_encoded)

lemma lex_encode_string: "lex (encode_string s @ t) = Some (TStr (fix_utf8 s), t)"
proof -
  have "lex_string (concat (map encode_span (rune_spans s)) @ dquote # t) = Some (concat (map span_elems (rune_spans s)), t)"
    by (rule lex_string_spans [OF rune_spans_good])
  moreover have "unquote (concat (map span_elems (rune_spans s))) = fix_utf8 s"
    using unquote_spans [OF rune_spans_good, of "[]" s] by (simp add: unquote_def fix_utf8_spans)
  ultimately show ?thesis
    by (simp add: lex_def encode_string_def skip_space_def json_space_def)
qed

section \<open>Numbers\<close>

text \<open>A literal as the decoder keeps it, and an input that does not continue it.\<close>

definition number_literal :: "string \<Rightarrow> bool" where
  "number_literal n \<longleftrightarrow> lex_number n = Some (n, [])"

definition stops :: "string \<Rightarrow> bool" where
  "stops t \<longleftrightarrow> (case t of [] \<Rightarrow> True | c # _ \<Rightarrow> \<not> is_digit c \<and> c \<notin> set ''.eE'')"

lemma takeWhile_stops: "stops t \<Longrightarrow> takeWhile is_digit (s @ t) = takeWhile is_digit s"
  by (induction s) (auto simp: stops_def split: list.splits)

lemma dropWhile_stops: "stops t \<Longrightarrow> dropWhile is_digit (s @ t) = dropWhile is_digit s @ t"
  by (induction s) (auto simp: stops_def split: list.splits)

lemma lex_digits1_append: "stops t \<Longrightarrow> lex_digits1 s = Some (d, u) \<Longrightarrow> lex_digits1 (s @ t) = Some (d, u @ t)"
  by (auto simp: lex_digits1_def Let_def takeWhile_stops dropWhile_stops split: if_splits)

lemma lex_int_append: "stops t \<Longrightarrow> lex_int s = Some (d, u) \<Longrightarrow> lex_int (s @ t) = Some (d, u @ t)"
  using lex_digits1_append [of t s d u] by (auto simp: lex_int_def split: list.splits if_splits)

lemma lex_frac_append: "stops t \<Longrightarrow> lex_frac s = Some (d, u) \<Longrightarrow> lex_frac (s @ t) = Some (d, u @ t)"
  using lex_digits1_append [of t "tl s"]
  by (cases s) (auto simp: lex_frac_def stops_def split: list.splits if_splits)

lemma lex_exp_append: "stops t \<Longrightarrow> lex_exp s = Some (d, u) \<Longrightarrow> lex_exp (s @ t) = Some (d, u @ t)"
  using lex_digits1_append [of t "tl s"] lex_digits1_append [of t "tl (tl s)"]
  by (cases s) (auto simp: lex_exp_def stops_def split: list.splits if_splits)

lemma lex_unsigned_append: "stops t \<Longrightarrow> lex_unsigned s = Some (d, u) \<Longrightarrow> lex_unsigned (s @ t) = Some (d, u @ t)"
  by (auto simp: lex_unsigned_def lex_int_append lex_frac_append lex_exp_append split: option.splits prod.splits)

lemma lex_number_append: "stops t \<Longrightarrow> lex_number s = Some (d, u) \<Longrightarrow> lex_number (s @ t) = Some (d, u @ t)"
  using lex_unsigned_append [of t "tl s"] lex_unsigned_append [of t s]
  by (cases s) (auto simp: lex_number_def split: if_splits)

lemma number_literal_head:
  assumes "number_literal n"
  obtains c r where "n = c # r" "c = CHR ''-'' \<or> is_digit c"
  using assms that unfolding number_literal_def lex_number_def lex_unsigned_def lex_int_def
  by (auto simp: is_digit_def split: list.splits if_splits option.splits)

lemma lex_number_token:
  assumes "number_literal n" "stops t"
  shows "lex (n @ t) = Some (TLit (JNumber n), t)"
proof -
  from assms(1) obtain c r where n: "n = c # r" "c = CHR ''-'' \<or> is_digit c" by (rule number_literal_head)
  have "c \<notin> set ''{}[]:,tfn''" "c \<noteq> dquote" "\<not> json_space c"
    using n(2) by (auto simp: is_digit_def json_space_def)
  moreover have "lex_number (c # r @ t) = Some (n, t)"
    using lex_number_append [OF assms(2), of n n "[]"] assms(1) n(1) by (simp add: number_literal_def)
  ultimately show ?thesis using n(1) by (simp add: lex_def skip_space_def)
qed

section \<open>Values\<close>

fun json_wf :: "json \<Rightarrow> bool" where
  "json_wf (JNumber n) = number_literal n"
| "json_wf (JArray vs) = (\<forall>v \<in> set vs. json_wf v)"
| "json_wf (JObject ms) = (\<forall>p \<in> set ms. json_wf (snd p))"
| "json_wf _ = True"

fun depth_le :: "nat \<Rightarrow> json \<Rightarrow> bool" where
  "depth_le n (JArray vs) = (n > 0 \<and> (\<forall>v \<in> set vs. depth_le (n - 1) v))"
| "depth_le n (JObject ms) = (n > 0 \<and> (\<forall>p \<in> set ms. depth_le (n - 1) (snd p)))"
| "depth_le n _ = True"

text \<open>
  The value that is read back: keys and strings with invalid bytes replaced, the last of several
  members with one key, and the members in the order of their keys.
\<close>

fun canon :: "json \<Rightarrow> json" where
  "canon (JString s) = JString (fix_utf8 s)"
| "canon (JArray vs) = JArray (map canon vs)"
| "canon (JObject ms) = JObject (map (\<lambda>(k, v). (fix_utf8 k, v)) (sort_fields (fields_of (map (\<lambda>(k, v). (k, canon v)) ms))))"
| "canon j = j"

definition map_values :: "('a \<Rightarrow> 'b) \<Rightarrow> (string \<times> 'a) list \<Rightarrow> (string \<times> 'b) list" where
  "map_values f ms = map (\<lambda>(k, v). (k, f v)) ms"

lemma map_values_simps [simp]: "map_values f [] = []" "map_values f ((k, v) # ms) = (k, f v) # map_values f ms"
  by (simp_all add: map_values_def)

lemma put_field_map_values: "put_field k (f v) (map_values f ms) = map_values f (put_field k v ms)"
  by (induction k v ms rule: put_field.induct) auto

lemma fields_of_map_values: "fields_of (map_values f ms) = map_values f (fields_of ms)"
proof -
  have "fold (\<lambda>(k, v) acc. put_field k v acc) (map_values f ms) (map_values f acc) =
      map_values f (fold (\<lambda>(k, v) acc. put_field k v acc) ms acc)" for acc
    by (induction ms arbitrary: acc) (auto simp: put_field_map_values)
  from this [of "[]"] show ?thesis by (simp add: fields_of_def)
qed

lemma insort_map_values: "insort_key fst (k, f v) (map_values f ms) = map_values f (insort_key fst (k, v) ms)"
  by (induction ms) auto

lemma sort_fields_map_values: "sort_fields (map_values f ms) = map_values f (sort_fields ms)"
  unfolding sort_fields_def
proof (induction ms)
  case (Cons p ms)
  obtain k v where "p = (k, v)" by fastforce
  with Cons show ?case by (simp add: insort_map_values)
qed simp

lemma set_put_field_subset: "set (put_field k v ms) \<subseteq> insert (k, v) (set ms)"
  by (induction k v ms rule: put_field.induct) auto

lemma set_fields_of: "set (fields_of ms) \<subseteq> set ms"
proof -
  have "set (fold (\<lambda>(k, v) acc. put_field k v acc) ms acc) \<subseteq> set ms \<union> set acc" for acc :: "(string \<times> 'a) list"
  proof (induction ms arbitrary: acc)
    case (Cons p ms)
    obtain k v where "p = (k, v)" by fastforce
    with Cons [of "put_field k v acc"] set_put_field_subset [of k v acc] show ?case by auto
  qed simp
  from this [of "[]"] show ?thesis by (simp add: fields_of_def)
qed

text \<open>The members of an object in the order in which they are printed.\<close>

definition members :: "(string \<times> 'v) list \<Rightarrow> (string \<times> 'v) list" where
  "members ms = sort_fields (fields_of ms)"

lemma set_members: "set (members ms) \<subseteq> set ms"
  using set_fields_of by (simp add: members_def sort_fields_def)

lemma canon_JObject: "canon (JObject ms) = JObject (map (\<lambda>(k, v). (fix_utf8 k, canon v)) (members ms))"
proof -
  have "sort_fields (fields_of (map (\<lambda>(k, v). (k, canon v)) ms)) = map_values canon (members ms)"
    using fields_of_map_values [of canon ms] by (simp add: map_values_def [of canon ms] members_def sort_fields_map_values)
  then show ?thesis by (auto simp: map_values_def)
qed

lemma join_Cons: "join_with sep (s # ss) = s @ concat (map (\<lambda>u. sep @ u) ss)"
  by (induction ss arbitrary: s) auto

definition member_text :: "string \<times> json \<Rightarrow> string" where
  "member_text p = encode_string (fst p) @ '':'' @ Marshal (snd p)"

lemma Marshal_JObject: "Marshal (JObject ms) = ''{'' @ join_with '','' (map member_text (members ms)) @ ''}''"
proof -
  have "sort_fields (fields_of (map (\<lambda>(k, v). (k, Marshal v)) ms)) = map_values Marshal (members ms)"
    using fields_of_map_values [of Marshal ms] by (simp add: map_values_def [of Marshal ms] members_def sort_fields_map_values)
  then show ?thesis by (simp add: map_values_def member_text_def [abs_def] comp_def case_prod_beta)
qed

section \<open>Runs of the decoder\<close>

lemma json_run_step:
  assumes "lex s = Some (t, s1)" "json_step m st t = Some (m1, st1)" "st \<noteq> [] \<or> (\<forall>v. m \<noteq> AfterValue v)"
  shows "json_run m st s = json_run m1 st1 s1"
  using assms by (subst json_run.simps) (auto split: mode.splits list.splits)

lemma lex_punctuation [simp]:
  "lex (CHR ''{'' # s) = Some (TLBrace, s)" "lex (CHR ''}'' # s) = Some (TRBrace, s)" "lex (CHR ''['' # s) = Some (TLBrack, s)"
  "lex (CHR '']'' # s) = Some (TRBrack, s)" "lex (CHR '':'' # s) = Some (TColon, s)" "lex (CHR '','' # s) = Some (TComma, s)"
  by (simp_all add: lex_def skip_space_def json_space_def)

lemma stops_punctuation [simp]:
  "stops (CHR '','' # s)" "stops (CHR '']'' # s)" "stops (CHR ''}'' # s)" "stops []"
  by (simp_all add: stops_def is_digit_def)

lemma lex_words [simplified, simp]:
  "lex (''true'' @ s) = Some (TLit (JBool True), s)" "lex (''false'' @ s) = Some (TLit (JBool False), s)"
  "lex (''null'' @ s) = Some (TLit JNull, s)"
  by (simp_all add: lex_def skip_space_def json_space_def lex_word_def HasPrefix_def)

text \<open>
  The decoder reads the text of \<open>v\<close> on the stack \<open>st\<close>: from a mode in which a value may start it
  reaches the mode after the value, with the stack as it was and the rest of the input.
\<close>

definition reads :: "json \<Rightarrow> frame list \<Rightarrow> bool" where
  "reads v st \<longleftrightarrow> (\<forall>m s. m \<in> {WantValue, WantFirst} \<longrightarrow> stops s \<longrightarrow>
     json_run m st (Marshal v @ s) = json_run (AfterValue (canon v)) st s)"

lemma reads_token:
  assumes "\<And>s. stops s \<Longrightarrow> lex (Marshal v @ s) = Some (t, s)" "start_value t st = Some (AfterValue (canon v), st)" "t \<noteq> TRBrack"
  shows "reads v st"
  unfolding reads_def using assms by (auto intro!: json_run_step)

lemma array_tail:
  assumes "\<And>v acc. v \<in> set vs \<Longrightarrow> reads v (ArrF acc # st)"
  shows "json_run (AfterValue a) (ArrF acc # st) (concat (map (\<lambda>u. '','' @ u) (map Marshal vs)) @ '']'' @ s) =
    json_run (AfterValue (JArray (rev acc @ a # map canon vs))) st s"
  using assms
proof (induction vs arbitrary: a acc)
  case Nil
  show ?case by (simp add: json_run_step [where t = TRBrack])
next
  case (Cons v vs)
  let ?rest = "concat (map (\<lambda>u. '','' @ u) (map Marshal vs)) @ '']'' @ s"
  have "stops ?rest" by (cases vs) auto
  have "json_run (AfterValue a) (ArrF acc # st) ('','' @ Marshal v @ ?rest) = json_run WantValue (ArrF (a # acc) # st) (Marshal v @ ?rest)"
    by (rule json_run_step [where t = TComma]) auto
  also have "\<dots> = json_run (AfterValue (canon v)) (ArrF (a # acc) # st) ?rest"
    using Cons.prems [of v] \<open>stops ?rest\<close> by (simp add: reads_def)
  also have "\<dots> = json_run (AfterValue (JArray (rev (a # acc) @ canon v # map canon vs))) st s"
    by (rule Cons.IH) (simp add: Cons.prems)
  finally show ?case by simp
qed

lemma object_tail:
  assumes "\<And>p acc k. p \<in> set ps \<Longrightarrow> reads (snd p) (ObjF acc k # st)"
  shows "json_run (AfterValue a) (ObjF acc k # st) (concat (map (\<lambda>u. '','' @ u) (map member_text ps)) @ ''}'' @ s) =
    json_run (AfterValue (JObject (acc @ (k, a) # map (\<lambda>(k, v). (fix_utf8 k, canon v)) ps))) st s"
  using assms
proof (induction ps arbitrary: a acc k)
  case Nil
  show ?case by (simp add: json_run_step [where t = TRBrace])
next
  case (Cons p ps)
  obtain q v where p: "p = (q, v)" by fastforce
  let ?rest = "concat (map (\<lambda>u. '','' @ u) (map member_text ps)) @ ''}'' @ s"
  have "stops ?rest" by (cases ps) auto
  have "json_run (AfterValue a) (ObjF acc k # st) ('','' @ member_text p @ ?rest) =
      json_run (WantKey (acc @ [(k, a)])) st (encode_string q @ '':'' @ Marshal v @ ?rest)"
    unfolding member_text_def p by (rule json_run_step [where t = TComma]) auto
  also have "\<dots> = json_run (WantColon (acc @ [(k, a)]) (fix_utf8 q)) st ('':'' @ Marshal v @ ?rest)"
    by (rule json_run_step [OF lex_encode_string]) auto
  also have "\<dots> = json_run WantValue (ObjF (acc @ [(k, a)]) (fix_utf8 q) # st) (Marshal v @ ?rest)"
    by (rule json_run_step [where t = TColon]) auto
  also have "\<dots> = json_run (AfterValue (canon v)) (ObjF (acc @ [(k, a)]) (fix_utf8 q) # st) ?rest"
    using Cons.prems [of p] \<open>stops ?rest\<close> p by (simp add: reads_def)
  also have "\<dots> = json_run (AfterValue (JObject ((acc @ [(k, a)]) @ (fix_utf8 q, canon v) # map (\<lambda>(k, v). (fix_utf8 k, canon v)) ps))) st s"
    by (rule Cons.IH) (simp add: Cons.prems)
  finally show ?case by (simp add: p)
qed

lemma reads_JArray:
  assumes "\<And>v acc. v \<in> set vs \<Longrightarrow> reads v (ArrF acc # st)" "open_ok st"
  shows "reads (JArray vs) st"
proof -
  have open_arr: "json_run m st (CHR ''['' # t) = json_run WantFirst (ArrF [] # st) t" if "m \<in> {WantValue, WantFirst}" for m t
    using that assms(2) by (intro json_run_step [where t = TLBrack]) auto
  have "json_run WantFirst (ArrF [] # st) (join_with '','' (map Marshal vs) @ '']'' @ s) =
      json_run (AfterValue (JArray (map canon vs))) st s" for s
  proof (cases vs)
    case Nil
    then show ?thesis by (simp add: json_run_step [where t = TRBrack])
  next
    case (Cons v vs')
    let ?rest = "concat (map (\<lambda>u. '','' @ u) (map Marshal vs')) @ '']'' @ s"
    have "stops ?rest" by (cases vs') auto
    with assms(1) [of v "[]"] Cons have "json_run WantFirst (ArrF [] # st) (Marshal v @ ?rest) =
        json_run (AfterValue (canon v)) (ArrF [] # st) ?rest" by (simp add: reads_def)
    with array_tail [of vs' st "canon v" "[]" s] assms(1) Cons show ?thesis by (simp add: join_Cons)
  qed
  then show ?thesis using open_arr by (auto simp: reads_def)
qed

lemma reads_JObject:
  assumes "\<And>p acc k. p \<in> set ms \<Longrightarrow> reads (snd p) (ObjF acc k # st)" "open_ok st"
  shows "reads (JObject ms) st"
proof -
  have open_obj: "json_run m st (CHR ''{'' # t) = json_run WantKeyOrEnd st t" if "m \<in> {WantValue, WantFirst}" for m t
    using that assms(2) by (intro json_run_step [where t = TLBrace]) auto
  have "json_run WantKeyOrEnd st (join_with '','' (map member_text (members ms)) @ ''}'' @ s) =
      json_run (AfterValue (canon (JObject ms))) st s" for s
  proof (cases "members ms")
    case Nil
    then show ?thesis by (simp add: canon_JObject json_run_step [where t = TRBrace] del: canon.simps)
  next
    case (Cons p ps)
    obtain q v where p: "p = (q, v)" by fastforce
    have sub: "set (p # ps) \<subseteq> set ms" using set_members [of ms] Cons by simp
    let ?rest = "concat (map (\<lambda>u. '','' @ u) (map member_text ps)) @ ''}'' @ s"
    have "stops ?rest" by (cases ps) auto
    have "json_run WantKeyOrEnd st (member_text p @ ?rest) = json_run (WantColon [] (fix_utf8 q)) st ('':'' @ Marshal v @ ?rest)"
      unfolding member_text_def p by (simp, rule json_run_step [OF lex_encode_string]) auto
    also have "\<dots> = json_run WantValue (ObjF [] (fix_utf8 q) # st) (Marshal v @ ?rest)"
      by (rule json_run_step [where t = TColon]) auto
    also have "\<dots> = json_run (AfterValue (canon v)) (ObjF [] (fix_utf8 q) # st) ?rest"
      using assms(1) [of p] sub \<open>stops ?rest\<close> p by (auto simp: reads_def)
    also have "\<dots> = json_run (AfterValue (JObject ([] @ (fix_utf8 q, canon v) # map (\<lambda>(k, v). (fix_utf8 k, canon v)) ps))) st s"
      by (rule object_tail) (use assms(1) sub in auto)
    finally show ?thesis using Cons p by (simp add: join_Cons canon_JObject del: canon.simps)
  qed
  then show ?thesis using open_obj by (auto simp: reads_def Marshal_JObject simp del: Marshal.simps canon.simps)
qed

lemma reads_json: "json_wf j \<Longrightarrow> depth_le (maxNestingDepth - length st) j \<Longrightarrow> reads j st"
proof (induction j arbitrary: st)
  case JNull show ?case by (rule reads_token [where t = "TLit JNull"]) auto
next
  case (JBool b) show ?case by (rule reads_token [where t = "TLit (JBool b)"]) auto
next
  case (JNumber n)
  then show ?case by (intro reads_token [where t = "TLit (JNumber n)"]) (auto simp: lex_number_token)
next
  case (JString s) show ?case by (rule reads_token [where t = "TStr (fix_utf8 s)"]) (auto simp: lex_encode_string)
next
  case (JArray vs)
  have "reads v (ArrF acc # st)" if "v \<in> set vs" for v acc
    by (rule JArray.IH [OF that]) (use JArray.prems that in auto)
  then show ?case using JArray.prems by (intro reads_JArray) (auto simp: open_ok_def)
next
  case (JObject ms)
  have "reads (snd p) (ObjF acc k # st)" if "p \<in> set ms" for p acc k
    by (rule JObject.IH [OF that]) (use JObject.prems that in \<open>auto simp: snds.simps\<close>)
  then show ?case using JObject.prems by (intro reads_JObject) (auto simp: open_ok_def)
qed

lemma Decode_Marshal:
  assumes "json_wf j" "depth_le maxNestingDepth j" "stops s"
  shows "Decode (Marshal j @ s) = Some (canon j, s)"
proof -
  have "json_run WantValue [] (Marshal j @ s) = json_run (AfterValue (canon j)) [] s"
    using reads_json [of j "[]"] assms by (simp add: reads_def)
  also have "\<dots> = Some (canon j, s)" by (subst json_run.simps) simp
  finally show ?thesis by (simp add: Decode_def)
qed

section \<open>What the decoder returns\<close>

text \<open>A number literal that was read reads back as a whole.\<close>

definition not_digit :: "string \<Rightarrow> bool" where
  "not_digit w \<longleftrightarrow> (case w of [] \<Rightarrow> True | c # _ \<Rightarrow> \<not> is_digit c)"

lemma lex_digits1_again:
  assumes "lex_digits1 s = Some (d, u)" "not_digit w"
  shows "lex_digits1 (d @ w) = Some (d, w)"
proof -
  have d: "d \<noteq> []" "\<forall>c \<in> set d. is_digit c"
    using assms(1) by (auto simp: lex_digits1_def Let_def split: if_splits dest: set_takeWhileD)
  have w: "takeWhile is_digit w = []" "dropWhile is_digit w = w" using assms(2) by (auto simp: not_digit_def split: list.splits)
  show ?thesis using d w by (auto simp: lex_digits1_def Let_def takeWhile_append2 dropWhile_append2)
qed

lemma lex_digits1_nonempty: "lex_digits1 s = Some (d, u) \<Longrightarrow> d \<noteq> []"
  by (auto simp: lex_digits1_def Let_def split: if_splits)

lemma lex_digits1_head: "lex_digits1 (c # s) = Some (d, u) \<Longrightarrow> \<exists>d'. d = c # d'"
  by (auto simp: lex_digits1_def Let_def split: if_splits)

lemma lex_int_again: "lex_int s = Some (i, u) \<Longrightarrow> not_digit w \<Longrightarrow> lex_int (i @ w) = Some (i, w)"
proof (cases s)
  case (Cons c r)
  assume a: "lex_int s = Some (i, u)" "not_digit w"
  show ?thesis
  proof (cases "c = CHR ''0''")
    case False
    then have d: "is_digit c" "lex_digits1 (c # r) = Some (i, u)" using a Cons by (auto simp: lex_int_def split: if_splits)
    with lex_digits1_head obtain d' where "i = c # d'" by blast
    with False d lex_digits1_again [OF d(2) a(2)] show ?thesis by (simp add: lex_int_def)
  qed (use a Cons in \<open>auto simp: lex_int_def\<close>)
qed (simp add: lex_int_def)

lemma lex_frac_again:
  "lex_frac s = Some (f, u) \<Longrightarrow> not_digit w \<Longrightarrow> \<not> prefix ''.'' w \<Longrightarrow> lex_frac (f @ w) = Some (f, w)"
  by (auto simp: lex_frac_def lex_digits1_again split: list.splits if_splits)

lemma lex_exp_again:
  assumes "lex_exp s = Some (e, u)"
  shows "lex_exp e = Some (e, [])"
proof (cases "e = []")
  case False
  then obtain c d r where s: "s = c # d # r" "c = CHR ''e'' \<or> c = CHR ''E''"
    using assms by (auto simp: lex_exp_def split: list.splits if_splits)
  show ?thesis
  proof (cases "d = CHR ''+'' \<or> d = CHR ''-''")
    case True
    with assms s obtain ds where "lex_digits1 r = Some (ds, u)" "e = c # d # ds" by (auto simp: lex_exp_def)
    with True s(2) show ?thesis using lex_digits1_again [of r ds u "[]"] by (auto simp: lex_exp_def not_digit_def)
  next
    case sign: False
    with assms s obtain ds where ds: "lex_digits1 (d # r) = Some (ds, u)" "e = c # ds" by (auto simp: lex_exp_def)
    with lex_digits1_head obtain ds' where "ds = d # ds'" by blast
    with sign s(2) ds(2) show ?thesis using lex_digits1_again [OF ds(1), of "[]"] by (auto simp: lex_exp_def not_digit_def)
  qed
qed (simp add: lex_exp_def)

lemma lex_frac_head: "lex_frac s = Some (f, u) \<Longrightarrow> f = [] \<or> (\<exists>f'. f = CHR ''.'' # f')"
  by (auto simp: lex_frac_def split: list.splits if_splits)

lemma lex_exp_head: "lex_exp s = Some (e, u) \<Longrightarrow> e = [] \<or> (\<exists>c e'. e = c # e' \<and> (c = CHR ''e'' \<or> c = CHR ''E''))"
  by (auto simp: lex_exp_def split: list.splits if_splits)

lemma lex_unsigned_parts:
  assumes "lex_unsigned s = Some (n, u)"
  obtains i s1 f s2 e where "lex_int s = Some (i, s1)" "lex_frac s1 = Some (f, s2)" "lex_exp s2 = Some (e, u)" "n = i @ f @ e"
  using assms that unfolding lex_unsigned_def by (auto split: option.splits)

lemma lex_unsigned_again:
  assumes "lex_unsigned s = Some (n, u)"
  shows "lex_unsigned n = Some (n, [])"
proof -
  obtain i s1 f s2 e where p: "lex_int s = Some (i, s1)" "lex_frac s1 = Some (f, s2)" "lex_exp s2 = Some (e, u)" "n = i @ f @ e"
    using assms by (rule lex_unsigned_parts)
  have w: "not_digit (f @ e)" "not_digit e" "\<not> prefix ''.'' e"
    using lex_frac_head [OF p(2)] lex_exp_head [OF p(3)]
    by (elim disjE exE conjE; simp add: not_digit_def is_digit_def)+
  have "lex_int n = Some (i, f @ e)" "lex_frac (f @ e) = Some (f, e)" "lex_exp e = Some (e, [])"
    unfolding p(4) using lex_int_again [OF p(1) w(1)] lex_frac_again [OF p(2) w(2,3)] lex_exp_again [OF p(3)] by simp_all
  then show ?thesis unfolding lex_unsigned_def by (simp only: option.case prod.case append_Nil2 p(4))
qed

lemma lex_int_digit: "lex_int s = Some (i, u) \<Longrightarrow> \<exists>c i'. i = c # i' \<and> is_digit c"
proof (cases s)
  case (Cons c r)
  assume a: "lex_int s = Some (i, u)"
  show ?thesis
  proof (cases "c = CHR ''0''")
    case True
    then have "i = [CHR ''0'']" using a Cons by (simp add: lex_int_def)
    moreover have "is_digit CHR ''0''" by (simp add: is_digit_def)
    ultimately show ?thesis by blast
  next
    case False
    then have "is_digit c" "lex_digits1 (c # r) = Some (i, u)" using a Cons by (auto simp: lex_int_def split: if_splits)
    with lex_digits1_head show ?thesis by blast
  qed
qed (simp add: lex_int_def)

lemma lex_unsigned_head:
  assumes "lex_unsigned s = Some (n, u)"
  obtains c n' where "n = c # n'" "c \<noteq> CHR ''-''"
proof -
  obtain i s1 f s2 e where p: "lex_int s = Some (i, s1)" "n = i @ f @ e" using assms by (rule lex_unsigned_parts)
  from lex_int_digit [OF p(1)] obtain c i' where c: "i = c # i'" "is_digit c" by blast
  from c(2) have "c \<noteq> CHR ''-''" by (auto simp: is_digit_def)
  moreover from c(1) p(2) have "n = c # i' @ f @ e" by simp
  ultimately show thesis using that by blast
qed

lemma lex_number_literal: "lex_number s = Some (n, u) \<Longrightarrow> number_literal n"
proof (cases s)
  case (Cons c r)
  assume a: "lex_number s = Some (n, u)"
  show ?thesis
  proof (cases "c = CHR ''-''")
    case True
    then obtain n' where "lex_unsigned r = Some (n', u)" "n = c # n'" using a Cons by (auto simp: lex_number_def)
    then show ?thesis using True lex_unsigned_again by (simp add: number_literal_def lex_number_def)
  next
    case False
    then have l: "lex_unsigned s = Some (n, u)" using a Cons by (simp add: lex_number_def)
    from l obtain d n' where "n = d # n'" "d \<noteq> CHR ''-''" by (rule lex_unsigned_head)
    with lex_unsigned_again [OF l] show ?thesis by (simp add: number_literal_def lex_number_def)
  qed
qed (simp add: lex_number_def)

text \<open>Strings that are read are valid UTF-8.\<close>

definition clean :: "string \<Rightarrow> bool" where
  "clean s \<longleftrightarrow> (\<exists>vs. list_all valid_rune vs \<and> s = concat (map encode_rune vs))"

lemma clean_fix: "clean s \<Longrightarrow> fix_utf8 s = s"
  by (auto simp: clean_def fix_utf8_encoded)

lemma clean_append: "clean a \<Longrightarrow> clean b \<Longrightarrow> clean (a @ b)"
  unfolding clean_def by (metis concat_append list_all_append map_append)

lemma clean_encode: "valid_rune r \<Longrightarrow> clean (encode_rune r)"
  unfolding clean_def by (rule exI [of _ "[r]"]) simp

lemma clean_Nil: "clean []"
  unfolding clean_def by (rule exI [of _ "[]"]) simp

lemma clean_ascii: "byte c < 0x80 \<Longrightarrow> clean [c]"
  using clean_encode [of "byte c"] by (simp add: encode_rune_def valid_rune_def)

lemma clean_concat: "(\<And>s. s \<in> set ss \<Longrightarrow> clean s) \<Longrightarrow> clean (concat ss)"
  by (induction ss) (auto simp: clean_Nil clean_append)

lemma valid_RuneError: "valid_rune RuneError"
  by (simp add: valid_rune_def)

lemma clean_fix_utf8 [simp]: "clean (fix_utf8 s)"
  unfolding fix_utf8_spans
proof (rule clean_concat)
  fix u assume "u \<in> set (map fix_span (rune_spans s))"
  then obtain p where "u = fix_span p" "good_span p" using rune_spans_good [of s] by (auto simp: list_all_iff)
  then show "clean u" by (auto simp: fix_span_def good_span_def clean_encode valid_RuneError)
qed

fun elem_ok :: "strelem \<Rightarrow> bool" where
  "elem_ok (Raw _) = True"
| "elem_ok (Esc c) = (byte c < 0x80)"
| "elem_ok (UEsc u) = (u < 0x10000)"

lemma hex4_val_less: "hex4_val c = Some n \<Longrightarrow> n < 16"
  by (auto simp: hex4_val_def Let_def split: if_splits)

lemma hex4_less: "hex4 a b c d = Some u \<Longrightarrow> u < 0x10000"
  by (auto simp: hex4_def split: option.splits dest!: hex4_val_less)

lemma simple_escape_ascii: "simple_escape c = Some d \<Longrightarrow> byte d < 0x80"
  by (auto simp: simple_escape_def split: if_splits)

lemma lex_string_ok: "lex_string s = Some (es, t) \<Longrightarrow> list_all elem_ok es"
proof (induction s arbitrary: es t rule: lex_string.induct)
  case (2 c s)
  note l = "2.prems"
  consider "c = dquote" | "c \<noteq> dquote" "c = backslash" | "c \<noteq> dquote" "c \<noteq> backslash" by blast
  then show ?case
  proof cases
    case 1
    then show ?thesis using l by simp
  next
    case 2
    show ?thesis
    proof (cases s)
      case (Cons e s1)
      show ?thesis
      proof (cases "e = CHR ''u''")
        case True
        with l \<open>c \<noteq> dquote\<close> \<open>c = backslash\<close> Cons obtain h1 h2 h3 h4 s2 u es' where
          "s1 = h1 # h2 # h3 # h4 # s2" "hex4 h1 h2 h3 h4 = Some u" "lex_string s2 = Some (es', t)" "es = UEsc u # es'"
          by (simp split: list.splits option.splits) blast
        then show ?thesis using "2.IH"(1) True \<open>c \<noteq> dquote\<close> \<open>c = backslash\<close> Cons hex4_less by simp
      next
        case False
        with l \<open>c \<noteq> dquote\<close> \<open>c = backslash\<close> Cons obtain d es' where
          "simple_escape e = Some d" "lex_string s1 = Some (es', t)" "es = Esc d # es'"
          by (simp split: option.splits) blast
        then show ?thesis using "2.IH"(2) False \<open>c \<noteq> dquote\<close> \<open>c = backslash\<close> Cons simple_escape_ascii by simp
      qed
    qed (use l 2 in simp)
  next
    case 3
    with l obtain es' where "\<not> byte c < 0x20" "lex_string s = Some (es', t)" "es = Raw c # es'"
      by (auto split: if_splits)
    then show ?thesis using "2.IH"(3) 3 by simp
  qed
qed simp

lemma clean_Cons: "byte c < 0x80 \<Longrightarrow> clean s \<Longrightarrow> clean (c # s)"
  using clean_append [OF clean_ascii] by simp

lemma clean_unit: "u < 0x10000 \<Longrightarrow> \<not> surr1 u \<Longrightarrow> \<not> surr2 u \<Longrightarrow> clean (encode_rune u)"
  by (rule clean_encode) (auto simp: valid_rune_def surr1_def surr2_def)

lemma clean_pair: "surr1 u \<Longrightarrow> surr2 v \<Longrightarrow> clean (encode_rune ((u - 0xD800) * 1024 + (v - 0xDC00) + 0x10000))"
  by (rule clean_encode) (auto simp: valid_rune_def surr1_def surr2_def)

lemma clean_unquote: "list_all elem_ok es \<Longrightarrow> clean (unquote_elems raw es)"
  by (induction raw es rule: unquote_elems.induct)
     (auto intro!: clean_append clean_Cons clean_unit clean_pair clean_encode [OF valid_RuneError])

text \<open>
  \<open>readable n j\<close>: number literals that can be read, strings and keys in UTF-8, and at most \<open>n\<close>
  levels of nesting. Every value the decoder returns is readable at its nesting limit.
\<close>

fun readable :: "nat \<Rightarrow> json \<Rightarrow> bool" where
  "readable n (JNumber l) = number_literal l"
| "readable n (JString s) = clean s"
| "readable n (JArray vs) = (n > 0 \<and> (\<forall>v \<in> set vs. readable (n - 1) v))"
| "readable n (JObject ms) = (n > 0 \<and> (\<forall>p \<in> set ms. clean (fst p) \<and> readable (n - 1) (snd p)))"
| "readable n _ = True"

lemma readable_json: "readable n j \<Longrightarrow> json_wf j \<and> depth_le n j"
  by (induction n j rule: readable.induct) auto

fun token_ok :: "token \<Rightarrow> bool" where
  "token_ok (TStr s) = clean s"
| "token_ok (TLit j) = (\<forall>n. readable n j)"
| "token_ok _ = True"

lemma lex_ok:
  assumes "lex s = Some (t, u)"
  shows "token_ok t"
proof (cases "skip_space s")
  case Nil
  then show ?thesis using assms by (simp add: lex_def)
next
  case (Cons c r)
  then show ?thesis using assms
    by (auto simp: lex_def lex_word_def unquote_def intro: clean_unquote [OF lex_string_ok] lex_number_literal split: if_splits)
qed

definition members_ok :: "nat \<Rightarrow> (string \<times> json) list \<Rightarrow> bool" where
  "members_ok n ms \<longleftrightarrow> (\<forall>p \<in> set ms. clean (fst p) \<and> readable n (snd p))"

fun frame_ok :: "nat \<Rightarrow> frame \<Rightarrow> bool" where
  "frame_ok n (ArrF vs) = (\<forall>v \<in> set vs. readable n v)"
| "frame_ok n (ObjF ms k) = (members_ok n ms \<and> clean k)"

fun stack_ok :: "frame list \<Rightarrow> bool" where
  "stack_ok [] = True"
| "stack_ok (f # st) = (open_ok st \<and> frame_ok (maxNestingDepth - length st - 1) f \<and> stack_ok st)"

fun mode_ok :: "frame list \<Rightarrow> mode \<Rightarrow> bool" where
  "mode_ok st (AfterValue v) = readable (maxNestingDepth - length st) v"
| "mode_ok st (WantKey ms) = (open_ok st \<and> members_ok (maxNestingDepth - length st - 1) ms)"
| "mode_ok st (WantColon ms k) = (open_ok st \<and> members_ok (maxNestingDepth - length st - 1) ms \<and> clean k)"
| "mode_ok st WantKeyOrEnd = open_ok st"
| "mode_ok st _ = True"

lemma start_value_ok:
  "start_value t st = Some (m, st1) \<Longrightarrow> token_ok t \<Longrightarrow> stack_ok st \<Longrightarrow> stack_ok st1 \<and> mode_ok st1 m"
  by (cases t) (auto split: if_splits)

lemma close_array_ok:
  "stack_ok (ArrF vs # st) \<Longrightarrow> (\<And>v. v \<in> set ws \<Longrightarrow> readable (maxNestingDepth - length st - 1) v) \<Longrightarrow>
   readable (maxNestingDepth - length st) (JArray ws)"
  by (auto simp: open_ok_def)

lemma json_step_ok:
  assumes "json_step m st t = Some (m1, st1)" "token_ok t" "stack_ok st" "mode_ok st m"
  shows "stack_ok st1 \<and> mode_ok st1 m1"
proof (cases m)
  case WantValue
  then show ?thesis using assms start_value_ok by simp
next
  case WantFirst
  then show ?thesis using assms start_value_ok [of t st m1 st1]
    by (auto simp: open_ok_def split: if_splits list.splits frame.splits)
next
  case WantKeyOrEnd
  then show ?thesis using assms by (auto simp: open_ok_def members_ok_def split: token.splits)
next
  case (WantKey ms)
  then show ?thesis using assms by (auto split: token.splits)
next
  case (WantColon ms k)
  then show ?thesis using assms by (auto split: if_splits)
next
  case (AfterValue v)
  then obtain f st0 where st: "st = f # st0" using assms(1) by (auto split: list.splits)
  show ?thesis
  proof (cases f)
    case (ArrF vs)
    then show ?thesis using AfterValue st assms by (auto simp: open_ok_def split: token.splits)
  next
    case (ObjF ms k)
    then show ?thesis using AfterValue st assms by (auto simp: open_ok_def members_ok_def split: token.splits)
  qed
qed

lemma json_run_ok:
  "json_run m st s = Some (j, rest) \<Longrightarrow> stack_ok st \<Longrightarrow> mode_ok st m \<Longrightarrow> readable maxNestingDepth j"
proof (induction s arbitrary: m st rule: length_induct)
  case (1 s)
  show ?case
  proof (cases "\<exists>v. m = AfterValue v \<and> st = []")
    case True
    then show ?thesis using "1.prems" by (auto simp: json_run.simps)
  next
    case False
    then have "(case lex s of None \<Rightarrow> None | Some (t, s1) \<Rightarrow>
        (case json_step m st t of None \<Rightarrow> None | Some (m1, st1) \<Rightarrow> json_run m1 st1 s1)) = Some (j, rest)"
      using "1.prems"(1) by (subst (asm) json_run.simps) (auto split: mode.splits list.splits)
    then obtain t s1 m1 st1 where r: "lex s = Some (t, s1)" "json_step m st t = Some (m1, st1)" "json_run m1 st1 s1 = Some (j, rest)"
      by (auto split: option.splits)
    have "stack_ok st1" "mode_ok st1 m1" using json_step_ok [OF r(2) lex_ok [OF r(1)]] "1.prems" by auto
    with "1.IH" lex_less [OF r(1)] r(3) show ?thesis by blast
  qed
qed

lemma Decode_readable: "Decode s = Some (j, rest) \<Longrightarrow> readable maxNestingDepth j"
  unfolding Decode_def by (erule json_run_ok) simp_all

end
