(* ===== verification/Trigger_Config.thy ===== *)
theory Trigger_Config
  imports Trigger_Mapping Go_Json_Roundtrip
begin

text \<open>
  What a \<open>config.<key>\<close> mapping does to the agent's configuration
  (\<open>internal/trigger/mapping.go\<close>, \<open>setConfigKey\<close>): the document is decoded, one member is
  assigned and the document is printed again, so the round trip of \<open>encoding/json\<close> decides what
  the agent gets. The theory also characterises the templates on which \<open>BuildTask\<close> panics.
\<close>

section \<open>Merging a member into the configuration\<close>

text \<open>The members of an agent's configuration, the last of several with one key.\<close>

definition config_fields :: "AgentRef \<Rightarrow> (string \<times> json) list" where
  "config_fields agent = (case ar_Config agent of None \<Rightarrow> []
     | Some raw \<Rightarrow> (case Decode raw of Some (JObject ms, _) \<Rightarrow> fields_of ms | _ \<Rightarrow> []))"

lemma fields_of_distinct: "distinct (map fst ms) \<Longrightarrow> fields_of ms = ms"
proof -
  have put: "k \<notin> fst ` set acc \<Longrightarrow> put_field k v acc = acc @ [(k, v)]" for k v and acc :: "(string \<times> 'a) list"
    by (induction k v acc rule: put_field.induct) auto
  have "distinct (map fst (acc @ ms)) \<Longrightarrow> fold (\<lambda>(k, v) acc. put_field k v acc) ms acc = acc @ ms"
    for acc :: "(string \<times> 'a) list"
  proof (induction ms arbitrary: acc)
    case (Cons p ms)
    obtain k v where p: "p = (k, v)" by fastforce
    with Cons.prems have "k \<notin> fst ` set acc" by auto
    then have "put_field k v acc = acc @ [p]" by (simp add: put p)
    with Cons.IH [of "acc @ [p]"] Cons.prems p show ?case by simp
  qed simp
  from this [of "[]"] show "distinct (map fst ms) \<Longrightarrow> fields_of ms = ms" by (simp add: fields_of_def)
qed

lemma distinct_members [simp]: "distinct (map fst (members ms))"
proof -
  have "distinct (map fst (sort_key fst ms))" if "distinct (map fst ms)" for ms :: "(string \<times> 'a) list"
    using that by (metis distinct_map distinct_sort set_sort)
  then show ?thesis by (simp add: members_def sort_fields_def)
qed

lemma map_of_members [simp]: "map_of (members ms) = map_of (fields_of ms)"
proof -
  have "map_of (sort_key fst ms) = map_of ms" if "distinct (map fst ms)" for ms :: "(string \<times> 'a) list"
    using that distinct_members [of ms] by (intro map_of_inject_set [THEN iffD2]) (simp_all add: members_def sort_fields_def fields_of_distinct)
  then show ?thesis by (simp add: members_def sort_fields_def)
qed

lemma sort_key_sorted: "sorted (map f xs) \<Longrightarrow> sort_key f xs = xs"
  by (induction xs) (simp_all add: insort_is_Cons)

lemma members_idem [simp]: "members (members ms) = members ms"
proof -
  have "members (members ms) = sort_key fst (members ms)"
    using fields_of_distinct [OF distinct_members, of ms] by (simp add: members_def [of "members ms"] sort_fields_def)
  also have "\<dots> = members ms" by (rule sort_key_sorted) (simp add: members_def sort_fields_def)
  finally show ?thesis .
qed

lemma members_mem: "p \<in> set (members ms) \<Longrightarrow> p \<in> set ms"
  using set_members by blast

lemma members_map_values: "members (map_values f ms) = map_values f (members ms)"
  by (simp add: members_def fields_of_map_values sort_fields_map_values)

lemma canon_clean_object:
  assumes "\<forall>p \<in> set ms. clean (fst p)"
  shows "canon (JObject ms) = JObject (map_values canon (members ms))"
proof -
  have "map (\<lambda>(k, v). (fix_utf8 k, canon v)) (members ms) = map_values canon (members ms)"
    unfolding map_values_def by (rule map_cong) (use assms in \<open>auto simp: clean_fix dest!: members_mem\<close>)
  then show ?thesis by (simp add: canon_JObject del: canon.simps)
qed

text \<open>The canonical form is canonical.\<close>

lemma canon_idem: "readable n j \<Longrightarrow> canon (canon j) = canon j"
proof (induction n j rule: readable.induct)
  case (4 n ms)
  let ?c = "map_values canon (members ms)"
  have key: "\<forall>p \<in> set ms. clean (fst p)" using 4 by simp
  then have key': "\<forall>p \<in> set ?c. clean (fst p)" by (auto simp: map_values_def dest!: members_mem)
  have "map_values canon ?c = ?c"
    unfolding map_values_def using 4 by (auto intro!: map_cong dest!: members_mem)
  then show ?case by (simp only: canon_clean_object [OF key] canon_clean_object [OF key'] members_map_values members_idem)
qed (simp_all add: clean_fix)

text \<open>
  The configuration an agent gets, as a map from keys to values in canonical form. Assigning one
  member of the document is assigning one entry of the map.
\<close>

definition abs_config :: "AgentRef \<Rightarrow> string \<rightharpoonup> json" where
  "abs_config agent = map_option canon \<circ> map_of (config_fields agent)"

lemma map_of_map_values: "map_of (map_values f ms) = map_option f \<circ> map_of ms"
  by (induction ms) (auto simp: fun_eq_iff)

lemma Decode_Nil [simp]: "Decode [] = None"
  by code_simp

lemma setConfigKey_Done:
  assumes "setConfigKey x agent key v = Done a"
  shows "a = agent\<lparr>ar_Config := Some (Marshal (JObject (put_field key (JString v) (config_fields agent))))\<rparr>"
  using assms
  by (auto simp: setConfigKey_def decode_fields_def config_fields_def split: if_splits option.splits outcome.splits json.splits prod.splits)

lemma config_fields_readable:
  assumes "p \<in> set (config_fields agent)"
  shows "clean (fst p) \<and> readable (maxNestingDepth - 1) (snd p)"
proof -
  obtain raw where raw: "ar_Config agent = Some raw" using assms by (cases "ar_Config agent") (auto simp: config_fields_def)
  with assms obtain ms r where d: "Decode raw = Some (JObject ms, r)" "p \<in> set (fields_of ms)"
    by (cases "Decode raw") (auto simp: config_fields_def split: json.splits)
  then have "p \<in> set ms" using set_fields_of by blast
  with Decode_readable [OF d(1)] show ?thesis by auto
qed

lemma maxNestingDepth_pos: "0 < maxNestingDepth"
  by (simp add: maxNestingDepth_def)

text \<open>The document with one member assigned, printed and read back.\<close>

lemma Decode_assigned:
  assumes ms_def: "ms = put_field key (JString v) (config_fields agent)"
  shows "Decode (Marshal (JObject ms)) = Some (canon (JObject ms), [])"
proof -
  have mem: "p = (key, JString v) \<or> p \<in> set (config_fields agent)" if "p \<in> set ms" for p
    using that set_put_field_subset unfolding ms_def by fastforce
  have "json_wf (snd p) \<and> depth_le (maxNestingDepth - 1) (snd p)" if "p \<in> set ms" for p
    using mem [OF that] config_fields_readable readable_json by fastforce
  then have "json_wf (JObject ms)" "depth_le maxNestingDepth (JObject ms)" by (simp_all add: maxNestingDepth_pos)
  from Decode_Marshal [OF this, of "[]"] show ?thesis by simp
qed

lemma assigned_clean:
  assumes "clean key" "p \<in> set (put_field key v (config_fields agent))"
  shows "clean (fst p)"
  using assms set_put_field_subset [of key v "config_fields agent"] config_fields_readable by fastforce

lemma abs_config_setConfigKey:
  assumes "setConfigKey x agent key v = Done a" "clean key"
  shows "abs_config a = (abs_config agent)(key \<mapsto> JString (fix_utf8 v))"
proof -
  let ?ms = "put_field key (JString v) (config_fields agent)"
  have "config_fields a = fields_of (map_values canon (members ?ms))"
    unfolding setConfigKey_Done [OF assms(1)] config_fields_def [of "agent\<lparr>ar_Config := _\<rparr>"]
    using assigned_clean [OF assms(2)]
    by (simp add: Decode_assigned [OF refl] canon_clean_object del: Marshal.simps canon.simps)
  also have "\<dots> = map_values canon (members ?ms)"
    by (simp add: fields_of_map_values fields_of_distinct)
  finally have a: "config_fields a = map_values canon (members ?ms)" .
  have d: "distinct (map fst (config_fields agent))"
    by (auto simp: config_fields_def split: option.splits json.splits)
  have idem: "map_option canon (map_option canon (map_of (config_fields agent) k)) = map_option canon (map_of (config_fields agent) k)" for k
    by (cases "map_of (config_fields agent) k") (auto dest!: map_of_SomeD config_fields_readable simp: canon_idem)
  show ?thesis using idem
    by (auto simp: abs_config_def a map_of_map_values fields_of_distinct [OF distinct_put_field [OF d]] clean_fix fun_eq_iff)
qed

text \<open>The entries that the effective \<open>config.<key>\<close> mappings of a template assign, in order.\<close>

definition config_key :: "FieldMapping \<Rightarrow> string" where
  "config_key m = TrimPrefix (fm_To m) ''config.''"

fun config_writes :: "'w ext \<Rightarrow> string \<Rightarrow> FieldMapping list \<Rightarrow> (string \<times> json) list" where
  "config_writes x body [] = []"
| "config_writes x body (m # ms) =
     (let v = resolveMapping x body m
      in (if v \<noteq> [] \<and> HasPrefix (fm_To m) ''config.'' then [(config_key m, JString (fix_utf8 v))] else [])
         @ config_writes x body ms)"

lemma config_target:
  assumes "HasPrefix to ''config.''"
  shows "to \<noteq> ''prompt''" "to \<noteq> ''name''" "\<not> HasPrefix to ''labels.''" "\<not> HasPrefix to ''annotations.''"
  using assms by (cases to; simp add: HasPrefix_def)+

lemma applyMapping_config:
  assumes "applyMapping x task to v = Done t"
  shows "if HasPrefix to ''config.''
    then setConfigKey x (ts_Agent (task_Spec task)) (TrimPrefix to ''config.'') v = Done (ts_Agent (task_Spec t))
    else ts_Agent (task_Spec t) = ts_Agent (task_Spec task)"
proof (cases "HasPrefix to ''config.''")
  case True
  then show ?thesis using assms by (auto simp: applyMapping_def config_target mapping_setters split: outcome.splits)
next
  case False
  then show ?thesis using assms by (auto simp: applyMapping_def mapping_setters split: if_splits)
qed

lemma upd_then_add: "f(k \<mapsto> v) ++ g = f ++ ([k \<mapsto> v] ++ g)"
  by (auto simp: map_add_def fun_eq_iff split: option.splits)

lemma mapping_loop_config:
  assumes "mapping_loop x body ms task = Done t" "\<forall>p \<in> set (config_writes x body ms). clean (fst p)"
  shows "abs_config (ts_Agent (task_Spec t)) = abs_config (ts_Agent (task_Spec task)) ++ map_of (rev (config_writes x body ms))"
  using assms
proof (induction ms arbitrary: task)
  case (Cons m ms)
  let ?v = "resolveMapping x body m"
  show ?case
  proof (cases "?v = []")
    case False
    with Cons.prems obtain u where u: "applyMapping x task (fm_To m) ?v = Done u" "mapping_loop x body ms u = Done t"
      by (auto simp: Let_def split: outcome.splits)
    note here = applyMapping_config [OF u(1)]
    note rest = Cons.IH [OF u(2)]
    show ?thesis
    proof (cases "HasPrefix (fm_To m) ''config.''")
      case True
      then have "abs_config (ts_Agent (task_Spec u)) = (abs_config (ts_Agent (task_Spec task)))(config_key m \<mapsto> JString (fix_utf8 ?v))"
        using here False Cons.prems(2) by (intro abs_config_setConfigKey) (auto simp: Let_def config_key_def)
      with True False Cons.prems(2) rest show ?thesis
        by (simp add: Let_def upd_then_add [of "abs_config _"] del: fun_upd_apply map_add_assoc)
    next
      case no: False
      with here Cons.prems(2) rest show ?thesis by (auto simp: Let_def)
    qed
  qed (use Cons in \<open>auto simp: Let_def\<close>)
qed simp

text \<open>
  C25. The configuration of a Task that \<open>BuildTask\<close> returns is the template's configuration
  overridden by the values of the \<open>config.<key>\<close> mappings that resolved to a value, a later mapping
  over an earlier one. Every other entry survives the decoding and printing: numbers as written,
  nested documents up to member order. The keys of the mappings are UTF-8.
\<close>

theorem config_mappings_merge:
  assumes "BuildTask x tmpl body = Done t"
    and "\<forall>p \<in> set (config_writes x body (tt_Mappings tmpl)). fix_utf8 (fst p) = fst p"
  shows "abs_config (ts_Agent (task_Spec t)) =
    abs_config (tt_Agent tmpl) ++ map_of (rev (config_writes x body (tt_Mappings tmpl)))"
proof -
  have "mapping_loop x body (tt_Mappings tmpl) (template_task tmpl) = Done t"
    using assms(1) by (auto simp: BuildTask_def Let_def split: outcome.splits if_splits)
  moreover have "\<forall>p \<in> set (config_writes x body (tt_Mappings tmpl)). clean (fst p)"
    using assms(2) clean_fix_utf8 by metis
  ultimately show ?thesis using mapping_loop_config by (fastforce simp: template_task_def Let_def)
qed

theorem config_mappings_merge_witness:
  "BuildTask ref_ext sample_template sample_body = Done sample_built \<and>
   abs_config (ts_Agent (task_Spec sample_built)) = [''a'' \<mapsto> JNumber ''1'', ''REPO'' \<mapsto> JString ''r'']"
proof -
  have b: "BuildTask ref_ext sample_template sample_body = Done sample_built" by code_simp
  have w: "config_writes ref_ext sample_body (tt_Mappings sample_template) = [(''REPO'', JString ''r'')]" by code_simp
  have c: "config_fields (tt_Agent sample_template) = [(''a'', JNumber ''1'')]" by code_simp
  have "fix_utf8 ''REPO'' = ''REPO''" by code_simp
  then show ?thesis using b config_mappings_merge [OF b] by (simp add: w abs_config_def [of "tt_Agent _"] c)
qed

section \<open>Panics\<close>

text \<open>
  A template whose configuration is the JSON value \<open>null\<close>, and mappings of which a
  \<open>config.<key>\<close> mapping is reached: every effective mapping before it has a known target.
\<close>

definition null_config :: "AgentRef \<Rightarrow> bool" where
  "null_config agent = (case ar_Config agent of None \<Rightarrow> False
     | Some raw \<Rightarrow> (case Decode raw of Some (JNull, _) \<Rightarrow> True | _ \<Rightarrow> False))"

definition metadata_target :: "string \<Rightarrow> bool" where
  "metadata_target to \<longleftrightarrow> to = ''prompt'' \<or> to = ''name'' \<or> HasPrefix to ''labels.'' \<or> HasPrefix to ''annotations.''"

fun config_reached :: "'w ext \<Rightarrow> string \<Rightarrow> FieldMapping list \<Rightarrow> bool" where
  "config_reached x body [] = False"
| "config_reached x body (m # ms) =
     (if resolveMapping x body m = [] then config_reached x body ms
      else if HasPrefix (fm_To m) ''config.'' then config_key m \<noteq> []
      else metadata_target (fm_To m) \<and> config_reached x body ms)"

lemma setConfigKey_Panic: "setConfigKey x agent key v = Panic \<longleftrightarrow> key \<noteq> [] \<and> null_config agent"
  by (auto simp: setConfigKey_def decode_fields_def null_config_def
      split: if_splits option.splits outcome.splits json.splits prod.splits)

lemma setConfigKey_not_null: "setConfigKey x agent key v = Done a \<Longrightarrow> \<not> null_config a"
  using setConfigKey_Done [of x agent key v a] Decode_assigned [OF refl, of key v agent]
  by (simp add: null_config_def del: Marshal.simps)

lemma applyMapping_other:
  assumes "\<not> HasPrefix to ''config.''"
  shows "if metadata_target to then \<exists>t. applyMapping x task to v = Done t \<and> ts_Agent (task_Spec t) = ts_Agent (task_Spec task)
    else \<exists>e. applyMapping x task to v = Fail e"
  using assms by (auto simp: applyMapping_def metadata_target_def mapping_setters)

lemma no_null_no_panic: "\<not> null_config (ts_Agent (task_Spec task)) \<Longrightarrow> mapping_loop x body ms task \<noteq> Panic"
proof (induction ms arbitrary: task)
  case (Cons m ms)
  have "applyMapping x task (fm_To m) v \<noteq> Panic" for v
    using Cons.prems by (auto simp: applyMapping_def setConfigKey_Panic split: outcome.splits)
  moreover have "\<not> null_config (ts_Agent (task_Spec t))" if "applyMapping x task (fm_To m) v = Done t" for v t
    using applyMapping_config [OF that] Cons.prems by (auto split: if_splits dest: setConfigKey_not_null)
  ultimately show ?case using Cons by (auto simp: Let_def split: outcome.splits)
qed simp

lemma mapping_loop_Panic:
  "mapping_loop x body ms task = Panic \<longleftrightarrow> null_config (ts_Agent (task_Spec task)) \<and> config_reached x body ms"
proof (cases "null_config (ts_Agent (task_Spec task))")
  case True
  then show ?thesis
  proof (induction ms arbitrary: task)
    case (Cons m ms)
    let ?v = "resolveMapping x body m"
    consider "?v = []" | "?v \<noteq> []" "HasPrefix (fm_To m) ''config.''" | "?v \<noteq> []" "\<not> HasPrefix (fm_To m) ''config.''" by blast
    then show ?case
    proof cases
      case 2
      then have a: "applyMapping x task (fm_To m) ?v = (case setConfigKey x (ts_Agent (task_Spec task)) (config_key m) ?v of
          Done a \<Rightarrow> Done (set_agent a task) | Fail e \<Rightarrow> Fail e | Panic \<Rightarrow> Panic)"
        by (simp add: applyMapping_def config_target config_key_def)
      show ?thesis
      proof (cases "config_key m = []")
        case True
        then show ?thesis using 2 a by (simp add: setConfigKey_def)
      next
        case False
        then have "setConfigKey x (ts_Agent (task_Spec task)) (config_key m) ?v = Panic"
          using Cons.prems by (simp add: setConfigKey_Panic)
        with 2 a False Cons.prems show ?thesis by simp
      qed
    next
      case 3
      with applyMapping_other [OF 3(2), of x task ?v] Cons show ?thesis by (auto split: if_splits)
    qed (use Cons in simp)
  qed simp
qed (use no_null_no_panic in blast)

text \<open>
  C40. \<open>BuildTask\<close> panics exactly on a template whose configuration decodes to the JSON value
  \<open>null\<close> when a \<open>config.<key>\<close> mapping is reached: the decoder accepts \<open>null\<close> and leaves a nil map,
  and the assignment to it is a run-time error. On every other input it returns a Task or an error.
\<close>

theorem null_config_panics:
  "BuildTask x tmpl body = Panic \<longleftrightarrow> null_config (tt_Agent tmpl) \<and> config_reached x body (tt_Mappings tmpl)"
proof -
  have "BuildTask x tmpl body = Panic \<longleftrightarrow> mapping_loop x body (tt_Mappings tmpl) (template_task tmpl) = Panic"
    by (simp add: BuildTask_def Let_def split: outcome.splits)
  moreover have "ts_Agent (task_Spec (template_task tmpl)) = tt_Agent tmpl" by (simp add: template_task_def Let_def)
  ultimately show ?thesis by (simp only: mapping_loop_Panic)
qed

end
