(* ===== verification/Trigger_Deliveries.thy ===== *)
theory Trigger_Deliveries
  imports Trigger_Dedupe
begin

text \<open>
  Several deliveries of one event, one after the other, on an API server that keeps what it accepts.
  The log of a run then replays on the objects that the server stores, and the duplicate search
  makes sure that the deliveries together store at most one Task. Two deliveries that overlap can
  still store two (ADR-0009 accepts that race), so the deliveries here follow each other.
\<close>

section \<open>A server that keeps what it accepts\<close>

definition listed :: "kind \<Rightarrow> string option \<Rightarrow> strmap \<Rightarrow> obj \<Rightarrow> bool" where
  "listed k ns sel ob \<longleftrightarrow> kind_of ob = k \<and> (ns = None \<or> ns = Some (om_Namespace (meta_of ob))) \<and> selector_matches sel (GetLabels ob)"

text \<open>The object that the server stores for a created one: named, with its labels and namespace, and a Task starts without an outcome.\<close>

definition stored_as :: "obj \<Rightarrow> obj \<Rightarrow> bool" where
  "stored_as ob ob' \<longleftrightarrow> kind_of ob' = kind_of ob \<and> GetLabels ob' = GetLabels ob \<and>
     om_Namespace (meta_of ob') = om_Namespace (meta_of ob) \<and> om_Name (meta_of ob') \<noteq> [] \<and>
     (case ob' of OTask t \<Rightarrow> blocks t | _ \<Rightarrow> True)"

text \<open>
  What one log entry says of the stored objects before and after it. Reading stores nothing, a list is
  complete, and a creation stores its object at the end; when the answer is an error, the object may
  be stored all the same. Updates and deletions may do anything; the adapter makes none.
\<close>

definition entry_replays :: "obj list \<Rightarrow> obs \<Rightarrow> obj list \<Rightarrow> bool" where
  "entry_replays S ob S' = (case ob of
     Call c rsp \<Rightarrow> (case c of
         CGet _ _ \<Rightarrow> S' = S
       | CList k ns sel \<Rightarrow> S' = S \<and> (case rsp of RList items \<Rightarrow> items = filter (listed k ns sel) S | _ \<Rightarrow> True)
       | CListField _ _ _ \<Rightarrow> S' = S
       | CCreate d \<Rightarrow> (case rsp of
             RObj d' \<Rightarrow> stored_as d d' \<and> S' = S @ [d']
           | _ \<Rightarrow> S' = S \<or> (\<exists>d'. stored_as d d' \<and> S' = S @ [d']))
       | _ \<Rightarrow> True)
   | _ \<Rightarrow> S' = S)"

definition keeps :: "'w ext \<Rightarrow> ('w \<Rightarrow> obj list) \<Rightarrow> bool" where
  "keeps x stored \<longleftrightarrow> (\<forall>c w. entry_replays (stored w) (Call c (fst (x_api x c w))) (stored (snd (x_api x c w))))"

fun replays :: "obj list \<Rightarrow> obs list \<Rightarrow> obj list \<Rightarrow> bool" where
  "replays S [] S' \<longleftrightarrow> S' = S"
| "replays S (ob # l) S' \<longleftrightarrow> (\<exists>S1. entry_replays S ob S1 \<and> replays S1 l S')"

lemma replays_append: "replays S (a @ b) S' \<longleftrightarrow> (\<exists>S1. replays S a S1 \<and> replays S1 b S')"
  by (induction a arbitrary: S) auto

section \<open>Runs replay\<close>

definition tracks :: "('w \<Rightarrow> obj list) \<Rightarrow> ('w, 'a) op \<Rightarrow> bool" where
  "tracks stored m \<longleftrightarrow> (\<forall>s. \<exists>l. obslog (snd (run_state m s)) = obslog s @ l \<and>
     replays (stored (world s)) l (stored (world (snd (run_state m s)))))"

lemma tracks_return: "tracks stored (State_Monad.return v)"
  by (simp add: tracks_def State_Monad.return_def)

lemma tracks_bind:
  assumes "tracks stored m" and "\<And>v. tracks stored (f v)"
  shows "tracks stored (State_Monad.bind m f)"
  unfolding tracks_def
proof
  fix s
  obtain v s1 where r1: "run_state m s = (v, s1)" by fastforce
  obtain y s2 where r2: "run_state (f v) s1 = (y, s2)" by fastforce
  from assms(1) r1 obtain l1 where "obslog s1 = obslog s @ l1" "replays (stored (world s)) l1 (stored (world s1))"
    unfolding tracks_def by (metis snd_conv)
  moreover from assms(2) [of v] r2 obtain l2 where "obslog s2 = obslog s1 @ l2" "replays (stored (world s1)) l2 (stored (world s2))"
    unfolding tracks_def by (metis snd_conv)
  ultimately show "\<exists>l. obslog (snd (run_state (State_Monad.bind m f) s)) = obslog s @ l \<and>
      replays (stored (world s)) l (stored (world (snd (run_state (State_Monad.bind m f) s))))"
    by (intro exI [of _ "l1 @ l2"]) (auto simp: run_bind r1 r2 replays_append)
qed

lemma tracks_request: "keeps x stored \<Longrightarrow> tracks stored (request x c)"
  unfolding tracks_def request_def outside_def keeps_def by (auto split: prod.split) (metis fst_conv snd_conv)

lemma tracks_answer: "tracks stored (answer cls res rep)"
  unfolding answer_def ObserveWebhook_def
  by (intro tracks_bind tracks_return) (simp add: tracks_def observe_def entry_replays_def)

lemma tracks_client:
  assumes "keeps x stored"
  shows "tracks stored (client_List x k ns sel)" "tracks stored (client_Get x k key)" "tracks stored (client_Create x ob)"
  unfolding client_List_def client_Get_def client_Create_def
  by (intro tracks_bind tracks_request [OF assms] tracks_return)+

lemma tracks_ServeHTTP:
  assumes "keeps x stored"
  shows "tracks stored (ServeHTTP x h r)"
proof -
  note rules = tracks_bind tracks_return tracks_answer tracks_client [OF assms]
  have emit: "tracks stored (emit_task x ctc task)" for ctc task
    unfolding emit_task_def findActiveDuplicate_def Let_def
    by (intro rules; (auto split: option.split sum.split intro!: rules)?)
  have verified: "tracks stored (serve_verified x h ctc body)" for ctc body
    unfolding serve_verified_def Let_def by (auto split: outcome.split intro!: rules emit)
  have cls: "tracks stored (serve_class x h r ctc body)" for ctc body
    unfolding serve_class_def lookupSignatureSecret_def Let_def
    by (intro tracks_bind; (auto split: option.split sum.split intro!: rules verified)?)
  have "tracks stored (serve_body x h r body)" for body
    unfolding serve_body_def findTriggerClass_def Let_def
    by (auto split: option.split sum.split intro!: rules cls)
  then show ?thesis unfolding ServeHTTP_def by (auto split: body_read.split intro!: rules)
qed

section \<open>One delivery\<close>

lemma webhook_shape:
  assumes "webhook x h r rep l"
  shows "filter is_create l = [] \<and> list_all (granted h) l \<or>
    (\<exists>ctc task l0 d rsp cls res. admitted x h r ctc task l0 \<and> unblocked ctc task d \<and>
       l = l0 @ d @ [Call (CCreate (OTask task)) rsp, MetricWebhook cls res])"
  using assms by cases (auto simp: all_entries entry_defs dedupe_list_def)

lemma replays_reads:
  "replays S l S' \<Longrightarrow> filter is_create l = [] \<Longrightarrow> list_all (granted h) l \<Longrightarrow> S' = S"
proof (induction l arbitrary: S)
  case (Cons ob l)
  then show ?case by (cases ob) (auto simp: entry_replays_def entry_defs split: call.splits if_splits)
qed simp

text \<open>
  Requests for the same event: they reach the class \<open>ctc\<close>, and a Task that they build is for the
  namespace \<open>ns\<close> and has the duplicate selector \<open>sel\<close>.
\<close>

definition event_of ::
  "'w ext \<Rightarrow> handler \<Rightarrow> obj list \<Rightarrow> ClusterTriggerClass \<Rightarrow> string \<Rightarrow> (string \<times> string) list \<Rightarrow> http_request \<Rightarrow> bool" where
  "event_of x h S ctc ns sel r \<longleftrightarrow>
     matching_classes (route (rq_Path r)) (filter (listed KTriggerClass None None) S) = [ctc] \<and>
     (case BuildTask x (ct_Task (ctc_Spec ctc)) (rq_Body r) of
        Done t \<Rightarrow> dedupe_selector ctc (prepared x h ctc t) = Some sel \<and> task_Namespace (prepared x h ctc t) = ns
      | _ \<Rightarrow> True)"

definition named_tasks :: "obj list \<Rightarrow> bool" where
  "named_tasks S \<longleftrightarrow> list_all (\<lambda>ob. kind_of ob = KTask \<longrightarrow> om_Name (meta_of ob) \<noteq> []) S"

text \<open>The active Tasks of the event.\<close>

definition active :: "string \<Rightarrow> (string \<times> string) list \<Rightarrow> obj \<Rightarrow> bool" where
  "active ns sel ob \<longleftrightarrow> listed KTask (Some ns) (Some sel) ob \<and> (case ob of OTask t \<Rightarrow> blocks t | _ \<Rightarrow> False)"

lemma listed_own:
  assumes "dedupe_selector ctc task = Some sel" and "stored_as (OTask task) ob"
  shows "active (task_Namespace task) sel ob"
proof -
  have "selector_matches (Some sel) (task_Labels task)"
    unfolding selector_matches_map_of [OF dedupe_selector_Some(3) [OF assms(1)]] dedupe_selector_Some(1) [OF assms(1)]
    using map_get_map_of dedupe_selector_Some(2) [OF assms(1)] by auto
  moreover obtain t where "ob = OTask t" using assms(2) kind_KTask by (auto simp: stored_as_def)
  ultimately show ?thesis using assms(2) by (simp add: active_def listed_def stored_as_def GetLabels_def)
qed

lemma delivery_stores:
  assumes "keeps x stored" and "event_of x h (stored (world s)) ctc ns sel r" and "named_tasks (stored (world s))"
    and "run_state (ServeHTTP x h r) s = (rep, s')"
  shows "stored (world s') = stored (world s) \<or>
    (\<exists>ob. stored (world s') = stored (world s) @ [ob] \<and> active ns sel ob \<and> om_Name (meta_of ob) \<noteq> [] \<and> filter (active ns sel) (stored (world s)) = [])"
proof -
  let ?S = "stored (world s)" and ?S' = "stored (world s')"
  from ServeHTTP_webhook [of x h r] assms(4) obtain l where l: "obslog s' = obslog s @ l" and w: "webhook x h r rep l" by (rule emitsE)
  have rp: "replays ?S l ?S'" using tracks_ServeHTTP [OF assms(1), of h r] assms(4) l unfolding tracks_def
    by (metis same_append_eq snd_conv)
  from webhook_shape [OF w] show ?thesis
  proof (elim disjE conjE exE)
    assume "filter is_create l = []" "list_all (granted h) l"
    with replays_reads [OF rp] show ?thesis by blast
  next
    fix ctc' task l0 d rsp cls res
    assume adm: "admitted x h r ctc' task l0" and d: "unblocked ctc' task d"
      and l: "l = l0 @ d @ [Call (CCreate (OTask task)) rsp, MetricWebhook cls res]"
    from rp l obtain S1 S2 where r1: "replays ?S l0 S1" and r2: "replays S1 d S2"
      and r3: "replays S2 [Call (CCreate (OTask task)) rsp, MetricWebhook cls res] ?S'" by (auto simp: replays_append)
    have S1: "S1 = ?S" by (rule replays_reads [OF r1 admitted_entries(1) [OF adm] admitted_entries(3) [OF adm]])
    have S2: "S2 = ?S" using replays_reads [OF r2 unblocked_entries(1) [OF d] unblocked_entries(3) [OF d]] S1 by simp
    from adm r1 have "ctc' = ctc" using assms(2)
      by (auto simp: admitted_def checked_def entry_replays_def event_of_def)
    with adm assms(2) have sel: "dedupe_selector ctc task = Some sel" and ns: "task_Namespace task = ns"
      by (auto simp: admitted_def event_of_def)
    from d sel \<open>ctc' = ctc\<close> obtain obs where "d = [dedupe_list task sel (RList obs)]" and free: "first_blocking obs = []"
      by (auto simp: unblocked_def)
    with r2 S1 ns have obs: "obs = filter (listed KTask (Some ns) (Some sel)) ?S" by (auto simp: dedupe_list_def entry_replays_def)
    have "list_all (\<lambda>ob. om_Name (meta_of ob) \<noteq> []) obs" using assms(3) by (auto simp: obs named_tasks_def list_all_iff listed_def)
    from first_blocking_Nil [OF free _ this] have "filter (active ns sel) ?S = []"
      by (auto simp: obs active_def filter_empty_conv split: obj.splits)
    moreover have "?S' = ?S \<or> (\<exists>ob. stored_as (OTask task) ob \<and> ?S' = ?S @ [ob])"
      using r3 S2 by (auto simp: entry_replays_def split: resp.splits)
    ultimately show ?thesis using listed_own [OF sel] ns by (auto simp: stored_as_def)
  qed
qed

section \<open>Deliveries in sequence\<close>

fun deliver :: "'w ext \<Rightarrow> handler \<Rightarrow> http_request list \<Rightarrow> ('w, obs) sys \<Rightarrow> ('w, obs) sys" where
  "deliver x h [] s = s"
| "deliver x h (r # rs) s = deliver x h rs (snd (run_state (ServeHTTP x h r) s))"

lemma event_of_task: "kind_of ob = KTask \<Longrightarrow> event_of x h (S @ [ob]) ctc ns sel r = event_of x h S ctc ns sel r"
  by (simp add: event_of_def listed_def)

section \<open>Properties\<close>


text \<open>An in-memory server that names the Tasks it creates and takes no Task with an outcome.\<close>

definition naming_api :: "call \<Rightarrow> store \<Rightarrow> resp \<times> store" where
  "naming_api c s = (case c of
     CCreate ob \<Rightarrow>
       (let ob' = map_meta (\<lambda>m. if om_Name m = [] then m\<lparr>om_Name := om_GenerateName m @ itoa (int (length (sto_objs s)))\<rparr> else m) ob
        in if stored_as ob ob' then (RObj ob', s\<lparr>sto_objs := sto_objs s @ [ob']\<rparr>) else (RErr (Plain ''invalid''), s))
   | _ \<Rightarrow> ref_api c s)"

definition naming_ext :: "store ext" where
  "naming_ext = ref_ext\<lparr>x_api := naming_api\<rparr>"

lemma naming_keeps: "keeps naming_ext sto_objs"
proof -
  have "entry_replays (sto_objs w) (Call c (fst (naming_api c w))) (sto_objs (snd (naming_api c w)))" for c w
    by (cases c) (auto simp: naming_api_def entry_replays_def Let_def listed_def [abs_def] split: option.splits)
  then show ?thesis by (simp add: keeps_def naming_ext_def)
qed

definition delivered :: "(store, obs) sys" where
  "delivered = deliver naming_ext sample_handler [sample_request, sample_request, sample_request]
     \<lparr>world = sample_hook_store TaskPhaseCompleted, obslog = []\<rparr>"


end
