(* ===== verification/Controller_Progress.thy ===== *)
theory Controller_Progress
  imports Controller_Effects
begin

text \<open>
  Progress of the reconcile loop: a reconcile of a live Task that returns no error has either
  recorded that the Task failed, or asked to be called again because the class is missing, or
  provided everything the Task needs: the owned objects, the policy, the Job, a status that follows
  the Job, and another call within the refresh interval when host names have to be resolved again.
\<close>

section \<open>The outcomes of a reconcile without an error\<close>

text \<open>The API server accepted a status whose phase is \<open>Failed\<close>.\<close>

definition failed_recorded :: "obs list \<Rightarrow> bool" where
  "failed_recorded l \<longleftrightarrow>
     (\<exists>t u. Call (CStatusUpdate t) (RObj (OTask u)) \<in> set l \<and> st_Phase (task_Status t) = TaskPhaseFailed)"

text \<open>The class was looked up and is missing.\<close>

definition class_missing :: "'w ext \<Rightarrow> Task \<Rightarrow> obs list \<Rightarrow> bool" where
  "class_missing x task l \<longleftrightarrow>
     (\<exists>rsp e. Call (CGet KAgentClass ([], ar_Ref (ts_Agent (task_Spec task)))) rsp \<in> set l \<and>
        got_obj KAgentClass rsp = Inl e \<and> x_isNotFound x e)"

text \<open>Every owned object of the Task is in place, or not wanted.\<close>

definition all_in_place :: "'w ext \<Rightarrow> Task \<Rightarrow> ClusterAgentClass \<Rightarrow> obs list \<Rightarrow> bool" where
  "all_in_place x task agent l \<longleftrightarrow>
     upserted_or_absent x task (Some (OServiceAccount (buildServiceAccount task))) mutate_sa l \<and>
     upserted_or_absent x task (map_option ORole (BuildRole (task_Name task) (task_Namespace task)
       (pm_RBAC (ts_Permissions (task_Spec task))))) mutate_role l \<and>
     upserted_or_absent x task (map_option ORoleBinding (BuildRoleBinding (task_Name task) (task_Namespace task)
       (pm_RBAC (ts_Permissions (task_Spec task))))) mutate_rolebinding l \<and>
     policy_in_place x task (effective_egress task agent) l \<and>
     upserted_or_absent x task (map_option OConfigMap (BuildInlinePromptConfigMap (task_Name task) (task_Namespace task)
       (ts_Prompt (task_Spec task)))) mutate_configmap l \<and>
     upserted_or_absent x task (map_option OConfigMap (BuildAgentConfigMap (task_Name task) (task_Namespace task)
       (ar_Config (ts_Agent (task_Spec task))) (ac_Inputs (agc_Spec agent)))) mutate_configmap l"

text \<open>The Job of the Task was found, or the one built for it was created.\<close>

definition job_there :: "'w ext \<Rightarrow> 'w reconciler \<Rightarrow> Task \<Rightarrow> ClusterAgentClass \<Rightarrow> Job \<Rightarrow> obs list \<Rightarrow> bool" where
  "job_there x r task agent job l \<longleftrightarrow>
     (\<exists>built desired. buildJob x task agent (effective_secrets task agent) (r_JobTTLSeconds r) = Inr built \<and>
        x_setControllerReference x task (OJob built) = Inr desired \<and>
        (Call (CGet KJob (key_of desired)) (RObj (OJob job)) \<in> set l \<or>
         Call (CCreate desired) (RObj (OJob job)) \<in> set l))"

text \<open>The recorded phase is the phase of the Job, or a status with that phase was accepted.\<close>

definition status_follows :: "Task \<Rightarrow> Job \<Rightarrow> obs list \<Rightarrow> bool" where
  "status_follows task job l \<longleftrightarrow>
     st_Phase (task_Status task) = fst (derivePhase job) \<or>
     (\<exists>t u. Call (CStatusUpdate t) (RObj (OTask u)) \<in> set l \<and> st_Phase (task_Status t) = fst (derivePhase job))"

text \<open>The Task is over as far as this run knows: by its Job or by the API server's answer.\<close>

definition seen_terminal :: "Job \<Rightarrow> obs list \<Rightarrow> bool" where
  "seen_terminal job l \<longleftrightarrow>
     isTerminal (fst (derivePhase job)) \<or>
     (\<exists>t u. Call (CStatusUpdate t) (RObj (OTask u)) \<in> set l \<and> isTerminal (st_Phase (task_Status u)))"

definition refresh_due :: "'w reconciler \<Rightarrow> Task \<Rightarrow> ClusterAgentClass \<Rightarrow> bool" where
  "refresh_due r task agent \<longleftrightarrow> r_EgressRefreshInterval r > 0 \<and> HasHostnames (effective_egress task agent)"

section \<open>Failure is recorded\<close>

lemma failed_recorded_grows: "failed_recorded l \<Longrightarrow> failed_recorded (a @ l @ b)"
  by (auto simp: failed_recorded_def)

lemma got_task_Inr: "got_task r = Inr t \<Longrightarrow> r = RObj (OTask t)"
  by (auto simp: got_task_def dest!: got_obj_kind split: sum.splits obj.splits)

lemma emits_set_condition_status:
  assumes "\<And>now. Q (task\<lparr>task_Status := (task_Status task)\<lparr>
       st_Conditions := x_setStatusCondition x now (st_Conditions (task_Status task)) c\<rparr>\<rparr>) []"
  shows "emits (set_condition x task c) Q"
  unfolding set_condition_def by (intro obs_rules) (use assms in simp)

lemma markInvalid_recorded: "emits (markInvalid x r task reason msg) (\<lambda>e l. e = None \<longrightarrow> failed_recorded l)"
proof -
  have event: "emits (recordEvent r ty rs m) (\<lambda>_ _. True)" for ty rs m by (rule emits_recordEvent)
  show ?thesis unfolding markInvalid_def Let_def metrics_defs
    by (intro obs_rules emits_set_condition_status emits_weaken [OF event])
       (auto simp: failed_recorded_def set_phase_def dest!: got_task_Inr)
qed

lemma failTask_recorded: "emits (failTask x r task reason cause) (\<lambda>e l. e = None \<longrightarrow> failed_recorded l)"
  unfolding failTask_def
  by (rule emits_bind [OF markInvalid_recorded]) (auto intro!: obs_rules split: option.splits)

lemma step_failed_recorded:
  "emits (step_failed x r task st err) (\<lambda>res l. snd res = None \<longrightarrow> failed_recorded l)"
  unfolding step_failed_def metrics_defs
  by (intro obs_rules emits_weaken [OF failTask_recorded]) (auto simp: failed_recorded_def)

lemma run_steps_recorded:
  "(\<And>st. st \<in> set sts \<Longrightarrow> yields p (\<lambda>_. True) (step_run st)) \<Longrightarrow>
   emits (run_steps x r task sts) (\<lambda>v l. \<forall>res. v = Some res \<longrightarrow> snd res = None \<longrightarrow> failed_recorded l)"
proof (induction sts)
  case (Cons st sts)
  have any: "emits (step_run st) (\<lambda>_ _. True)" by (rule emits_yields [OF Cons.prems]) simp_all
  have grows: "failed_recorded l2 \<Longrightarrow> failed_recorded (l1 @ l2)" for l1 l2
    using failed_recorded_grows [of l2 l1 "[]"] by simp
  show ?case unfolding run_steps.simps
    by (rule emits_bind [OF any], rule emits_option)
       (auto intro!: emits_weaken [OF Cons.IH] Cons.prems emits_bind [OF step_failed_recorded] emits_return intro: grows)
qed (auto intro: obs_rules)

section \<open>Everything is provided\<close>

lemma all_in_place_grows: "all_in_place x task agent l \<Longrightarrow> all_in_place x task agent (a @ l @ b)"
  by (auto simp: all_in_place_def intro: upserted_grows policy_in_place_grows)

lemma steps_in_place:
  "emits (run_steps x r task (reconcile_steps x r task agent (effective_egress task agent)))
     (\<lambda>v l. v = None \<longrightarrow> all_in_place x task agent l)"
proof -
  let ?sts = "reconcile_steps x r task agent (effective_egress task agent)"
  note quiet = reconcile_steps_quiet [of _ x r task agent "effective_egress task agent"]
  from emits_conj [OF sa_step.loop_post [where st = "?sts ! 0" and r = r, OF _ _ quiet]
      emits_conj [OF role_step.loop_post [where st = "?sts ! 1" and r = r, OF _ _ quiet]
      emits_conj [OF rolebinding_step.loop_post [where st = "?sts ! 2" and r = r, OF _ _ quiet]
      emits_conj [OF netpol_step.loop_post [where st = "?sts ! 3" and r = r, OF _ _ quiet]
      emits_conj [OF prompt_step.loop_post [where st = "?sts ! 4" and r = r, OF _ _ quiet]
        config_step.loop_post [where st = "?sts ! 5" and r = r, OF _ _ quiet]]]]]]
  show ?thesis by (rule emits_weaken) (auto simp: reconcile_steps_def all_in_place_def)
qed

lemma got_job: "as_job (got_obj (kind_of ob) rsp) = Inr job \<Longrightarrow> rsp = RObj (OJob job)"
  by (auto simp: as_job_def dest!: got_obj_kind split: sum.splits obj.splits)

lemma emits_get_Job_found:
  assumes "\<And>e rsp. Q (Inl e) [Call (CGet KJob key) rsp]" and "\<And>job. Q (Inr job) [Call (CGet KJob key) (RObj (OJob job))]"
  shows "emits (get_Job x key) Q"
  unfolding get_Job_def
  by (intro obs_rules) (use assms in \<open>auto dest!: got_obj_kind split: sum.splits obj.splits\<close>)

lemma ensureJob_there:
  "emits (ensureJob x r task agent (effective_secrets task agent)) (\<lambda>v l. \<forall>job. v = Inr job \<longrightarrow> job_there x r task agent job l)"
proof (cases "buildJob x task agent (effective_secrets task agent) (r_JobTTLSeconds r)")
  case (Inr built)
  show ?thesis
  proof (cases "x_setControllerReference x task (OJob built)")
    case (Inr desired)
    with \<open>buildJob _ _ _ _ _ = _\<close> show ?thesis unfolding ensureJob_def
      by (simp, intro emits_bind_wp emits_get_Job_found)
         (auto intro!: obs_rules dest!: got_job simp: job_there_def)
  qed (use Inr in \<open>auto simp: ensureJob_def intro: obs_rules\<close>)
qed (auto simp: ensureJob_def intro: obs_rules)

lemma equalStatus_phase: "equalStatus x a b \<Longrightarrow> st_Phase a = st_Phase b"
  by (auto simp: equalStatus_def split: if_splits)

lemma observeResult_phase:
  "emits (observeResult x r task uid egress)
     (\<lambda>v l. \<forall>d t. v = Inr (d, t) \<longrightarrow> st_Phase (task_Status t) = st_Phase (task_Status task))"
  by (rule emits_yields [where p = "\<lambda>_. True" and R = "\<lambda>v. \<forall>d t. v = Inr (d, t) \<longrightarrow>
      st_Phase (task_Status t) = st_Phase (task_Status task)"], intro yields_rules)
     (auto dest: same_but_result_fields)

lemma syncStatus_follows:
  "emits (syncStatus x r task job egress) (\<lambda>v l. \<forall>d t. v = Inr (d, t) \<longrightarrow>
     status_follows task job l \<and> (isTerminal (st_Phase (task_Status t)) \<longrightarrow> seen_terminal job l))"
proof -
  obtain phase reason msg where d: "derivePhase job = (phase, reason, msg)" by (metis prod_cases3)
  have report: "emits (report_transition r q (phase, reason, msg) t) (\<lambda>_ l. True)" for q t
    by (rule emits_yields [where p = "\<lambda>_. True" and R = "\<lambda>_. True"], intro yields_rules) auto
  show ?thesis unfolding syncStatus_def Let_def d prod.case
    by (intro emits_bind_wp emits_set_condition_status emits_weaken [OF observeResult_phase],
        auto intro!: obs_rules emits_weaken [OF report] dest!: got_task_Inr equalStatus_phase
         simp: status_follows_def seen_terminal_def job_status_onto_def d, blast+)
qed

section \<open>Requeues\<close>

lemma minRequeue_nonneg: "0 \<le> a \<Longrightarrow> 0 \<le> minRequeue a b"
  by (simp add: minRequeue_def)

lemma minRequeue_refresh: "0 \<le> a \<Longrightarrow> 0 < i \<Longrightarrow> 0 < minRequeue a i \<and> minRequeue a i \<le> i"
  by (auto simp: minRequeue_def)

text \<open>What a reconcile that got as far as the Job has done when it returns \<open>rq\<close> and no error.\<close>

definition job_served :: "'w ext \<Rightarrow> 'w reconciler \<Rightarrow> Task \<Rightarrow> ClusterAgentClass \<Rightarrow> duration \<Rightarrow> obs list \<Rightarrow> bool" where
  "job_served x r task agent rq l \<longleftrightarrow>
     (\<exists>job. job_there x r task agent job l \<and> status_follows task job l \<and>
        (refresh_due r task agent \<longrightarrow> seen_terminal job l \<or> 0 < rq \<and> rq \<le> r_EgressRefreshInterval r))"

lemma job_served_grows: "job_served x r task agent rq l \<Longrightarrow> job_served x r task agent rq (a @ l @ b)"
  unfolding job_served_def job_there_def status_follows_def seen_terminal_def by auto

lemma reconcile_job_served:
  "emits (reconcile_job x r task agent)
     (\<lambda>res l. snd res = None \<longrightarrow> failed_recorded l \<or> job_served x r task agent (fst res) l)"
proof -
  have sync: "emits (do {
         sy \<leftarrow> syncStatus x r task job (effective_egress task agent);
         case sy of
           Inl err \<Rightarrow> do {
             ObserveReconcileError StepStatus;
             State_Monad.return (0, Some err) }
         | Inr (requeue, task') \<Rightarrow>
             State_Monad.return
               (let res = minRequeue 0 requeue
                in if r_EgressRefreshInterval r > 0 \<and> \<not> isTerminal (st_Phase (task_Status task')) \<and>
                      HasHostnames (effective_egress task agent)
                   then minRequeue res (r_EgressRefreshInterval r) else res, None) })
      (\<lambda>res l. snd res = None \<longrightarrow> job_served x r task agent (fst res) (l1 @ l))"
    if "job_there x r task agent job l1" for job l1
  proof (rule emits_bind [OF syncStatus_follows], rule emits_sum)
    fix v :: "gerr + duration \<times> Task" and l2 :: "obs list" and y
    assume l2: "\<forall>d t. v = Inr (d, t) \<longrightarrow>
      status_follows task job l2 \<and> (isTerminal (st_Phase (task_Status t)) \<longrightarrow> seen_terminal job l2)" and v: "v = Inr y"
    obtain q t where y: "y = (q, t)" by fastforce
    have "job_there x r task agent job (l1 @ l2)" "status_follows task job (l1 @ l2)"
      "isTerminal (st_Phase (task_Status t)) \<Longrightarrow> seen_terminal job (l1 @ l2)"
      using that l2 v y by (auto simp: job_there_def status_follows_def seen_terminal_def)
    then show "emits (case y of (requeue, task') \<Rightarrow> State_Monad.return
               (let res = minRequeue 0 requeue
                in if r_EgressRefreshInterval r > 0 \<and> \<not> isTerminal (st_Phase (task_Status task')) \<and>
                      HasHostnames (effective_egress task agent)
                   then minRequeue res (r_EgressRefreshInterval r) else res, None))
      (\<lambda>res l3. snd res = None \<longrightarrow> job_served x r task agent (fst res) (l1 @ l2 @ l3))"
      using minRequeue_refresh [OF minRequeue_nonneg [of 0 q], of "r_EgressRefreshInterval r"]
      by (auto intro!: emits_return simp: y job_served_def refresh_due_def Let_def)
  qed (auto intro!: obs_rules simp: metrics_defs)
  have fail: "emits (do {
         ObserveReconcileError StepJob;
         if IsPermanent err then do {
           f \<leftarrow> failTask x r task reasonInvalidSpec err;
           State_Monad.return (0, f) }
         else State_Monad.return (0, Some (Wrapped ''ensure job'' err)) })
       (\<lambda>res l. snd res = None \<longrightarrow> failed_recorded (l1 @ l))" for err l1
    unfolding metrics_defs by (intro obs_rules emits_weaken [OF failTask_recorded]) (auto simp: failed_recorded_def)
  show ?thesis unfolding reconcile_job_def
    by (rule emits_bind [OF ensureJob_there], rule emits_sum, rule emits_weaken [OF fail], blast,
        rule emits_weaken [OF sync]) auto
qed

text \<open>The three outcomes of a reconcile of a live Task without an error.\<close>

definition reconciled :: "'w ext \<Rightarrow> 'w reconciler \<Rightarrow> Task \<Rightarrow> duration \<Rightarrow> obs list \<Rightarrow> bool" where
  "reconciled x r task rq l \<longleftrightarrow>
     failed_recorded l \<or>
     class_missing x task l \<and> rq = agentClassMissingRequeue \<or>
     (\<exists>agent. all_in_place x task agent l \<and> job_served x r task agent rq l)"

lemma provided:
  "emits (do {
      stopped \<leftarrow> run_steps x r task (reconcile_steps x r task agent (effective_egress task agent));
      case stopped of Some res \<Rightarrow> State_Monad.return res | None \<Rightarrow> reconcile_job x r task agent })
     (\<lambda>res l. snd res = None \<longrightarrow> failed_recorded l \<or> all_in_place x task agent l \<and> job_served x r task agent (fst res) l)"
proof (rule emits_bind [OF emits_conj [OF steps_in_place run_steps_recorded [OF reconcile_steps_quiet]]], assumption, rule emits_option)
  fix v l1 assume l1: "(v = None \<longrightarrow> all_in_place x task agent l1) \<and>
      (\<forall>res. v = Some res \<longrightarrow> snd res = None \<longrightarrow> failed_recorded l1)" and v: "v = None"
  show "emits (reconcile_job x r task agent) (\<lambda>res l2. snd res = None \<longrightarrow>
      failed_recorded (l1 @ l2) \<or> all_in_place x task agent (l1 @ l2) \<and> job_served x r task agent (fst res) (l1 @ l2))"
    using l1 v all_in_place_grows [of x task agent l1 "[]"] failed_recorded_grows [of _ l1 "[]"] job_served_grows [of x r task agent _ _ l1 "[]"]
    by (intro emits_weaken [OF reconcile_job_served]) auto
qed (auto intro: emits_return)

lemma emits_get_AgentClass_found:
  assumes "\<And>e rsp. got_obj KAgentClass rsp = Inl e \<Longrightarrow> Q (Inl e) [Call (CGet KAgentClass ([], n)) rsp]"
    and "\<And>a rsp. Q (Inr a) [Call (CGet KAgentClass ([], n)) rsp]"
  shows "emits (get_AgentClass x n) Q"
  unfolding get_AgentClass_def
  by (intro obs_rules) (use assms in \<open>auto dest: got_obj_kind split: sum.splits obj.splits\<close>)

lemma reconcile_live_reconciled:
  "emits (reconcile_live x r task) (\<lambda>res l. snd res = None \<longrightarrow> reconciled x r task (fst res) l)"
proof (cases "validateTask x task")
  case (Some err)
  show ?thesis unfolding reconcile_live_def Some option.case metrics_defs
    by (intro obs_rules emits_weaken [OF failTask_recorded]) (auto simp: reconciled_def failed_recorded_def)
next
  case None
  have waiting: "emits (markWaitingForAgentClass x r task) (\<lambda>_ _. True)"
    by (rule emits_yields [where p = "\<lambda>_. True" and R = "\<lambda>_. True"], intro yields_rules) auto
  show ?thesis unfolding reconcile_live_def None option.case metrics_defs
  proof (rule emits_bind_wp, rule emits_get_AgentClass_found, goal_cases)
    case (1 e rsp)
    then show ?case
      by (auto intro!: obs_rules emits_weaken [OF waiting] simp: reconciled_def class_missing_def split: option.splits)
  next
    case (2 agent rsp)
    have grow: "reconciled x r task rq ([o1] @ l)" if "failed_recorded l \<or> all_in_place x task agent l \<and> job_served x r task agent rq l" for rq o1 l
      using that failed_recorded_grows [of l "[o1]" "[]"] all_in_place_grows [of x task agent l "[o1]" "[]"]
        job_served_grows [of x r task agent rq l "[o1]" "[]"] unfolding reconciled_def by auto
    then show ?case by (auto intro!: emits_weaken [OF provided])
  qed
qed

lemma reconcile_task_reconciled:
  "emits (reconcile_task x r task) (\<lambda>res l. \<not> isTerminal (st_Phase (task_Status task)) \<longrightarrow>
     snd res = None \<longrightarrow> reconciled x r task (fst res) l)"
proof (cases "isTerminal (st_Phase (task_Status task))")
  case True
  then show ?thesis using reconcile_terminal_ok [of x task r]
    by (auto simp: reconcile_task_def emits_only_def intro: emits_weaken)
qed (simp add: reconcile_task_def reconcile_live_reconciled)

section \<open>Properties\<close>

text \<open>
  C4. No live Task is left behind. When \<open>Reconcile\<close> returns without an error (with an error the
  work queue calls it again), the Task it read has one of three outcomes, for every behaviour of
  the API server, the resolver and the clock. A \<open>Failed\<close> status was accepted; or its class is missing
  and the next call is due in thirty seconds; or every owned object it needs is in place, its Job
  was found or created, the recorded phase follows the Job, and, when its allowlist has host names
  and the Task is not over, the next call is due within the refresh interval.
\<close>

theorem no_task_left_behind:
  assumes "run_state (Reconcile x r req) s = ((rq, None), s')"
    and "obslog s' = obslog s @ Call (CGet KTask req) (RObj (OTask task)) # l"
    and "\<not> isTerminal (st_Phase (task_Status task))"
  shows "failed_recorded l \<or>
    class_missing x task l \<and> rq = agentClassMissingRequeue \<or>
    (\<exists>agent. all_in_place x task agent l \<and> job_served x r task agent rq l)"
proof -
  from Reconcile_emits [OF reconcile_task_reconciled] assms(1) obtain l0 where l0: "obslog s' = obslog s @ l0"
    and "\<exists>rsp l'. l0 = Call (CGet KTask req) rsp # l' \<and> (case rsp of RObj (OTask task) \<Rightarrow>
       \<not> isTerminal (st_Phase (task_Status task)) \<longrightarrow> snd (rq, None :: gerr option) = None \<longrightarrow> reconciled x r task (fst (rq, None :: gerr option)) l'
     | _ \<Rightarrow> l' = [])"
    by (rule emitsE)
  with assms(2,3) have "reconciled x r task rq l" by auto
  then show ?thesis by (simp add: reconciled_def)
qed

text \<open>A Task with a host name in its allowlist, and a run on it.\<close>

definition named_store :: store where
  "named_store = \<lparr>sto_objs = [OTask (sample_task\<lparr>task_Spec := (task_Spec sample_task)\<lparr>ts_Permissions :=
      (ts_Permissions (task_Spec sample_task))\<lparr>pm_Egress := [''a.example'']\<rparr>\<rparr>\<rparr>), OAgentClass sample_agent],
     sto_hosts = [(''a.example'', [''10.0.0.7''])], sto_now = 1000\<rparr>"

definition named_run :: "reconcile_result \<times> (store, obs) sys" where
  "named_run = run_state (Reconcile ref_ext sample_reconciler (''ns'', ''t'')) \<lparr>world = named_store, obslog = []\<rparr>"

definition named_task :: Task where
  "named_task = (case sto_objs named_store of OTask t # _ \<Rightarrow> t | _ \<Rightarrow> sample_task)"

theorem no_task_left_behind_witness:
  "fst named_run = (60 * Second, None) \<and> refresh_due sample_reconciler named_task sample_agent \<and>
   (\<exists>agent. all_in_place ref_ext named_task agent (tl (obslog (snd named_run))) \<and>
     job_served ref_ext sample_reconciler named_task agent (60 * Second) (tl (obslog (snd named_run))))"
proof -
  let ?l = "obslog (snd named_run)"
  have res: "fst named_run = (60 * Second, None)" by code_simp
  have hd: "hd ?l = Call (CGet KTask (''ns'', ''t'')) (RObj (OTask named_task))" "?l \<noteq> []" by code_simp+
  then have l: "?l = [] @ Call (CGet KTask (''ns'', ''t'')) (RObj (OTask named_task)) # tl ?l" by (cases ?l) auto
  have live: "\<not> isTerminal (st_Phase (task_Status named_task))" by code_simp
  have due: "refresh_due sample_reconciler named_task sample_agent" by code_simp
  have fine: "list_all (\<lambda>ob. case ob of Call (CStatusUpdate t) _ \<Rightarrow> st_Phase (task_Status t) \<noteq> TaskPhaseFailed | _ \<Rightarrow> True) (tl ?l)"
    by code_simp
  then have "\<not> failed_recorded (tl ?l)" by (auto simp: failed_recorded_def list_all_iff)
  moreover have "(60 * Second :: duration) \<noteq> agentClassMissingRequeue" by simp
  moreover have "run_state (Reconcile ref_ext sample_reconciler (''ns'', ''t'')) \<lparr>world = named_store, obslog = []\<rparr> =
      ((60 * Second, None), snd named_run)" using res by (metis named_run_def prod.collapse)
  ultimately show ?thesis using no_task_left_behind [of ref_ext sample_reconciler "(''ns'', ''t'')" _ "60 * Second" "snd named_run" named_task "tl ?l"] l live res due
    by fastforce
qed

end
