(* ===== verification/Controller_Reports.thy ===== *)
theory Controller_Reports
  imports Controller_Progress
begin

text \<open>
  What the controller reports: metrics and Events. A transition is reported only after the API
  server accepted the status that makes it, at most once per reconcile, and with label values from
  a fixed set, so that a conflict never counts a transition twice and no input of a user becomes a
  time series of its own.
\<close>

section \<open>Write first, then report\<close>

definition is_report :: "obs \<Rightarrow> bool" where
  "is_report ob = (case ob of MetricPhase _ _ \<Rightarrow> True | MetricDuration _ _ \<Rightarrow> True | Event _ _ _ \<Rightarrow> True | _ \<Rightarrow> False)"

definition is_transition :: "obs \<Rightarrow> bool" where
  "is_transition ob = (case ob of MetricPhase _ _ \<Rightarrow> True | _ \<Rightarrow> False)"

definition accepted_status :: "obs \<Rightarrow> bool" where
  "accepted_status ob = (case ob of Call (CStatusUpdate _) (RObj (OTask _)) \<Rightarrow> True | _ \<Rightarrow> False)"

text \<open>Every report has an accepted status before it; \<open>w\<close> says whether there is one already.\<close>

fun write_first :: "bool \<Rightarrow> obs list \<Rightarrow> bool" where
  "write_first w [] = True"
| "write_first w (ob # l) = ((is_report ob \<longrightarrow> w) \<and> write_first (w \<or> accepted_status ob) l)"

lemma write_first_append:
  "write_first w (a @ b) \<longleftrightarrow> write_first w a \<and> write_first (w \<or> list_ex accepted_status a) b"
  by (induction w a rule: write_first.induct) auto

lemma write_first_True [simp]: "write_first True l"
  by (induction l) auto

lemma write_first_silent: "list_all (\<lambda>ob. \<not> is_report ob) l \<Longrightarrow> write_first w l"
  by (induction w l rule: write_first.induct) auto

lemma write_first_mono: "write_first False l \<Longrightarrow> write_first w l"
  by (cases w) simp_all

lemma write_firstD:
  "write_first w (l1 @ ob # l2) \<Longrightarrow> is_report ob \<Longrightarrow> w \<or> list_ex accepted_status l1"
  by (simp add: write_first_append)

lemma report_simps [simp]:
  "\<not> is_report (Call c rsp)" "\<not> is_report (Dns h ans)" "\<not> is_report (MetricReconcileError st)" "is_report (MetricPhase ph rs)"
  "is_report (MetricDuration ph secs)" "is_report (Event ty rs msg)"
  "is_transition (MetricPhase ph rs)" "\<not> is_transition (Call c rsp)" "\<not> is_transition (Dns h ans)"
  "\<not> is_transition (MetricReconcileError st)" "\<not> is_transition (MetricDuration ph secs)" "\<not> is_transition (Event ty rs msg)"
  by (simp_all add: is_report_def is_transition_def)

lemma accepted_status_simps [simp]:
  "accepted_status (Call (CStatusUpdate t) (RObj (OTask u)))" "\<not> accepted_status (MetricReconcileError st)"
  by (simp_all add: accepted_status_def)

text \<open>At most one transition is counted.\<close>

definition transitions :: "obs list \<Rightarrow> nat" where
  "transitions l = length (filter is_transition l)"

lemma transitions_simps [simp]:
  "transitions [] = 0" "transitions (ob # l) = (if is_transition ob then 1 else 0) + transitions l"
  "transitions (a @ b) = transitions a + transitions b"
  by (simp_all add: transitions_def)

lemma transitions_silent: "list_all (\<lambda>ob. \<not> is_report ob) l \<Longrightarrow> transitions l = 0"
  by (induction l) (auto simp: is_report_def is_transition_def split: obs.splits)

definition reported :: "obs list \<Rightarrow> bool" where
  "reported l \<longleftrightarrow> write_first False l \<and> transitions l \<le> 1"

definition silent_log :: "obs list \<Rightarrow> bool" where
  "silent_log l \<longleftrightarrow> list_all (\<lambda>ob. \<not> is_report ob) l"

lemma silent_writes: "silent_log l \<Longrightarrow> write_first w l" "silent_log l \<Longrightarrow> transitions l = 0"
  by (simp_all add: silent_log_def write_first_silent transitions_silent)

lemma silent_reported: "silent_log a \<Longrightarrow> reported b \<Longrightarrow> reported (a @ b)"
  by (simp add: reported_def write_first_append silent_writes write_first_mono)

lemma silent_log_simps [simp]: "silent_log []" "silent_log (ob # l) \<longleftrightarrow> \<not> is_report ob \<and> silent_log l"
  "silent_log (a @ b) \<longleftrightarrow> silent_log a \<and> silent_log b"
  by (simp_all add: silent_log_def)

lemma silent_is_reported: "silent_log l \<Longrightarrow> reported l"
  using silent_reported [of l "[]"] by (simp add: reported_def)

section \<open>The operations that report\<close>

interpretation silent: routine "\<lambda>ob. \<not> is_report ob"
  by unfold_locales simp_all

lemma emits_unreported: "yields (\<lambda>ob. \<not> is_report ob) R m \<Longrightarrow> emits m (\<lambda>_ l. silent_log l)"
  by (erule emits_yields) (simp add: silent_log_def)

lemma emits_Event: "Q () [] \<Longrightarrow> Q () [Event ty rs m] \<Longrightarrow> emits (recordEvent r ty rs m) Q"
  unfolding recordEvent_def by (intro obs_rules)

lemma markInvalid_reported: "emits (markInvalid x r task reason msg) (\<lambda>_ l. reported l)"
  unfolding markInvalid_def Let_def metrics_defs
  by (intro obs_rules emits_set_condition_status emits_Event) (auto simp: reported_def dest!: got_task_Inr)

lemma failTask_reported: "emits (failTask x r task reason cause) (\<lambda>_ l. reported l)"
  unfolding failTask_def by (intro obs_rules emits_weaken [OF markInvalid_reported]) simp_all

lemma markWaiting_reported: "emits (markWaitingForAgentClass x r task) (\<lambda>_ l. reported l)"
  unfolding markWaitingForAgentClass_def Let_def
  by (intro obs_rules emits_set_condition_status emits_Event) (auto simp: reported_def dest!: got_task_Inr)

lemma report_transition_once: "emits (report_transition r q p t) (\<lambda>_ l. transitions l \<le> 1)"
  unfolding report_transition_def metrics_defs
  by (cases p) (auto intro!: obs_rules emits_Event split: option.split)

lemma observeResult_silent: "emits (observeResult x r task uid egress) (\<lambda>_ l. silent_log l)"
  by (rule emits_unreported [where R = "\<lambda>_. True"], intro yields_rules) auto

lemma syncStatus_reported: "emits (syncStatus x r task job egress) (\<lambda>_ l. reported l)"
proof -
  obtain phase reason msg where d: "derivePhase job = (phase, reason, msg)" by (metis prod_cases3)
  show ?thesis unfolding syncStatus_def Let_def d prod.case
    by (intro emits_bind_wp emits_set_condition_status emits_weaken [OF observeResult_silent])
       (auto intro!: obs_rules emits_weaken [OF report_transition_once] dest!: got_task_Inr
         simp: reported_def write_first_append silent_writes)
qed

lemma reported_error [simp]: "reported (MetricReconcileError st # l) \<longleftrightarrow> reported l"
  by (simp add: reported_def)

lemma reported_silent: "reported a \<Longrightarrow> silent_log b \<Longrightarrow> reported (a @ b)"
  by (simp add: reported_def write_first_append silent_writes)

lemma reported_between: "silent_log a \<Longrightarrow> reported b \<Longrightarrow> silent_log c \<Longrightarrow> reported (a @ b @ c)"
  by (intro silent_reported reported_silent)

lemma step_failed_reported: "emits (step_failed x r task st err) (\<lambda>_ l. reported l)"
  unfolding step_failed_def metrics_defs
  by (intro obs_rules emits_weaken [OF failTask_reported]) (auto intro: silent_is_reported)

lemma run_steps_reported:
  "(\<And>st. st \<in> set sts \<Longrightarrow> emits (step_run st) (\<lambda>_ l. silent_log l)) \<Longrightarrow>
   emits (run_steps x r task sts) (\<lambda>v l. if v = None then silent_log l else reported l)"
proof (induction sts)
  case (Cons st sts)
  show ?case unfolding run_steps.simps
    by (rule emits_bind [OF Cons.prems], simp, rule emits_option, rule emits_weaken [OF Cons.IH])
       (auto intro!: Cons.prems emits_bind [OF step_failed_reported] emits_return intro: silent_reported split: if_splits)
qed (auto intro: obs_rules)

lemma reconcile_job_reported: "emits (reconcile_job x r task agent) (\<lambda>_ l. reported l)"
  unfolding reconcile_job_def metrics_defs
  by (rule emits_bind [OF emits_unreported [OF silent.job_runs]], rule emits_sum)
     (auto intro!: obs_rules emits_bind [OF failTask_reported] emits_bind [OF syncStatus_reported]
       intro: silent_reported silent_is_reported reported_between)

lemma provided_reported:
  "emits (do {
      stopped \<leftarrow> run_steps x r task (reconcile_steps x r task agent egress);
      case stopped of Some res \<Rightarrow> State_Monad.return res | None \<Rightarrow> reconcile_job x r task agent }) (\<lambda>_ l. reported l)"
  by (rule emits_bind [OF run_steps_reported [OF emits_unreported [OF silent.step_runs]]], assumption, rule emits_option)
     (auto intro!: emits_return emits_weaken [OF reconcile_job_reported] intro: silent_reported split: if_splits)

lemma reconcile_live_reported: "emits (reconcile_live x r task) (\<lambda>_ l. reported l)"
proof (cases "validateTask x task")
  case (Some err)
  show ?thesis unfolding reconcile_live_def Some option.case metrics_defs
    by (intro obs_rules emits_weaken [OF failTask_reported]) auto
next
  case None
  show ?thesis unfolding reconcile_live_def None option.case metrics_defs
    by (rule emits_bind [OF emits_unreported [OF silent.agent_runs]], rule emits_sum)
       (auto intro!: obs_rules emits_bind [OF markWaiting_reported] emits_weaken [OF provided_reported]
         intro: silent_reported silent_is_reported reported_between)
qed

section \<open>Label values\<close>

text \<open>The phase and reason pairs of a counted transition.\<close>

definition transition_labels :: "(TaskPhase \<times> string) list" where
  "transition_labels = [(TaskPhaseFailed, reasonInvalidSpec), (TaskPhaseFailed, reasonEgressResolveFail),
     (TaskPhasePending, reasonPending), (TaskPhasePending, reasonSuspended), (TaskPhaseRunning, reasonRunning),
     (TaskPhaseCompleted, reasonCompleted), (TaskPhaseFailed, reasonFailed), (TaskPhaseTimedOut, reasonTimedOut)]"

definition labels_ok :: "Task \<Rightarrow> obs \<Rightarrow> bool" where
  "labels_ok task ob = (case ob of
     MetricPhase ph rs \<Rightarrow> (ph, rs) \<in> set transition_labels \<and> ph \<noteq> st_Phase (task_Status task)
   | MetricReconcileError st \<Rightarrow> st \<in> set reconcile_step_names
   | MetricDuration ph _ \<Rightarrow> isTerminal ph
   | _ \<Rightarrow> True)"

lemma labels_ok_simps [simp]:
  "labels_ok task (Call c rsp)" "labels_ok task (Dns h ans)" "labels_ok task (Event ty rs msg)"
  "labels_ok task (MetricPhase ph rs) \<longleftrightarrow> (ph, rs) \<in> set transition_labels \<and> ph \<noteq> st_Phase (task_Status task)"
  "labels_ok task (MetricReconcileError st) \<longleftrightarrow> st \<in> set reconcile_step_names"
  "labels_ok task (MetricDuration ph secs) \<longleftrightarrow> isTerminal ph"
  by (simp_all add: labels_ok_def)

interpretation labels: routine "labels_ok task"
  by unfold_locales simp_all

lemma derivePhase_labels: "derivePhase job = (ph, rs, msg) \<Longrightarrow> (ph, rs) \<in> set transition_labels"
proof -
  have "derive_loop cs = Some (ph, rs, msg) \<Longrightarrow> (ph, rs) \<in> set transition_labels" for cs
    by (induction cs) (auto simp: transition_labels_def split: if_splits)
  then show "derivePhase job = (ph, rs, msg) \<Longrightarrow> (ph, rs) \<in> set transition_labels"
    by (auto simp: derivePhase_def transition_labels_def split: option.splits if_splits)
qed

lemma syncStatus_labels: "(\<And>v. R v) \<Longrightarrow> yields (labels_ok task) R (syncStatus x r task job egress)"
proof -
  assume R: "R v" for v
  obtain phase reason msg where d: "derivePhase job = (phase, reason, msg)" by (metis prod_cases3)
  show ?thesis unfolding syncStatus_def Let_def d prod.case by (intro yields_rules) (auto simp: derivePhase_labels [OF d] R)
qed

lemma step_failed_labels:
  "step_metricsStep st \<in> set reconcile_step_names \<Longrightarrow> step_invalidReason st \<in> {[], reasonEgressResolveFail} \<Longrightarrow>
   yields (labels_ok task) (\<lambda>_. True) (step_failed x r task st err)"
  unfolding step_failed_def by (intro yields_rules) (auto simp: transition_labels_def)

lemma reconcile_live_labels: "yields (labels_ok task) (\<lambda>_. True) (reconcile_live x r task)"
proof -
  have job: "yields (labels_ok task) (\<lambda>_. True) (reconcile_job x r task agent)" for agent
    unfolding reconcile_job_def
    by (intro yields_bind [OF labels.job_runs] yields_rules syncStatus_labels)
       (auto simp: reconcile_step_names_def transition_labels_def)
  have "yields (labels_ok task) (\<lambda>_. True) (run_steps x r task (reconcile_steps x r task agent egress))" for agent egress
    by (rule run_steps_yields [OF labels.step_runs step_failed_labels]) (auto simp: reconcile_steps_def reconcile_step_names_def)
  then have steps: "yields (labels_ok task) (\<lambda>stopped. yields (labels_ok task) (\<lambda>_. True)
      (case stopped of None \<Rightarrow> reconcile_job x r task agent | Some res \<Rightarrow> State_Monad.return res))
      (run_steps x r task (reconcile_steps x r task agent egress))" for agent egress
    by (rule yields_weaken) (intro yields_rules job; simp)
  show ?thesis unfolding reconcile_live_def
    by (intro yields_option yields_bind [OF labels.agent_runs] yields_sum yields_rules)
       (auto intro: steps simp: reconcile_step_names_def transition_labels_def)
qed

lemma reconcile_terminal_silent:
  "yields (\<lambda>ob. \<not> is_report ob \<and> labels_ok task ob) (\<lambda>_. True) (reconcile_terminal x r task)"
  unfolding reconcile_terminal_def recordTerminalResult_def collectTerminal_def Let_def
  by (intro yields_rules) (auto simp: reconcile_step_names_def)

lemma reconcile_task_reports: "emits (reconcile_task x r task) (\<lambda>_ l. reported l \<and> list_all (labels_ok task) l)"
proof (cases "isTerminal (st_Phase (task_Status task))")
  case True
  then show ?thesis unfolding reconcile_task_def
    by (auto intro!: emits_yields [OF reconcile_terminal_silent] silent_is_reported simp: silent_log_def list_all_iff)
next
  case False
  have "emits (reconcile_live x r task) (\<lambda>_ l. list_all (labels_ok task) l)" by (rule emits_yields [OF reconcile_live_labels])
  from emits_conj [OF reconcile_live_reported this] False show ?thesis by (simp add: reconcile_task_def)
qed

section \<open>Properties\<close>

text \<open>
  C13. Reports follow writes. In a run of \<open>Reconcile\<close>, whatever the API server, the resolver and
  the clock do, a phase metric, a duration metric or an Event comes only after the server
  accepted a status write of the same run, and at most one transition is counted; so a conflict or
  a retry never counts a transition twice. The labels of every metric come from fixed lists: a
  counted transition has one of eight phase and reason pairs and a phase other than the recorded
  one, a failed step is one of the ten step names, and a duration is observed for a terminal phase only.
\<close>

theorem reports_follow_writes:
  assumes "run_state (Reconcile x r req) s = (res, s')"
    and "obslog s' = obslog s @ Call (CGet KTask req) (RObj (OTask task)) # l"
  shows "(\<forall>l1 ob l2. l = l1 @ ob # l2 \<longrightarrow> is_report ob \<longrightarrow> list_ex accepted_status l1) \<and>
    length (filter is_transition l) \<le> 1 \<and> list_all (labels_ok task) l"
proof -
  from Reconcile_log [OF assms reconcile_task_reports] have l: "write_first False l" "transitions l \<le> 1"
    "list_all (labels_ok task) l" by (simp_all add: reported_def)
  then show ?thesis using write_firstD [of False] by (auto simp: transitions_def)
qed

theorem reports_follow_writes_witness:
  "length (filter is_transition (tl sample_log)) = 1 \<and> list_all (labels_ok sample_task) (tl sample_log) \<and>
   (\<exists>l1 ob l2. tl sample_log = l1 @ ob # l2 \<and> is_report ob \<and> list_ex accepted_status l1)"
proof -
  let ?run = "run_state (Reconcile ref_ext sample_reconciler (''ns'', ''t'')) sample_state"
  have run: "?run = (fst ?run, snd ?run)" by simp
  have log: "obslog (snd ?run) = obslog sample_state @ Call (CGet KTask (''ns'', ''t'')) (RObj (OTask sample_task)) # tl sample_log"
    using sample_log_split by (simp add: sample_log_def sample_state_def)
  have one: "length (filter is_transition (tl sample_log)) = 1" by code_simp
  then have "filter is_transition (tl sample_log) \<noteq> []" by (cases "filter is_transition (tl sample_log)") simp_all
  then obtain ob where "ob \<in> set (tl sample_log)" "is_transition ob" by (auto simp: filter_empty_conv)
  then obtain l1 l2 where "tl sample_log = l1 @ ob # l2" "is_report ob"
    by (auto dest!: split_list simp: is_transition_def is_report_def split: obs.splits)
  with reports_follow_writes [OF run log] one show ?thesis by blast
qed

end
