(* ===== verification/Controller_Wait.thy ===== *)
theory Controller_Wait
  imports Controller_Progress
begin

text \<open>
  The wait for the Result ends: the controller looks for the message of the agent's pod every five
  seconds, and once the waiting time is over the next reconcile that succeeds records a decision.
\<close>

section \<open>A decision\<close>

text \<open>The status has a Result condition now, and had none before.\<close>

definition newly_decided :: "'w ext \<Rightarrow> Task \<Rightarrow> Task \<Rightarrow> bool" where
  "newly_decided x task t \<longleftrightarrow> resultDecided x t \<and>
     length (st_Conditions (task_Status t)) = Suc (length (st_Conditions (task_Status task)))"

definition decision_accepted :: "'w ext \<Rightarrow> obs list \<Rightarrow> bool" where
  "decision_accepted x l \<longleftrightarrow> (\<exists>t u. Call (CStatusUpdate t) (RObj (OTask u)) \<in> set l \<and> resultDecided x t)"

lemma decision_accepted_append: "decision_accepted x (a @ b) \<longleftrightarrow> decision_accepted x a \<or> decision_accepted x b"
  by (auto simp: decision_accepted_def)

lemma decision_accepted_Cons:
  "decision_accepted x (ob # l) \<longleftrightarrow> decision_accepted x [ob] \<or> decision_accepted x l"
  by (auto simp: decision_accepted_def)

text \<open>The clock never reads less than \<open>deadline\<close> again.\<close>

definition clock_past :: "'w ext \<Rightarrow> gotime \<Rightarrow> bool" where
  "clock_past x deadline \<longleftrightarrow> (\<forall>w. deadline \<le> fst (x_now x w))"

text \<open>The waiting time of the Task is over: it counts from the transition of the Ready condition.\<close>

definition wait_over :: "'w ext \<Rightarrow> 'w reconciler \<Rightarrow> Task \<Rightarrow> bool" where
  "wait_over x r task \<longleftrightarrow> (\<exists>c. x_findStatusCondition x (st_Conditions (task_Status task)) conditionReady = Some c \<and>
     \<not> IsZero (cd_LastTransitionTime c) \<and> clock_past x (cd_LastTransitionTime c + resultWait r))"

lemma emits_clock_past: "(\<And>now. (\<And>d. clock_past x d \<Longrightarrow> d \<le> now) \<Longrightarrow> Q now []) \<Longrightarrow> emits (clock x) Q"
  by (auto simp: emits_def clock_def silent_def clock_past_def split: prod.split) (metis fst_conv)

lemma waited: "in_int64 (r_ResultWait r) \<Longrightarrow> since + resultWait r \<le> now \<Longrightarrow> \<not> time_Sub now since < resultWait r"
  by (auto simp: in_int64_def resultWait_def time_Sub_def)

section \<open>From the pods to the status\<close>

lemma emits_setResultCondition:
  assumes "condition_laws x" "condition_appends x" "\<not> resultDecided x task"
    and "\<And>t. newly_decided x task t \<Longrightarrow> Q t []"
  shows "emits (setResultCondition x task reason msg) Q"
proof -
  have ty: "cd_Type (result_condition task reason msg) = conditionResult" by (simp add: result_condition_def)
  have "newly_decided x task (with_result x task now reason msg (st_Result (task_Status task)))" for now
    using assms(1-3) ty by (simp add: newly_decided_def resultDecided_def condition_appends_def with_result_def)
      (metis condition_laws_def option.discI)
  with assms(4) show ?thesis unfolding setResultCondition_def set_condition_def
    by (intro obs_rules) (simp add: with_result_def)
qed

lemma emits_applyParsedResult:
  assumes laws: "condition_laws x" "condition_appends x" "\<not> resultDecided x task"
    and Q: "\<And>t. newly_decided x task t \<Longrightarrow> Q t []"
  shows "emits (applyParsedResult x task pr) Q"
proof -
  let ?t = "task\<lparr>task_Status := (task_Status task)\<lparr>st_Result := pr_Result pr\<rparr>\<rparr>"
  have "emits (setResultCondition x ?t reason msg) Q" for reason msg
    by (rule emits_setResultCondition) (use laws Q in \<open>simp_all add: resultDecided_def newly_decided_def\<close>)
  then show ?thesis unfolding applyParsedResult_def Let_def by (simp split: ResultOutcome.split)
qed

text \<open>What \<open>observeResult\<close> says of a terminal Task: a new decision, or look again, and then the wait is not over.\<close>

definition observed :: "'w ext \<Rightarrow> 'w reconciler \<Rightarrow> Task \<Rightarrow> duration \<Rightarrow> Task \<Rightarrow> bool" where
  "observed x r task rq t \<longleftrightarrow> newly_decided x task t \<and> rq = 0 \<or> t = task \<and> rq = resultRequeue \<and> \<not> wait_over x r task"

lemma observe_pods_decides:
  assumes laws: "condition_laws x" "condition_appends x" and undecided: "\<not> resultDecided x task"
    and terminal: "isTerminal (st_Phase (task_Status task))" and range: "in_int64 (r_ResultWait r)"
    and Q: "\<And>rq t. observed x r task rq t \<Longrightarrow> Q (Inr (rq, t)) []"
  shows "emits (observe_pods x r task uid egress items) Q"
proof -
  note set_rules = emits_setResultCondition [OF laws undecided] emits_applyParsedResult [OF laws undecided]
  have since: "emits (terminalSince x task) (\<lambda>since l. l = [] \<and> (wait_over x r task \<longrightarrow> clock_past x (since + resultWait r)))"
    unfolding terminalSince_def by (intro obs_rules) (auto simp: wait_over_def split: option.split intro!: obs_rules)
  have loop: "emits (do { since \<leftarrow> terminalSince x task; now \<leftarrow> clock x;
      if time_Sub now since < resultWait r then State_Monad.return (Inr (resultRequeue, task))
      else do { task1 \<leftarrow> setResultCondition x task reasonResultUnavailable msg; State_Monad.return (Inr (0, task1)) } }) Q" for msg
    by (rule emits_bind [OF since], rule emits_bind_wp, rule emits_clock_past)
       (auto intro!: emits_if emits_return emits_bind_wp set_rules Q simp: observed_def waited [OF range])
  show ?thesis unfolding observe_pods_def
    by (auto simp: terminal observed_def split: prod.split option.split intro!: loop emits_bind_wp set_rules emits_return Q)
qed

lemma write_if_changed_decides:
  assumes "observed x r task rq t"
  shows "emits (write_if_changed x (task_Status task) rq t)
     (\<lambda>v l. \<forall>rq' t'. v = Inr (rq', t') \<longrightarrow> rq' = rq \<and> (decision_accepted x l \<or> rq = resultRequeue \<and> \<not> wait_over x r task))"
proof -
  have "newly_decided x task t \<Longrightarrow> \<not> equalStatus x (task_Status task) (task_Status t)"
    by (auto simp: newly_decided_def equalStatus_def)
  with assms show ?thesis unfolding write_if_changed_def
    by (intro obs_rules) (auto simp: observed_def newly_decided_def decision_accepted_def split: sum.splits dest!: got_task_Inr)
qed

text \<open>The outcome of \<open>recordTerminalResult\<close> on an undecided terminal Task that has a Job.\<close>

definition waits :: "'w ext \<Rightarrow> 'w reconciler \<Rightarrow> Task \<Rightarrow> duration \<Rightarrow> obs list \<Rightarrow> bool" where
  "waits x r task rq l \<longleftrightarrow> decision_accepted x l \<or> rq = resultRequeue \<and> \<not> wait_over x r task"

lemma emits_any: "yields p R m \<Longrightarrow> emits m (\<lambda>_ _. True)"
  by (erule emits_yields) simp

lemma recordTerminalResult_decides:
  assumes laws: "condition_laws x" "condition_appends x" and undecided: "\<not> resultDecided x task"
    and terminal: "isTerminal (st_Phase (task_Status task))" and range: "in_int64 (r_ResultWait r)"
    and job: "st_JobName (task_Status task) \<noteq> []"
  shows "emits (recordTerminalResult x r task) (\<lambda>v l. \<forall>rq t. v = Inr (rq, t) \<longrightarrow> waits x r task rq l)"
proof -
  note pods = observe_pods_decides [OF laws undecided terminal range]
  have gone: "observed x r task 0 t" if "newly_decided x task t" for t using that by (simp add: observed_def)
  have obs: "emits (observeResult x r task uid egress) (\<lambda>v l. \<forall>rq t. v = Inr (rq, t) \<longrightarrow> observed x r task rq t)" for uid egress
    unfolding observeResult_def client_List_def by (intro obs_rules pods) (use undecided in auto)
  have eg: "emits (terminalEgress x task) (\<lambda>_ _. True)"
    by (rule emits_any [where p = "\<lambda>_. True" and R = "\<lambda>_. True"], intro yields_rules) simp_all
  have j: "emits (get_Job x key) (\<lambda>_ _. True)" for key
    by (rule emits_any [where p = "\<lambda>_. True" and R = "\<lambda>_. True"], intro yields_rules) simp_all
  show ?thesis unfolding recordTerminalResult_def Let_def using undecided job
    by (auto intro!: emits_bind [OF j] emits_sum emits_if emits_return emits_bind [OF eg] emits_bind [OF obs] emits_prod
        emits_bind_wp [of "setResultCondition _ _ _ _"] emits_setResultCondition [OF laws undecided]
        emits_weaken [OF write_if_changed_decides] gone simp: waits_def decision_accepted_append)
qed

section \<open>Properties\<close>

lemma collectTerminal_nonneg: "emits (collectTerminal x r task) (\<lambda>res _. 0 \<le> fst res)"
  unfolding collectTerminal_def Let_def by (intro obs_rules) auto

lemma reconcile_terminal_waits:
  assumes "condition_laws x" "condition_appends x" "\<not> resultDecided x task"
    "isTerminal (st_Phase (task_Status task))" "in_int64 (r_ResultWait r)" "st_JobName (task_Status task) \<noteq> []"
  shows "emits (reconcile_terminal x r task) (\<lambda>res l. snd res = None \<longrightarrow>
     decision_accepted x l \<or> 0 < fst res \<and> fst res \<le> resultRequeue \<and> \<not> wait_over x r task)"
  unfolding reconcile_terminal_def metrics_defs
  by (rule emits_bind [OF recordTerminalResult_decides [OF assms]])
     (auto intro!: emits_sum emits_prod emits_bind_wp emits_observe emits_return emits_weaken [OF collectTerminal_nonneg]
       simp: waits_def decision_accepted_append minRequeue_def)

text \<open>
  C18. The wait for a Result ends. A reconcile of a terminal Task with a Job and without a decision that
  returns no error has had a status with the Result condition accepted, or is called again
  within five seconds; and the second case is possible only while the waiting time, counted from
  the transition of the Ready condition, is not over. So the polling stops at the first
  successful reconcile after that time, whatever pods the API server lists.
\<close>

theorem result_wait_ends:
  assumes "condition_laws x" and "condition_appends x" and "in_int64 (r_ResultWait r)"
    and "run_state (Reconcile x r req) s = ((rq, None), s')"
    and "obslog s' = obslog s @ Call (CGet KTask req) (RObj (OTask task)) # l"
    and "isTerminal (st_Phase (task_Status task))" and "st_JobName (task_Status task) \<noteq> []" and "\<not> resultDecided x task"
  shows "decision_accepted x l \<or> 0 < rq \<and> rq \<le> resultRequeue \<and> \<not> wait_over x r task"
proof -
  have any: "emits (reconcile_live x r t) (\<lambda>_ _. True)" for t by (rule emits_any [OF justification.live])
  have "emits (reconcile_task x r t) (\<lambda>res l. isTerminal (st_Phase (task_Status t)) \<longrightarrow> st_JobName (task_Status t) \<noteq> [] \<longrightarrow>
      \<not> resultDecided x t \<longrightarrow> snd res = None \<longrightarrow>
      decision_accepted x l \<or> 0 < fst res \<and> fst res \<le> resultRequeue \<and> \<not> wait_over x r t)" for t
  proof (cases "isTerminal (st_Phase (task_Status t)) \<and> st_JobName (task_Status t) \<noteq> [] \<and> \<not> resultDecided x t")
    case True
    then show ?thesis using reconcile_terminal_waits [OF assms(1,2) _ _ assms(3)] by (simp add: reconcile_task_def)
  next
    case False
    have "emits (reconcile_task x r t) (\<lambda>_ _. True)" unfolding reconcile_task_def
      by (intro emits_if any emits_any [OF reconcile_terminal_ok [folded yields_only]])
    with False show ?thesis by (elim emits_weaken) auto
  qed
  from Reconcile_log [OF assms(4,5) this] assms(6-8) show ?thesis by simp
qed

text \<open>A Task that ended long ago, with its Job and without a pod, and a clock that has passed the wait.\<close>

definition late_ext :: "store ext" where
  "late_ext = ref_ext\<lparr>x_now := \<lambda>w. (1000 * Second, w)\<rparr>"

definition ended_task :: Task where
  "ended_task = sample_task\<lparr>task_Status := (task_Status sample_task)\<lparr>st_Phase := TaskPhaseFailed, st_JobName := ''t'',
     st_Conditions := [\<lparr>cd_Type = conditionReady, cd_Status = ''False'', cd_Reason = reasonFailed, cd_Message = ''m'',
       cd_ObservedGeneration = 1, cd_LastTransitionTime = 10\<rparr>]\<rparr>\<rparr>"

definition ended_state :: "(store, obs) sys" where
  "ended_state = \<lparr>world = sample_store\<lparr>sto_objs := OTask ended_task #
     (case buildJob ref_ext ended_task sample_agent [] 3600 of Inr j \<Rightarrow> [OJob j] | Inl _ \<Rightarrow> [])\<rparr>, obslog = []\<rparr>"

definition ended_run :: "reconcile_result \<times> (store, obs) sys" where
  "ended_run = run_state (Reconcile late_ext sample_reconciler (''ns'', ''t'')) ended_state"

lemma late_laws: "condition_laws late_ext" "condition_appends late_ext"
  using ref_condition_laws ref_condition_appends by (simp_all add: late_ext_def condition_laws_def condition_appends_def)

theorem result_wait_ends_witness:
  "wait_over late_ext sample_reconciler ended_task \<and> fst ended_run = (0, None) \<and>
   decision_accepted late_ext (tl (obslog (snd ended_run)))"
proof -
  let ?l = "obslog (snd ended_run)"
  have over: "wait_over late_ext sample_reconciler ended_task"
    by (simp add: wait_over_def late_ext_def ref_ext_def ended_task_def ref_findStatusCondition_def IsZero_def clock_past_def
      resultWait_def sample_reconciler_def)
  have res: "fst ended_run = (0, None)" by code_simp
  have "hd ?l = Call (CGet KTask (''ns'', ''t'')) (RObj (OTask ended_task))" "?l \<noteq> []" by code_simp+
  then have log: "?l = obslog ended_state @ Call (CGet KTask (''ns'', ''t'')) (RObj (OTask ended_task)) # tl ?l"
    by (cases ?l) (auto simp: ended_state_def)
  have run: "run_state (Reconcile late_ext sample_reconciler (''ns'', ''t'')) ended_state = ((0, None), snd ended_run)"
    using res by (metis ended_run_def prod.collapse)
  have "isTerminal (st_Phase (task_Status ended_task))" "st_JobName (task_Status ended_task) \<noteq> []" "\<not> resultDecided late_ext ended_task"
    "in_int64 (r_ResultWait sample_reconciler)" by code_simp+
  with result_wait_ends [OF late_laws _ run log] res over show ?thesis by simp
qed

end
