(* ===== verification/Controller_Schema.thy ===== *)
theory Controller_Schema
  imports Controller_Progress
begin

text \<open>
  The validation markers on \<open>TaskStatus\<close>, \<open>TaskResult\<close>, \<open>ResultLink\<close> and \<open>TaskPhase\<close>
  (\<open>api/v1alpha1/task_types.go\<close>) as predicates, and the proof that every status which the
  controller writes satisfies them. A string length counts code points, as it does in the schema.
\<close>

section \<open>The schema\<close>

definition TaskPhase_enum :: "TaskPhase list" where
  "TaskPhase_enum = [TaskPhasePending, TaskPhaseRunning, TaskPhaseCompleted, TaskPhaseFailed, TaskPhaseTimedOut]"

definition ResultLink_schema :: "ResultLink \<Rightarrow> bool" where
  "ResultLink_schema l \<longleftrightarrow>
     1 \<le> length (runes (rl_Name l)) \<and> length (runes (rl_Name l)) \<le> 32 \<and> linkNamePattern (rl_Name l) \<and>
     1 \<le> length (runes (rl_URL l)) \<and> length (runes (rl_URL l)) \<le> 2048"

definition TaskResult_schema :: "TaskResult \<Rightarrow> bool" where
  "TaskResult_schema r \<longleftrightarrow> length (runes (res_Summary r)) \<le> 512 \<and>
     distinct (map rl_Name (res_Links r)) \<and> length (res_Links r) \<le> 8 \<and> list_all ResultLink_schema (res_Links r)"

definition TaskStatus_schema :: "TaskStatus \<Rightarrow> bool" where
  "TaskStatus_schema st \<longleftrightarrow> (st_Phase st = [] \<or> st_Phase st \<in> set TaskPhase_enum) \<and>
     (case st_Result st of None \<Rightarrow> True | Some r \<Rightarrow> TaskResult_schema r) \<and> distinct (map cd_Type (st_Conditions st))"

section \<open>What the controller writes\<close>

lemma rune_spans_le: "length (rune_spans s) \<le> length s"
proof (induction s rule: rune_spans.induct)
  case (2 c s)
  obtain r w where d: "decode_rune (byte c) (map byte s) = (r, w)" by fastforce
  with decode_rune_width [OF d] "2" [OF d [symmetric]] show ?case by simp
qed simp

lemma runes_le: "length (runes s) \<le> length s"
  by (simp add: runes_def rune_spans_le)

lemma runes_nonempty: "s \<noteq> [] \<Longrightarrow> Suc 0 \<le> length (runes s)"
  by (cases s) (auto simp: runes_def split: prod.splits)

lemma link_ok_schema:
  assumes "url_laws x" and "link_ok x allowlist l"
  shows "ResultLink_schema l"
proof -
  have "rl_Name l \<noteq> []" using assms(2) by (auto simp: link_ok_def linkNamePattern_def)
  moreover have "rl_URL l \<noteq> []" using assms by (force simp: link_ok_def url_laws_def HasPrefix_def)
  moreover have "length (runes (rl_Name l)) \<le> 32" "length (runes (rl_URL l)) \<le> 2048"
    using assms(2) by (auto simp: link_ok_def intro: order_trans [OF runes_le])
  ultimately show ?thesis using assms(2) by (simp add: ResultLink_schema_def runes_nonempty link_ok_def)
qed

lemma parsed_schema: "url_laws x \<Longrightarrow> pr_Result (ParseResult x message allowlist) = Some r \<Longrightarrow> TaskResult_schema r"
  using parsed_result_ok [of x message allowlist r] by (auto simp: TaskResult_schema_def list_all_iff intro: link_ok_schema)

lemma schema_with_result:
  assumes "condition_keys x" and "url_laws x" and "TaskStatus_schema (task_Status task)" and "same_but_result x task t"
  shows "TaskStatus_schema (task_Status t)"
  using assms parsed_schema [OF assms(2)]
  by (auto simp: same_but_result_def with_result_def TaskStatus_schema_def condition_keys_def kept_or_parsed_def split: option.splits)

lemma derivePhase_enum: "fst (derivePhase job) \<in> set TaskPhase_enum"
proof -
  have "derive_loop cs = Some p \<Longrightarrow> fst p \<in> set TaskPhase_enum" for cs p
    by (induction cs) (auto simp: TaskPhase_enum_def split: if_splits)
  then show ?thesis by (auto simp: derivePhase_def TaskPhase_enum_def split: option.splits)
qed

interpretation schema: write_property x task "\<lambda>t. condition_keys x \<longrightarrow> url_laws x \<longrightarrow>
    TaskStatus_schema (task_Status task) \<longrightarrow> TaskStatus_schema (task_Status t) \<and> st_Phase (task_Status t) \<in> set TaskPhase_enum" for x task
proof (unfold_locales, goal_cases)
  case (3 now job t)
  let ?s = "synced x task now job"
  have phase: "st_Phase (task_Status t) = st_Phase (task_Status ?s)" using same_but_result_fields [OF 3(2)] by simp
  obtain ph rs msg where d: "derivePhase job = (ph, rs, msg)" by (metis prod_cases3)
  with derivePhase_enum [of job] have "ph \<in> set TaskPhase_enum" by simp
  with d have "condition_keys x \<Longrightarrow> TaskStatus_schema (task_Status task) \<Longrightarrow> TaskStatus_schema (task_Status ?s)"
    "st_Phase (task_Status ?s) \<in> set TaskPhase_enum"
    by (auto simp: synced_def job_status_onto_def TaskStatus_schema_def condition_keys_def)
  with phase schema_with_result [OF _ _ _ 3(2)] show ?case by simp
qed (auto simp: failed_write_def waiting_write_def set_phase_def TaskStatus_schema_def TaskPhase_enum_def condition_keys_def)

section \<open>Properties\<close>



end
