(* ===== verification/Cluster_Rest.thy ===== *)
theory Cluster_Rest
  imports Controller_Progress
begin

text \<open>
  Runs against a cluster that only the controller changes. \<open>runs w m Q\<close> is the weakest precondition
  of a program \<open>m\<close> from the world \<open>w\<close>: every run appends to the log, and its value, the appended
  entries and the new world satisfy \<open>Q\<close>. \<open>at_rest\<close> is the contract of the API server in terms of the
  objects that it stores: what it answers to a read, and what an accepted write leaves. Writes that
  are not accepted are not constrained, and any request may fail.
\<close>

section \<open>Weakest preconditions\<close>

definition runs :: "'w \<Rightarrow> ('w, 'o, 'a) prog \<Rightarrow> ('a \<Rightarrow> 'o list \<Rightarrow> 'w \<Rightarrow> bool) \<Rightarrow> bool" where
  "runs w m Q \<longleftrightarrow> (\<forall>s. world s = w \<longrightarrow> (\<exists>l. obslog (snd (run_state m s)) = obslog s @ l \<and>
     Q (fst (run_state m s)) l (world (snd (run_state m s)))))"

named_theorems runs_rules

lemma runsD:
  assumes "runs w m Q" and "run_state m s = (v, s')" and "world s = w"
  obtains l where "obslog s' = obslog s @ l" and "Q v l (world s')"
  using assms unfolding runs_def by (metis fst_conv snd_conv)

lemma runs_mono: "runs w m Q \<Longrightarrow> (\<And>v l w'. Q v l w' \<Longrightarrow> R v l w') \<Longrightarrow> runs w m R"
  unfolding runs_def by blast

lemma runs_return [runs_rules]: "Q v [] w \<Longrightarrow> runs w (State_Monad.return v) Q"
  by (simp add: runs_def run_return)

lemma runs_observe [runs_rules]: "Q () [ob] w \<Longrightarrow> runs w (observe ob) Q"
  by (simp add: runs_def run_observe)

lemma runs_outside: "(\<And>v w'. f w = (v, w') \<Longrightarrow> Q v [ob v] w') \<Longrightarrow> runs w (outside f ob) Q"
  by (auto simp: runs_def outside_def split: prod.splits)

lemma runs_silent: "(\<And>v w'. f w = (v, w') \<Longrightarrow> Q v [] w') \<Longrightarrow> runs w (silent f) Q"
  by (auto simp: runs_def silent_def split: prod.splits)

lemma runs_bind [runs_rules]:
  assumes "runs w m (\<lambda>v l1 w1. runs w1 (f v) (\<lambda>y l2 w2. Q y (l1 @ l2) w2))"
  shows "runs w (State_Monad.bind m f) Q"
  unfolding runs_def
proof (intro allI impI)
  fix s :: "('a, 'b) sys" assume "world s = w"
  obtain v s1 where r1: "run_state m s = (v, s1)" by fastforce
  obtain y s2 where r2: "run_state (f v) s1 = (y, s2)" by fastforce
  from assms r1 \<open>world s = w\<close> obtain l1 where l1: "obslog s1 = obslog s @ l1"
    and k: "runs (world s1) (f v) (\<lambda>y l2 w2. Q y (l1 @ l2) w2)" by (rule runsD)
  from k r2 refl obtain l2 where "obslog s2 = obslog s1 @ l2" "Q y (l1 @ l2) (world s2)" by (rule runsD)
  with l1 show "\<exists>l. obslog (snd (run_state (State_Monad.bind m f) s)) = obslog s @ l \<and>
      Q (fst (run_state (State_Monad.bind m f) s)) l (world (snd (run_state (State_Monad.bind m f) s)))"
    by (simp add: run_bind r1 r2)
qed

lemma runs_if [runs_rules]:
  "(b \<Longrightarrow> runs w m Q) \<Longrightarrow> (\<not> b \<Longrightarrow> runs w n Q) \<Longrightarrow> runs w (if b then m else n) Q"
  by simp

lemma runs_sum [runs_rules]:
  "(\<And>e. v = Inl e \<Longrightarrow> runs w (f e) Q) \<Longrightarrow> (\<And>y. v = Inr y \<Longrightarrow> runs w (g y) Q) \<Longrightarrow>
   runs w (case v of Inl e \<Rightarrow> f e | Inr y \<Rightarrow> g y) Q"
  by (cases v) auto

lemma runs_option [runs_rules]:
  "(v = None \<Longrightarrow> runs w m Q) \<Longrightarrow> (\<And>y. v = Some y \<Longrightarrow> runs w (g y) Q) \<Longrightarrow>
   runs w (case v of None \<Rightarrow> m | Some y \<Rightarrow> g y) Q"
  by (cases v) auto

lemma runs_prod [runs_rules]: "(\<And>a b. v = (a, b) \<Longrightarrow> runs w (f a b) Q) \<Longrightarrow> runs w (case v of (a, b) \<Rightarrow> f a b) Q"
  by (cases v) auto

lemma runs_let [runs_rules]: "runs w (f v) Q \<Longrightarrow> runs w (let y = v in f y) Q"
  by simp

section \<open>The stored objects\<close>

text \<open>What the controller can see of a cluster: the stored objects, and the pods that a list returns.\<close>

record cluster =
  cl_objs :: "kind \<times> NamespacedName \<Rightarrow> obj option"
  cl_pods :: "string option \<Rightarrow> strmap \<Rightarrow> obj list"

definition put :: "kind \<times> NamespacedName \<Rightarrow> obj option \<Rightarrow> cluster \<Rightarrow> cluster" where
  "put k ob c = c\<lparr>cl_objs := (cl_objs c)(k := ob)\<rparr>"

lemma put_simps [simp]:
  "cl_objs (put k ob c) = (cl_objs c)(k := ob)" "cl_pods (put k ob c) = cl_pods c"
  by (simp_all add: put_def)

abbreviation slot_of :: "obj \<Rightarrow> kind \<times> NamespacedName" where
  "slot_of ob \<equiv> (kind_of ob, key_of ob)"

text \<open>
  The object that the server stores for one that it accepts: it may fill in metadata, but keeps the
  name, the namespace and the labels. A Job also gets defaults and a status.
\<close>

definition stored_form :: "obj \<Rightarrow> obj \<Rightarrow> bool" where
  "stored_form ob ob' \<longleftrightarrow> slot_of ob' = slot_of ob \<and>
     (kind_of ob = KJob \<or> (\<exists>f. ob' = map_meta f ob \<and> om_Labels (f (meta_of ob)) = om_Labels (meta_of ob)))"

text \<open>
  The server: a stored object is under its own kind and name; reads change nothing and answer from
  the store, or fail with an error that is not the program's \<open>PermanentError\<close>; an accepted creation or
  update of anything but a pod stores the object; an accepted status update replaces the status of the stored Task; a
  deletion removes at most the object it names. The clock changes nothing.
\<close>

definition reads_store :: "'w ext \<Rightarrow> ('w \<Rightarrow> cluster) \<Rightarrow> bool" where
  "reads_store x view \<longleftrightarrow>
     (\<forall>w k ob. cl_objs (view w) k = Some ob \<longrightarrow> slot_of ob = k) \<and>
     (\<forall>w v w'. x_now x w = (v, w') \<longrightarrow> view w' = view w) \<and>
     (\<forall>k key w rsp w'. x_api x (CGet k key) w = (rsp, w') \<longrightarrow> view w' = view w \<and>
        (case rsp of
           RObj ob \<Rightarrow> cl_objs (view w) (k, key) = Some ob
         | RErr e \<Rightarrow> \<not> IsPermanent e \<and> (x_isNotFound x e \<longrightarrow> cl_objs (view w) (k, key) = None)
         | _ \<Rightarrow> False)) \<and>
     (\<forall>ns sel w rsp w'. x_api x (CList KPod ns sel) w = (rsp, w') \<longrightarrow> view w' = view w \<and>
        (case rsp of RList items \<Rightarrow> items = cl_pods (view w) ns sel | _ \<Rightarrow> True))"

definition writes_store :: "'w ext \<Rightarrow> ('w \<Rightarrow> cluster) \<Rightarrow> bool" where
  "writes_store x view \<longleftrightarrow>
     (\<forall>d w d' w'. kind_of d \<noteq> KPod \<longrightarrow> x_api x (CCreate d) w = (RObj d', w') \<longrightarrow> stored_form d d' \<and> view w' = put (slot_of d) (Some d') (view w)) \<and>
     (\<forall>d w d' w'. kind_of d \<noteq> KPod \<longrightarrow> x_api x (CUpdate d) w = (RObj d', w') \<longrightarrow> stored_form d d' \<and> view w' = put (slot_of d) (Some d') (view w)) \<and>
     (\<forall>t w ob w'. x_api x (CStatusUpdate t) w = (RObj ob, w') \<longrightarrow>
        (\<exists>u m. cl_objs (view w) (slot_of (OTask t)) = Some (OTask u) \<and>
           ob = OTask (u\<lparr>task_Meta := (task_Meta u)\<lparr>om_rest := m\<rparr>, task_Status := task_Status t\<rparr>)) \<and>
        view w' = put (slot_of (OTask t)) (Some ob) (view w)) \<and>
     (\<forall>k key uid w rsp w'. k \<noteq> KPod \<longrightarrow> x_api x (CDelete k key uid) w = (rsp, w') \<longrightarrow> view w' = view w \<or> view w' = put (k, key) None (view w))"

definition at_rest :: "'w ext \<Rightarrow> ('w \<Rightarrow> cluster) \<Rightarrow> bool" where
  "at_rest x view \<longleftrightarrow> reads_store x view \<and> writes_store x view"

section \<open>The client on such a cluster\<close>

lemma at_rest_slot: "at_rest x view \<Longrightarrow> cl_objs (view w) k = Some ob \<Longrightarrow> slot_of ob = k"
  unfolding at_rest_def reads_store_def by blast

lemma runs_clock:
  assumes "at_rest x view" and "\<And>now w'. view w' = view w \<Longrightarrow> Q now [] w'"
  shows "runs w (clock x) Q"
  unfolding clock_def using assms by (intro runs_silent) (auto simp: at_rest_def reads_store_def)

text \<open>What a Get can tell its caller.\<close>

definition got_from :: "'w ext \<Rightarrow> cluster \<Rightarrow> kind \<times> NamespacedName \<Rightarrow> gerr + obj \<Rightarrow> bool" where
  "got_from x c k g = (case g of
     Inr ob \<Rightarrow> cl_objs c k = Some ob
   | Inl e \<Rightarrow> \<not> IsPermanent e \<and> (x_isNotFound x e \<longrightarrow> cl_objs c k = None))"

lemma runs_Get:
  assumes "at_rest x view"
    and "\<And>rsp w'. view w' = view w \<Longrightarrow> got_from x (view w) (k, key) (got_obj k rsp) \<Longrightarrow>
      (case got_obj k rsp of Inr ob \<Rightarrow> rsp = RObj ob | Inl e \<Rightarrow> rsp = RErr e) \<Longrightarrow> Q (got_obj k rsp) [Call (CGet k key) rsp] w'"
  shows "runs w (client_Get x k key) Q"
  unfolding client_Get_def request_def
proof (intro runs_bind runs_outside runs_return)
  fix rsp w' assume r: "x_api x (CGet k key) w = (rsp, w')"
  have answer: "view w' = view w" "case rsp of RObj ob \<Rightarrow> cl_objs (view w) (k, key) = Some ob
         | RErr e \<Rightarrow> \<not> IsPermanent e \<and> (x_isNotFound x e \<longrightarrow> cl_objs (view w) (k, key) = None) | _ \<Rightarrow> False"
    using assms(1) r unfolding at_rest_def reads_store_def by blast+
  moreover from answer(2) have "rsp = RObj ob \<Longrightarrow> kind_of ob = k" for ob using at_rest_slot [OF assms(1)] by fastforce
  ultimately show "Q (got_obj k rsp) ([Call (CGet k key) rsp] @ []) w'"
    using assms(2) [of w' rsp] by (cases rsp) (auto simp: got_obj_def got_from_def)
qed

lemma runs_Create:
  assumes "at_rest x view" and "kind_of d \<noteq> KPod" and "\<And>e rsp w'. Q (Inl e) [Call (CCreate d) rsp] w'"
    and "\<And>d' w'. stored_form d d' \<Longrightarrow> view w' = put (slot_of d) (Some d') (view w) \<Longrightarrow> Q (Inr d') [Call (CCreate d) (RObj d')] w'"
  shows "runs w (client_Create x d) Q"
  unfolding client_Create_def request_def
proof (intro runs_bind runs_outside runs_return)
  fix rsp w' assume r: "x_api x (CCreate d) w = (rsp, w')"
  show "Q (got_obj (kind_of d) rsp) ([Call (CCreate d) rsp] @ []) w'"
  proof (cases "got_obj (kind_of d) rsp")
    case (Inr d')
    then have "rsp = RObj d'" using got_obj_kind by blast
    with r assms(1,2,4) Inr show ?thesis unfolding at_rest_def writes_store_def by simp
  qed (use assms(3) in simp)
qed

lemma runs_Update:
  assumes "at_rest x view" and "kind_of d \<noteq> KPod" and "\<And>e rsp w'. Q (Inl e) [Call (CUpdate d) rsp] w'"
    and "\<And>d' w'. stored_form d d' \<Longrightarrow> view w' = put (slot_of d) (Some d') (view w) \<Longrightarrow> Q (Inr d') [Call (CUpdate d) (RObj d')] w'"
  shows "runs w (client_Update x d) Q"
  unfolding client_Update_def request_def
proof (intro runs_bind runs_outside runs_return)
  fix rsp w' assume r: "x_api x (CUpdate d) w = (rsp, w')"
  show "Q (got_obj (kind_of d) rsp) ([Call (CUpdate d) rsp] @ []) w'"
  proof (cases "got_obj (kind_of d) rsp")
    case (Inr d')
    then have "rsp = RObj d'" using got_obj_kind by blast
    with r assms(1,2,4) Inr show ?thesis unfolding at_rest_def writes_store_def by simp
  qed (use assms(3) in simp)
qed

lemma runs_StatusUpdate:
  assumes "at_rest x view" and "\<And>e rsp w'. Q (Inl e) [Call (CStatusUpdate t) rsp] w'"
    and "\<And>u m t' w'. cl_objs (view w) (slot_of (OTask t)) = Some (OTask u) \<Longrightarrow>
      t' = u\<lparr>task_Meta := (task_Meta u)\<lparr>om_rest := m\<rparr>, task_Status := task_Status t\<rparr> \<Longrightarrow>
      view w' = put (slot_of (OTask t)) (Some (OTask t')) (view w) \<Longrightarrow> Q (Inr t') [Call (CStatusUpdate t) (RObj (OTask t'))] w'"
  shows "runs w (client_StatusUpdate x t) Q"
  unfolding client_StatusUpdate_def request_def got_task_def [symmetric]
proof (intro runs_bind runs_outside runs_return)
  fix rsp w' assume r: "x_api x (CStatusUpdate t) w = (rsp, w')"
  show "Q (got_task rsp) ([Call (CStatusUpdate t) rsp] @ []) w'"
  proof (cases "got_task rsp")
    case (Inr t')
    then have "rsp = RObj (OTask t')" by (auto simp: got_task_def dest!: got_obj_kind split: sum.splits obj.splits)
    with r assms(1) obtain u m where "cl_objs (view w) (slot_of (OTask t)) = Some (OTask u)"
      "t' = u\<lparr>task_Meta := (task_Meta u)\<lparr>om_rest := m\<rparr>, task_Status := task_Status t\<rparr>"
      "view w' = put (slot_of (OTask t)) (Some (OTask t')) (view w)" unfolding at_rest_def writes_store_def by blast
    from assms(3) [OF this] show ?thesis using \<open>rsp = RObj (OTask t')\<close> Inr by simp
  qed (use assms(2) in simp)
qed

lemma runs_Delete:
  assumes "at_rest x view" and "k \<noteq> KPod"
    and "\<And>rsp w'. view w' = view w \<or> view w' = put (k, key) None (view w) \<Longrightarrow> Q (got_done rsp) [Call (CDelete k key uid) rsp] w'"
  shows "runs w (client_Delete x k key uid) Q"
  unfolding client_Delete_def request_def
proof (intro runs_bind runs_outside runs_return)
  fix rsp w' assume "x_api x (CDelete k key uid) w = (rsp, w')"
  with assms(1,2) have "view w' = view w \<or> view w' = put (k, key) None (view w)" unfolding at_rest_def writes_store_def by blast
  from assms(3) [OF this] show "Q (got_done rsp) ([Call (CDelete k key uid) rsp] @ []) w'" by simp
qed

lemma runs_List_pods:
  assumes "at_rest x view" and "\<And>e rsp w'. view w' = view w \<Longrightarrow> Q (Inl e) [Call (CList KPod ns sel) rsp] w'"
    and "\<And>w'. view w' = view w \<Longrightarrow> Q (Inr (cl_pods (view w) ns sel)) [Call (CList KPod ns sel) (RList (cl_pods (view w) ns sel))] w'"
  shows "runs w (client_List x KPod ns sel) Q"
  unfolding client_List_def request_def
proof (intro runs_bind runs_outside runs_return)
  fix rsp w' assume r: "x_api x (CList KPod ns sel) w = (rsp, w')"
  have answer: "view w' = view w" "case rsp of RList items \<Rightarrow> items = cl_pods (view w) ns sel | _ \<Rightarrow> True"
    using assms(1) r unfolding at_rest_def reads_store_def by blast+
  show "Q (got_list KPod rsp) ([Call (CList KPod ns sel) rsp] @ []) w'"
  proof (cases "got_list KPod rsp")
    case (Inr items)
    then have "rsp = RList items" using got_list_Inr by blast
    with answer assms(3) Inr show ?thesis by simp
  qed (use assms(2) answer(1) in simp)
qed

end
