(* ===== verification/Controller_Settled.thy ===== *)
theory Controller_Settled
  imports Cluster_Rest
begin

text \<open>
  Settled Tasks. A Task is settled on a cluster when everything that it needs is stored and its status
  says so, or when its class is missing and its status says that. The theory shows the two halves
  of convergence: a reconcile of a live Task that returns no error leaves the Task settled or
  over, and a reconcile of a settled Task keeps it settled and writes nothing, whichever of its
  requests fail. The owned objects are slots (where an object is stored, the object that the Task
  wants there, and the mutator), so that the six steps are handled by one argument.
\<close>

section \<open>Reading\<close>

text \<open>
  The entries of a reconcile that changes nothing that the Task needs: reads, lookups, the count of
  an error, and the deletions of optional objects that the Task does not want.
\<close>

definition reading :: "Task \<Rightarrow> obs \<Rightarrow> bool" where
  "reading task ob = (case ob of
     Call c _ \<Rightarrow> (case c of CGet _ _ \<Rightarrow> True | CList _ _ _ \<Rightarrow> True | CDelete k key _ \<Rightarrow> (k, key) \<in> set (own_deletes task) | _ \<Rightarrow> False)
   | Dns _ _ \<Rightarrow> True | MetricReconcileError _ \<Rightarrow> True | _ \<Rightarrow> False)"

lemma reading_simps [simp]:
  "reading task (Call (CGet k key) rsp)" "reading task (Call (CList k ns sel) rsp)" "reading task (Dns h a)"
  "reading task (MetricReconcileError st)" "reading task (Call (CDelete k key u) rsp) \<longleftrightarrow> (k, key) \<in> set (own_deletes task)"
  by (simp_all add: reading_def)

text \<open>The objects under other slots, and the pods, are as they were.\<close>

definition elsewhere :: "(kind \<times> NamespacedName) set \<Rightarrow> cluster \<Rightarrow> cluster \<Rightarrow> bool" where
  "elsewhere K c c' \<longleftrightarrow> (\<forall>k. k \<notin> K \<longrightarrow> cl_objs c' k = cl_objs c k) \<and> cl_pods c' = cl_pods c"

lemma elsewhere_refl [simp]: "elsewhere K c c"
  by (simp add: elsewhere_def)

lemma elsewhere_at: "elsewhere K c c' \<Longrightarrow> k \<notin> K \<Longrightarrow> cl_objs c' k = cl_objs c k"
  unfolding elsewhere_def by blast

lemma elsewhere_put: "k \<in> K \<Longrightarrow> elsewhere K c (put k ob c)"
  by (auto simp: elsewhere_def)

lemma elsewhere_trans: "elsewhere K a b \<Longrightarrow> elsewhere L b c \<Longrightarrow> K \<union> L \<subseteq> M \<Longrightarrow> elsewhere M a c"
  unfolding elsewhere_def by (metis UnCI subsetD)

section \<open>Owned objects\<close>

text \<open>A slot for an owned object: where it is stored, the object when the Task wants one, and its mutator.\<close>

type_synonym slot = "(kind \<times> NamespacedName) \<times> obj option \<times> (obj \<Rightarrow> obj \<Rightarrow> obj)"

definition slot_ok :: "'w ext \<Rightarrow> Task \<Rightarrow> cluster \<Rightarrow> slot \<Rightarrow> bool" where
  "slot_ok x task c sl = (case sl of (k, d, m) \<Rightarrow> (case d of
     None \<Rightarrow> True
   | Some d0 \<Rightarrow> \<exists>ob old. x_setControllerReference x task d0 = Inr ob \<and> slot_of ob = k \<and> cl_objs c k = Some old \<and>
       x_deepEqual x old (agreed ob m old)))"

lemma slot_ok_elsewhere: "elsewhere K c c' \<Longrightarrow> fst sl \<notin> K \<Longrightarrow> slot_ok x task c sl \<Longrightarrow> slot_ok x task c' sl"
  by (auto simp: slot_ok_def elsewhere_def split: prod.splits option.splits)

lemma map_meta_twice: "map_meta f (map_meta g ob) = map_meta (\<lambda>m. f (g m)) ob"
  by (cases ob) simp_all

lemma SetLabels_same:
  assumes "om_Labels (f (meta_of ob)) = ls"
  shows "SetLabels ls (map_meta f ob) = map_meta f ob"
proof -
  have "m\<lparr>om_Labels := om_Labels m\<rparr> = m" for m :: ObjectMeta by simp
  with assms show ?thesis by (cases ob) (auto simp: SetLabels_def)
qed

lemma mutator_fresh: "m \<in> set mutators \<Longrightarrow> m (map_meta f d) d = map_meta f d"
  by (cases d) (auto simp: mutators_def mutate_sa_def mutate_role_def mutate_rolebinding_def mutate_netpol_def mutate_configmap_def)

lemma mutator_twice: "m \<in> set mutators \<Longrightarrow> m (map_meta f (m old d)) d = map_meta f (m old d)"
  by (auto simp: mutators_def sa_mutator.mutate_twice role_mutator.mutate_twice rolebinding_mutator.mutate_twice
      netpol_mutator.mutate_twice configmap_mutator.mutate_twice)

lemma mutator_slot:
  assumes "m \<in> set mutators"
  shows "slot_of (agreed d m old) = slot_of old"
  using assms by (auto simp: mutators_def sa_mutator.agreed_kind role_mutator.agreed_kind rolebinding_mutator.agreed_kind
      netpol_mutator.agreed_kind configmap_mutator.agreed_kind sa_mutator.agreed_key role_mutator.agreed_key
      rolebinding_mutator.agreed_key netpol_mutator.agreed_key configmap_mutator.agreed_key)

lemma agreed_created:
  "stored_form d d' \<Longrightarrow> kind_of d \<noteq> KJob \<Longrightarrow> m \<in> set mutators \<Longrightarrow> agreed d m d' = d'"
  by (auto simp: stored_form_def agreed_def mutator_fresh GetLabels_def intro: SetLabels_same)

lemma agreed_updated:
  assumes "stored_form (agreed d m old) d'" and "kind_of old \<noteq> KJob" and "m \<in> set mutators"
  shows "agreed d m d' = d'"
proof -
  from assms mutator_slot [OF assms(3), of d old] obtain f where d': "d' = map_meta f (agreed d m old)"
    and f: "om_Labels (f (meta_of (agreed d m old))) = om_Labels (meta_of (agreed d m old))"
    by (auto simp: stored_form_def)
  let ?g = "\<lambda>mt. f (mt\<lparr>om_Labels := GetLabels d\<rparr>)"
  have d'_eq: "d' = map_meta ?g (m old d)" by (simp add: d' agreed_def SetLabels_def map_meta_twice)
  have "om_Labels (?g (meta_of (m old d))) = GetLabels d" using f by (simp add: agreed_def SetLabels_def)
  with mutator_twice [OF assms(3)] show ?thesis by (simp add: d'_eq agreed_def SetLabels_same)
qed

lemma owner_slot: "owner_laws x \<Longrightarrow> x_setControllerReference x task ob = Inr d \<Longrightarrow> slot_of d = slot_of ob"
  unfolding owner_laws_def key_of_def by fastforce

lemma ensureOwned_places:
  assumes "at_rest x view" and "deepEqual_refl x" and "owner_laws x" and "m \<in> set mutators" and "kind_of d0 \<noteq> KJob" "kind_of d0 \<noteq> KPod"
  shows "runs w (ensureOwned x task d0 m) (\<lambda>e l w'. e = None \<longrightarrow>
    elsewhere {slot_of d0} (view w) (view w') \<and> slot_ok x task (view w') (slot_of d0, Some d0, m))"
proof (cases "x_setControllerReference x task d0")
  case (Inr d)
  note slot = owner_slot [OF assms(3) Inr]
  have refl: "x_deepEqual x ob ob" for ob using assms(2) by (simp add: deepEqual_refl_def)
  have updated: "agreed d m d' = d'"
    if "stored_form (agreed d m old) d'" "cl_objs (view w1) (slot_of d0) = Some old" for old d' w1
    using agreed_updated [OF that(1) _ assms(4)] at_rest_slot [OF assms(1) that(2)] assms(5) by simp
  show ?thesis
    unfolding ensureOwned_def Inr sum.case Let_def agreed_def [symmetric]
    using slot assms(4-6) at_rest_slot [OF assms(1)] mutator_slot [OF assms(4)]
    by (intro runs_rules runs_Get [OF assms(1)] runs_Create [OF assms(1)] runs_Update [OF assms(1)])
       (auto simp: slot_ok_def Inr got_from_def agreed_created refl updated intro!: elsewhere_put dest: got_obj_kind)
qed (auto simp: ensureOwned_def intro: runs_rules)

lemma ensureOwned_reads:
  assumes "at_rest x view" and "slot_ok x task (view w) (k, Some d0, m)"
  shows "runs w (ensureOwned x task d0 m) (\<lambda>e l w'. view w' = view w \<and> list_all (reading task') l \<and>
    (\<forall>err. e = Some err \<longrightarrow> \<not> IsPermanent err))"
proof -
  from assms(2) obtain d old where "x_setControllerReference x task d0 = Inr d" "k = slot_of d"
    "cl_objs (view w) k = Some old" "x_deepEqual x old (agreed d m old)" by (auto simp: slot_ok_def)
  then show ?thesis unfolding ensureOwned_def Let_def agreed_def [symmetric]
    by (simp, intro runs_rules runs_Get [OF assms(1)]) (auto simp: got_from_def)
qed

section \<open>The steps\<close>

text \<open>
  What the loop needs of a step for a slot: when it succeeds, its slot is in order and nothing else
  has changed; when its slot is in order already, it only reads, and may remove an object that is
  not wanted.
\<close>

definition fills :: "'w ext \<Rightarrow> ('w \<Rightarrow> cluster) \<Rightarrow> Task \<Rightarrow> slot \<Rightarrow> ('w, gerr option) op \<Rightarrow> bool" where
  "fills x view task sl run \<longleftrightarrow>
     (\<forall>w. runs w run (\<lambda>e l w'. e = None \<longrightarrow> elsewhere {fst sl} (view w) (view w') \<and> slot_ok x task (view w') sl))"

definition unwanted :: "slot list \<Rightarrow> (kind \<times> NamespacedName) set" where
  "unwanted sls = {fst sl | sl. sl \<in> set sls \<and> fst (snd sl) = None}"

definition rests :: "'w ext \<Rightarrow> ('w \<Rightarrow> cluster) \<Rightarrow> Task \<Rightarrow> slot \<Rightarrow> ('w, gerr option) op \<Rightarrow> bool" where
  "rests x view task sl run \<longleftrightarrow>
     (\<forall>w. slot_ok x task (view w) sl \<longrightarrow> runs w run (\<lambda>e l w'. elsewhere (unwanted [sl]) (view w) (view w') \<and>
        list_all (reading task) l \<and> (\<forall>err. e = Some err \<longrightarrow> \<not> IsPermanent err \<or> fst (snd sl) = None)))"

lemma deleteIfExists_fills:
  assumes "at_rest x view" and "k \<noteq> KPod"
  shows "runs w (deleteIfExists x k key) (\<lambda>e l w'. elsewhere {(k, key)} (view w) (view w') \<and>
    (\<exists>rsp. l = [Call (CDelete k key None) rsp]))"
  unfolding deleteIfExists_def
  by (intro runs_rules runs_Delete [OF assms]) (auto intro: elsewhere_put)

text \<open>A step that ensures an object when the Task wants one, and otherwise deletes it.\<close>

definition ensure_slot :: "'w ext \<Rightarrow> Task \<Rightarrow> slot \<Rightarrow> ('w, gerr option) op" where
  "ensure_slot x task sl = (case sl of ((k, key), d, m) \<Rightarrow> (case d of
     None \<Rightarrow> deleteIfExists x k key
   | Some d0 \<Rightarrow> ensureOwned x task d0 m))"

definition slot_form :: "Task \<Rightarrow> slot \<Rightarrow> bool" where
  "slot_form task sl = (case sl of (k, d, m) \<Rightarrow> m \<in> set mutators \<and>
     (case d of None \<Rightarrow> k \<in> set (own_deletes task) | Some d0 \<Rightarrow> slot_of d0 = k \<and> kind_of d0 \<noteq> KJob \<and> kind_of d0 \<noteq> KPod))"

lemma ensure_slot_fills:
  assumes "at_rest x view" and "deepEqual_refl x" and "owner_laws x" and "slot_form task sl"
  shows "fills x view task sl (ensure_slot x task sl)"
proof -
  obtain k key d m where sl: "sl = ((k, key), d, m)" by (metis prod_cases3 prod.collapse)
  show ?thesis
  proof (cases d)
    case None
    with assms(4) sl have "k \<noteq> KPod" by (auto simp: slot_form_def own_deletes_def)
    with None show ?thesis unfolding fills_def sl ensure_slot_def
      by (auto simp: slot_ok_def intro: runs_mono [OF deleteIfExists_fills [OF assms(1)]])
  next
    case (Some d0)
    with assms(4) sl have "m \<in> set mutators" "kind_of d0 \<noteq> KJob" "kind_of d0 \<noteq> KPod" "slot_of d0 = (k, key)" by (auto simp: slot_form_def)
    with ensureOwned_places [OF assms(1,2,3) this(1,2,3), of _ task] show ?thesis
      unfolding fills_def sl Some ensure_slot_def by simp
  qed
qed

lemma ensure_slot_rests:
  assumes "at_rest x view" and "slot_form task sl"
  shows "rests x view task sl (ensure_slot x task sl)"
proof -
  obtain k key d m where sl: "sl = ((k, key), d, m)" by (metis prod_cases3 prod.collapse)
  show ?thesis
  proof (cases d)
    case None
    with assms(2) sl have "k \<noteq> KPod" by (auto simp: slot_form_def own_deletes_def)
    with None show ?thesis using assms(2) unfolding rests_def sl ensure_slot_def
      by (auto simp: slot_form_def unwanted_def intro!: runs_mono [OF deleteIfExists_fills [OF assms(1)]])
  next
    case (Some d0)
    then show ?thesis unfolding rests_def sl ensure_slot_def
      by (auto intro!: runs_mono [OF ensureOwned_reads [OF assms(1)]])
  qed
qed

text \<open>The NetworkPolicy step: names that resolve to the same addresses give the same policy.\<close>

definition steady_names :: "('w \<Rightarrow> cluster) \<Rightarrow> 'w resolver \<Rightarrow> (string \<Rightarrow> gerr + string list) \<Rightarrow> bool" where
  "steady_names view res dns \<longleftrightarrow> (\<forall>h w v w'. res h w = (v, w') \<longrightarrow> v = dns h \<and> view w' = view w)"

definition computes :: "('w \<Rightarrow> cluster) \<Rightarrow> ('w, 'a) op \<Rightarrow> 'a \<Rightarrow> bool" where
  "computes view m v \<longleftrightarrow> (\<forall>w. runs w m (\<lambda>y l w'. y = v \<and> view w' = view w \<and> list_all (\<lambda>ob. \<exists>h a. ob = Dns h a) l))"

lemma computes_return: "computes view (State_Monad.return v) v"
  by (simp add: computes_def runs_return)

lemma computes_bind:
  assumes "computes view m u" and "computes view (f u) v"
  shows "computes view (State_Monad.bind m f) v"
  unfolding computes_def
proof (intro allI runs_bind)
  fix w
  show "runs w m (\<lambda>y l1 w1. runs w1 (f y) (\<lambda>z l2 w2. z = v \<and> view w2 = view w \<and> list_all (\<lambda>ob. \<exists>h a. ob = Dns h a) (l1 @ l2)))"
    by (rule runs_mono [OF assms(1) [unfolded computes_def, rule_format]])
       (auto intro!: runs_mono [OF assms(2) [unfolded computes_def, rule_format]])
qed

lemma lookup_computes: "steady_names view res dns \<Longrightarrow> computes view (lookupWithTimeout res h) (dns h)"
  unfolding computes_def lookupWithTimeout_def by (auto intro!: runs_outside simp: steady_names_def)

lemma resolve_loop_computes:
  assumes "steady_names view res dns"
  shows "\<exists>v. computes view (resolve_loop x res cidrs es) v"
proof (induction es arbitrary: cidrs)
  case (Cons entry es)
  have host: "\<exists>v. computes view (do { r \<leftarrow> lookupWithTimeout res e;
      case r of Inl err \<Rightarrow> State_Monad.return (Inl (lookup_error x e err))
      | Inr addrs \<Rightarrow> resolve_loop x res (cidrs @ addr_cidrs addrs) es }) v" for e
    using Cons.IH by (cases "dns e") (fastforce intro: computes_bind [OF lookup_computes [OF assms]] computes_return)+
  show ?case using Cons.IH host by (auto simp: Let_def intro: computes_return split: option.split)
qed (auto intro: computes_return)

lemma BuildNetworkPolicy_computes:
  assumes "steady_names view res dns"
  shows "\<exists>v. computes view (BuildNetworkPolicy x res t ns egress ports) v"
proof -
  obtain v where v: "computes view (resolve_loop x res [] egress) v" using resolve_loop_computes [OF assms] by blast
  have "computes view (resolveEgress x res egress) (map_sum id sorted_keys v)"
    unfolding resolveEgress_def by (rule computes_bind [OF v computes_return])
  then show ?thesis unfolding BuildNetworkPolicy_def
    by (cases "map_sum id sorted_keys v") (auto intro!: exI computes_bind computes_return)
qed

section \<open>The loop over the steps\<close>

text \<open>The stored Task is over.\<close>

definition ended :: "cluster \<Rightarrow> Task \<Rightarrow> bool" where
  "ended c task \<longleftrightarrow> (\<exists>t. cl_objs c (slot_of (OTask task)) = Some (OTask t) \<and> isTerminal (st_Phase (task_Status t)))"

lemma runs_set_condition:
  assumes "at_rest x view" and "\<And>now w'. view w' = view w \<Longrightarrow> Q (task\<lparr>task_Status := (task_Status task)\<lparr>
       st_Conditions := x_setStatusCondition x now (st_Conditions (task_Status task)) c\<rparr>\<rparr>) [] w'"
  shows "runs w (set_condition x task c) Q"
  unfolding set_condition_def by (intro runs_rules runs_clock [OF assms(1)]) (simp add: assms(2))

lemma failTask_ends:
  assumes "at_rest x view"
  shows "runs w (failTask x r task reason cause) (\<lambda>e l w'. e = None \<longrightarrow> ended (view w') task)"
proof -
  have event: "runs w (recordEvent r ty rs ms) (\<lambda>_ l w'. w' = w)" for w ty rs ms
    unfolding recordEvent_def by (intro runs_rules) simp_all
  show ?thesis unfolding failTask_def markInvalid_def Let_def metrics_defs
    by (intro runs_rules runs_set_condition [OF assms] runs_StatusUpdate [OF assms] runs_mono [OF event])
       (auto simp: ended_def set_phase_def key_of_def isTerminal_def)
qed

lemma step_failed_ends:
  assumes "at_rest x view"
  shows "runs w (step_failed x r task st err) (\<lambda>res l w'. snd res = None \<longrightarrow> ended (view w') task)"
  unfolding step_failed_def metrics_defs
  by (intro runs_rules runs_mono [OF failTask_ends [OF assms]]) simp_all

lemma run_steps_fill:
  assumes "at_rest x view" and "list_all2 (\<lambda>st sl. fills x view task sl (step_run st)) sts sls" and "distinct (map fst sls)"
  shows "runs w (run_steps x r task sts) (\<lambda>v l w'. case v of
      None \<Rightarrow> elsewhere (fst ` set sls) (view w) (view w') \<and> list_all (slot_ok x task (view w')) sls
    | Some res \<Rightarrow> snd res = None \<longrightarrow> ended (view w') task)"
  using assms(2,3)
proof (induction sts sls arbitrary: w rule: list_all2_induct)
  case (Cons st sts sl sls)
  have step: "runs w (step_run st) (\<lambda>e l w'. e = None \<longrightarrow> elsewhere {fst sl} (view w) (view w') \<and> slot_ok x task (view w') sl)"
    using Cons.hyps(1) by (simp add: fills_def)
  have rest: "runs w1 (run_steps x r task sts) (\<lambda>v l w'. case v of
      None \<Rightarrow> elsewhere (fst ` set (sl # sls)) (view w) (view w') \<and> list_all (slot_ok x task (view w')) (sl # sls)
    | Some res \<Rightarrow> snd res = None \<longrightarrow> ended (view w') task)"
    if one: "elsewhere {fst sl} (view w) (view w1)" "slot_ok x task (view w1) sl" for w1
  proof (rule runs_mono [OF Cons.IH])
    fix v l w'
    assume v: "case v of None \<Rightarrow> elsewhere (fst ` set sls) (view w1) (view w') \<and> list_all (slot_ok x task (view w')) sls
      | Some res \<Rightarrow> snd res = None \<longrightarrow> ended (view w') task"
    have "elsewhere (fst ` set sls) (view w1) (view w') \<Longrightarrow> slot_ok x task (view w') sl"
      by (rule slot_ok_elsewhere [OF _ _ one(2)]) (use Cons.prems in auto)
    with v elsewhere_trans [OF one(1), of "fst ` set sls" "view w'" "fst ` set (sl # sls)"]
    show "case v of None \<Rightarrow> elsewhere (fst ` set (sl # sls)) (view w) (view w') \<and> list_all (slot_ok x task (view w')) (sl # sls)
      | Some res \<Rightarrow> snd res = None \<longrightarrow> ended (view w') task" by (auto split: option.splits)
  qed (use Cons.prems in auto)
  show ?case unfolding run_steps.simps
    by (intro runs_bind runs_mono [OF step] runs_option runs_mono [OF step_failed_ends [OF assms(1)]] runs_return)
       (auto intro: rest)
qed (auto intro: runs_rules)

lemma run_steps_rest:
  assumes "list_all2 (\<lambda>st sl. rests x view task sl (step_run st) \<and> (fst (snd sl) = None \<longrightarrow> step_invalidReason st = [])) sts sls"
    and "distinct (map fst sls)" and "list_all (slot_ok x task (view w)) sls"
  shows "runs w (run_steps x r task sts) (\<lambda>v l w'. elsewhere (unwanted sls) (view w) (view w') \<and> list_all (reading task) l)"
  using assms
proof (induction sts sls arbitrary: w rule: list_all2_induct)
  case (Cons st sts sl sls)
  have step: "runs w (step_run st) (\<lambda>e l w'. elsewhere (unwanted [sl]) (view w) (view w') \<and> list_all (reading task) l \<and>
      (\<forall>err. e = Some err \<longrightarrow> \<not> IsPermanent err \<or> fst (snd sl) = None))"
    using Cons.hyps(1) Cons.prems by (simp add: rests_def)
  have unwanted: "unwanted (sl # sls) = unwanted [sl] \<union> unwanted sls" by (auto simp: unwanted_def)
  have rest: "runs w1 (run_steps x r task sts) (\<lambda>v l w'. elsewhere (unwanted (sl # sls)) (view w) (view w') \<and> list_all (reading task) l)"
    if one: "elsewhere (unwanted [sl]) (view w) (view w1)" for w1
  proof (rule runs_mono [OF Cons.IH])
    show "list_all (slot_ok x task (view w1)) sls"
      unfolding list_all_iff
    proof
      fix sl' assume "sl' \<in> set sls"
      with Cons.prems have "fst sl' \<notin> unwanted [sl]" "slot_ok x task (view w) sl'"
        by (auto simp: unwanted_def list_all_iff)
      then show "slot_ok x task (view w1) sl'" by (rule slot_ok_elsewhere [OF one])
    qed
    fix v l w' assume "elsewhere (unwanted sls) (view w1) (view w') \<and> list_all (reading task) l"
    then show "elsewhere (unwanted (sl # sls)) (view w) (view w') \<and> list_all (reading task) l"
      unfolding unwanted using elsewhere_trans [OF one] by blast
  qed (use Cons.prems in simp)
  have stop: "runs w1 (step_failed x r task st err) (\<lambda>res l w'. w' = w1 \<and> list_all (reading task) l)"
    if "\<not> IsPermanent err \<or> fst (snd sl) = None" for err w1
    using that Cons.hyps(1) unfolding step_failed_def metrics_defs by (intro runs_rules) auto
  show ?case unfolding run_steps.simps
    by (intro runs_bind runs_mono [OF step] runs_option runs_return)
       (auto intro!: runs_mono [OF rest] runs_mono [OF stop] runs_return simp: unwanted intro: elsewhere_trans)
qed (auto intro: runs_rules)

section \<open>The slots of a Task\<close>

definition slots_of :: "Task \<Rightarrow> ClusterAgentClass \<Rightarrow> NetworkPolicy \<Rightarrow> slot list" where
  "slots_of task agent np =
    (let ns = task_Namespace task; rbac = pm_RBAC (ts_Permissions (task_Spec task)) in
     [((KServiceAccount, ns, task_Name task), Some (OServiceAccount (buildServiceAccount task)), mutate_sa),
      ((KRole, ns, task_Name task), map_option ORole (BuildRole (task_Name task) ns rbac), mutate_role),
      ((KRoleBinding, ns, task_Name task), map_option ORoleBinding (BuildRoleBinding (task_Name task) ns rbac), mutate_rolebinding),
      ((KNetworkPolicy, ns, task_Name task), Some (ONetworkPolicy np), mutate_netpol),
      ((KConfigMap, ns, InlinePromptConfigMapName (task_Name task)),
        map_option OConfigMap (BuildInlinePromptConfigMap (task_Name task) ns (ts_Prompt (task_Spec task))), mutate_configmap),
      ((KConfigMap, ns, AgentConfigMapName (task_Name task)),
        map_option OConfigMap (BuildAgentConfigMap (task_Name task) ns (ar_Config (ts_Agent (task_Spec task)))
          (ac_Inputs (agc_Spec agent))), mutate_configmap)])"

lemma distinct_slots: "distinct (map fst (slots_of task agent np))"
  by (simp add: slots_of_def Let_def InlinePromptConfigMapName_def AgentConfigMapName_def)

lemma slots_not_others:
  "sl \<in> set (slots_of task agent np) \<Longrightarrow> fst (fst sl) \<noteq> KJob \<and> fst (fst sl) \<noteq> KTask \<and> fst (fst sl) \<noteq> KAgentClass"
  by (auto simp: slots_of_def Let_def)

text \<open>The policy that building computes as long as the names resolve to the same addresses.\<close>

definition policy_is :: "'w ext \<Rightarrow> ('w \<Rightarrow> cluster) \<Rightarrow> 'w reconciler \<Rightarrow> Task \<Rightarrow> ClusterAgentClass \<Rightarrow> NetworkPolicy \<Rightarrow> bool" where
  "policy_is x view r task agent np \<longleftrightarrow>
     computes view (BuildNetworkPolicy x (resolver_of x r) (task_Name task) (task_Namespace task)
       (effective_egress task agent) (pm_EgressPorts (ts_Permissions (task_Spec task)))) (Inr np) \<and>
     slot_of (ONetworkPolicy np) = (KNetworkPolicy, task_Namespace task, task_Name task)"

lemma slots_form:
  assumes "slot_of (ONetworkPolicy np) = (KNetworkPolicy, task_Namespace task, task_Name task)"
  shows "list_all (slot_form task) (slots_of task agent np)"
proof -
  let ?t = "task_Name task" and ?ns = "task_Namespace task"
  have prompt: "key_of (OConfigMap cm) = (?ns, InlinePromptConfigMapName ?t)"
    if "BuildInlinePromptConfigMap ?t ?ns p = Some cm" for p cm
    using prompt_builder.built_key [of ?t ?ns p "OConfigMap cm"] that by simp
  have config: "key_of (OConfigMap cm) = (?ns, AgentConfigMapName ?t)" if "BuildAgentConfigMap ?t ?ns c i = Some cm" for c i cm
    using config_builder.built_key [of ?t ?ns "(c, i)" "OConfigMap cm"] that by simp
  have role: "key_of (ORole ro) = (?ns, ?t)" if "BuildRole ?t ?ns rs = Some ro" for rs ro
    using role_builder.built_key [of ?t ?ns rs "ORole ro"] that by simp
  have binding: "key_of (ORoleBinding rb) = (?ns, ?t)" if "BuildRoleBinding ?t ?ns rs = Some rb" for rs rb
    using rolebinding_builder.built_key [of ?t ?ns rs "ORoleBinding rb"] that by simp
  show ?thesis using assms
    by (auto simp: slots_of_def Let_def slot_form_def mutators_def own_deletes_def InlinePromptConfigMapName_def
        AgentConfigMapName_def key_of_def buildServiceAccount_def task_object_meta_def taskResourceName_def
        dest!: prompt config role binding split: option.split)
qed

lemma policy_step:
  assumes "at_rest x view" and "deepEqual_refl x" and "owner_laws x"
    and "computes view (BuildNetworkPolicy x (resolver_of x r) (task_Name task) (task_Namespace task) egress
       (pm_EgressPorts (ts_Permissions (task_Spec task)))) (Inr np)"
    and "slot_form task (k, Some (ONetworkPolicy np), mutate_netpol)"
  shows "fills x view task (k, Some (ONetworkPolicy np), mutate_netpol) (ensureNetworkPolicy x r task egress)"
    and "rests x view task (k, Some (ONetworkPolicy np), mutate_netpol) (ensureNetworkPolicy x r task egress)"
proof -
  let ?sl = "(k, Some (ONetworkPolicy np), mutate_netpol)"
  have ensure: "ensure_slot x task ?sl = ensureOwned x task (ONetworkPolicy np) mutate_netpol"
    by (simp add: ensure_slot_def split: prod.split)
  note build = assms(4) [unfolded computes_def, rule_format]
  note filled = ensure_slot_fills [OF assms(1,2,3,5), unfolded fills_def ensure, rule_format]
  note rested = ensure_slot_rests [OF assms(1,5), unfolded rests_def ensure, rule_format]
  show "fills x view task ?sl (ensureNetworkPolicy x r task egress)"
    unfolding fills_def ensureNetworkPolicy_def
    by (intro allI runs_bind runs_mono [OF build]) (auto intro!: runs_mono [OF filled] simp: split: sum.split)
  show "rests x view task ?sl (ensureNetworkPolicy x r task egress)"
    unfolding rests_def ensureNetworkPolicy_def
    by (intro allI impI runs_bind runs_mono [OF build])
       (auto intro!: runs_mono [OF rested] simp: list_all_iff split: sum.split)
qed

lemma steps_slots:
  assumes "at_rest x view" and "deepEqual_refl x" and "owner_laws x" and "policy_is x view r task agent np"
  shows "list_all2 (\<lambda>st sl. fills x view task sl (step_run st))
      (reconcile_steps x r task agent (effective_egress task agent)) (slots_of task agent np)" (is ?fills)
    and "list_all2 (\<lambda>st sl. rests x view task sl (step_run st) \<and> (fst (snd sl) = None \<longrightarrow> step_invalidReason st = []))
      (reconcile_steps x r task agent (effective_egress task agent)) (slots_of task agent np)" (is ?rests)
proof -
  have form: "list_all (slot_form task) (slots_of task agent np)" by (rule slots_form) (use assms(4) in \<open>simp add: policy_is_def\<close>)
  have built: "computes view (BuildNetworkPolicy x (resolver_of x r) (task_Name task) (task_Namespace task)
       (effective_egress task agent) (pm_EgressPorts (ts_Permissions (task_Spec task)))) (Inr np)"
    using assms(4) by (simp add: policy_is_def)
  note policy = policy_step [OF assms(1-3) built]
  have runs: "ensureServiceAccount x task = ensure_slot x task (slots_of task agent np ! 0)"
    "ensureRole x task = ensure_slot x task (slots_of task agent np ! 1)"
    "ensureRoleBinding x task = ensure_slot x task (slots_of task agent np ! 2)"
    "ensurePromptConfigMap x task = ensure_slot x task (slots_of task agent np ! 4)"
    "ensureAgentConfigMap x task agent = ensure_slot x task (slots_of task agent np ! 5)"
    by (auto simp: slots_of_def Let_def ensure_slot_def ensureServiceAccount_def ensureRole_def ensureRoleBinding_def
        ensurePromptConfigMap_def ensureAgentConfigMap_def taskResourceName_def split: option.split)
  note each = ensure_slot_fills [OF assms(1-3)] ensure_slot_rests [OF assms(1)] policy
  have len: "length (slots_of task agent np) = 6" by (simp add: slots_of_def Let_def)
  show ?fills using form len each unfolding reconcile_steps_def
    by (auto simp: slots_of_def Let_def runs)
  show ?rests using form len each unfolding reconcile_steps_def
    by (auto simp: slots_of_def Let_def runs)
qed

section \<open>The Job\<close>

definition job_slot :: "'w ext \<Rightarrow> 'w reconciler \<Rightarrow> Task \<Rightarrow> ClusterAgentClass \<Rightarrow> kind \<times> NamespacedName \<Rightarrow> bool" where
  "job_slot x r task agent k \<longleftrightarrow>
     (\<exists>built d. buildJob x task agent (effective_secrets task agent) (r_JobTTLSeconds r) = Inr built \<and>
        x_setControllerReference x task (OJob built) = Inr d \<and> k = slot_of d \<and> kind_of d = KJob)"

lemma runs_get_Job:
  assumes "at_rest x view"
    and "\<And>e rsp w'. view w' = view w \<Longrightarrow> got_from x (view w) (KJob, key) (Inl e) \<Longrightarrow> Q (Inl e) [Call (CGet KJob key) rsp] w'"
    and "\<And>job w'. view w' = view w \<Longrightarrow> cl_objs (view w) (KJob, key) = Some (OJob job) \<Longrightarrow>
      Q (Inr job) [Call (CGet KJob key) (RObj (OJob job))] w'"
  shows "runs w (get_Job x key) Q"
  unfolding get_Job_def
proof (intro runs_bind runs_Get [OF assms(1)] runs_return)
  fix rsp w'
  assume w': "view w' = view w" and got: "got_from x (view w) (KJob, key) (got_obj KJob rsp)"
    and rsp: "case got_obj KJob rsp of Inr ob \<Rightarrow> rsp = RObj ob | Inl e \<Rightarrow> rsp = RErr e"
  show "Q (case got_obj KJob rsp of Inl e \<Rightarrow> Inl e | Inr ob \<Rightarrow> (case ob of OJob j \<Rightarrow> Inr j | _ \<Rightarrow> Inl undecodable))
      ([Call (CGet KJob key) rsp] @ []) w'"
  proof (cases "got_obj KJob rsp")
    case (Inr ob)
    then obtain job where "ob = OJob job" using got_obj_kind [OF Inr] by (cases ob) auto
    with assms(3) [OF w'] got rsp Inr show ?thesis by (simp add: got_from_def)
  qed (use assms(2) [OF w'] got in simp)
qed

lemma ensureJob_fills:
  assumes "at_rest x view" and "owner_laws x"
  shows "runs w (ensureJob x r task agent (effective_secrets task agent)) (\<lambda>v l w'. \<forall>job. v = Inr job \<longrightarrow>
    (\<exists>k. job_slot x r task agent k \<and> fst k = KJob \<and> elsewhere {k} (view w) (view w') \<and> cl_objs (view w') k = Some (OJob job)))"
proof (cases "buildJob x task agent (effective_secrets task agent) (r_JobTTLSeconds r)")
  case (Inr built)
  show ?thesis
  proof (cases "x_setControllerReference x task (OJob built)")
    case (Inr d)
    with owner_slot [OF assms(2) Inr] \<open>buildJob _ _ _ _ _ = _\<close> have k: "job_slot x r task agent (slot_of d)" "kind_of d = KJob"
      by (auto simp: job_slot_def)
    have "runs w (ensureJob x r task agent (effective_secrets task agent)) (\<lambda>v l w'. \<forall>job. v = Inr job \<longrightarrow>
        elsewhere {slot_of d} (view w) (view w') \<and> cl_objs (view w') (slot_of d) = Some (OJob job))"
      unfolding ensureJob_def \<open>buildJob _ _ _ _ _ = _\<close> Inr sum.case
      by (intro runs_rules runs_get_Job [OF assms(1)] runs_Create [OF assms(1)])
         (auto simp: as_job_def k(2) elsewhere_put split: obj.splits)
    then show ?thesis by (rule runs_mono, intro allI impI exI [of _ "slot_of d"]) (use k in simp)
  qed (auto simp: ensureJob_def Inr intro: runs_rules)
qed (auto simp: ensureJob_def intro: runs_rules)

lemma ensureJob_rests:
  assumes "at_rest x view" and "job_slot x r task agent k" and "cl_objs (view w) k = Some (OJob job)"
  shows "runs w (ensureJob x r task agent (effective_secrets task agent)) (\<lambda>v l w'. view w' = view w \<and> list_all (reading task') l \<and>
    (case v of Inr job' \<Rightarrow> job' = job | Inl e \<Rightarrow> \<not> IsPermanent e))"
proof -
  from assms(2) obtain built d where "buildJob x task agent (effective_secrets task agent) (r_JobTTLSeconds r) = Inr built"
    "x_setControllerReference x task (OJob built) = Inr d" "k = slot_of d" "kind_of d = KJob" by (auto simp: job_slot_def)
  with assms(3) show ?thesis unfolding ensureJob_def
    by (simp, intro runs_rules runs_get_Job [OF assms(1)]) (auto simp: got_from_def)
qed

section \<open>Statuses\<close>

text \<open>
  Further documented behaviour of \<open>meta.SetStatusCondition\<close> and \<open>meta.FindStatusCondition\<close>: a condition
  of a type that is there is replaced, and a condition is found when the types are distinct (the
  conditions of a Task are a map by type). The comparison of Results is reflexive.
\<close>

definition status_laws :: "'w ext \<Rightarrow> bool" where
  "status_laws x \<longleftrightarrow> condition_laws x \<and> condition_appends x \<and> condition_keys x \<and>
     (\<forall>now cs c. x_findStatusCondition x cs (cd_Type c) \<noteq> None \<longrightarrow> length (x_setStatusCondition x now cs c) = length cs) \<and>
     (\<forall>cs c. distinct (map cd_Type cs) \<longrightarrow> c \<in> set cs \<longrightarrow> x_findStatusCondition x cs (cd_Type c) = Some c) \<and>
     (\<forall>res. x_deepEqualResult x res res)"

definition same_condition :: "Condition \<Rightarrow> Condition \<Rightarrow> bool" where
  "same_condition a b \<longleftrightarrow> cd_Status a = cd_Status b \<and> cd_Reason a = cd_Reason b \<and> cd_Message a = cd_Message b \<and>
     cd_ObservedGeneration a = cd_ObservedGeneration b"

lemma condition_same_iff: "condition_same x cs ac \<longleftrightarrow> (\<exists>bc. x_findStatusCondition x cs (cd_Type ac) = Some bc \<and> same_condition ac bc)"
  by (auto simp: condition_same_def same_condition_def split: option.splits)

lemma same_condition_set [simp]: "same_condition a (condition_set now old c) \<longleftrightarrow> same_condition a c"
  by (auto simp: same_condition_def condition_set_def split: option.splits)

lemma find_set:
  assumes "status_laws x"
  shows "x_findStatusCondition x (x_setStatusCondition x now cs c) ty =
    (if ty = cd_Type c then Some (condition_set now (x_findStatusCondition x cs ty) c) else x_findStatusCondition x cs ty)"
  using assms by (auto simp: status_laws_def condition_laws_def)

lemma length_set:
  assumes "status_laws x"
  shows "length (x_setStatusCondition x now cs c) = (if x_findStatusCondition x cs (cd_Type c) = None then Suc (length cs) else length cs)"
  using assms by (auto simp: status_laws_def condition_appends_def)

text \<open>The comparison does not depend on the time at which a condition was set.\<close>

lemma equalStatus_now:
  assumes "status_laws x"
  shows "equalStatus x a (b\<lparr>st_Conditions := x_setStatusCondition x now cs c\<rparr>) =
    equalStatus x a (b\<lparr>st_Conditions := x_setStatusCondition x now' cs c\<rparr>)"
proof -
  have "condition_same x (x_setStatusCondition x now cs c) ac = condition_same x (x_setStatusCondition x now' cs c) ac" for ac
    by (simp add: condition_same_iff find_set [OF assms])
  then have "condition_same x (x_setStatusCondition x now cs c) = condition_same x (x_setStatusCondition x now' cs c)" by blast
  then show ?thesis by (simp add: equalStatus_def length_set [OF assms])
qed

text \<open>Setting a condition that is there already changes nothing that the comparison sees.\<close>

lemma equalStatus_again:
  assumes "status_laws x" and "distinct (map cd_Type (st_Conditions st))"
    and "x_findStatusCondition x (st_Conditions st) (cd_Type c) = Some rc" and "same_condition rc c"
  shows "equalStatus x st (st\<lparr>st_Conditions := x_setStatusCondition x now (st_Conditions st) c\<rparr>)"
proof -
  have found: "x_findStatusCondition x (st_Conditions st) (cd_Type ac) = Some ac" if "ac \<in> set (st_Conditions st)" for ac
    using assms(1,2) that by (simp add: status_laws_def)
  have "condition_same x (x_setStatusCondition x now (st_Conditions st) c) ac" if ac: "ac \<in> set (st_Conditions st)" for ac
  proof (cases "cd_Type ac = cd_Type c")
    case True
    with found [OF ac] assms(3) have "ac = rc" by simp
    with True assms(4) show ?thesis by (simp add: condition_same_iff find_set [OF assms(1)])
  next
    case False
    with found [OF ac] show ?thesis by (simp add: condition_same_iff find_set [OF assms(1)] same_condition_def)
  qed
  moreover have "x_deepEqualResult x (st_Result st) (st_Result st)" using assms(1) by (simp add: status_laws_def)
  ultimately show ?thesis using assms(3)
    by (auto simp: equalStatus_def timesEqual_def length_set [OF assms(1)] list_all_iff split: option.splits)
qed

lemma distinct_set: "status_laws x \<Longrightarrow> distinct (map cd_Type cs) \<Longrightarrow> distinct (map cd_Type (x_setStatusCondition x now cs c))"
  by (auto simp: status_laws_def condition_keys_def)

section \<open>The status of a Task with a Job\<close>

text \<open>The Task with the state of its Job copied on and the Ready condition set at \<open>now\<close>.\<close>

definition job_ready :: "Task \<Rightarrow> Job \<Rightarrow> Condition" where
  "job_ready task job = (case derivePhase job of (phase, reason, msg) \<Rightarrow>
     ready_condition task (conditionStatusFor phase) reason msg)"

definition job_synced :: "'w ext \<Rightarrow> Task \<Rightarrow> Job \<Rightarrow> gotime \<Rightarrow> Task" where
  "job_synced x task job now = (job_status_onto task job)\<lparr>task_Status := (task_Status (job_status_onto task job))\<lparr>
     st_Conditions := x_setStatusCondition x now (st_Conditions (task_Status task)) (job_ready task job)\<rparr>\<rparr>"

text \<open>No pod of the Job has a termination message yet.\<close>

definition no_message :: "'w ext \<Rightarrow> cluster \<Rightarrow> Task \<Rightarrow> Job \<Rightarrow> bool" where
  "no_message x c task job \<longleftrightarrow> fst (pod_loop x (om_UID (job_Meta job)) False
     (cl_pods c (Some (task_Namespace task)) (Some [(LabelTaskName, task_Name task)]))) = None"

definition in_sync :: "'w ext \<Rightarrow> cluster \<Rightarrow> Task \<Rightarrow> Job \<Rightarrow> bool" where
  "in_sync x c task job \<longleftrightarrow> (\<forall>now. equalStatus x (task_Status task) (task_Status (job_synced x task job now))) \<and>
     \<not> isTerminal (fst (derivePhase job)) \<and> (resultDecided x task \<or> no_message x c task job)"

lemma job_ready_type [simp]: "cd_Type (job_ready task job) = conditionReady"
  by (simp add: job_ready_def ready_condition_def split: prod.split)

lemma job_synced_fields [simp]:
  "st_Phase (task_Status (job_synced x task job now)) = fst (derivePhase job)" "task_Meta (job_synced x task job now) = task_Meta task"
  "task_Spec (job_synced x task job now) = task_Spec task"
  "st_Conditions (task_Status (job_synced x task job now)) = x_setStatusCondition x now (st_Conditions (task_Status task)) (job_ready task job)"
  by (simp_all add: job_synced_def job_status_onto_def)

lemma resultDecided_synced: "status_laws x \<Longrightarrow> resultDecided x (job_synced x task job now) = resultDecided x task"
  by (simp add: resultDecided_def find_set)

text \<open>A Task that \<open>observeResult\<close> leaves as it is, or one on which it decides the Result.\<close>

definition observed :: "'w ext \<Rightarrow> cluster \<Rightarrow> Task \<Rightarrow> Job \<Rightarrow> Task \<Rightarrow> bool" where
  "observed x c task job t \<longleftrightarrow> t = task \<and> (resultDecided x task \<or> no_message x c task job) \<or>
     \<not> resultDecided x task \<and> (\<exists>now res rc. cd_Type rc = conditionResult \<and>
       t = task\<lparr>task_Status := (task_Status task)\<lparr>st_Result := res,
         st_Conditions := x_setStatusCondition x now (st_Conditions (task_Status task)) rc\<rparr>\<rparr>)"

lemma observed_decides:
  "\<not> resultDecided x task \<Longrightarrow> cd_Type rc = conditionResult \<Longrightarrow>
   observed x c task job (task\<lparr>task_Status := (task_Status task)\<lparr>st_Result := res,
     st_Conditions := x_setStatusCondition x now (st_Conditions (task_Status task)) rc\<rparr>\<rparr>)"
  unfolding observed_def by blast

lemma runs_setResult:
  assumes "at_rest x view" and "\<And>now w' rc. view w' = view w \<Longrightarrow> cd_Type rc = conditionResult \<Longrightarrow>
      Q (task\<lparr>task_Status := (task_Status task)\<lparr>st_Conditions := x_setStatusCondition x now (st_Conditions (task_Status task)) rc\<rparr>\<rparr>) [] w'"
  shows "runs w (setResultCondition x task reason msg) Q"
  unfolding setResultCondition_def by (intro runs_set_condition [OF assms(1)] assms(2)) (simp_all add: result_condition_def)

lemma observeResult_runs:
  assumes "at_rest x view"
  shows "runs w (observeResult x r task (om_UID (job_Meta job)) egress) (\<lambda>v l w'. view w' = view w \<and> list_all (reading task') l \<and>
    (\<forall>d t. v = Inr (d, t) \<longrightarrow> observed x (view w) task job t))"
proof (cases "resultDecided x task")
  case True
  then show ?thesis unfolding observeResult_def by (auto simp: observed_def intro: runs_rules)
next
  case False
  have unchanged: "observed x c task job (task\<lparr>task_Status := (task_Status task)\<lparr>
      st_Conditions := x_setStatusCondition x now (st_Conditions (task_Status task)) rc\<rparr>\<rparr>)" if "cd_Type rc = conditionResult" for c now rc
    using observed_decides [OF False that, where c = c and job = job and res = "st_Result (task_Status task)" and now = now] by simp
  have parsed: "runs w1 (applyParsedResult x task p) (\<lambda>t l w'. view w' = view w1 \<and> l = [] \<and> observed x c task job t)" for w1 p c
    unfolding applyParsedResult_def Let_def using False
    by (cases "pr_Outcome p") (auto intro!: runs_setResult [OF assms] observed_decides)
  have pods: "runs w1 (observe_pods x r task (om_UID (job_Meta job)) egress
      (cl_pods (view w) (Some (task_Namespace task)) (Some [(LabelTaskName, task_Name task)])))
     (\<lambda>v l w'. view w' = view w \<and> l = [] \<and> (\<forall>d t. v = Inr (d, t) \<longrightarrow> observed x (view w) task job t))" if "view w1 = view w" for w1
  proof -
    obtain msg seen where loop: "pod_loop x (om_UID (job_Meta job)) False
      (cl_pods (view w) (Some (task_Namespace task)) (Some [(LabelTaskName, task_Name task)])) = (msg, seen)" by fastforce
    show ?thesis
    proof (cases msg)
      case (Some m)
      then show ?thesis unfolding observe_pods_def loop
        by (simp, intro runs_bind runs_mono [OF parsed] runs_return) (simp add: that)
    next
      case None
      then have same: "observed x (view w) task job task" by (simp add: observed_def no_message_def loop)
      have since: "runs w2 (terminalSince x task) (\<lambda>_ l w'. view w' = view w2 \<and> l = [])" for w2
        unfolding terminalSince_def by (auto intro!: runs_rules runs_clock [OF assms] split: option.split)
      show ?thesis unfolding observe_pods_def loop None
        using same False
        by (simp, intro conjI impI runs_bind runs_mono [OF since] runs_clock [OF assms] runs_if runs_return runs_setResult [OF assms])
           (auto simp: that intro: unchanged)
    qed
  qed
  show ?thesis unfolding observeResult_def using False
    by (simp, intro runs_bind runs_List_pods [OF assms])
       (auto intro!: runs_return runs_mono [OF pods])
qed

text \<open>Without a message and without an end, \<open>observeResult\<close> leaves the Task as it is.\<close>

lemma observeResult_rests:
  assumes "at_rest x view"
    and "resultDecided x task \<or> no_message x (view w) task job \<and> \<not> isTerminal (st_Phase (task_Status task))"
  shows "runs w (observeResult x r task (om_UID (job_Meta job)) egress) (\<lambda>v l w'. view w' = view w \<and> list_all (reading task') l \<and>
    (\<forall>d t. v = Inr (d, t) \<longrightarrow> t = task))"
proof (cases "resultDecided x task")
  case True
  then show ?thesis unfolding observeResult_def by (auto intro: runs_rules)
next
  case False
  with assms(2) obtain seen where loop: "pod_loop x (om_UID (job_Meta job)) False
      (cl_pods (view w) (Some (task_Namespace task)) (Some [(LabelTaskName, task_Name task)])) = (None, seen)"
    and live: "\<not> isTerminal (st_Phase (task_Status task))" by (auto simp: no_message_def) (metis prod.collapse)
  show ?thesis unfolding observeResult_def using False
    by (simp, intro runs_bind runs_List_pods [OF assms(1)]) (auto intro!: runs_return simp: observe_pods_def loop live)
qed

text \<open>The same Task with another status, as the server stores it.\<close>

definition same_task :: "Task \<Rightarrow> Task \<Rightarrow> bool" where
  "same_task t u \<longleftrightarrow> (\<exists>m st. u = t\<lparr>task_Meta := (task_Meta t)\<lparr>om_rest := m\<rparr>, task_Status := st\<rparr>)"

lemma same_task_refl [simp]: "same_task t t"
  unfolding same_task_def by (rule exI [of _ "om_rest (task_Meta t)"], rule exI [of _ "task_Status t"]) simp

lemma observed_phase: "observed x c task job t \<Longrightarrow> st_Phase (task_Status t) = st_Phase (task_Status task)"
  by (auto simp: observed_def)

lemma no_message_synced [simp]: "no_message x c (job_synced x task job now) job = no_message x c task job"
  by (simp add: no_message_def)

lemma in_sync_unwritten:
  assumes "status_laws x" and "observed x c (job_synced x task job now) job t" and "equalStatus x (task_Status task) (task_Status t)"
    and "\<not> isTerminal (st_Phase (task_Status task))"
  shows "in_sync x c task job"
proof -
  have phase: "\<not> isTerminal (fst (derivePhase job))" using observed_phase [OF assms(2)] equalStatus_phase [OF assms(3)] assms(4) by simp
  consider (same) "t = job_synced x task job now" "resultDecided x (job_synced x task job now) \<or> no_message x c (job_synced x task job now) job"
    | (decided) now' res rc where "\<not> resultDecided x (job_synced x task job now)" "cd_Type rc = conditionResult"
      "t = (job_synced x task job now)\<lparr>task_Status := (task_Status (job_synced x task job now))\<lparr>st_Result := res,
         st_Conditions := x_setStatusCondition x now' (st_Conditions (task_Status (job_synced x task job now))) rc\<rparr>\<rparr>"
    using assms(2) unfolding observed_def by blast
  then show ?thesis
  proof cases
    case same
    then have "resultDecided x task \<or> no_message x c task job" by (simp add: resultDecided_synced [OF assms(1)])
    moreover have "equalStatus x (task_Status task) (task_Status (job_synced x task job now'))" for now'
      using assms(3) equalStatus_now [OF assms(1), where a = "task_Status task" and cs = "st_Conditions (task_Status task)" and now = now and now' = now']
      unfolding same(1) job_synced_def by simp
    ultimately show ?thesis using phase by (simp add: in_sync_def)
  next
    case decided
    then have "length (st_Conditions (task_Status t)) > length (st_Conditions (task_Status task))"
      by (simp add: length_set [OF assms(1)] resultDecided_def)
    with assms(3) show ?thesis by (simp add: equalStatus_def split: if_splits)
  qed
qed

lemma in_sync_written:
  assumes "status_laws x" and "observed x c (job_synced x task job now) job t" and "distinct (map cd_Type (st_Conditions (task_Status task)))"
    and u: "u = task\<lparr>task_Meta := (task_Meta task)\<lparr>om_rest := m\<rparr>, task_Status := task_Status t\<rparr>"
    and "\<not> isTerminal (st_Phase (task_Status u))" and "cl_pods c' = cl_pods c"
  shows "in_sync x c' u job"
proof -
  let ?cs = "st_Conditions (task_Status u)"
  have ready: "job_ready u job = job_ready task job" by (simp add: job_ready_def ready_condition_def u split: prod.split)
  have kept: "job_status_onto u job = u"
    using assms(2) by (auto simp: observed_def u job_status_onto_def job_synced_def)
  have phase: "\<not> isTerminal (fst (derivePhase job))" using assms(5) observed_phase [OF assms(2)] by (simp add: u)
  have "\<exists>rc. x_findStatusCondition x ?cs conditionReady = Some rc \<and> same_condition rc (job_ready task job)" "distinct (map cd_Type ?cs)"
    using assms(2,3) by (auto simp: observed_def u find_set [OF assms(1)] distinct_set [OF assms(1)] same_condition_def condition_set_def split: option.splits)
  then have "equalStatus x (task_Status u) (task_Status (job_synced x u job now'))" for now'
    using equalStatus_again [OF assms(1), of "task_Status u" "job_ready task job"] by (auto simp: job_synced_def kept ready)
  moreover have "resultDecided x u \<or> no_message x c' u job"
    using assms(2,6) by (auto simp: observed_def u resultDecided_def no_message_def find_set [OF assms(1)])
  ultimately show ?thesis using phase by (simp add: in_sync_def)
qed

lemma syncStatus_eq:
  "syncStatus x r task job egress = do {
     task1 \<leftarrow> set_condition x (job_status_onto task job) (job_ready task job);
     o1 \<leftarrow> observeResult x r task1 (om_UID (job_Meta job)) egress;
     case o1 of
       Inl e \<Rightarrow> State_Monad.return (Inl e)
     | Inr (requeue, task2) \<Rightarrow>
         if equalStatus x (task_Status task) (task_Status task2) then State_Monad.return (Inr (requeue, task2))
         else do {
           u \<leftarrow> client_StatusUpdate x task2;
           case u of
             Inl e \<Rightarrow> State_Monad.return (Inl e)
           | Inr task3 \<Rightarrow> do {
               report_transition r (st_Phase (task_Status task)) (derivePhase job) task3;
               State_Monad.return (Inr (requeue, task3)) } } }"
  by (cases "derivePhase job") (simp add: syncStatus_def Let_def job_ready_def)

lemma runs_synced:
  assumes "at_rest x view" and "\<And>now w'. view w' = view w \<Longrightarrow> Q (job_synced x task job now) [] w'"
  shows "runs w (set_condition x (job_status_onto task job) (job_ready task job)) Q"
  using assms(2) by (intro runs_set_condition [OF assms(1)]) (simp add: job_synced_def job_status_onto_def)

lemma observed_meta: "observed x c task job t \<Longrightarrow> task_Meta t = task_Meta task"
  by (auto simp: observed_def)

lemma syncStatus_settles:
  assumes "at_rest x view" and "status_laws x" and "cl_objs (view w) (slot_of (OTask task)) = Some (OTask task)"
    and "distinct (map cd_Type (st_Conditions (task_Status task)))"
  shows "runs w (syncStatus x r task job egress) (\<lambda>v l w'. \<not> isl v \<longrightarrow> (\<exists>u. same_task task u \<and>
    cl_objs (view w') (slot_of (OTask task)) = Some (OTask u) \<and> elsewhere {slot_of (OTask task)} (view w) (view w') \<and>
    (\<not> isTerminal (st_Phase (task_Status u)) \<longrightarrow> in_sync x (view w') u job)))"
proof -
  have report: "runs w1 (report_transition r p q t) (\<lambda>_ l w'. w' = w1)" for w1 p q t
    unfolding report_transition_def recordEvent_def metrics_defs
    by (cases q) (auto intro!: runs_rules split: option.split)
  let ?post = "\<lambda>c'. \<exists>u. same_task task u \<and> cl_objs c' (slot_of (OTask task)) = Some (OTask u) \<and>
      elsewhere {slot_of (OTask task)} (view w) c' \<and> (\<not> isTerminal (st_Phase (task_Status u)) \<longrightarrow> in_sync x c' u job)"
  have finish: "runs w1 (if equalStatus x (task_Status task) (task_Status t) then State_Monad.return (Inr (requeue, t))
        else do {
           u \<leftarrow> client_StatusUpdate x t;
           case u of
             Inl e \<Rightarrow> State_Monad.return (Inl e)
           | Inr task3 \<Rightarrow> do {
               report_transition r (st_Phase (task_Status task)) (derivePhase job) task3;
               State_Monad.return (Inr (requeue, task3)) } }) (\<lambda>v l w'. \<not> isl v \<longrightarrow> ?post (view w'))"
    if ob: "observed x (view w) (job_synced x task job now) job t" and w1: "view w1 = view w" for now t w1 requeue
  proof (rule runs_if)
    assume "equalStatus x (task_Status task) (task_Status t)"
    then have "?post (view w1)" using in_sync_unwritten [OF assms(2) ob] assms(3) by (intro exI [of _ task]) (simp add: w1)
    then show "runs w1 (State_Monad.return (Inr (requeue, t))) (\<lambda>v l w'. \<not> isl v \<longrightarrow> ?post (view w'))" by (intro runs_return) simp
  next
    have slot: "slot_of (OTask t) = slot_of (OTask task)" using observed_meta [OF ob] by (simp add: key_of_def)
    have written: "?post (view w2)" if "cl_objs (view w1) (slot_of (OTask t)) = Some (OTask u)"
        "t' = u\<lparr>task_Meta := (task_Meta u)\<lparr>om_rest := m\<rparr>, task_Status := task_Status t\<rparr>"
        "view w2 = put (slot_of (OTask t)) (Some (OTask t')) (view w1)" for u m t' w2
    proof -
      from that(1) slot w1 assms(3) have "u = task" by simp
      with that(2,3) slot w1 in_sync_written [OF assms(2) ob assms(4), of t' m "view w2"] show ?thesis
        by (intro exI [of _ t']) (auto simp: same_task_def elsewhere_put)
    qed
    show "runs w1 (do { u \<leftarrow> client_StatusUpdate x t; case u of Inl e \<Rightarrow> State_Monad.return (Inl e)
           | Inr task3 \<Rightarrow> do { report_transition r (st_Phase (task_Status task)) (derivePhase job) task3;
               State_Monad.return (Inr (requeue, task3)) } }) (\<lambda>v l w'. \<not> isl v \<longrightarrow> ?post (view w'))"
    proof (intro runs_bind runs_StatusUpdate [OF assms(1)])
      fix u m t' w2
      assume "cl_objs (view w1) (slot_of (OTask t)) = Some (OTask u)"
        "t' = u\<lparr>task_Meta := (task_Meta u)\<lparr>om_rest := m\<rparr>, task_Status := task_Status t\<rparr>"
        "view w2 = put (slot_of (OTask t)) (Some (OTask t')) (view w1)"
      then have "?post (view w2)" by (rule written)
      then show "runs w2 (case Inr t' of Inl e \<Rightarrow> State_Monad.return (Inl e)
           | Inr task3 \<Rightarrow> do { report_transition r (st_Phase (task_Status task)) (derivePhase job) task3;
               State_Monad.return (Inr (requeue, task3)) }) (\<lambda>v l w'. \<not> isl v \<longrightarrow> ?post (view w'))"
        unfolding sum.case by (intro runs_bind runs_mono [OF report] runs_return) blast
    qed (auto intro: runs_return)
  qed
  show ?thesis unfolding syncStatus_eq
  proof (intro runs_bind runs_synced [OF assms(1)])
    fix now w1 assume w1: "view w1 = view w"
    show "runs w1 (observeResult x r (job_synced x task job now) (om_UID (job_Meta job)) egress)
      (\<lambda>o1 l1 w2. runs w2 (case o1 of Inl e \<Rightarrow> State_Monad.return (Inl e)
       | Inr (requeue, task2) \<Rightarrow>
         if equalStatus x (task_Status task) (task_Status task2) then State_Monad.return (Inr (requeue, task2))
         else do {
           u \<leftarrow> client_StatusUpdate x task2;
           case u of
             Inl e \<Rightarrow> State_Monad.return (Inl e)
           | Inr task3 \<Rightarrow> do {
               report_transition r (st_Phase (task_Status task)) (derivePhase job) task3;
               State_Monad.return (Inr (requeue, task3)) } }) (\<lambda>v l2 w'. \<not> isl v \<longrightarrow> ?post (view w')))"
      by (rule runs_mono [OF observeResult_runs [OF assms(1), where job = job and task' = task]], intro runs_sum runs_prod, rule runs_return, simp)
         (rule finish [of now], simp_all add: w1)
  qed
qed

lemma syncStatus_rests:
  assumes "at_rest x view" and "status_laws x" and "in_sync x (view w) task job"
  shows "runs w (syncStatus x r task job egress) (\<lambda>v l w'. view w' = view w \<and> list_all (reading task') l)"
proof -
  have quiet: "resultDecided x (job_synced x task job now) \<or>
      no_message x (view w) (job_synced x task job now) job \<and> \<not> isTerminal (st_Phase (task_Status (job_synced x task job now)))" for now
    using assms(3) by (simp add: in_sync_def resultDecided_synced [OF assms(2)])
  have equal: "equalStatus x (task_Status task) (task_Status (job_synced x task job now))" for now using assms(3) by (simp add: in_sync_def)
  show ?thesis unfolding syncStatus_eq
    by (intro runs_bind runs_synced [OF assms(1)] runs_mono [OF observeResult_rests [OF assms(1), where job = job and task' = task']])
       (use quiet in \<open>auto intro!: runs_rules simp: equal\<close>)
qed

section \<open>Waiting for the class\<close>

abbreviation waiting_condition :: "'w ext \<Rightarrow> Task \<Rightarrow> Condition" where
  "waiting_condition x task \<equiv> ready_condition task ''Unknown'' reasonAgentClassMissing (waiting_message x task)"

definition waiting :: "'w ext \<Rightarrow> Task \<Rightarrow> gotime \<Rightarrow> Task" where
  "waiting x task now = (set_phase task TaskPhasePending)\<lparr>task_Status := (task_Status (set_phase task TaskPhasePending))\<lparr>
     st_Conditions := x_setStatusCondition x now (st_Conditions (task_Status task)) (waiting_condition x task)\<rparr>\<rparr>"

definition waits :: "'w ext \<Rightarrow> Task \<Rightarrow> bool" where
  "waits x task \<longleftrightarrow> (\<forall>now. equalStatus x (task_Status task) (task_Status (waiting x task now)))"

lemma runs_waiting:
  assumes "at_rest x view" and "\<And>now w'. view w' = view w \<Longrightarrow> Q (waiting x task now) [] w'"
  shows "runs w (set_condition x (set_phase task TaskPhasePending) (waiting_condition x task)) Q"
  using assms(2) by (intro runs_set_condition [OF assms(1)]) (simp add: waiting_def set_phase_def)

lemma waits_unwritten:
  assumes "status_laws x" and "equalStatus x (task_Status task) (task_Status (waiting x task now))"
  shows "waits x task"
  using assms(2) equalStatus_now [OF assms(1), where a = "task_Status task" and cs = "st_Conditions (task_Status task)"]
  unfolding waits_def waiting_def by simp blast

lemma waits_written:
  assumes "status_laws x" and "distinct (map cd_Type (st_Conditions (task_Status task)))"
    and u: "u = task\<lparr>task_Meta := (task_Meta task)\<lparr>om_rest := m\<rparr>, task_Status := task_Status (waiting x task now)\<rparr>"
  shows "waits x u"
proof -
  let ?cs = "st_Conditions (task_Status u)"
  have ready: "waiting_condition x u = waiting_condition x task" by (simp add: ready_condition_def waiting_message_def u)
  have kept: "set_phase u TaskPhasePending = u" by (simp add: u set_phase_def waiting_def)
  have "\<exists>rc. x_findStatusCondition x ?cs conditionReady = Some rc \<and> same_condition rc (waiting_condition x task)" "distinct (map cd_Type ?cs)"
    using assms(2) by (auto simp: u waiting_def find_set [OF assms(1)] distinct_set [OF assms(1)] same_condition_def condition_set_def
        ready_condition_def split: option.splits)
  then show ?thesis unfolding waits_def waiting_def kept ready
    using equalStatus_again [OF assms(1), of "task_Status u" "waiting_condition x task"] by (auto simp: ready_condition_def)
qed

lemma markWaiting_settles:
  assumes "at_rest x view" and "status_laws x" and "cl_objs (view w) (slot_of (OTask task)) = Some (OTask task)"
    and "distinct (map cd_Type (st_Conditions (task_Status task)))"
  shows "runs w (markWaitingForAgentClass x r task) (\<lambda>e l w'. e = None \<longrightarrow> (\<exists>u. same_task task u \<and> waits x u \<and>
    cl_objs (view w') (slot_of (OTask task)) = Some (OTask u) \<and> elsewhere {slot_of (OTask task)} (view w) (view w')))"
proof -
  let ?post = "\<lambda>c'. \<exists>u. same_task task u \<and> waits x u \<and> cl_objs c' (slot_of (OTask task)) = Some (OTask u) \<and>
      elsewhere {slot_of (OTask task)} (view w) c'"
  have event: "runs w1 (recordEvent r ty rs ms) (\<lambda>_ l w'. w' = w1)" for w1 ty rs ms
    unfolding recordEvent_def by (intro runs_rules) simp_all
  have slot: "slot_of (OTask (waiting x task now)) = slot_of (OTask task)" for now by (simp add: waiting_def set_phase_def key_of_def)
  have unwritten: "?post (view w1)" if "equalStatus x (task_Status task) (task_Status (waiting x task now))" "view w1 = view w" for now w1
    using assms(3) waits_unwritten [OF assms(2) that(1)] by (intro exI [of _ task]) (simp add: that(2))
  have written: "?post (view w2)" if "view w1 = view w" "cl_objs (view w1) (slot_of (OTask (waiting x task now))) = Some (OTask u)"
      "t' = u\<lparr>task_Meta := (task_Meta u)\<lparr>om_rest := m\<rparr>, task_Status := task_Status (waiting x task now)\<rparr>"
      "view w2 = put (slot_of (OTask (waiting x task now))) (Some (OTask t')) (view w1)" for u m t' w1 w2 now
  proof -
    from that(1,2) slot assms(3) have "u = task" by simp
    with that slot waits_written [OF assms(2,4) that(3) [unfolded \<open>u = task\<close>]] show ?thesis
      by (intro exI [of _ t']) (auto simp: same_task_def elsewhere_put)
  qed
  show ?thesis unfolding markWaitingForAgentClass_def Let_def
  proof (intro runs_bind runs_waiting [OF assms(1)] runs_if runs_StatusUpdate [OF assms(1)])
    fix now w1 u m t' w2
    assume "view w1 = view w" "cl_objs (view w1) (slot_of (OTask (waiting x task now))) = Some (OTask u)"
      "t' = u\<lparr>task_Meta := (task_Meta u)\<lparr>om_rest := m\<rparr>, task_Status := task_Status (waiting x task now)\<rparr>"
      "view w2 = put (slot_of (OTask (waiting x task now))) (Some (OTask t')) (view w1)"
    then have "?post (view w2)" by (rule written)
    then show "runs w2 (case Inr t' of Inl e \<Rightarrow> State_Monad.return (Some e)
       | Inr task2 \<Rightarrow> do { recordEvent r ''Warning'' reasonAgentClassMissing (waiting_message x task); State_Monad.return None })
       (\<lambda>e l w'. e = None \<longrightarrow> ?post (view w'))"
      unfolding sum.case by (intro runs_bind runs_mono [OF event] runs_return) blast
  next
    fix now w1 assume "view w1 = view w" "equalStatus x (task_Status task) (task_Status (waiting x task now))"
    with unwritten show "runs w1 (State_Monad.return None) (\<lambda>e l w'. e = None \<longrightarrow> ?post (view w'))" by (intro runs_return) blast
  qed (auto intro: runs_return)
qed

lemma markWaiting_rests:
  assumes "at_rest x view" and "waits x task"
  shows "runs w (markWaitingForAgentClass x r task) (\<lambda>e l w'. view w' = view w \<and> l = [])"
  using assms(2) unfolding markWaitingForAgentClass_def Let_def waits_def
  by (intro runs_bind runs_waiting [OF assms(1)]) (auto intro: runs_return)

section \<open>Settled Tasks\<close>

text \<open>\<open>SetControllerReference\<close> reads the name and the UID of the owner, not its status or its resource version.\<close>

definition owner_by_meta :: "'w ext \<Rightarrow> bool" where
  "owner_by_meta x \<longleftrightarrow> (\<forall>t u ob. same_task t u \<longrightarrow> x_setControllerReference x u ob = x_setControllerReference x t ob)"

abbreviation class_slot :: "Task \<Rightarrow> kind \<times> NamespacedName" where
  "class_slot task \<equiv> (KAgentClass, [], ar_Ref (ts_Agent (task_Spec task)))"

text \<open>Everything that the Task needs is stored, and its status says so; or its class is missing, and its status says that.\<close>

definition provided :: "'w ext \<Rightarrow> ('w \<Rightarrow> cluster) \<Rightarrow> 'w reconciler \<Rightarrow> Task \<Rightarrow> cluster \<Rightarrow> ClusterAgentClass \<Rightarrow> Job \<Rightarrow> bool" where
  "provided x view r task c agent job \<longleftrightarrow> cl_objs c (class_slot task) = Some (OAgentClass agent) \<and>
     (\<exists>np. policy_is x view r task agent np \<and> list_all (slot_ok x task c) (slots_of task agent np)) \<and>
     (\<exists>k. job_slot x r task agent k \<and> fst k = KJob \<and> cl_objs c k = Some (OJob job))"

definition settled :: "'w ext \<Rightarrow> ('w \<Rightarrow> cluster) \<Rightarrow> 'w reconciler \<Rightarrow> Task \<Rightarrow> cluster \<Rightarrow> bool" where
  "settled x view r task c \<longleftrightarrow> \<not> isTerminal (st_Phase (task_Status task)) \<and> validateTask x task = None \<and>
     cl_objs c (slot_of (OTask task)) = Some (OTask task) \<and>
     (cl_objs c (class_slot task) = None \<and> waits x task \<or>
      (\<exists>agent job. provided x view r task c agent job \<and> in_sync x c task job))"

lemma same_task_fields:
  "same_task t u \<Longrightarrow> task_Spec u = task_Spec t"
  "same_task t u \<Longrightarrow> task_Name u = task_Name t" "same_task t u \<Longrightarrow> task_Namespace u = task_Namespace t"
  by (auto simp: same_task_def)

lemma same_task_slot: "same_task t u \<Longrightarrow> slot_of (OTask u) = slot_of (OTask t)"
  by (simp add: key_of_def same_task_fields)

lemma same_task_validate: "same_task t u \<Longrightarrow> validateTask x u = validateTask x t"
  by (simp only: validateTask_def same_task_fields)

lemma same_task_provided:
  assumes "same_task t u" and "owner_by_meta x"
  shows "provided x view r u c agent job = provided x view r t c agent job"
proof -
  note same = same_task_fields [OF assms(1)]
  have owner: "x_setControllerReference x u = x_setControllerReference x t" using assms by (auto simp: owner_by_meta_def fun_eq_iff)
  have meta: "task_object_meta u = task_object_meta t"
    by (simp only: task_object_meta_def taskResourceName_def ownershipLabels_def same)
  have slots: "slots_of u agent = slots_of t agent"
    by (simp only: slots_of_def [abs_def] buildServiceAccount_def meta same)
  have policy: "policy_is x view r u agent = policy_is x view r t agent"
    by (simp only: policy_is_def [abs_def] effective_egress_def same)
  have ok: "slot_ok x u = slot_ok x t" by (simp only: slot_ok_def [abs_def] owner)
  have built: "buildJob x u = buildJob x t"
    by (simp only: buildJob_def [abs_def] meta same pod_template_def podLabels_def ownershipLabels_def taskResourceName_def)
  have job: "job_slot x r u agent = job_slot x r t agent"
    by (simp only: job_slot_def [abs_def] owner built effective_secrets_def same)
  show ?thesis by (simp only: provided_def slots policy ok job same)
qed

section \<open>A reconcile settles its Task\<close>

lemma runs_emits: "emits m Q \<Longrightarrow> runs w m (\<lambda>v l _. Q v l)"
  unfolding emits_def runs_def by blast

lemma runs_get_AgentClass:
  assumes "at_rest x view"
    and "\<And>e rsp w'. view w' = view w \<Longrightarrow> got_from x (view w) (KAgentClass, [], n) (Inl e) \<Longrightarrow> Q (Inl e) [Call (CGet KAgentClass ([], n)) rsp] w'"
    and "\<And>agent rsp w'. view w' = view w \<Longrightarrow> cl_objs (view w) (KAgentClass, [], n) = Some (OAgentClass agent) \<Longrightarrow>
      Q (Inr agent) [Call (CGet KAgentClass ([], n)) rsp] w'"
  shows "runs w (get_AgentClass x n) Q"
  unfolding get_AgentClass_def
proof (intro runs_bind runs_Get [OF assms(1)] runs_return)
  fix rsp w'
  assume w': "view w' = view w" and got: "got_from x (view w) (KAgentClass, [], n) (got_obj KAgentClass rsp)"
  show "Q (case got_obj KAgentClass rsp of Inl e \<Rightarrow> Inl e | Inr ob \<Rightarrow> (case ob of OAgentClass a \<Rightarrow> Inr a | _ \<Rightarrow> Inl undecodable))
      ([Call (CGet KAgentClass ([], n)) rsp] @ []) w'"
  proof (cases "got_obj KAgentClass rsp")
    case (Inr ob)
    then obtain agent where "ob = OAgentClass agent" using got_obj_kind [OF Inr] by (cases ob) auto
    with assms(3) [OF w'] got Inr show ?thesis by (simp add: got_from_def)
  qed (use assms(2) [OF w'] got in simp)
qed

text \<open>A step that always fails stops the loop.\<close>

lemma run_steps_stuck:
  assumes "at_rest x view" and "st0 \<in> set sts" and "\<And>w. runs w (step_run st0) (\<lambda>e _ _. e \<noteq> None)"
    and "\<And>st w. st \<in> set sts \<Longrightarrow> runs w (step_run st) (\<lambda>_ _ _. True)"
  shows "runs w (run_steps x r task sts) (\<lambda>v _ w'. \<exists>res. v = Some res \<and> (snd res = None \<longrightarrow> ended (view w') task))"
  using assms(2,4)
proof (induction sts arbitrary: w)
  case (Cons st sts)
  have step: "runs w (step_run st) (\<lambda>e _ _. st = st0 \<longrightarrow> e \<noteq> None)"
    using Cons.prems(2) [of st w] assms(3) by (cases "st = st0") auto
  show ?case unfolding run_steps.simps
  proof (rule runs_bind, rule runs_mono [OF step], rule runs_option)
    fix e l w1 assume "st = st0 \<longrightarrow> e \<noteq> None" "e = None"
    with Cons show "runs w1 (run_steps x r task sts) (\<lambda>v _ w'. \<exists>res. v = Some res \<and> (snd res = None \<longrightarrow> ended (view w') task))" by auto
  qed (auto intro!: runs_bind runs_mono [OF step_failed_ends [OF assms(1)]] runs_return)
qed simp

text \<open>When the loop gets through, the policy could be built, and every slot is in order.\<close>

lemma steps_settle:
  assumes "at_rest x view" and "deepEqual_refl x" and "owner_laws x" and "steady_names view (resolver_of x r) dns"
  shows "runs w (run_steps x r task (reconcile_steps x r task agent (effective_egress task agent))) (\<lambda>v l w'. case v of
      None \<Rightarrow> \<exists>np. policy_is x view r task agent np \<and> list_all (slot_ok x task (view w')) (slots_of task agent np) \<and>
        elsewhere (fst ` set (slots_of task agent np)) (view w) (view w')
    | Some res \<Rightarrow> snd res = None \<longrightarrow> ended (view w') task)"
proof -
  let ?sts = "reconcile_steps x r task agent (effective_egress task agent)"
  let ?build = "BuildNetworkPolicy x (resolver_of x r) (task_Name task) (task_Namespace task)
     (effective_egress task agent) (pm_EgressPorts (ts_Permissions (task_Spec task)))"
  obtain b where b: "computes view ?build b" using BuildNetworkPolicy_computes [OF assms(4)] by blast
  show ?thesis
  proof (cases b)
    case (Inr np)
    obtain v s' where run: "run_state ?build \<lparr>world = w, obslog = []\<rparr> = (v, s')" by fastforce
    with b Inr have "v = Inr np" unfolding computes_def runs_def by (metis fst_conv sys.select_convs(1))
    with emits_run [OF BuildNetworkPolicy_emits run] obtain rs where "np = network_policy (task_Name task) (task_Namespace task) rs" by auto
    then have "slot_of (ONetworkPolicy np) = (KNetworkPolicy, task_Namespace task, task_Name task)"
      using netpol_builder.built_key [of "task_Name task" "task_Namespace task" rs] by simp
    with b Inr have np: "policy_is x view r task agent np" by (simp add: policy_is_def)
    from run_steps_fill [OF assms(1) steps_slots(1) [OF assms(1-3) np] distinct_slots] show ?thesis
      by (rule runs_mono) (use np in \<open>auto split: option.splits\<close>)
  next
    case (Inl err)
    have any: "runs w1 (step_run st) (\<lambda>_ _ _. True)" if "st \<in> set ?sts" for w1 st
      using runs_emits [OF emits_yields [OF reconcile_steps_quiet [OF that], of "\<lambda>_ _. True"]] by simp
    have stuck: "runs w1 (step_run (?sts ! 3)) (\<lambda>e _ _. e \<noteq> None)" for w1
      unfolding reconcile_steps_def using b Inl
      by (auto simp: ensureNetworkPolicy_def computes_def intro!: runs_bind runs_return elim!: allE [of _ w1] runs_mono)
    have "runs w (run_steps x r task ?sts) (\<lambda>v _ w'. \<exists>res. v = Some res \<and> (snd res = None \<longrightarrow> ended (view w') task))"
      by (rule run_steps_stuck [OF assms(1) _ stuck any]) (simp_all add: reconcile_steps_def)
    then show ?thesis by (rule runs_mono) auto
  qed
qed

text \<open>What a reconcile without an error leaves: the Task is over, or it is settled.\<close>

definition left_by :: "'w ext \<Rightarrow> ('w \<Rightarrow> cluster) \<Rightarrow> 'w reconciler \<Rightarrow> Task \<Rightarrow> cluster \<Rightarrow> bool" where
  "left_by x view r task c \<longleftrightarrow> ended c task \<or> (\<exists>u. same_task task u \<and> settled x view r u c)"

lemma provided_elsewhere:
  assumes "provided x view r task c agent job" and "elsewhere K c c'" and "\<And>k. k \<in> K \<Longrightarrow> fst k = KTask"
  shows "provided x view r task c' agent job"
proof -
  have "slot_ok x task c' sl" if "sl \<in> set (slots_of task agent np)" "slot_ok x task c sl" for sl np
    using slot_ok_elsewhere [OF assms(2) _ that(2)] slots_not_others [OF that(1)] assms(3) [of "fst sl"] by auto
  then show ?thesis using assms(1,2) assms(3) unfolding provided_def elsewhere_def list_all_iff
    by (metis fst_conv kind.distinct(1) kind.simps)
qed

lemma reconcile_job_settles:
  assumes "at_rest x view" and "owner_laws x" and "owner_by_meta x" and "status_laws x"
    and "cl_objs (view w) (slot_of (OTask task)) = Some (OTask task)" and "distinct (map cd_Type (st_Conditions (task_Status task)))"
    and "validateTask x task = None" and "cl_objs (view w) (class_slot task) = Some (OAgentClass agent)"
    and "policy_is x view r task agent np" and "list_all (slot_ok x task (view w)) (slots_of task agent np)"
  shows "runs w (reconcile_job x r task agent) (\<lambda>res l w'. snd res = None \<longrightarrow> left_by x view r task (view w'))"
proof -
  have synced: "runs w1 (syncStatus x r task job (effective_egress task agent)) (\<lambda>v l w'. \<not> isl v \<longrightarrow> left_by x view r task (view w'))"
    if k: "job_slot x r task agent k" "fst k = KJob" "elsewhere {k} (view w) (view w1)" "cl_objs (view w1) k = Some (OJob job)" for w1 job k
  proof -
    have stored: "cl_objs (view w1) (slot_of (OTask task)) = Some (OTask task)"
      using assms(5) k(2) elsewhere_at [OF k(3), of "slot_of (OTask task)"] by fastforce
    have "slot_ok x task (view w1) sl" if "sl \<in> set (slots_of task agent np)" for sl
      by (rule slot_ok_elsewhere [OF k(3)]) (use assms(10) slots_not_others [OF that] that k(2) in \<open>auto simp: list_all_iff\<close>)
    then have "list_all (slot_ok x task (view w1)) (slots_of task agent np)" by (simp add: list_all_iff)
    moreover have "cl_objs (view w1) (class_slot task) = Some (OAgentClass agent)"
      using assms(8) k(2) elsewhere_at [OF k(3), of "class_slot task"] by fastforce
    ultimately have prov: "provided x view r task (view w1) agent job"
      unfolding provided_def using assms(9) k by blast
    show ?thesis
    proof (rule runs_mono [OF syncStatus_settles [OF assms(1,4) stored assms(6)]], rule impI)
      fix v :: "gerr + duration \<times> Task" and l w2
      assume "\<not> isl v \<longrightarrow> (\<exists>u. same_task task u \<and>
          cl_objs (view w2) (slot_of (OTask task)) = Some (OTask u) \<and> elsewhere {slot_of (OTask task)} (view w1) (view w2) \<and>
          (\<not> isTerminal (st_Phase (task_Status u)) \<longrightarrow> in_sync x (view w2) u job))" and "\<not> isl v"
      then obtain u where u: "same_task task u" "cl_objs (view w2) (slot_of (OTask task)) = Some (OTask u)"
        "elsewhere {slot_of (OTask task)} (view w1) (view w2)"
        "\<not> isTerminal (st_Phase (task_Status u)) \<longrightarrow> in_sync x (view w2) u job" by blast
      have "provided x view r u (view w2) agent job"
        using provided_elsewhere [OF prov u(3)] same_task_provided [OF u(1) assms(3)] by simp
      with u same_task_slot [OF u(1)] same_task_validate [OF u(1), of x] assms(7)
      show "left_by x view r task (view w2)" unfolding left_by_def ended_def settled_def by metis
    qed
  qed
  have failed: "runs w1 (do { f \<leftarrow> failTask x r task reasonInvalidSpec err; State_Monad.return (0, f) })
      (\<lambda>res l w'. snd res = None \<longrightarrow> left_by x view r task (view w'))" for w1 err
    by (intro runs_bind runs_mono [OF failTask_ends [OF assms(1)]] runs_return) (simp add: left_by_def)
  show ?thesis unfolding reconcile_job_def metrics_defs
  proof (rule runs_bind, rule runs_mono [OF ensureJob_fills [OF assms(1,2)]], rule runs_sum)
    fix v l w1 job
    assume "\<forall>job. v = Inr job \<longrightarrow> (\<exists>k. job_slot x r task agent k \<and> fst k = KJob \<and> elsewhere {k} (view w) (view w1) \<and>
        cl_objs (view w1) k = Some (OJob job))" and "v = Inr job"
    then obtain k where "job_slot x r task agent k" "fst k = KJob" "elsewhere {k} (view w) (view w1)" "cl_objs (view w1) k = Some (OJob job)"
      by blast
    note sync = synced [OF this]
    show "runs w1 (do {
         sy \<leftarrow> syncStatus x r task job (effective_egress task agent);
         case sy of
           Inl err \<Rightarrow> do {
             observe (MetricReconcileError StepStatus);
             State_Monad.return (0, Some err) }
         | Inr (requeue, task') \<Rightarrow>
             State_Monad.return
               (let res = minRequeue 0 requeue
                in if r_EgressRefreshInterval r > 0 \<and> \<not> isTerminal (st_Phase (task_Status task')) \<and>
                      HasHostnames (effective_egress task agent)
                   then minRequeue res (r_EgressRefreshInterval r) else res, None) })
      (\<lambda>res l w'. snd res = None \<longrightarrow> left_by x view r task (view w'))"
      by (intro runs_bind runs_mono [OF sync] runs_sum runs_prod runs_observe runs_return) auto
  qed (intro runs_bind runs_observe runs_if failed runs_return; simp)
qed

lemma reconcile_live_settles:
  assumes "at_rest x view" and "deepEqual_refl x" and "owner_laws x" and "owner_by_meta x" and "status_laws x"
    and "steady_names view (resolver_of x r) dns"
    and "cl_objs (view w) (slot_of (OTask task)) = Some (OTask task)" and "distinct (map cd_Type (st_Conditions (task_Status task)))"
  shows "runs w (reconcile_live x r task) (\<lambda>res l w'. snd res = None \<longrightarrow> left_by x view r task (view w'))"
proof (cases "validateTask x task")
  case (Some err)
  show ?thesis unfolding reconcile_live_def Some option.case metrics_defs
    by (intro runs_bind runs_observe runs_mono [OF failTask_ends [OF assms(1)]] runs_return) (simp add: left_by_def)
next
  case None
  have missing: "runs w1 (do { v \<leftarrow> markWaitingForAgentClass x r task;
         State_Monad.return (case v of Some e \<Rightarrow> (0, Some e) | None \<Rightarrow> (agentClassMissingRequeue, None)) })
      (\<lambda>res l w'. snd res = None \<longrightarrow> left_by x view r task (view w'))"
    if w1: "view w1 = view w" and gone: "cl_objs (view w) (class_slot task) = None" for w1
  proof (intro runs_bind, rule runs_mono [OF markWaiting_settles [OF assms(1,5) _ assms(8)]], goal_cases)
    case 1
    show ?case using assms(7) w1 by simp
  next
    case (2 e l w2)
    have "left_by x view r task (view w2)" if "e = None"
    proof -
      from 2 that obtain u where u: "same_task task u" "waits x u" "cl_objs (view w2) (slot_of (OTask task)) = Some (OTask u)"
        "elsewhere {slot_of (OTask task)} (view w1) (view w2)" by blast
      have "cl_objs (view w2) (class_slot u) = None"
        using elsewhere_at [OF u(4), of "class_slot task"] w1 gone same_task_fields(1) [OF u(1)] by simp
      with u same_task_slot [OF u(1)] same_task_validate [OF u(1), of x] None
      show ?thesis unfolding left_by_def ended_def settled_def by metis
    qed
    then show ?case by (intro runs_return) (auto split: option.split)
  qed
  have there: "runs w1 (do { stopped \<leftarrow> run_steps x r task (reconcile_steps x r task agent (effective_egress task agent));
         case stopped of Some res \<Rightarrow> State_Monad.return res | None \<Rightarrow> reconcile_job x r task agent })
      (\<lambda>res l w'. snd res = None \<longrightarrow> left_by x view r task (view w'))"
    if w1: "view w1 = view w" and cls: "cl_objs (view w) (class_slot task) = Some (OAgentClass agent)" for w1 agent
  proof (intro runs_bind, rule runs_mono [OF steps_settle [OF assms(1-3,6)]], rule runs_option)
    fix v l w2
    assume "case v of None \<Rightarrow> \<exists>np. policy_is x view r task agent np \<and> list_all (slot_ok x task (view w2)) (slots_of task agent np) \<and>
        elsewhere (fst ` set (slots_of task agent np)) (view w1) (view w2)
      | Some res \<Rightarrow> snd res = None \<longrightarrow> ended (view w2) task" and "v = None"
    then obtain np where np: "policy_is x view r task agent np" "list_all (slot_ok x task (view w2)) (slots_of task agent np)"
      and el: "elsewhere (fst ` set (slots_of task agent np)) (view w1) (view w2)" by auto
    have out: "(k, n) \<notin> fst ` set (slots_of task agent np)" if "k = KTask \<or> k = KAgentClass" for k n
      using that slots_not_others by fastforce
    have kept: "cl_objs (view w2) (slot_of (OTask task)) = Some (OTask task)" "cl_objs (view w2) (class_slot task) = Some (OAgentClass agent)"
      using elsewhere_at [OF el out] assms(7) cls w1 by simp_all
    show "runs w2 (reconcile_job x r task agent) (\<lambda>res l w'. snd res = None \<longrightarrow> left_by x view r task (view w'))"
      by (rule reconcile_job_settles [OF assms(1,3,4,5) kept(1) assms(8) None kept(2) np])
  qed (auto intro!: runs_return simp: left_by_def)
  show ?thesis unfolding reconcile_live_def None option.case metrics_defs
  proof (rule runs_bind, rule runs_get_AgentClass [OF assms(1)], goal_cases)
    case (1 e rsp w1)
    then show ?case unfolding sum.case
      by (intro runs_if runs_bind [where m = "observe _"] runs_observe missing runs_return) (simp_all add: got_from_def)
  next
    case (2 agent rsp w1)
    then show ?case unfolding sum.case by (intro there)
  qed
qed

section \<open>A settled Task stays settled\<close>

lemma slots_rest:
  assumes "list_all (slot_ok x task c) sls" and "distinct (map fst sls)" and "elsewhere (unwanted sls) c c'"
  shows "list_all (slot_ok x task c') sls"
  unfolding list_all_iff
proof
  fix sl assume sl: "sl \<in> set sls"
  show "slot_ok x task c' sl"
  proof (cases "fst (snd sl)")
    case None
    then show ?thesis by (auto simp: slot_ok_def split: prod.splits)
  next
    case (Some d)
    have "sl' = sl" if "sl' \<in> set sls" "fst sl' = fst sl" for sl'
      using assms(2) sl that by (simp add: distinct_map inj_on_def)
    with Some have "fst sl \<notin> unwanted sls" unfolding unwanted_def by (smt (verit) mem_Collect_eq option.distinct(1))
    then show ?thesis by (rule slot_ok_elsewhere [OF assms(3)]) (use assms(1) sl in \<open>simp add: list_all_iff\<close>)
  qed
qed

lemma in_sync_pods: "cl_pods c' = cl_pods c \<Longrightarrow> in_sync x c' task job = in_sync x c task job"
  by (simp add: in_sync_def no_message_def)

lemma unwanted_slots: "k \<in> unwanted (slots_of task agent np) \<Longrightarrow> fst k \<noteq> KJob \<and> fst k \<noteq> KTask \<and> fst k \<noteq> KAgentClass"
  unfolding unwanted_def using slots_not_others by blast

lemma reconcile_job_rests:
  assumes "at_rest x view" and "status_laws x" and "job_slot x r task agent k" and "cl_objs (view w) k = Some (OJob job)"
    and "in_sync x (view w) task job"
  shows "runs w (reconcile_job x r task agent) (\<lambda>res l w'. view w' = view w \<and> list_all (reading task) l)"
proof -
  have sync: "runs w1 (syncStatus x r task job egress) (\<lambda>v l w'. view w' = view w \<and> list_all (reading task) l)" if "view w1 = view w" for w1 egress
    using syncStatus_rests [OF assms(1,2), of w1 task job r egress task] assms(5) that by simp
  show ?thesis unfolding reconcile_job_def metrics_defs
  proof (rule runs_bind, rule runs_mono [OF ensureJob_rests [OF assms(1,3,4), where task' = task]], rule runs_sum)
    fix v l w1 err assume "view w1 = view w \<and> list_all (reading task) l \<and> (case v of Inr job' \<Rightarrow> job' = job | Inl e \<Rightarrow> \<not> IsPermanent e)" "v = Inl err"
    then show "runs w1 (do { observe (MetricReconcileError StepJob);
         if IsPermanent err then do { f \<leftarrow> failTask x r task reasonInvalidSpec err; State_Monad.return (0, f) }
         else State_Monad.return (0, Some (Wrapped ''ensure job'' err)) })
      (\<lambda>res l' w'. view w' = view w \<and> list_all (reading task) (l @ l'))"
      by (auto intro!: runs_rules)
  next
    fix v l w1 job'
    assume *: "view w1 = view w \<and> list_all (reading task) l \<and> (case v of Inr job' \<Rightarrow> job' = job | Inl e \<Rightarrow> \<not> IsPermanent e)" "v = Inr job'"
    then have job': "job' = job" and w1: "view w1 = view w" and l: "list_all (reading task) l" by simp_all
    show "runs w1 (do {
         sy \<leftarrow> syncStatus x r task job' (effective_egress task agent);
         case sy of
           Inl err \<Rightarrow> do {
             observe (MetricReconcileError StepStatus);
             State_Monad.return (0, Some err) }
         | Inr (requeue, task') \<Rightarrow>
             State_Monad.return
               (let res = minRequeue 0 requeue
                in if r_EgressRefreshInterval r > 0 \<and> \<not> isTerminal (st_Phase (task_Status task')) \<and>
                      HasHostnames (effective_egress task agent)
                   then minRequeue res (r_EgressRefreshInterval r) else res, None) })
      (\<lambda>res l' w'. view w' = view w \<and> list_all (reading task) (l @ l'))"
      unfolding job'
      by (intro runs_bind runs_mono [OF sync [OF w1]] runs_sum runs_prod runs_observe runs_return) (auto simp: l)
  qed
qed

lemma reconcile_live_rests:
  assumes "at_rest x view" and "deepEqual_refl x" and "owner_laws x" and "status_laws x" and "settled x view r task (view w)"
  shows "runs w (reconcile_live x r task) (\<lambda>res l w'. settled x view r task (view w') \<and> list_all (reading task) l)"
proof -
  note st = assms(5) [unfolded settled_def]
  from st have valid: "validateTask x task = None" by blast
  have missing: "runs w1 (do { v \<leftarrow> markWaitingForAgentClass x r task;
         State_Monad.return (case v of Some e \<Rightarrow> (0, Some e) | None \<Rightarrow> (agentClassMissingRequeue, None)) })
      (\<lambda>res l w'. settled x view r task (view w') \<and> list_all (reading task) l)"
    if w1: "view w1 = view w" and gone: "cl_objs (view w) (class_slot task) = None" for w1
  proof -
    have "waits x task" using st gone by (auto simp: provided_def)
    then show ?thesis
      by (intro runs_bind runs_mono [OF markWaiting_rests [OF assms(1)]] runs_return) (use assms(5) w1 in simp_all)
  qed
  have there: "runs w1 (do { stopped \<leftarrow> run_steps x r task (reconcile_steps x r task agent (effective_egress task agent));
         case stopped of Some res \<Rightarrow> State_Monad.return res | None \<Rightarrow> reconcile_job x r task agent })
      (\<lambda>res l w'. settled x view r task (view w') \<and> list_all (reading task) l)"
    if w1: "view w1 = view w" and cls: "cl_objs (view w) (class_slot task) = Some (OAgentClass agent)" for w1 agent
  proof -
    from st cls obtain job np k where prov: "policy_is x view r task agent np" "list_all (slot_ok x task (view w)) (slots_of task agent np)"
      "job_slot x r task agent k" "fst k = KJob" "cl_objs (view w) k = Some (OJob job)" "in_sync x (view w) task job"
      by (auto simp: provided_def)
    let ?K = "unwanted (slots_of task agent np)"
    have keeps: "settled x view r task (view w2) \<and> cl_objs (view w2) k = Some (OJob job) \<and> in_sync x (view w2) task job"
      if el: "elsewhere ?K (view w1) (view w2)" for w2
    proof -
      have el': "elsewhere ?K (view w) (view w2)" using el w1 by simp
      have at: "cl_objs (view w2) n = cl_objs (view w) n" if "fst n = KJob \<or> fst n = KTask \<or> fst n = KAgentClass" for n
        using elsewhere_at [OF el', of n] unwanted_slots [of n task agent np] that by blast
      have sync: "in_sync x (view w2) task job" 
        by (rule in_sync_pods [THEN iffD2, OF _ prov(6)]) (use el' in \<open>simp add: elsewhere_def\<close>)
      have job: "cl_objs (view w2) k = Some (OJob job)" using at [of k] prov(4,5) by simp
      have "cl_objs (view w2) (class_slot task) = Some (OAgentClass agent)" using at [of "class_slot task"] cls by simp
      then have "provided x view r task (view w2) agent job"
        unfolding provided_def using prov(1,3,4) job slots_rest [OF prov(2) distinct_slots el'] by blast
      with sync st at [of "slot_of (OTask task)"] job show ?thesis by (auto simp: settled_def)
    qed
    show ?thesis
    proof (rule runs_bind, rule runs_mono [OF run_steps_rest [OF steps_slots(2) [OF assms(1-3) prov(1)] distinct_slots]], goal_cases)
      case 1
      show ?case using prov(2) w1 by simp
    next
      case (2 v l w2)
      then show ?case using keeps [of w2]
        by (intro runs_option runs_return)
           (auto intro!: runs_mono [OF reconcile_job_rests [OF assms(1,4) prov(3), where job = job]])
    qed
  qed
  show ?thesis unfolding reconcile_live_def valid option.case metrics_defs
  proof (rule runs_bind, rule runs_get_AgentClass [OF assms(1)], goal_cases)
    case (1 e rsp w1)
    then show ?case unfolding sum.case using assms(5)
      by (intro runs_if runs_bind [where m = "observe _"] runs_observe runs_return)
         (auto simp: got_from_def intro!: runs_mono [OF missing])
  next
    case (2 agent rsp w1)
    then show ?case unfolding sum.case by (auto intro!: runs_mono [OF there])
  qed
qed

lemma Reconcile_rests:
  assumes "at_rest x view" and "deepEqual_refl x" and "owner_laws x" and "status_laws x" and "settled x view r task (view w)"
    and "slot_of (OTask task) = (KTask, req)"
  shows "runs w (Reconcile x r req) (\<lambda>res l w'. settled x view r task (view w') \<and> list_all (reading task) l)"
proof -
  have stored: "cl_objs (view w) (KTask, req) = Some (OTask task)" and live: "\<not> isTerminal (st_Phase (task_Status task))"
    using assms(5,6) by (auto simp: settled_def)
  have "runs w1 (reconcile_live x r task) (\<lambda>res l w'. settled x view r task (view w') \<and> list_all (reading task) l)" if "view w1 = view w" for w1
    by (rule reconcile_live_rests [OF assms(1-4)]) (use assms(5) that in simp)
  then show ?thesis unfolding Reconcile_def
    by (intro runs_bind runs_Get [OF assms(1)] runs_sum)
       (auto simp: got_from_def stored reconcile_task_def live assms(5) intro!: runs_return elim!: runs_mono)
qed

end
