(* ===== verification/Controller_Converge.thy ===== *)
theory Controller_Converge
  imports Controller_Settled
begin

text \<open>
  Convergence of the reconcile loop: on a cluster that nothing else changes, one reconcile of a live
  Task that returns no error brings the cluster to a state in which every further reconcile only
  reads.
\<close>

section \<open>Properties\<close>

fun reconciles :: "nat \<Rightarrow> 'w ext \<Rightarrow> 'w reconciler \<Rightarrow> NamespacedName \<Rightarrow> ('w, obs) sys \<Rightarrow> ('w, obs) sys" where
  "reconciles 0 x r req s = s"
| "reconciles (Suc n) x r req s = reconciles n x r req (snd (run_state (Reconcile x r req) s))"

lemma reconciles_rest:
  assumes "at_rest x view" and "deepEqual_refl x" and "owner_laws x" and "status_laws x" and "slot_of (OTask task) = (KTask, req)"
    and "settled x view r task (view (world s))"
  shows "\<exists>l. obslog (reconciles n x r req s) = obslog s @ l \<and> list_all (reading task) l \<and>
    settled x view r task (view (world (reconciles n x r req s)))"
  using assms(6)
proof (induction n arbitrary: s)
  case (Suc n)
  obtain res s1 where run: "run_state (Reconcile x r req) s = (res, s1)" by fastforce
  from Reconcile_rests [OF assms(1-4) Suc.prems assms(5)] run refl obtain l where l: "obslog s1 = obslog s @ l"
    and "settled x view r task (view (world s1)) \<and> list_all (reading task) l" by (rule runsD)
  with Suc.IH [of s1] run show ?case by auto
qed simp

lemma Reconcile_settles:
  assumes "at_rest x view" and "deepEqual_refl x" and "owner_laws x" and "owner_by_meta x" and "status_laws x" and "notfound_laws x"
    and "steady_names view (resolver_of x r) dns" and "cl_objs (view w) (KTask, req) = Some (OTask task)"
    and "\<not> isTerminal (st_Phase (task_Status task))" and "distinct (map cd_Type (st_Conditions (task_Status task)))"
  shows "runs w (Reconcile x r req) (\<lambda>res l w'. snd res = None \<longrightarrow> left_by x view r task (view w'))"
proof -
  have slot: "slot_of (OTask task) = (KTask, req)" using at_rest_slot [OF assms(1,8)] .
  have live: "runs w1 (reconcile_task x r task) (\<lambda>res l w'. snd res = None \<longrightarrow> left_by x view r task (view w'))" if "view w1 = view w" for w1
    unfolding reconcile_task_def
    using reconcile_live_settles [OF assms(1-5,7) _ assms(10), of w1] assms(8,9) slot that by simp
  show ?thesis unfolding Reconcile_def
    by (intro runs_bind runs_Get [OF assms(1)] runs_sum)
       (use assms(6,8) in \<open>auto simp: got_from_def notfound_laws_def intro!: runs_return live\<close>)
qed


text \<open>The in-memory server as a cluster at rest: a status update answers with the stored Task.\<close>

definition rest_api :: "call \<Rightarrow> store \<Rightarrow> resp \<times> store" where
  "rest_api c s = (case c of
     CStatusUpdate t \<Rightarrow>
       (case List.find (\<lambda>p. slot_of p = slot_of (OTask t)) (sto_objs s) of
          None \<Rightarrow> (RErr not_found, s)
        | Some p \<Rightarrow> (RObj (with_status t p), s\<lparr>sto_objs := map (\<lambda>p. if slot_of p = slot_of (OTask t) then with_status t p else p) (sto_objs s)\<rparr>))
   | _ \<Rightarrow> ref_api c s)"

definition rest_ext :: "store ext" where
  "rest_ext = ref_ext\<lparr>x_api := rest_api\<rparr>"

definition store_view :: "store \<Rightarrow> cluster" where
  "store_view s = \<lparr>cl_objs = (\<lambda>k. List.find (\<lambda>p. slot_of p = k) (sto_objs s)),
     cl_pods = (\<lambda>ns ls. filter (\<lambda>p. kind_of p = KPod \<and> (ns = None \<or> ns = Some (om_Namespace (meta_of p))) \<and>
        selector_matches ls (GetLabels p)) (sto_objs s))\<rparr>"

lemma same_obj_slot: "same_obj k key = (\<lambda>p. slot_of p = (k, key))"
  by (auto simp: same_obj_def fun_eq_iff)

lemma find_append: "List.find P (xs @ ys) = (case List.find P xs of None \<Rightarrow> List.find P ys | Some v \<Rightarrow> Some v)"
  by (induction xs) auto

lemma find_replaced:
  assumes "\<And>p. g (f p) = g p"
  shows "List.find (\<lambda>p. g p = k) (map (\<lambda>p. if g p = j then f p else p) xs) =
    (if k = j then map_option f (List.find (\<lambda>p. g p = j) xs) else List.find (\<lambda>p. g p = k) xs)"
  using assms by (induction xs) auto

lemma find_removed: "List.find (\<lambda>p. g p = k) (filter (\<lambda>p. g p \<noteq> j) xs) = (if k = j then None else List.find (\<lambda>p. g p = k) xs)"
  by (induction xs) auto

lemma list_ex_find: "list_ex P xs \<longleftrightarrow> List.find P xs \<noteq> None"
  by (induction xs) auto

lemma filter_replaced: "(\<And>p. g p = j \<Longrightarrow> \<not> P p \<and> \<not> P (f p)) \<Longrightarrow> filter P (map (\<lambda>p. if g p = j then f p else p) xs) = filter P xs"
  by (induction xs) auto

lemma rest_reads: "reads_store rest_ext store_view"
  unfolding reads_store_def
proof (intro conjI allI impI)
  fix w k ob assume "cl_objs (store_view w) k = Some ob"
  then show "slot_of ob = k" by (auto simp: store_view_def find_Some_iff)
qed (auto simp: rest_ext_def rest_api_def ref_ext_def store_view_def same_obj_slot not_found_def find_Some_iff split: option.splits)

lemma view_put:
  assumes "\<And>k. List.find (\<lambda>p. slot_of p = k) (sto_objs w') = (if k = j then ob else List.find (\<lambda>p. slot_of p = k) (sto_objs w))"
    and "\<And>Q. filter (\<lambda>p. kind_of p = KPod \<and> Q p) (sto_objs w') = filter (\<lambda>p. kind_of p = KPod \<and> Q p) (sto_objs w)"
  shows "store_view w' = put j ob (store_view w)"
  unfolding store_view_def put_def assms by (simp only: cluster.simps fun_upd_def)

lemma rest_create:
  assumes "kind_of d \<noteq> KPod" and "x_api rest_ext (CCreate d) w = (RObj d', w')"
  shows "d' = d" and "store_view w' = put (slot_of d) (Some d') (store_view w)"
proof -
  have e: "List.find (\<lambda>p. slot_of p = slot_of d) (sto_objs w) = None" "d' = d" "sto_objs w' = sto_objs w @ [d]"
    using assms(2) by (auto simp: rest_ext_def rest_api_def same_obj_slot list_ex_find split: if_splits)
  show "d' = d" by (rule e(2))
  have "List.find (\<lambda>p. slot_of p = k) (sto_objs w') = (if k = slot_of d then Some d' else List.find (\<lambda>p. slot_of p = k) (sto_objs w))" for k
    using e(1) unfolding e(2,3) find_append by (cases "k = slot_of d") (simp, simp split: option.split)
  then show "store_view w' = put (slot_of d) (Some d') (store_view w)"
    by (rule view_put) (use assms(1) in \<open>simp add: e(3)\<close>)
qed

lemma rest_update:
  assumes "kind_of d \<noteq> KPod" and "x_api rest_ext (CUpdate d) w = (RObj d', w')"
  shows "d' = d" and "store_view w' = put (slot_of d) (Some d') (store_view w)"
proof -
  have e: "List.find (\<lambda>p. slot_of p = slot_of d) (sto_objs w) \<noteq> None" "d' = d"
    "sto_objs w' = map (\<lambda>p. if slot_of p = slot_of d then d else p) (sto_objs w)"
    using assms(2) by (auto simp: rest_ext_def rest_api_def same_obj_slot list_ex_find split: if_splits)
  show "d' = d" by (rule e(2))
  have found: "List.find (\<lambda>p. slot_of p = k) (map (\<lambda>p. if slot_of p = slot_of d then d else p) xs) =
      (if k = slot_of d then map_option (\<lambda>_. d) (List.find (\<lambda>p. slot_of p = slot_of d) xs) else List.find (\<lambda>p. slot_of p = k) xs)" for k xs
    by (induction xs) auto
  obtain p where p: "List.find (\<lambda>p. slot_of p = slot_of d) (sto_objs w) = Some p" using e(1) by blast
  show "store_view w' = put (slot_of d) (Some d') (store_view w)"
  proof (rule view_put)
    show "List.find (\<lambda>p. slot_of p = k) (sto_objs w') = (if k = slot_of d then Some d' else List.find (\<lambda>p. slot_of p = k) (sto_objs w))" for k
      unfolding e(2,3) found p option.map by (rule refl)
    show "filter (\<lambda>p. kind_of p = KPod \<and> Q p) (sto_objs w') = filter (\<lambda>p. kind_of p = KPod \<and> Q p) (sto_objs w)" for Q
      unfolding e(3) by (rule filter_replaced) (use assms(1) in auto)
  qed
qed

lemma slot_with_status: "slot_of (with_status t p) = slot_of p"
  by (cases p) (simp_all add: with_status_def key_of_def)

lemma rest_status:
  assumes "x_api rest_ext (CStatusUpdate t) w = (RObj ob, w')"
  shows "\<exists>u m. cl_objs (store_view w) (slot_of (OTask t)) = Some (OTask u) \<and>
           ob = OTask (u\<lparr>task_Meta := (task_Meta u)\<lparr>om_rest := m\<rparr>, task_Status := task_Status t\<rparr>)"
    and "store_view w' = put (slot_of (OTask t)) (Some ob) (store_view w)"
proof -
  from assms obtain p where p: "List.find (\<lambda>p. slot_of p = slot_of (OTask t)) (sto_objs w) = Some p" "ob = with_status t p"
    "sto_objs w' = map (\<lambda>p. if slot_of p = slot_of (OTask t) then with_status t p else p) (sto_objs w)"
    by (auto simp: rest_ext_def rest_api_def split: option.splits)
  from p(1) have "slot_of p = slot_of (OTask t)" by (auto simp: find_Some_iff)
  then obtain u where u: "p = OTask u" by (cases p) auto
  have "ob = OTask (u\<lparr>task_Meta := (task_Meta u)\<lparr>om_rest := om_rest (task_Meta u)\<rparr>, task_Status := task_Status t\<rparr>)"
    by (simp add: p(2) u with_status_def)
  with p(1) u show "\<exists>u m. cl_objs (store_view w) (slot_of (OTask t)) = Some (OTask u) \<and>
       ob = OTask (u\<lparr>task_Meta := (task_Meta u)\<lparr>om_rest := m\<rparr>, task_Status := task_Status t\<rparr>)"
    by (intro exI [of _ u] exI [of _ "om_rest (task_Meta u)"]) (simp add: store_view_def)
  show "store_view w' = put (slot_of (OTask t)) (Some ob) (store_view w)"
  proof (rule view_put)
    show "List.find (\<lambda>p. slot_of p = k) (sto_objs w') = (if k = slot_of (OTask t) then Some ob else List.find (\<lambda>p. slot_of p = k) (sto_objs w))" for k
      unfolding p(3) find_replaced [where g = slot_of and f = "with_status t", OF slot_with_status] p(1,2) option.map by (rule refl)
    show "filter (\<lambda>p. kind_of p = KPod \<and> Q p) (sto_objs w') = filter (\<lambda>p. kind_of p = KPod \<and> Q p) (sto_objs w)" for Q
      unfolding p(3) by (rule filter_replaced) (auto simp: with_status_def split: obj.splits)
  qed
qed

lemma rest_delete:
  assumes "k \<noteq> KPod" and "x_api rest_ext (CDelete k key uid) w = (rsp, w')"
  shows "store_view w' = store_view w \<or> store_view w' = put (k, key) None (store_view w)"
proof -
  from assms(2) have "w' = w \<or> sto_objs w' = filter (\<lambda>p. slot_of p \<noteq> (k, key)) (sto_objs w)"
    by (auto simp: rest_ext_def rest_api_def same_obj_slot split: if_splits)
  then show ?thesis
  proof
    assume w': "sto_objs w' = filter (\<lambda>p. slot_of p \<noteq> (k, key)) (sto_objs w)"
    have "store_view w' = put (k, key) None (store_view w)"
    proof (rule view_put)
      show "List.find (\<lambda>p. slot_of p = j) (sto_objs w') = (if j = (k, key) then None else List.find (\<lambda>p. slot_of p = j) (sto_objs w))" for j
        unfolding w' by (rule find_removed)
      show "filter (\<lambda>p. kind_of p = KPod \<and> Q p) (sto_objs w') = filter (\<lambda>p. kind_of p = KPod \<and> Q p) (sto_objs w)" for Q
        unfolding w' filter_filter by (rule filter_cong) (use assms(1) in auto)
    qed
    then show ?thesis by blast
  qed simp
qed

lemma rest_at_rest: "at_rest rest_ext store_view"
proof -
  have whole: "stored_form d d" for d
  proof -
    have "map_meta (\<lambda>m. m) d = d" by (cases d) simp_all
    then show ?thesis unfolding stored_form_def by (metis (no_types))
  qed
  have created: "stored_form d d'" if "kind_of d \<noteq> KPod" "x_api rest_ext (CCreate d) w = (RObj d', w')" for d d' w w'
    using rest_create(1) [OF that] whole by simp
  have updated: "stored_form d d'" if "kind_of d \<noteq> KPod" "x_api rest_ext (CUpdate d) w = (RObj d', w')" for d d' w w'
    using rest_update(1) [OF that] whole by simp
  have "writes_store rest_ext store_view" unfolding writes_store_def
    by (intro conjI allI impI) (erule (1) created rest_create(2) updated rest_update(2) rest_delete | erule rest_status)+
  with rest_reads show ?thesis by (simp add: at_rest_def)
qed

lemma rest_status_laws: "status_laws rest_ext"
proof -
  have found: "ref_findStatusCondition cs (cd_Type c) = Some c" if "distinct (map cd_Type cs)" "c \<in> set cs" for cs c
    using that by (induction cs) (auto simp: ref_findStatusCondition_def rev_image_eqI)
  have replaced: "length (ref_setStatusCondition now cs c) = length cs" if "ref_findStatusCondition cs (cd_Type c) \<noteq> None" for now cs c
    using that by (induction cs) (auto simp: ref_findStatusCondition_def split: if_splits)
  have "condition_laws rest_ext" "condition_appends rest_ext" "condition_keys rest_ext"
    using ref_condition_laws ref_condition_appends ref_condition_keys
    by (simp_all add: condition_laws_def condition_appends_def condition_keys_def rest_ext_def)
  with found replaced show ?thesis by (simp add: status_laws_def) (simp add: rest_ext_def ref_ext_def)
qed

lemma rest_laws: "deepEqual_refl rest_ext" "owner_laws rest_ext" "notfound_laws rest_ext" "owner_by_meta rest_ext"
proof -
  show "deepEqual_refl rest_ext" "owner_laws rest_ext" "notfound_laws rest_ext"
    using ref_laws by (simp_all add: deepEqual_refl_def owner_laws_def notfound_laws_def rest_ext_def)
  show "owner_by_meta rest_ext"
    by (auto simp: owner_by_meta_def rest_ext_def ref_ext_def ref_setControllerReference_def same_task_def)
qed

text \<open>A Task with a host name in its allowlist, served with fixed addresses.\<close>

definition rest_reconciler :: "store reconciler" where
  "rest_reconciler = sample_reconciler\<lparr>r_Resolver := Some (StaticResolver [''a.example'' \<mapsto> [''10.0.0.7'']] None)\<rparr>"

definition rest_state :: "(store, obs) sys" where
  "rest_state = snd (run_state (Reconcile rest_ext rest_reconciler (''ns'', ''t'')) \<lparr>world = named_store, obslog = []\<rparr>)"


end
