(* ===== verification/Go_Heap.thy ===== *)
theory Go_Heap
  imports Prelude
begin

text \<open>
  Go's memory, as far as copying depends on it. A heap is a list of cells and an address is an
  index; \<open>None\<close> is memory that was allocated (\<open>new\<close>, \<open>make\<close>) and not written yet. A pointer is an
  optional address and a slice an optional triple of backing array, offset and length. A \<open>view\<close>
  says what a value with pointers in it stands for: when it is well formed in a heap, which cells
  it reaches and which pointer-free value it represents. A \<open>copier\<close> makes a copy that represents
  the same value and reaches only memory that it allocated itself.
\<close>

type_synonym addr = nat
type_synonym ptr = "addr option"
type_synonym slice = "(addr \<times> nat \<times> nat) option"
type_synonym 'c heap = "'c option list"

section \<open>Memory\<close>

definition peek :: "'c heap \<Rightarrow> addr \<Rightarrow> 'c option" where
  "peek h p = (if p < length h then h ! p else None)"

definition alloc :: "('c heap, addr) state" where
  "alloc = State (\<lambda>h. (length h, h @ [None]))"

definition store :: "addr \<Rightarrow> 'c \<Rightarrow> ('c heap, unit) state" where
  "store p c = State (\<lambda>h. ((), h[p := Some c]))"

definition load :: "('c \<Rightarrow> 'a option) \<Rightarrow> addr \<Rightarrow> ('c heap, 'a option) state" where
  "load get p = State (\<lambda>h. (Option.bind (peek h p) get, h))"

text \<open>The second heap has all the cells of the first one, unchanged.\<close>

definition grows :: "'c heap \<Rightarrow> 'c heap \<Rightarrow> bool" where
  "grows h h' \<longleftrightarrow> length h \<le> length h' \<and> (\<forall>p < length h. h' ! p = h ! p)"

lemma grows_refl [simp]: "grows h h"
  by (simp add: grows_def)

lemma grows_trans [trans]: "grows h1 h2 \<Longrightarrow> grows h2 h3 \<Longrightarrow> grows h1 h3"
  by (auto simp: grows_def)

lemma grows_snoc [simp]: "grows h (h @ [c])"
  by (simp add: grows_def nth_append)

lemma grows_store: "grows h h' \<Longrightarrow> length h \<le> p \<Longrightarrow> grows h (h'[p := c])"
  by (auto simp: grows_def)

lemma peek_grows: "grows h h' \<Longrightarrow> p < length h \<Longrightarrow> peek h' p = peek h p"
  by (auto simp: grows_def peek_def)

lemma peek_some: "peek h p = Some c \<Longrightarrow> p < length h"
  by (simp add: peek_def split: if_splits)

lemma peek_update: "peek (h[q := c]) p = (if p = q \<and> q < length h then c else peek h p)"
  by (auto simp: peek_def)

section \<open>Views\<close>

record ('c, 'a, 'v) view =
  v_ok :: "'c heap \<Rightarrow> 'a \<Rightarrow> bool"
  v_reach :: "'c heap \<Rightarrow> 'a \<Rightarrow> addr list"
  v_val :: "'c heap \<Rightarrow> 'a \<Rightarrow> 'v"

definition agree :: "'c heap \<Rightarrow> 'c heap \<Rightarrow> addr list \<Rightarrow> bool" where
  "agree h h' ps \<longleftrightarrow> (\<forall>p \<in> set ps. peek h' p = peek h p)"

lemma agree_append [simp]: "agree h h' (ps @ qs) \<longleftrightarrow> agree h h' ps \<and> agree h h' qs"
  by (auto simp: agree_def)

lemma agree_Cons [simp]: "agree h h' (p # ps) \<longleftrightarrow> peek h' p = peek h p \<and> agree h h' ps"
  by (auto simp: agree_def)

lemma agree_Nil [simp]: "agree h h' []"
  by (simp add: agree_def)

text \<open>Nothing dangles, and what a value is depends on the cells it reaches and on nothing else.\<close>

locale view =
  fixes V :: "('c, 'a, 'v) view"
  assumes bound: "v_ok V h a \<Longrightarrow> p \<in> set (v_reach V h a) \<Longrightarrow> p < length h"
    and same: "v_ok V h a \<Longrightarrow> agree h h' (v_reach V h a) \<Longrightarrow>
      v_ok V h' a \<and> v_reach V h' a = v_reach V h a \<and> v_val V h' a = v_val V h a"
begin

lemma agree_grows: "v_ok V h a \<Longrightarrow> grows h h' \<Longrightarrow> agree h h' (v_reach V h a)"
  by (auto simp: agree_def dest: bound intro: peek_grows)

lemma grown:
  assumes "v_ok V h a" "grows h h'"
  shows "v_ok V h' a" "v_reach V h' a = v_reach V h a" "v_val V h' a = v_val V h a"
  using same [OF assms(1) agree_grows [OF assms]] by auto

end

text \<open>\<open>b\<close> in the heap \<open>h'\<close> is a fresh copy of \<open>a\<close> in the heap \<open>h\<close>.\<close>

definition fresh_copy :: "('c, 'a, 'v) view \<Rightarrow> 'c heap \<Rightarrow> 'a \<Rightarrow> 'c heap \<Rightarrow> 'a \<Rightarrow> bool" where
  "fresh_copy V h a h' b \<longleftrightarrow>
     grows h h' \<and> v_ok V h' b \<and> v_val V h' b = v_val V h a \<and> (\<forall>p \<in> set (v_reach V h' b). length h \<le> p)"

lemma fresh_grows: "fresh_copy V h a h' b \<Longrightarrow> grows h h'"
  by (simp add: fresh_copy_def)

locale copier = view V for V :: "('c, 'a, 'v) view" +
  fixes copy :: "'a \<Rightarrow> ('c heap, 'a) state"
  assumes copy: "v_ok V h a \<Longrightarrow> run_state (copy a) h = (b, h') \<Longrightarrow> fresh_copy V h a h' b"
begin

text \<open>A copy made in a later heap, seen in a still later one.\<close>

lemma fresh_between:
  assumes "v_ok V h a" "grows h h1" "fresh_copy V h1 a h2 b" "grows h2 h3"
  shows "fresh_copy V h a h3 b"
proof -
  have ok: "v_ok V h2 b" and g: "grows h1 h2" using assms(3) by (simp_all add: fresh_copy_def)
  have "grows h h3" using assms(2,4) g grows_trans by blast
  moreover have "length h \<le> length h1" using assms(2) by (simp add: grows_def)
  ultimately show ?thesis
    using assms(3) grown [OF ok assms(4)] grown [OF assms(1,2)] by (auto simp: fresh_copy_def)
qed

text \<open>
  The original and the copy are independent. Whatever is written to memory outside of what the copy
  allocated (to the original, to anything else, to memory that is allocated later), the copy keeps
  its value; whatever is written to memory allocated since, the original keeps its value.
\<close>

lemma copy_survives:
  assumes "v_ok V h a" "run_state (copy a) h = (b, h')"
    and "\<And>p. length h \<le> p \<Longrightarrow> p < length h' \<Longrightarrow> peek h'' p = peek h' p"
  shows "v_ok V h'' b" "v_val V h'' b = v_val V h a"
proof -
  have f: "fresh_copy V h a h' b" by (rule copy [OF assms(1,2)])
  then have "agree h' h'' (v_reach V h' b)" using assms(3) by (auto simp: fresh_copy_def agree_def dest: bound)
  with same [of h' b h''] f show "v_ok V h'' b" "v_val V h'' b = v_val V h a" by (auto simp: fresh_copy_def)
qed

lemma original_survives:
  assumes "v_ok V h a" "\<And>p. p < length h \<Longrightarrow> peek h'' p = peek h p"
  shows "v_ok V h'' a" "v_val V h'' a = v_val V h a"
  using same [OF assms(1), of h''] assms(2) bound [OF assms(1)] by (auto simp: agree_def)

end

named_theorems copier_rules

section \<open>Values without pointers\<close>

definition plain_view :: "('a \<Rightarrow> 'v) \<Rightarrow> ('c, 'a, 'v) view" where
  "plain_view f = \<lparr>v_ok = \<lambda>h a. True, v_reach = \<lambda>h a. [], v_val = \<lambda>h a. f a\<rparr>"

lemma copier_plain [copier_rules]: "copier (plain_view f) State_Monad.return"
  by unfold_locales (auto simp: plain_view_def fresh_copy_def State_Monad.return_def)

section \<open>Structs\<close>

text \<open>Two fields one after the other, and a struct from its fields with pointers.\<close>

definition pair_view :: "('c, 'a, 'v) view \<Rightarrow> ('c, 'b, 'w) view \<Rightarrow> ('c, 'a \<times> 'b, 'v \<times> 'w) view" where
  "pair_view V W = \<lparr>v_ok = \<lambda>h (a, b). v_ok V h a \<and> v_ok W h b,
     v_reach = \<lambda>h (a, b). v_reach V h a @ v_reach W h b,
     v_val = \<lambda>h (a, b). (v_val V h a, v_val W h b)\<rparr>"

definition copy_pair ::
  "('a \<Rightarrow> ('c heap, 'a) state) \<Rightarrow> ('b \<Rightarrow> ('c heap, 'b) state) \<Rightarrow> 'a \<times> 'b \<Rightarrow> ('c heap, 'a \<times> 'b) state" where
  "copy_pair f g p = do { a \<leftarrow> f (fst p); b \<leftarrow> g (snd p); State_Monad.return (a, b) }"

lemma view_pair:
  assumes "view V" "view W"
  shows "view (pair_view V W)"
proof
  fix h p q assume "v_ok (pair_view V W) h p" "q \<in> set (v_reach (pair_view V W) h p)"
  then show "q < length h"
    by (cases p) (auto simp: pair_view_def dest: view.bound [OF assms(1)] view.bound [OF assms(2)])
next
  fix h p h' assume a: "v_ok (pair_view V W) h p" "agree h h' (v_reach (pair_view V W) h p)"
  show "v_ok (pair_view V W) h' p \<and> v_reach (pair_view V W) h' p = v_reach (pair_view V W) h p \<and>
      v_val (pair_view V W) h' p = v_val (pair_view V W) h p"
    using a view.same [OF assms(1), of h "fst p" h'] view.same [OF assms(2), of h "snd p" h']
    by (cases p) (simp add: pair_view_def)
qed

lemma copier_view: "copier V f \<Longrightarrow> view V"
  by (simp add: copier_def)

text \<open>Running two copiers in sequence.\<close>

lemma copier_pair [copier_rules]:
  assumes V: "copier V f" and W: "copier W g"
  shows "copier (pair_view V W) (copy_pair f g)"
proof (rule copier.intro [OF view_pair [OF copier_view [OF V] copier_view [OF W]]], unfold_locales)
  fix h p q h' assume ok: "v_ok (pair_view V W) h p" and run: "run_state (copy_pair f g p) h = (q, h')"
  obtain a b where p: "p = (a, b)" by fastforce
  obtain a' h1 where r1: "run_state (f a) h = (a', h1)" by fastforce
  obtain b' h2 where r2: "run_state (g b) h1 = (b', h2)" by fastforce
  have q: "q = (a', b')" "h' = h2" using run p r1 r2 by (auto simp: copy_pair_def State_Monad.bind_def State_Monad.return_def)
  have oka: "v_ok V h a" and okb: "v_ok W h b" using ok p by (auto simp: pair_view_def)
  have fa: "fresh_copy V h a h1 a'" by (rule copier.copy [OF V oka r1])
  note g1 = fresh_grows [OF fa]
  have fb1: "fresh_copy W h1 b h2 b'" by (rule copier.copy [OF W view.grown(1) [OF copier_view [OF W] okb g1] r2])
  have "fresh_copy V h a h2 a'" by (rule copier.fresh_between [OF V oka grows_refl fa fresh_grows [OF fb1]])
  moreover have "fresh_copy W h b h2 b'" by (rule copier.fresh_between [OF W okb g1 fb1 grows_refl])
  ultimately show "fresh_copy (pair_view V W) h p h' q" by (auto simp: fresh_copy_def pair_view_def p q)
qed

definition struct_view :: "('s \<Rightarrow> 'a) \<Rightarrow> ('s \<Rightarrow> 'v \<Rightarrow> 'w) \<Rightarrow> ('c, 'a, 'v) view \<Rightarrow> ('c, 's, 'w) view" where
  "struct_view fld mk V = \<lparr>v_ok = \<lambda>h s. v_ok V h (fld s), v_reach = \<lambda>h s. v_reach V h (fld s),
     v_val = \<lambda>h s. mk s (v_val V h (fld s))\<rparr>"

definition copy_struct ::
  "('s \<Rightarrow> 'a) \<Rightarrow> ('a \<Rightarrow> 's \<Rightarrow> 's) \<Rightarrow> ('a \<Rightarrow> ('c heap, 'a) state) \<Rightarrow> 's \<Rightarrow> ('c heap, 's) state" where
  "copy_struct fld put f s = do { a \<leftarrow> f (fld s); State_Monad.return (put a s) }"

lemma view_struct:
  assumes "view V"
  shows "view (struct_view fld mk V)"
proof
  fix h s q assume "v_ok (struct_view fld mk V) h s" "q \<in> set (v_reach (struct_view fld mk V) h s)"
  then show "q < length h" by (simp add: struct_view_def view.bound [OF assms])
next
  fix h s h' assume "v_ok (struct_view fld mk V) h s" "agree h h' (v_reach (struct_view fld mk V) h s)"
  then show "v_ok (struct_view fld mk V) h' s \<and> v_reach (struct_view fld mk V) h' s = v_reach (struct_view fld mk V) h s \<and>
      v_val (struct_view fld mk V) h' s = v_val (struct_view fld mk V) h s"
    using view.same [OF assms, of h "fld s" h'] by (simp add: struct_view_def)
qed

lemma copier_struct [copier_rules]:
  assumes V: "copier V f" and "\<And>a s. fld (put a s) = a" "\<And>a s. mk (put a s) = mk s"
  shows "copier (struct_view fld mk V) (copy_struct fld put f)"
proof (rule copier.intro [OF view_struct [OF copier_view [OF V]]], unfold_locales)
  fix h s t h' assume ok: "v_ok (struct_view fld mk V) h s" and run: "run_state (copy_struct fld put f s) h = (t, h')"
  obtain a h1 where r: "run_state (f (fld s)) h = (a, h1)" by fastforce
  have t: "t = put a s" "h' = h1" using run r by (auto simp: copy_struct_def State_Monad.bind_def State_Monad.return_def)
  have "fresh_copy V h (fld s) h1 a" using copier.copy [OF V _ r] ok by (simp add: struct_view_def)
  then show "fresh_copy (struct_view fld mk V) h s h' t" using assms(2,3) by (simp add: fresh_copy_def struct_view_def t)
qed

section \<open>Pointers\<close>

text \<open>A value that may be nil.\<close>

definition option_view :: "('c, 'a, 'v) view \<Rightarrow> ('c, 'a option, 'v option) view" where
  "option_view V = \<lparr>v_ok = \<lambda>h p. (case p of None \<Rightarrow> True | Some a \<Rightarrow> v_ok V h a),
     v_reach = \<lambda>h p. (case p of None \<Rightarrow> [] | Some a \<Rightarrow> v_reach V h a),
     v_val = \<lambda>h p. map_option (v_val V h) p\<rparr>"

definition copy_option :: "('a \<Rightarrow> ('c heap, 'a) state) \<Rightarrow> 'a option \<Rightarrow> ('c heap, 'a option) state" where
  "copy_option f p = (case p of None \<Rightarrow> State_Monad.return None
     | Some a \<Rightarrow> do { b \<leftarrow> f a; State_Monad.return (Some b) })"

lemma view_option:
  assumes "view V"
  shows "view (option_view V)"
proof
  fix h p q assume "v_ok (option_view V) h p" "q \<in> set (v_reach (option_view V) h p)"
  then show "q < length h" by (cases p) (auto simp: option_view_def dest: view.bound [OF assms])
next
  fix h p h' assume "v_ok (option_view V) h p" "agree h h' (v_reach (option_view V) h p)"
  then show "v_ok (option_view V) h' p \<and> v_reach (option_view V) h' p = v_reach (option_view V) h p \<and>
      v_val (option_view V) h' p = v_val (option_view V) h p"
    using view.same [OF assms, of h "the p" h'] by (cases p) (simp_all add: option_view_def)
qed

lemma copier_option [copier_rules]:
  assumes V: "copier V f"
  shows "copier (option_view V) (copy_option f)"
proof (rule copier.intro [OF view_option [OF copier_view [OF V]]], unfold_locales)
  fix h p q h' assume ok: "v_ok (option_view V) h p" and run: "run_state (copy_option f p) h = (q, h')"
  show "fresh_copy (option_view V) h p h' q"
  proof (cases p)
    case None
    then show ?thesis using run by (auto simp: copy_option_def option_view_def fresh_copy_def State_Monad.return_def)
  next
    case (Some a)
    obtain b h1 where r: "run_state (f a) h = (b, h1)" by fastforce
    have e: "q = Some b" "h' = h1" using run Some r by (auto simp: copy_option_def State_Monad.bind_def State_Monad.return_def)
    have "fresh_copy V h a h1 b" using copier.copy [OF V _ r] ok Some by (simp add: option_view_def)
    then show ?thesis by (simp add: fresh_copy_def option_view_def Some e)
  qed
qed

text \<open>
  The target of a pointer that is not nil. \<open>get\<close> reads a cell of the right type. The copy is Go's
  \<open>out := new(T); in.DeepCopyInto(out)\<close>: memory first, then the contents. A cell of another type is
  impossible in Go.
\<close>

definition target_at :: "('c \<Rightarrow> 'a option) \<Rightarrow> 'c heap \<Rightarrow> addr \<Rightarrow> 'a option" where
  "target_at get h p = Option.bind (peek h p) get"

definition target_view :: "('c \<Rightarrow> 'a option) \<Rightarrow> ('c, 'a, 'v) view \<Rightarrow> ('c, addr, 'v) view" where
  "target_view get V = \<lparr>
     v_ok = \<lambda>h p. (case target_at get h p of None \<Rightarrow> False | Some a \<Rightarrow> v_ok V h a),
     v_reach = \<lambda>h p. p # (case target_at get h p of None \<Rightarrow> [] | Some a \<Rightarrow> v_reach V h a),
     v_val = \<lambda>h p. v_val V h (the (target_at get h p))\<rparr>"

definition copy_target ::
  "('a \<Rightarrow> 'c) \<Rightarrow> ('c \<Rightarrow> 'a option) \<Rightarrow> ('a \<Rightarrow> ('c heap, 'a) state) \<Rightarrow> addr \<Rightarrow> ('c heap, addr) state" where
  "copy_target mk get f p = do {
     v \<leftarrow> load get p;
     case v of
       None \<Rightarrow> State_Monad.return p
     | Some a \<Rightarrow> do {
         out \<leftarrow> alloc;
         b \<leftarrow> f a;
         store out (mk b);
         State_Monad.return out } }"

abbreviation ptr_view :: "('c \<Rightarrow> 'a option) \<Rightarrow> ('c, 'a, 'v) view \<Rightarrow> ('c, ptr, 'v option) view" where
  "ptr_view get V \<equiv> option_view (target_view get V)"

abbreviation copy_ptr ::
  "('a \<Rightarrow> 'c) \<Rightarrow> ('c \<Rightarrow> 'a option) \<Rightarrow> ('a \<Rightarrow> ('c heap, 'a) state) \<Rightarrow> ptr \<Rightarrow> ('c heap, ptr) state" where
  "copy_ptr mk get f \<equiv> copy_option (copy_target mk get f)"

lemma target_at_some: "target_at get h q = Some a \<Longrightarrow> q < length h"
  by (auto simp: target_at_def bind_eq_Some_conv dest: peek_some)

lemma view_target:
  assumes "view V"
  shows "view (target_view get V)"
proof
  fix h p q assume "v_ok (target_view get V) h p" "q \<in> set (v_reach (target_view get V) h p)"
  then show "q < length h"
    by (auto simp: target_view_def split: option.splits dest: target_at_some view.bound [OF assms])
next
  fix h q h' assume ok: "v_ok (target_view get V) h q" and ag: "agree h h' (v_reach (target_view get V) h q)"
  then obtain a where a: "target_at get h q = Some a" "v_ok V h a" by (auto simp: target_view_def split: option.splits)
  with ag have e: "target_at get h' q = Some a" "agree h h' (v_reach V h a)" by (auto simp: target_view_def target_at_def)
  show "v_ok (target_view get V) h' q \<and> v_reach (target_view get V) h' q = v_reach (target_view get V) h q \<and>
      v_val (target_view get V) h' q = v_val (target_view get V) h q"
    using a e view.same [OF assms a(2) e(2)] by (simp add: target_view_def)
qed

text \<open>What is written to the new cell does not disturb the contents, which were allocated later.\<close>

lemma fresh_then_store:
  assumes V: "copier V f" and ok: "v_ok V h a" and run: "run_state (f a) (h @ [None]) = (b, h1)"
    and h2_def: "h2 = h1[length h := Some c]"
  shows "grows h h2" "length h < length h2" "peek h2 (length h) = Some c" "fresh_copy V h a h2 b"
proof -
  have f: "fresh_copy V (h @ [None]) a h1 b"
    by (rule copier.copy [OF V view.grown(1) [OF copier_view [OF V] ok grows_snoc] run])
  then have g: "grows (h @ [None]) h1" by (rule fresh_grows)
  have gh1: "grows h h1" by (rule grows_trans [OF grows_snoc g])
  then show gh: "grows h h2" unfolding h2_def by (rule grows_store) simp
  have len: "length h < length h1" using g by (simp add: grows_def)
  then show "length h < length h2" "peek h2 (length h) = Some c" by (simp_all add: h2_def peek_def)
  have b: "v_ok V h1 b" "\<forall>p \<in> set (v_reach V h1 b). Suc (length h) \<le> p" using f by (simp_all add: fresh_copy_def)
  then have "agree h1 h2 (v_reach V h1 b)" by (auto simp: agree_def h2_def peek_update)
  from view.same [OF copier_view [OF V] b(1) this] show "fresh_copy V h a h2 b"
    using f b(2) gh view.grown(3) [OF copier_view [OF V] ok grows_snoc] by (auto simp: fresh_copy_def)
qed

lemma copier_target [copier_rules]:
  assumes V: "copier V f" and get: "\<And>a. get (mk a) = Some a"
  shows "copier (target_view get V) (copy_target mk get f)"
proof (rule copier.intro [OF view_target [OF copier_view [OF V]]], unfold_locales)
  fix h q q' h' assume ok: "v_ok (target_view get V) h q" and run: "run_state (copy_target mk get f q) h = (q', h')"
  from ok obtain a where a: "target_at get h q = Some a" "v_ok V h a" by (auto simp: target_view_def split: option.splits)
  obtain b h1 where r: "run_state (f a) (h @ [None]) = (b, h1)" by fastforce
  have e: "q' = length h" "h' = h1[length h := Some (mk b)]"
    using run a(1) r
    by (auto simp: copy_target_def load_def alloc_def store_def target_at_def State_Monad.bind_def State_Monad.return_def)
  note s = fresh_then_store [OF V a(2) r e(2)]
  have "target_at get h' (length h) = Some b" using s(3) get by (simp add: target_at_def)
  then show "fresh_copy (target_view get V) h q h' q'"
    using s(1,4) a(1) by (auto simp: fresh_copy_def target_view_def e(1))
qed

section \<open>Slices\<close>

text \<open>The elements one after the other, as the loops of the generated code copy them.\<close>

fun copy_all :: "('a \<Rightarrow> ('c heap, 'a) state) \<Rightarrow> 'a list \<Rightarrow> ('c heap, 'a list) state" where
  "copy_all f [] = State_Monad.return []"
| "copy_all f (x # xs) = do { y \<leftarrow> f x; ys \<leftarrow> copy_all f xs; State_Monad.return (y # ys) }"

definition list_view :: "('c, 'a, 'v) view \<Rightarrow> ('c, 'a list, 'v list) view" where
  "list_view V = \<lparr>v_ok = \<lambda>h xs. list_all (v_ok V h) xs, v_reach = \<lambda>h xs. concat (map (v_reach V h) xs),
     v_val = \<lambda>h xs. map (v_val V h) xs\<rparr>"

lemma view_list:
  assumes "view V"
  shows "view (list_view V)"
proof
  fix h xs p assume "v_ok (list_view V) h xs" "p \<in> set (v_reach (list_view V) h xs)"
  then show "p < length h" by (auto simp: list_view_def list_all_iff dest: view.bound [OF assms])
next
  fix h xs h' assume ok: "v_ok (list_view V) h xs" and ag: "agree h h' (v_reach (list_view V) h xs)"
  have "v_ok V h' x \<and> v_reach V h' x = v_reach V h x \<and> v_val V h' x = v_val V h x" if "x \<in> set xs" for x
    by (rule view.same [OF assms]) (use ok ag that in \<open>auto simp: list_view_def list_all_iff agree_def\<close>)
  then show "v_ok (list_view V) h' xs \<and> v_reach (list_view V) h' xs = v_reach (list_view V) h xs \<and>
      v_val (list_view V) h' xs = v_val (list_view V) h xs"
    by (auto simp: list_view_def list_all_iff intro!: arg_cong [where f = concat])
qed

lemma copier_list:
  assumes V: "copier V f"
  shows "copier (list_view V) (copy_all f)"
proof (rule copier.intro [OF view_list [OF copier_view [OF V]]], unfold_locales)
  fix h xs ys h'
  show "v_ok (list_view V) h xs \<Longrightarrow> run_state (copy_all f xs) h = (ys, h') \<Longrightarrow> fresh_copy (list_view V) h xs h' ys"
  proof (induction xs arbitrary: h ys h')
    case Nil
    then show ?case by (auto simp: list_view_def fresh_copy_def State_Monad.return_def)
  next
    case (Cons x xs)
    obtain y h1 where r1: "run_state (f x) h = (y, h1)" by fastforce
    obtain zs h2 where r2: "run_state (copy_all f xs) h1 = (zs, h2)" by fastforce
    have e: "ys = y # zs" "h' = h2" using Cons.prems(2) r1 r2 by (auto simp: State_Monad.bind_def State_Monad.return_def)
    have okx: "v_ok V h x" and okxs: "v_ok (list_view V) h xs" using Cons.prems(1) by (auto simp: list_view_def)
    note LV = view_list [OF copier_view [OF V]]
    have fx: "fresh_copy V h x h1 y" by (rule copier.copy [OF V okx r1])
    note g1 = fresh_grows [OF fx]
    have fxs: "fresh_copy (list_view V) h1 xs h2 zs" by (rule Cons.IH [OF view.grown(1) [OF LV okxs g1] r2])
    have "fresh_copy V h x h2 y" by (rule copier.fresh_between [OF V okx grows_refl fx fresh_grows [OF fxs]])
    moreover have "v_val (list_view V) h2 zs = v_val (list_view V) h xs" and le: "length h \<le> length h1"
      using fxs g1 view.grown(3) [OF LV okxs g1] by (auto simp: fresh_copy_def grows_def)
    moreover have "\<forall>p \<in> set (v_reach (list_view V) h2 zs). length h \<le> p"
      using fxs le by (auto simp: fresh_copy_def intro: le_trans)
    ultimately show ?case using fxs by (auto simp: fresh_copy_def list_view_def e)
  qed
qed

text \<open>
  The slice itself: a window of a backing array, or nil. The copy is \<open>make([]T, len(*in))\<close> followed
  by the loop, or by \<open>copy\<close> for elements without pointers; it starts at the front of its own array.
\<close>

type_synonym window = "addr \<times> nat \<times> nat"

definition window_at :: "('c \<Rightarrow> 'a list option) \<Rightarrow> 'c heap \<Rightarrow> window \<Rightarrow> 'a list option" where
  "window_at get h w = (case w of (p, off, n) \<Rightarrow>
     (case target_at get h p of None \<Rightarrow> None | Some xs \<Rightarrow> if off + n \<le> length xs then Some (take n (drop off xs)) else None))"

definition window_view :: "('c \<Rightarrow> 'a list option) \<Rightarrow> ('c, 'a, 'v) view \<Rightarrow> ('c, window, 'v list) view" where
  "window_view get V = \<lparr>
     v_ok = \<lambda>h w. (case window_at get h w of None \<Rightarrow> False | Some xs \<Rightarrow> v_ok (list_view V) h xs),
     v_reach = \<lambda>h w. fst w # (case window_at get h w of None \<Rightarrow> [] | Some xs \<Rightarrow> v_reach (list_view V) h xs),
     v_val = \<lambda>h w. v_val (list_view V) h (the (window_at get h w))\<rparr>"

definition load_window :: "('c \<Rightarrow> 'a list option) \<Rightarrow> window \<Rightarrow> ('c heap, 'a list option) state" where
  "load_window get w = State (\<lambda>h. (window_at get h w, h))"

definition copy_window ::
  "('a list \<Rightarrow> 'c) \<Rightarrow> ('c \<Rightarrow> 'a list option) \<Rightarrow> ('a \<Rightarrow> ('c heap, 'a) state) \<Rightarrow> window \<Rightarrow> ('c heap, window) state" where
  "copy_window mk get f w = do {
     v \<leftarrow> load_window get w;
     case v of
       None \<Rightarrow> State_Monad.return w
     | Some xs \<Rightarrow> do {
         out \<leftarrow> alloc;
         ys \<leftarrow> copy_all f xs;
         store out (mk ys);
         State_Monad.return (out, 0, length xs) } }"

abbreviation slice_view :: "('c \<Rightarrow> 'a list option) \<Rightarrow> ('c, 'a, 'v) view \<Rightarrow> ('c, slice, 'v list option) view" where
  "slice_view get V \<equiv> option_view (window_view get V)"

abbreviation copy_slice ::
  "('a list \<Rightarrow> 'c) \<Rightarrow> ('c \<Rightarrow> 'a list option) \<Rightarrow> ('a \<Rightarrow> ('c heap, 'a) state) \<Rightarrow> slice \<Rightarrow> ('c heap, slice) state" where
  "copy_slice mk get f \<equiv> copy_option (copy_window mk get f)"

text \<open>Go's \<open>len\<close> and \<open>range\<close> do not tell a nil slice from an empty one.\<close>

definition elems :: "'v list option \<Rightarrow> 'v list" where
  "elems s = (case s of None \<Rightarrow> [] | Some xs \<Rightarrow> xs)"

lemma window_at_some: "window_at get h w = Some xs \<Longrightarrow> fst w < length h"
  by (auto simp: window_at_def dest: target_at_some split: prod.splits option.splits)

lemma view_window:
  assumes "view V"
  shows "view (window_view get V)"
proof
  fix h w q assume "v_ok (window_view get V) h w" "q \<in> set (v_reach (window_view get V) h w)"
  then show "q < length h"
    by (auto simp: window_view_def split: option.splits dest: window_at_some view.bound [OF view_list [OF assms]])
next
  fix h w h' assume ok: "v_ok (window_view get V) h w" and ag: "agree h h' (v_reach (window_view get V) h w)"
  then obtain xs where xs: "window_at get h w = Some xs" "v_ok (list_view V) h xs"
    by (auto simp: window_view_def split: option.splits)
  with ag have e: "window_at get h' w = Some xs" "agree h h' (v_reach (list_view V) h xs)"
    by (auto simp: window_view_def window_at_def target_at_def split: prod.splits)
  show "v_ok (window_view get V) h' w \<and> v_reach (window_view get V) h' w = v_reach (window_view get V) h w \<and>
      v_val (window_view get V) h' w = v_val (window_view get V) h w"
    using xs e view.same [OF view_list [OF assms] xs(2) e(2)] by (simp add: window_view_def)
qed

lemma copier_window [copier_rules]:
  assumes V: "copier V f" and get: "\<And>xs. get (mk xs) = Some xs"
  shows "copier (window_view get V) (copy_window mk get f)"
proof (rule copier.intro [OF view_window [OF copier_view [OF V]]], unfold_locales)
  fix h w w' h' assume ok: "v_ok (window_view get V) h w" and run: "run_state (copy_window mk get f w) h = (w', h')"
  from ok obtain xs where xs: "window_at get h w = Some xs" "v_ok (list_view V) h xs"
    by (auto simp: window_view_def split: option.splits)
  obtain ys h1 where r: "run_state (copy_all f xs) (h @ [None]) = (ys, h1)" by fastforce
  have e: "w' = (length h, 0, length xs)" "h' = h1[length h := Some (mk ys)]"
    using run xs(1) r
    by (auto simp: copy_window_def load_window_def alloc_def store_def State_Monad.bind_def State_Monad.return_def)
  note s = fresh_then_store [OF copier_list [OF V] xs(2) r e(2)]
  have "length ys = length xs"
    using s(4) by (metis fresh_copy_def length_map list_view_def view.select_convs(3))
  then have "window_at get h' (length h, 0, length xs) = Some ys" using s(3) get by (simp add: window_at_def target_at_def)
  then show "fresh_copy (window_view get V) h w h' w'"
    using s(1,4) xs(1) by (auto simp: fresh_copy_def window_view_def e(1))
qed

section \<open>Independent copies\<close>

text \<open>
  What the caller of a deep copy relies on: nil for nil only; the same value; the original as it
  was; and from then on, no write outside of the memory that the copy allocated changes the copy,
  and no write to memory allocated since changes the original.
\<close>

definition independent_copy :: "('c, 'a option, 'v) view \<Rightarrow> 'c heap \<Rightarrow> 'a option \<Rightarrow> 'c heap \<Rightarrow> 'a option \<Rightarrow> bool" where
  "independent_copy V h p h' q \<longleftrightarrow>
     (q = None \<longleftrightarrow> p = None) \<and> v_val V h' q = v_val V h p \<and> v_val V h' p = v_val V h p \<and>
     (\<forall>h''. (\<forall>a. length h \<le> a \<longrightarrow> a < length h' \<longrightarrow> peek h'' a = peek h' a) \<longrightarrow> v_val V h'' q = v_val V h p) \<and>
     (\<forall>h''. (\<forall>a. a < length h \<longrightarrow> peek h'' a = peek h a) \<longrightarrow> v_val V h'' p = v_val V h p)"

definition deep_copies :: "('c, 'a option, 'v) view \<Rightarrow> ('a option \<Rightarrow> ('c heap, 'a option) state) \<Rightarrow> bool" where
  "deep_copies V f \<longleftrightarrow> (\<forall>h p q h'. v_ok V h p \<longrightarrow> run_state (f p) h = (q, h') \<longrightarrow> independent_copy V h p h' q)"

lemma copy_option_None: "run_state (copy_option f p) h = (q, h') \<Longrightarrow> q = None \<longleftrightarrow> p = None"
  by (auto simp: copy_option_def State_Monad.bind_def State_Monad.return_def split: option.splits prod.splits)

lemma copier_deep_copies:
  assumes "copier (option_view V) (copy_option f)"
  shows "deep_copies (option_view V) (copy_option f)"
  unfolding deep_copies_def
proof (intro allI impI)
  fix h p q h' assume ok: "v_ok (option_view V) h p" and run: "run_state (copy_option f p) h = (q, h')"
  have f: "fresh_copy (option_view V) h p h' q" by (rule copier.copy [OF assms ok run])
  moreover have "v_val (option_view V) h' p = v_val (option_view V) h p"
    by (rule view.grown(3) [OF copier_view [OF assms] ok fresh_grows [OF f]])
  moreover have "v_val (option_view V) h'' q = v_val (option_view V) h p"
    if "\<forall>a. length h \<le> a \<longrightarrow> a < length h' \<longrightarrow> peek h'' a = peek h' a" for h''
    by (rule copier.copy_survives(2) [OF assms ok run]) (use that in blast)
  moreover have "v_val (option_view V) h'' p = v_val (option_view V) h p"
    if "\<forall>a. a < length h \<longrightarrow> peek h'' a = peek h a" for h''
    by (rule copier.original_survives(2) [OF assms ok]) (use that in blast)
  ultimately show "independent_copy (option_view V) h p h' q"
    using copy_option_None [OF run] unfolding independent_copy_def fresh_copy_def by blast
qed

text \<open>The same for a copy that comes back as an interface value: the nil interface for nil only.\<close>

definition object_copies ::
  "('c, 'a option, 'v) view \<Rightarrow> ('a \<Rightarrow> 'o) \<Rightarrow> ('a option \<Rightarrow> ('c heap, 'o option) state) \<Rightarrow> bool" where
  "object_copies V mk f \<longleftrightarrow> (\<forall>h p ob h'. v_ok V h p \<longrightarrow> run_state (f p) h = (ob, h') \<longrightarrow>
     (\<exists>q. ob = map_option mk q \<and> independent_copy V h p h' q))"

lemma deep_copies_object:
  assumes "deep_copies V f"
  shows "object_copies V mk (\<lambda>p. do { c \<leftarrow> f p; State_Monad.return (case c of Some q \<Rightarrow> Some (mk q) | None \<Rightarrow> None) })"
  unfolding object_copies_def
proof (intro allI impI)
  fix h p ob h' assume ok: "v_ok V h p"
    and run: "run_state (do { c \<leftarrow> f p; State_Monad.return (case c of Some q \<Rightarrow> Some (mk q) | None \<Rightarrow> None) }) h = (ob, h')"
  obtain q h1 where r: "run_state (f p) h = (q, h1)" by fastforce
  have "ob = map_option mk q" "h' = h1"
    using run r by (auto simp: State_Monad.bind_def State_Monad.return_def split: option.splits)
  with assms ok r show "\<exists>q. ob = map_option mk q \<and> independent_copy V h p h' q" unfolding deep_copies_def by blast
qed

end
