(* ===== verification/Api_Heap.thy ===== *)
theory Api_Heap
  imports Go_Heap Externals
begin

text \<open>
  The API types of \<open>src/api/v1alpha1\<close> as they lie in memory: a pointer field is a \<open>ptr\<close>, a slice a
  \<open>slice\<close>, a nested struct is inline. The structs without pointers are the records of \<open>Api_Types\<close>
  themselves. Structs of other packages (\<open>metav1.ObjectMeta\<close>, \<open>metav1.ListMeta\<close>,
  \<open>metav1.Condition\<close>, \<open>metav1.Time\<close>, \<open>runtime.RawExtension\<close>, the key selectors) are values of an
  arbitrary type \<open>'f\<close>, and their deep copies are parameters. A view gives the value of
  \<open>Api_Types\<close> that a struct in memory stands for.
\<close>

section \<open>Structs in memory\<close>

type_synonym TypeMeta = "string \<times> string" \<comment> \<open>kind, API version\<close>

record hAgentInputs =
  hai_Prompt :: ptr
  hai_Config :: ptr

record hAgentRef =
  har_Ref :: string
  har_Config :: ptr

record hAgentRequirements =
  haq_Egress :: slice
  haq_Secrets :: slice

record hClusterAgentClassSpec =
  hac_Image :: string
  hac_ImagePullPolicy :: string
  hac_Command :: slice
  hac_Args :: slice
  hac_Inputs :: hAgentInputs
  hac_Requires :: hAgentRequirements

record 'f hClusterAgentClass =
  hagc_TypeMeta :: TypeMeta
  hagc_Meta :: 'f
  hagc_Spec :: hClusterAgentClassSpec

record hRBACRule =
  hrr_APIGroups :: slice
  hrr_Resources :: slice
  hrr_Verbs :: slice
  hrr_ResourceNames :: slice

record hPermissions =
  hpm_Secrets :: slice
  hpm_Egress :: slice
  hpm_EgressPorts :: slice
  hpm_RBAC :: slice

record hPromptSource =
  hps_Inline :: string
  hps_SecretRef :: ptr
  hps_ConfigMapRef :: ptr

record hTaskResult =
  hres_Summary :: string
  hres_Links :: slice

record hTaskSpec =
  hts_Agent :: hAgentRef
  hts_Prompt :: hPromptSource
  hts_Permissions :: hPermissions
  hts_Resources :: TaskResources
  hts_TTLSecondsAfterFinished :: ptr

record hTaskStatus =
  hst_Phase :: TaskPhase
  hst_ObservedGeneration :: int
  hst_JobName :: string
  hst_StartTime :: ptr
  hst_CompletionTime :: ptr
  hst_Result :: ptr
  hst_Conditions :: slice

record 'f hTask =
  htask_TypeMeta :: TypeMeta
  htask_Meta :: 'f
  htask_Spec :: hTaskSpec
  htask_Status :: hTaskStatus

record hTaskTemplate =
  htt_Namespace :: string
  htt_GenerateNamePrefix :: string
  htt_Agent :: hAgentRef
  htt_Permissions :: hPermissions
  htt_Resources :: TaskResources
  htt_TTLSecondsAfterFinished :: ptr
  htt_Mappings :: slice

record hTriggerDedupe =
  htd_UniqueBy :: slice

record 'f hWebhookSignature =
  hws_Header :: string
  hws_Algorithm :: string
  hws_Prefix :: string
  hws_SecretRef :: 'f

record 'f hClusterTriggerClassSpec =
  hct_Path :: string
  hct_Signature :: "'f hWebhookSignature"
  hct_Filters :: slice
  hct_Task :: hTaskTemplate
  hct_Dedupe :: ptr

record 'f hClusterTriggerClass =
  hctc_TypeMeta :: TypeMeta
  hctc_Meta :: 'f
  hctc_Spec :: "'f hClusterTriggerClassSpec"

record 'f hTaskList =
  htl_TypeMeta :: TypeMeta
  htl_ListMeta :: 'f
  htl_Items :: slice

record 'f hClusterAgentClassList =
  hacl_TypeMeta :: TypeMeta
  hacl_ListMeta :: 'f
  hacl_Items :: slice

record 'f hClusterTriggerClassList =
  hctl_TypeMeta :: TypeMeta
  hctl_ListMeta :: 'f
  hctl_Items :: slice

section \<open>Cells\<close>

text \<open>What a cell can hold: the backing array of a slice, or the target of a pointer.\<close>

datatype (plugins only: code size) 'f cell =
    StringsC "string list"
  | Int32sC "int list"
  | Int32C int
  | RawExtensionC 'f
  | SecretKeySelectorC 'f
  | ConfigMapKeySelectorC 'f
  | ConditionsC "'f list"
  | RBACRulesC "hRBACRule list"
  | ResultLinksC "ResultLink list"
  | FieldMappingsC "FieldMapping list"
  | WebhookFiltersC "WebhookFilter list"
  | TasksC "'f hTask list"
  | ClusterAgentClassesC "'f hClusterAgentClass list"
  | ClusterTriggerClassesC "'f hClusterTriggerClass list"
  | AgentInputMountC AgentInputMount
  | FieldMappingC FieldMapping
  | ResultLinkC ResultLink
  | WebhookFilterC WebhookFilter
  | TaskResourcesC TaskResources
  | AgentInputsC hAgentInputs
  | AgentRefC hAgentRef
  | AgentRequirementsC hAgentRequirements
  | ClusterAgentClassSpecC hClusterAgentClassSpec
  | ClusterAgentClassC "'f hClusterAgentClass"
  | RBACRuleC hRBACRule
  | PermissionsC hPermissions
  | PromptSourceC hPromptSource
  | TaskResultC hTaskResult
  | TaskSpecC hTaskSpec
  | TaskStatusC hTaskStatus
  | TaskC "'f hTask"
  | TaskTemplateC hTaskTemplate
  | TriggerDedupeC hTriggerDedupe
  | WebhookSignatureC "'f hWebhookSignature"
  | ClusterTriggerClassSpecC "'f hClusterTriggerClassSpec"
  | ClusterTriggerClassC "'f hClusterTriggerClass"
  | TaskListC "'f hTaskList"
  | ClusterAgentClassListC "'f hClusterAgentClassList"
  | ClusterTriggerClassListC "'f hClusterTriggerClassList"
  | ForeignC 'f

definition get_StringsC :: "'f cell \<Rightarrow> (string list) option" where
  "get_StringsC c = (case c of StringsC x \<Rightarrow> Some x | _ \<Rightarrow> None)"

definition get_Int32sC :: "'f cell \<Rightarrow> (int list) option" where
  "get_Int32sC c = (case c of Int32sC x \<Rightarrow> Some x | _ \<Rightarrow> None)"

definition get_Int32C :: "'f cell \<Rightarrow> (int) option" where
  "get_Int32C c = (case c of Int32C x \<Rightarrow> Some x | _ \<Rightarrow> None)"

definition get_RawExtensionC :: "'f cell \<Rightarrow> ('f) option" where
  "get_RawExtensionC c = (case c of RawExtensionC x \<Rightarrow> Some x | _ \<Rightarrow> None)"

definition get_SecretKeySelectorC :: "'f cell \<Rightarrow> ('f) option" where
  "get_SecretKeySelectorC c = (case c of SecretKeySelectorC x \<Rightarrow> Some x | _ \<Rightarrow> None)"

definition get_ConfigMapKeySelectorC :: "'f cell \<Rightarrow> ('f) option" where
  "get_ConfigMapKeySelectorC c = (case c of ConfigMapKeySelectorC x \<Rightarrow> Some x | _ \<Rightarrow> None)"

definition get_ConditionsC :: "'f cell \<Rightarrow> ('f list) option" where
  "get_ConditionsC c = (case c of ConditionsC x \<Rightarrow> Some x | _ \<Rightarrow> None)"

definition get_RBACRulesC :: "'f cell \<Rightarrow> (hRBACRule list) option" where
  "get_RBACRulesC c = (case c of RBACRulesC x \<Rightarrow> Some x | _ \<Rightarrow> None)"

definition get_ResultLinksC :: "'f cell \<Rightarrow> (ResultLink list) option" where
  "get_ResultLinksC c = (case c of ResultLinksC x \<Rightarrow> Some x | _ \<Rightarrow> None)"

definition get_FieldMappingsC :: "'f cell \<Rightarrow> (FieldMapping list) option" where
  "get_FieldMappingsC c = (case c of FieldMappingsC x \<Rightarrow> Some x | _ \<Rightarrow> None)"

definition get_WebhookFiltersC :: "'f cell \<Rightarrow> (WebhookFilter list) option" where
  "get_WebhookFiltersC c = (case c of WebhookFiltersC x \<Rightarrow> Some x | _ \<Rightarrow> None)"

definition get_TasksC :: "'f cell \<Rightarrow> ('f hTask list) option" where
  "get_TasksC c = (case c of TasksC x \<Rightarrow> Some x | _ \<Rightarrow> None)"

definition get_ClusterAgentClassesC :: "'f cell \<Rightarrow> ('f hClusterAgentClass list) option" where
  "get_ClusterAgentClassesC c = (case c of ClusterAgentClassesC x \<Rightarrow> Some x | _ \<Rightarrow> None)"

definition get_ClusterTriggerClassesC :: "'f cell \<Rightarrow> ('f hClusterTriggerClass list) option" where
  "get_ClusterTriggerClassesC c = (case c of ClusterTriggerClassesC x \<Rightarrow> Some x | _ \<Rightarrow> None)"

definition get_AgentInputMountC :: "'f cell \<Rightarrow> (AgentInputMount) option" where
  "get_AgentInputMountC c = (case c of AgentInputMountC x \<Rightarrow> Some x | _ \<Rightarrow> None)"

definition get_FieldMappingC :: "'f cell \<Rightarrow> (FieldMapping) option" where
  "get_FieldMappingC c = (case c of FieldMappingC x \<Rightarrow> Some x | _ \<Rightarrow> None)"

definition get_ResultLinkC :: "'f cell \<Rightarrow> (ResultLink) option" where
  "get_ResultLinkC c = (case c of ResultLinkC x \<Rightarrow> Some x | _ \<Rightarrow> None)"

definition get_WebhookFilterC :: "'f cell \<Rightarrow> (WebhookFilter) option" where
  "get_WebhookFilterC c = (case c of WebhookFilterC x \<Rightarrow> Some x | _ \<Rightarrow> None)"

definition get_TaskResourcesC :: "'f cell \<Rightarrow> (TaskResources) option" where
  "get_TaskResourcesC c = (case c of TaskResourcesC x \<Rightarrow> Some x | _ \<Rightarrow> None)"

definition get_AgentInputsC :: "'f cell \<Rightarrow> (hAgentInputs) option" where
  "get_AgentInputsC c = (case c of AgentInputsC x \<Rightarrow> Some x | _ \<Rightarrow> None)"

definition get_AgentRefC :: "'f cell \<Rightarrow> (hAgentRef) option" where
  "get_AgentRefC c = (case c of AgentRefC x \<Rightarrow> Some x | _ \<Rightarrow> None)"

definition get_AgentRequirementsC :: "'f cell \<Rightarrow> (hAgentRequirements) option" where
  "get_AgentRequirementsC c = (case c of AgentRequirementsC x \<Rightarrow> Some x | _ \<Rightarrow> None)"

definition get_ClusterAgentClassSpecC :: "'f cell \<Rightarrow> (hClusterAgentClassSpec) option" where
  "get_ClusterAgentClassSpecC c = (case c of ClusterAgentClassSpecC x \<Rightarrow> Some x | _ \<Rightarrow> None)"

definition get_ClusterAgentClassC :: "'f cell \<Rightarrow> ('f hClusterAgentClass) option" where
  "get_ClusterAgentClassC c = (case c of ClusterAgentClassC x \<Rightarrow> Some x | _ \<Rightarrow> None)"

definition get_RBACRuleC :: "'f cell \<Rightarrow> (hRBACRule) option" where
  "get_RBACRuleC c = (case c of RBACRuleC x \<Rightarrow> Some x | _ \<Rightarrow> None)"

definition get_PermissionsC :: "'f cell \<Rightarrow> (hPermissions) option" where
  "get_PermissionsC c = (case c of PermissionsC x \<Rightarrow> Some x | _ \<Rightarrow> None)"

definition get_PromptSourceC :: "'f cell \<Rightarrow> (hPromptSource) option" where
  "get_PromptSourceC c = (case c of PromptSourceC x \<Rightarrow> Some x | _ \<Rightarrow> None)"

definition get_TaskResultC :: "'f cell \<Rightarrow> (hTaskResult) option" where
  "get_TaskResultC c = (case c of TaskResultC x \<Rightarrow> Some x | _ \<Rightarrow> None)"

definition get_TaskSpecC :: "'f cell \<Rightarrow> (hTaskSpec) option" where
  "get_TaskSpecC c = (case c of TaskSpecC x \<Rightarrow> Some x | _ \<Rightarrow> None)"

definition get_TaskStatusC :: "'f cell \<Rightarrow> (hTaskStatus) option" where
  "get_TaskStatusC c = (case c of TaskStatusC x \<Rightarrow> Some x | _ \<Rightarrow> None)"

definition get_TaskC :: "'f cell \<Rightarrow> ('f hTask) option" where
  "get_TaskC c = (case c of TaskC x \<Rightarrow> Some x | _ \<Rightarrow> None)"

definition get_TaskTemplateC :: "'f cell \<Rightarrow> (hTaskTemplate) option" where
  "get_TaskTemplateC c = (case c of TaskTemplateC x \<Rightarrow> Some x | _ \<Rightarrow> None)"

definition get_TriggerDedupeC :: "'f cell \<Rightarrow> (hTriggerDedupe) option" where
  "get_TriggerDedupeC c = (case c of TriggerDedupeC x \<Rightarrow> Some x | _ \<Rightarrow> None)"

definition get_WebhookSignatureC :: "'f cell \<Rightarrow> ('f hWebhookSignature) option" where
  "get_WebhookSignatureC c = (case c of WebhookSignatureC x \<Rightarrow> Some x | _ \<Rightarrow> None)"

definition get_ClusterTriggerClassSpecC :: "'f cell \<Rightarrow> ('f hClusterTriggerClassSpec) option" where
  "get_ClusterTriggerClassSpecC c = (case c of ClusterTriggerClassSpecC x \<Rightarrow> Some x | _ \<Rightarrow> None)"

definition get_ClusterTriggerClassC :: "'f cell \<Rightarrow> ('f hClusterTriggerClass) option" where
  "get_ClusterTriggerClassC c = (case c of ClusterTriggerClassC x \<Rightarrow> Some x | _ \<Rightarrow> None)"

definition get_TaskListC :: "'f cell \<Rightarrow> ('f hTaskList) option" where
  "get_TaskListC c = (case c of TaskListC x \<Rightarrow> Some x | _ \<Rightarrow> None)"

definition get_ClusterAgentClassListC :: "'f cell \<Rightarrow> ('f hClusterAgentClassList) option" where
  "get_ClusterAgentClassListC c = (case c of ClusterAgentClassListC x \<Rightarrow> Some x | _ \<Rightarrow> None)"

definition get_ClusterTriggerClassListC :: "'f cell \<Rightarrow> ('f hClusterTriggerClassList) option" where
  "get_ClusterTriggerClassListC c = (case c of ClusterTriggerClassListC x \<Rightarrow> Some x | _ \<Rightarrow> None)"

definition get_ForeignC :: "'f cell \<Rightarrow> ('f) option" where
  "get_ForeignC c = (case c of ForeignC x \<Rightarrow> Some x | _ \<Rightarrow> None)"

lemmas get_cell_defs =
  get_StringsC_def get_Int32sC_def get_Int32C_def get_RawExtensionC_def get_SecretKeySelectorC_def get_ConfigMapKeySelectorC_def get_ConditionsC_def get_RBACRulesC_def get_ResultLinksC_def get_FieldMappingsC_def get_WebhookFiltersC_def get_TasksC_def get_ClusterAgentClassesC_def get_ClusterTriggerClassesC_def get_AgentInputMountC_def get_FieldMappingC_def get_ResultLinkC_def get_WebhookFilterC_def get_TaskResourcesC_def get_AgentInputsC_def get_AgentRefC_def get_AgentRequirementsC_def get_ClusterAgentClassSpecC_def get_ClusterAgentClassC_def get_RBACRuleC_def get_PermissionsC_def get_PromptSourceC_def get_TaskResultC_def get_TaskSpecC_def get_TaskStatusC_def get_TaskC_def get_TaskTemplateC_def get_TriggerDedupeC_def get_WebhookSignatureC_def get_ClusterTriggerClassSpecC_def get_ClusterTriggerClassC_def get_TaskListC_def get_ClusterAgentClassListC_def get_ClusterTriggerClassListC_def get_ForeignC_def

lemma get_cell [simp]:
  "get_StringsC (StringsC x0) = Some x0"
  "get_Int32sC (Int32sC x1) = Some x1"
  "get_Int32C (Int32C x2) = Some x2"
  "get_RawExtensionC (RawExtensionC x3) = Some x3"
  "get_SecretKeySelectorC (SecretKeySelectorC x4) = Some x4"
  "get_ConfigMapKeySelectorC (ConfigMapKeySelectorC x5) = Some x5"
  "get_ConditionsC (ConditionsC x6) = Some x6"
  "get_RBACRulesC (RBACRulesC x7) = Some x7"
  "get_ResultLinksC (ResultLinksC x8) = Some x8"
  "get_FieldMappingsC (FieldMappingsC x9) = Some x9"
  "get_WebhookFiltersC (WebhookFiltersC x10) = Some x10"
  "get_TasksC (TasksC x11) = Some x11"
  "get_ClusterAgentClassesC (ClusterAgentClassesC x12) = Some x12"
  "get_ClusterTriggerClassesC (ClusterTriggerClassesC x13) = Some x13"
  "get_AgentInputMountC (AgentInputMountC x14) = Some x14"
  "get_FieldMappingC (FieldMappingC x15) = Some x15"
  "get_ResultLinkC (ResultLinkC x16) = Some x16"
  "get_WebhookFilterC (WebhookFilterC x17) = Some x17"
  "get_TaskResourcesC (TaskResourcesC x18) = Some x18"
  "get_AgentInputsC (AgentInputsC x19) = Some x19"
  "get_AgentRefC (AgentRefC x20) = Some x20"
  "get_AgentRequirementsC (AgentRequirementsC x21) = Some x21"
  "get_ClusterAgentClassSpecC (ClusterAgentClassSpecC x22) = Some x22"
  "get_ClusterAgentClassC (ClusterAgentClassC x23) = Some x23"
  "get_RBACRuleC (RBACRuleC x24) = Some x24"
  "get_PermissionsC (PermissionsC x25) = Some x25"
  "get_PromptSourceC (PromptSourceC x26) = Some x26"
  "get_TaskResultC (TaskResultC x27) = Some x27"
  "get_TaskSpecC (TaskSpecC x28) = Some x28"
  "get_TaskStatusC (TaskStatusC x29) = Some x29"
  "get_TaskC (TaskC x30) = Some x30"
  "get_TaskTemplateC (TaskTemplateC x31) = Some x31"
  "get_TriggerDedupeC (TriggerDedupeC x32) = Some x32"
  "get_WebhookSignatureC (WebhookSignatureC x33) = Some x33"
  "get_ClusterTriggerClassSpecC (ClusterTriggerClassSpecC x34) = Some x34"
  "get_ClusterTriggerClassC (ClusterTriggerClassC x35) = Some x35"
  "get_TaskListC (TaskListC x36) = Some x36"
  "get_ClusterAgentClassListC (ClusterAgentClassListC x37) = Some x37"
  "get_ClusterTriggerClassListC (ClusterTriggerClassListC x38) = Some x38"
  "get_ForeignC (ForeignC x39) = Some x39"
  by (simp_all add: get_cell_defs)

section \<open>Deep copies of other packages\<close>

text \<open>
  Their views and their \<open>DeepCopyInto\<close> methods (\<open>DeepCopy\<close> on a pointer that is not nil for
  \<open>metav1.Time\<close>). They document what every generated deep copy does: the copy is equal and shares
  nothing with the original.
\<close>

record 'f foreign =
  fo_ObjectMeta :: "('f cell, 'f, ObjectMeta) view"
  fo_ObjectMeta_DeepCopyInto :: "'f \<Rightarrow> ('f cell heap, 'f) state"
  fo_ListMeta :: "('f cell, 'f, string) view"
  fo_ListMeta_DeepCopyInto :: "'f \<Rightarrow> ('f cell heap, 'f) state"
  fo_RawExtension :: "('f cell, 'f, RawExtension) view"
  fo_RawExtension_DeepCopyInto :: "'f \<Rightarrow> ('f cell heap, 'f) state"
  fo_SecretKeySelector :: "('f cell, 'f, KeySelector) view"
  fo_SecretKeySelector_DeepCopyInto :: "'f \<Rightarrow> ('f cell heap, 'f) state"
  fo_ConfigMapKeySelector :: "('f cell, 'f, KeySelector) view"
  fo_ConfigMapKeySelector_DeepCopyInto :: "'f \<Rightarrow> ('f cell heap, 'f) state"
  fo_Condition :: "('f cell, 'f, Condition) view"
  fo_Condition_DeepCopyInto :: "'f \<Rightarrow> ('f cell heap, 'f) state"
  fo_Time :: "('f cell, addr, gotime) view"
  fo_Time_DeepCopy :: "addr \<Rightarrow> ('f cell heap, addr) state"

definition foreign_laws :: "'f foreign \<Rightarrow> bool" where
  "foreign_laws F \<longleftrightarrow>
     copier (fo_ObjectMeta F) (fo_ObjectMeta_DeepCopyInto F) \<and>
     copier (fo_ListMeta F) (fo_ListMeta_DeepCopyInto F) \<and>
     copier (fo_RawExtension F) (fo_RawExtension_DeepCopyInto F) \<and>
     copier (fo_SecretKeySelector F) (fo_SecretKeySelector_DeepCopyInto F) \<and>
     copier (fo_ConfigMapKeySelector F) (fo_ConfigMapKeySelector_DeepCopyInto F) \<and>
     copier (fo_Condition F) (fo_Condition_DeepCopyInto F) \<and>
     copier (fo_Time F) (fo_Time_DeepCopy F)"

lemma foreign_copier [copier_rules]:
  assumes "foreign_laws F"
  shows "copier (fo_ObjectMeta F) (fo_ObjectMeta_DeepCopyInto F)"
    "copier (fo_ListMeta F) (fo_ListMeta_DeepCopyInto F)"
    "copier (fo_RawExtension F) (fo_RawExtension_DeepCopyInto F)"
    "copier (fo_SecretKeySelector F) (fo_SecretKeySelector_DeepCopyInto F)"
    "copier (fo_ConfigMapKeySelector F) (fo_ConfigMapKeySelector_DeepCopyInto F)"
    "copier (fo_Condition F) (fo_Condition_DeepCopyInto F)"
    "copier (fo_Time F) (fo_Time_DeepCopy F)"
  using assms by (simp_all add: foreign_laws_def)

section \<open>What the structs stand for\<close>

definition AgentInputs_view :: "('f cell, hAgentInputs, AgentInputs) view" where
  "AgentInputs_view = struct_view (\<lambda>s. (hai_Prompt s, hai_Config s))
     (\<lambda>s (v0, v1). \<lparr>ai_Prompt = v0, ai_Config = v1\<rparr>)
     (pair_view (ptr_view get_AgentInputMountC (plain_view id)) (ptr_view get_AgentInputMountC (plain_view id)))"

definition AgentRef_view :: "'f foreign \<Rightarrow> ('f cell, hAgentRef, AgentRef) view" where
  "AgentRef_view F = struct_view (\<lambda>s. har_Config s)
     (\<lambda>s v0. \<lparr>ar_Ref = har_Ref s, ar_Config = v0\<rparr>)
     (ptr_view get_RawExtensionC (fo_RawExtension F))"

definition AgentRequirements_view :: "('f cell, hAgentRequirements, AgentRequirements) view" where
  "AgentRequirements_view = struct_view (\<lambda>s. (haq_Egress s, haq_Secrets s))
     (\<lambda>s (v0, v1). \<lparr>aq_Egress = elems v0, aq_Secrets = elems v1\<rparr>)
     (pair_view (slice_view get_StringsC (plain_view id)) (slice_view get_StringsC (plain_view id)))"

definition ClusterAgentClassSpec_view :: "('f cell, hClusterAgentClassSpec, ClusterAgentClassSpec) view" where
  "ClusterAgentClassSpec_view = struct_view (\<lambda>s. (hac_Command s, hac_Args s, hac_Inputs s, hac_Requires s))
     (\<lambda>s (v0, v1, v2, v3). \<lparr>ac_Image = hac_Image s, ac_ImagePullPolicy = hac_ImagePullPolicy s, ac_Command = elems v0, ac_Args = elems v1, ac_Inputs = v2, ac_Requires = v3\<rparr>)
     (pair_view (slice_view get_StringsC (plain_view id)) (pair_view (slice_view get_StringsC (plain_view id)) (pair_view (AgentInputs_view) (AgentRequirements_view))))"

definition ClusterAgentClass_view :: "'f foreign \<Rightarrow> ('f cell, 'f hClusterAgentClass, TypeMeta \<times> ClusterAgentClass) view" where
  "ClusterAgentClass_view F = struct_view (\<lambda>s. (hagc_Meta s, hagc_Spec s))
     (\<lambda>s (v0, v1). (hagc_TypeMeta s, \<lparr>agc_Meta = v0, agc_Spec = v1\<rparr>))
     (pair_view (fo_ObjectMeta F) (ClusterAgentClassSpec_view))"

definition RBACRule_view :: "('f cell, hRBACRule, RBACRule) view" where
  "RBACRule_view = struct_view (\<lambda>s. (hrr_APIGroups s, hrr_Resources s, hrr_Verbs s, hrr_ResourceNames s))
     (\<lambda>s (v0, v1, v2, v3). \<lparr>rr_APIGroups = elems v0, rr_Resources = elems v1, rr_Verbs = elems v2, rr_ResourceNames = elems v3\<rparr>)
     (pair_view (slice_view get_StringsC (plain_view id)) (pair_view (slice_view get_StringsC (plain_view id)) (pair_view (slice_view get_StringsC (plain_view id)) (slice_view get_StringsC (plain_view id)))))"

definition Permissions_view :: "('f cell, hPermissions, Permissions) view" where
  "Permissions_view = struct_view (\<lambda>s. (hpm_Secrets s, hpm_Egress s, hpm_EgressPorts s, hpm_RBAC s))
     (\<lambda>s (v0, v1, v2, v3). \<lparr>pm_Secrets = elems v0, pm_Egress = elems v1, pm_EgressPorts = elems v2, pm_RBAC = elems v3\<rparr>)
     (pair_view (slice_view get_StringsC (plain_view id)) (pair_view (slice_view get_StringsC (plain_view id)) (pair_view (slice_view get_Int32sC (plain_view id)) (slice_view get_RBACRulesC RBACRule_view))))"

definition PromptSource_view :: "'f foreign \<Rightarrow> ('f cell, hPromptSource, PromptSource) view" where
  "PromptSource_view F = struct_view (\<lambda>s. (hps_SecretRef s, hps_ConfigMapRef s))
     (\<lambda>s (v0, v1). \<lparr>ps_Inline = hps_Inline s, ps_SecretRef = v0, ps_ConfigMapRef = v1\<rparr>)
     (pair_view (ptr_view get_SecretKeySelectorC (fo_SecretKeySelector F)) (ptr_view get_ConfigMapKeySelectorC (fo_ConfigMapKeySelector F)))"

definition TaskResult_view :: "('f cell, hTaskResult, TaskResult) view" where
  "TaskResult_view = struct_view (\<lambda>s. hres_Links s)
     (\<lambda>s v0. \<lparr>res_Summary = hres_Summary s, res_Links = elems v0\<rparr>)
     (slice_view get_ResultLinksC (plain_view id))"

definition TaskSpec_view :: "'f foreign \<Rightarrow> ('f cell, hTaskSpec, TaskSpec) view" where
  "TaskSpec_view F = struct_view (\<lambda>s. (hts_Agent s, hts_Prompt s, hts_Permissions s, hts_TTLSecondsAfterFinished s))
     (\<lambda>s (v0, v1, v2, v3). \<lparr>ts_Agent = v0, ts_Prompt = v1, ts_Permissions = v2, ts_Resources = hts_Resources s, ts_TTLSecondsAfterFinished = v3\<rparr>)
     (pair_view (AgentRef_view F) (pair_view (PromptSource_view F) (pair_view (Permissions_view) (ptr_view get_Int32C (plain_view id)))))"

definition TaskStatus_view :: "'f foreign \<Rightarrow> ('f cell, hTaskStatus, TaskStatus) view" where
  "TaskStatus_view F = struct_view (\<lambda>s. (hst_StartTime s, hst_CompletionTime s, hst_Result s, hst_Conditions s))
     (\<lambda>s (v0, v1, v2, v3). \<lparr>st_Phase = hst_Phase s, st_ObservedGeneration = hst_ObservedGeneration s, st_JobName = hst_JobName s, st_StartTime = v0, st_CompletionTime = v1, st_Result = v2, st_Conditions = elems v3\<rparr>)
     (pair_view (option_view (fo_Time F)) (pair_view (option_view (fo_Time F)) (pair_view (ptr_view get_TaskResultC TaskResult_view) (slice_view get_ConditionsC (fo_Condition F)))))"

definition Task_view :: "'f foreign \<Rightarrow> ('f cell, 'f hTask, TypeMeta \<times> Task) view" where
  "Task_view F = struct_view (\<lambda>s. (htask_Meta s, htask_Spec s, htask_Status s))
     (\<lambda>s (v0, v1, v2). (htask_TypeMeta s, \<lparr>task_Meta = v0, task_Spec = v1, task_Status = v2\<rparr>))
     (pair_view (fo_ObjectMeta F) (pair_view (TaskSpec_view F) (TaskStatus_view F)))"

definition TaskTemplate_view :: "'f foreign \<Rightarrow> ('f cell, hTaskTemplate, TaskTemplate) view" where
  "TaskTemplate_view F = struct_view (\<lambda>s. (htt_Agent s, htt_Permissions s, htt_TTLSecondsAfterFinished s, htt_Mappings s))
     (\<lambda>s (v0, v1, v2, v3). \<lparr>tt_Namespace = htt_Namespace s, tt_GenerateNamePrefix = htt_GenerateNamePrefix s, tt_Agent = v0, tt_Permissions = v1, tt_Resources = htt_Resources s, tt_TTLSecondsAfterFinished = v2, tt_Mappings = elems v3\<rparr>)
     (pair_view (AgentRef_view F) (pair_view (Permissions_view) (pair_view (ptr_view get_Int32C (plain_view id)) (slice_view get_FieldMappingsC (plain_view id)))))"

definition TriggerDedupe_view :: "('f cell, hTriggerDedupe, TriggerDedupe) view" where
  "TriggerDedupe_view = struct_view (\<lambda>s. htd_UniqueBy s)
     (\<lambda>s v0. \<lparr>td_UniqueBy = elems v0\<rparr>)
     (slice_view get_StringsC (plain_view id))"

definition WebhookSignature_view :: "'f foreign \<Rightarrow> ('f cell, 'f hWebhookSignature, WebhookSignature) view" where
  "WebhookSignature_view F = struct_view (\<lambda>s. hws_SecretRef s)
     (\<lambda>s v0. \<lparr>ws_Header = hws_Header s, ws_Algorithm = hws_Algorithm s, ws_Prefix = hws_Prefix s, ws_SecretRef = v0\<rparr>)
     (fo_SecretKeySelector F)"

definition ClusterTriggerClassSpec_view :: "'f foreign \<Rightarrow> ('f cell, 'f hClusterTriggerClassSpec, ClusterTriggerClassSpec) view" where
  "ClusterTriggerClassSpec_view F = struct_view (\<lambda>s. (hct_Signature s, hct_Filters s, hct_Task s, hct_Dedupe s))
     (\<lambda>s (v0, v1, v2, v3). \<lparr>ct_Path = hct_Path s, ct_Signature = v0, ct_Filters = elems v1, ct_Task = v2, ct_Dedupe = v3\<rparr>)
     (pair_view (WebhookSignature_view F) (pair_view (slice_view get_WebhookFiltersC (plain_view id)) (pair_view (TaskTemplate_view F) (ptr_view get_TriggerDedupeC TriggerDedupe_view))))"

definition ClusterTriggerClass_view :: "'f foreign \<Rightarrow> ('f cell, 'f hClusterTriggerClass, TypeMeta \<times> ClusterTriggerClass) view" where
  "ClusterTriggerClass_view F = struct_view (\<lambda>s. (hctc_Meta s, hctc_Spec s))
     (\<lambda>s (v0, v1). (hctc_TypeMeta s, \<lparr>ctc_Meta = v0, ctc_Spec = v1\<rparr>))
     (pair_view (fo_ObjectMeta F) (ClusterTriggerClassSpec_view F))"

definition TaskList_view :: "'f foreign \<Rightarrow> ('f cell, 'f hTaskList, TypeMeta \<times> string \<times> (TypeMeta \<times> Task) list) view" where
  "TaskList_view F = struct_view (\<lambda>s. (htl_ListMeta s, htl_Items s))
     (\<lambda>s (v0, v1). (htl_TypeMeta s, v0, elems v1))
     (pair_view (fo_ListMeta F) (slice_view get_TasksC (Task_view F)))"

definition ClusterAgentClassList_view :: "'f foreign \<Rightarrow> ('f cell, 'f hClusterAgentClassList, TypeMeta \<times> string \<times> (TypeMeta \<times> ClusterAgentClass) list) view" where
  "ClusterAgentClassList_view F = struct_view (\<lambda>s. (hacl_ListMeta s, hacl_Items s))
     (\<lambda>s (v0, v1). (hacl_TypeMeta s, v0, elems v1))
     (pair_view (fo_ListMeta F) (slice_view get_ClusterAgentClassesC (ClusterAgentClass_view F)))"

definition ClusterTriggerClassList_view :: "'f foreign \<Rightarrow> ('f cell, 'f hClusterTriggerClassList, TypeMeta \<times> string \<times> (TypeMeta \<times> ClusterTriggerClass) list) view" where
  "ClusterTriggerClassList_view F = struct_view (\<lambda>s. (hctl_ListMeta s, hctl_Items s))
     (\<lambda>s (v0, v1). (hctl_TypeMeta s, v0, elems v1))
     (pair_view (fo_ListMeta F) (slice_view get_ClusterTriggerClassesC (ClusterTriggerClass_view F)))"

end
