(* ===== verification/Api_DeepCopy.thy ===== *)
theory Api_DeepCopy
  imports Api_Heap
begin

text \<open>
  \<open>api/v1alpha1/zz_generated.deepcopy.go\<close>: \<open>DeepCopyInto\<close>, \<open>DeepCopy\<close> and \<open>DeepCopyObject\<close> of every
  API type, over the memory of \<open>Go_Heap\<close>. \<open>DeepCopyInto\<close> returns the value that it leaves in \<open>*out\<close>:
  \<open>*out = *in\<close> first, then a fresh copy for each field with pointers; \<open>out\<close> is always memory that the
  caller has just allocated, so it never overlaps \<open>in\<close>. The theorems say that every copy
  is a \<open>copier\<close>: it stands for the same value as the original and shares no memory with it. The rest
  of the development computes on values without memory; it may do so because of them.
\<close>

section \<open>DeepCopyInto\<close>

definition DeepCopyInto_AgentInputMount :: "AgentInputMount \<Rightarrow> ('f cell heap, AgentInputMount) state" where
  "DeepCopyInto_AgentInputMount s = State_Monad.return s"

definition DeepCopyInto_FieldMapping :: "FieldMapping \<Rightarrow> ('f cell heap, FieldMapping) state" where
  "DeepCopyInto_FieldMapping s = State_Monad.return s"

definition DeepCopyInto_ResultLink :: "ResultLink \<Rightarrow> ('f cell heap, ResultLink) state" where
  "DeepCopyInto_ResultLink s = State_Monad.return s"

definition DeepCopyInto_WebhookFilter :: "WebhookFilter \<Rightarrow> ('f cell heap, WebhookFilter) state" where
  "DeepCopyInto_WebhookFilter s = State_Monad.return s"

definition DeepCopyInto_TaskResources :: "TaskResources \<Rightarrow> ('f cell heap, TaskResources) state" where
  "DeepCopyInto_TaskResources s = (let out = s in State_Monad.return (out\<lparr>tr_Timeout := tr_Timeout s\<rparr>))"

definition DeepCopyInto_AgentInputs :: "hAgentInputs \<Rightarrow> ('f cell heap, hAgentInputs) state" where
  "DeepCopyInto_AgentInputs s = do {
     v0 \<leftarrow> copy_ptr AgentInputMountC get_AgentInputMountC State_Monad.return (hai_Prompt s);
     v1 \<leftarrow> copy_ptr AgentInputMountC get_AgentInputMountC State_Monad.return (hai_Config s);
     State_Monad.return (s\<lparr>hai_Prompt := v0, hai_Config := v1\<rparr>) }"

definition DeepCopyInto_AgentRef :: "'f foreign \<Rightarrow> hAgentRef \<Rightarrow> ('f cell heap, hAgentRef) state" where
  "DeepCopyInto_AgentRef F s = do {
     v0 \<leftarrow> copy_ptr RawExtensionC get_RawExtensionC (fo_RawExtension_DeepCopyInto F) (har_Config s);
     State_Monad.return (s\<lparr>har_Config := v0\<rparr>) }"

definition DeepCopyInto_AgentRequirements :: "hAgentRequirements \<Rightarrow> ('f cell heap, hAgentRequirements) state" where
  "DeepCopyInto_AgentRequirements s = do {
     v0 \<leftarrow> copy_slice StringsC get_StringsC State_Monad.return (haq_Egress s);
     v1 \<leftarrow> copy_slice StringsC get_StringsC State_Monad.return (haq_Secrets s);
     State_Monad.return (s\<lparr>haq_Egress := v0, haq_Secrets := v1\<rparr>) }"

definition DeepCopyInto_ClusterAgentClassSpec :: "hClusterAgentClassSpec \<Rightarrow> ('f cell heap, hClusterAgentClassSpec) state" where
  "DeepCopyInto_ClusterAgentClassSpec s = do {
     v0 \<leftarrow> copy_slice StringsC get_StringsC State_Monad.return (hac_Command s);
     v1 \<leftarrow> copy_slice StringsC get_StringsC State_Monad.return (hac_Args s);
     v2 \<leftarrow> DeepCopyInto_AgentInputs (hac_Inputs s);
     v3 \<leftarrow> DeepCopyInto_AgentRequirements (hac_Requires s);
     State_Monad.return (s\<lparr>hac_Command := v0, hac_Args := v1, hac_Inputs := v2, hac_Requires := v3\<rparr>) }"

definition DeepCopyInto_ClusterAgentClass :: "'f foreign \<Rightarrow> 'f hClusterAgentClass \<Rightarrow> ('f cell heap, 'f hClusterAgentClass) state" where
  "DeepCopyInto_ClusterAgentClass F s = do {
     v0 \<leftarrow> fo_ObjectMeta_DeepCopyInto F (hagc_Meta s);
     v1 \<leftarrow> DeepCopyInto_ClusterAgentClassSpec (hagc_Spec s);
     State_Monad.return (s\<lparr>hagc_Meta := v0, hagc_Spec := v1, hagc_TypeMeta := hagc_TypeMeta s\<rparr>) }"

definition DeepCopyInto_RBACRule :: "hRBACRule \<Rightarrow> ('f cell heap, hRBACRule) state" where
  "DeepCopyInto_RBACRule s = do {
     v0 \<leftarrow> copy_slice StringsC get_StringsC State_Monad.return (hrr_APIGroups s);
     v1 \<leftarrow> copy_slice StringsC get_StringsC State_Monad.return (hrr_Resources s);
     v2 \<leftarrow> copy_slice StringsC get_StringsC State_Monad.return (hrr_Verbs s);
     v3 \<leftarrow> copy_slice StringsC get_StringsC State_Monad.return (hrr_ResourceNames s);
     State_Monad.return (s\<lparr>hrr_APIGroups := v0, hrr_Resources := v1, hrr_Verbs := v2, hrr_ResourceNames := v3\<rparr>) }"

definition DeepCopyInto_Permissions :: "hPermissions \<Rightarrow> ('f cell heap, hPermissions) state" where
  "DeepCopyInto_Permissions s = do {
     v0 \<leftarrow> copy_slice StringsC get_StringsC State_Monad.return (hpm_Secrets s);
     v1 \<leftarrow> copy_slice StringsC get_StringsC State_Monad.return (hpm_Egress s);
     v2 \<leftarrow> copy_slice Int32sC get_Int32sC State_Monad.return (hpm_EgressPorts s);
     v3 \<leftarrow> copy_slice RBACRulesC get_RBACRulesC DeepCopyInto_RBACRule (hpm_RBAC s);
     State_Monad.return (s\<lparr>hpm_Secrets := v0, hpm_Egress := v1, hpm_EgressPorts := v2, hpm_RBAC := v3\<rparr>) }"

definition DeepCopyInto_PromptSource :: "'f foreign \<Rightarrow> hPromptSource \<Rightarrow> ('f cell heap, hPromptSource) state" where
  "DeepCopyInto_PromptSource F s = do {
     v0 \<leftarrow> copy_ptr SecretKeySelectorC get_SecretKeySelectorC (fo_SecretKeySelector_DeepCopyInto F) (hps_SecretRef s);
     v1 \<leftarrow> copy_ptr ConfigMapKeySelectorC get_ConfigMapKeySelectorC (fo_ConfigMapKeySelector_DeepCopyInto F) (hps_ConfigMapRef s);
     State_Monad.return (s\<lparr>hps_SecretRef := v0, hps_ConfigMapRef := v1\<rparr>) }"

definition DeepCopyInto_TaskResult :: "hTaskResult \<Rightarrow> ('f cell heap, hTaskResult) state" where
  "DeepCopyInto_TaskResult s = do {
     v0 \<leftarrow> copy_slice ResultLinksC get_ResultLinksC State_Monad.return (hres_Links s);
     State_Monad.return (s\<lparr>hres_Links := v0\<rparr>) }"

definition DeepCopyInto_TaskSpec :: "'f foreign \<Rightarrow> hTaskSpec \<Rightarrow> ('f cell heap, hTaskSpec) state" where
  "DeepCopyInto_TaskSpec F s = do {
     v0 \<leftarrow> DeepCopyInto_AgentRef F (hts_Agent s);
     v1 \<leftarrow> DeepCopyInto_PromptSource F (hts_Prompt s);
     v2 \<leftarrow> DeepCopyInto_Permissions (hts_Permissions s);
     v3 \<leftarrow> copy_ptr Int32C get_Int32C State_Monad.return (hts_TTLSecondsAfterFinished s);
     State_Monad.return (s\<lparr>hts_Agent := v0, hts_Prompt := v1, hts_Permissions := v2, hts_TTLSecondsAfterFinished := v3, hts_Resources := hts_Resources s\<rparr>) }"

definition DeepCopyInto_TaskStatus :: "'f foreign \<Rightarrow> hTaskStatus \<Rightarrow> ('f cell heap, hTaskStatus) state" where
  "DeepCopyInto_TaskStatus F s = do {
     v0 \<leftarrow> copy_option (fo_Time_DeepCopy F) (hst_StartTime s);
     v1 \<leftarrow> copy_option (fo_Time_DeepCopy F) (hst_CompletionTime s);
     v2 \<leftarrow> copy_ptr TaskResultC get_TaskResultC DeepCopyInto_TaskResult (hst_Result s);
     v3 \<leftarrow> copy_slice ConditionsC get_ConditionsC (fo_Condition_DeepCopyInto F) (hst_Conditions s);
     State_Monad.return (s\<lparr>hst_StartTime := v0, hst_CompletionTime := v1, hst_Result := v2, hst_Conditions := v3\<rparr>) }"

definition DeepCopyInto_Task :: "'f foreign \<Rightarrow> 'f hTask \<Rightarrow> ('f cell heap, 'f hTask) state" where
  "DeepCopyInto_Task F s = do {
     v0 \<leftarrow> fo_ObjectMeta_DeepCopyInto F (htask_Meta s);
     v1 \<leftarrow> DeepCopyInto_TaskSpec F (htask_Spec s);
     v2 \<leftarrow> DeepCopyInto_TaskStatus F (htask_Status s);
     State_Monad.return (s\<lparr>htask_Meta := v0, htask_Spec := v1, htask_Status := v2, htask_TypeMeta := htask_TypeMeta s\<rparr>) }"

definition DeepCopyInto_TaskTemplate :: "'f foreign \<Rightarrow> hTaskTemplate \<Rightarrow> ('f cell heap, hTaskTemplate) state" where
  "DeepCopyInto_TaskTemplate F s = do {
     v0 \<leftarrow> DeepCopyInto_AgentRef F (htt_Agent s);
     v1 \<leftarrow> DeepCopyInto_Permissions (htt_Permissions s);
     v2 \<leftarrow> copy_ptr Int32C get_Int32C State_Monad.return (htt_TTLSecondsAfterFinished s);
     v3 \<leftarrow> copy_slice FieldMappingsC get_FieldMappingsC State_Monad.return (htt_Mappings s);
     State_Monad.return (s\<lparr>htt_Agent := v0, htt_Permissions := v1, htt_TTLSecondsAfterFinished := v2, htt_Mappings := v3, htt_Resources := htt_Resources s\<rparr>) }"

definition DeepCopyInto_TriggerDedupe :: "hTriggerDedupe \<Rightarrow> ('f cell heap, hTriggerDedupe) state" where
  "DeepCopyInto_TriggerDedupe s = do {
     v0 \<leftarrow> copy_slice StringsC get_StringsC State_Monad.return (htd_UniqueBy s);
     State_Monad.return (s\<lparr>htd_UniqueBy := v0\<rparr>) }"

definition DeepCopyInto_WebhookSignature :: "'f foreign \<Rightarrow> 'f hWebhookSignature \<Rightarrow> ('f cell heap, 'f hWebhookSignature) state" where
  "DeepCopyInto_WebhookSignature F s = do {
     v0 \<leftarrow> fo_SecretKeySelector_DeepCopyInto F (hws_SecretRef s);
     State_Monad.return (s\<lparr>hws_SecretRef := v0\<rparr>) }"

definition DeepCopyInto_ClusterTriggerClassSpec :: "'f foreign \<Rightarrow> 'f hClusterTriggerClassSpec \<Rightarrow> ('f cell heap, 'f hClusterTriggerClassSpec) state" where
  "DeepCopyInto_ClusterTriggerClassSpec F s = do {
     v0 \<leftarrow> DeepCopyInto_WebhookSignature F (hct_Signature s);
     v1 \<leftarrow> copy_slice WebhookFiltersC get_WebhookFiltersC State_Monad.return (hct_Filters s);
     v2 \<leftarrow> DeepCopyInto_TaskTemplate F (hct_Task s);
     v3 \<leftarrow> copy_ptr TriggerDedupeC get_TriggerDedupeC DeepCopyInto_TriggerDedupe (hct_Dedupe s);
     State_Monad.return (s\<lparr>hct_Signature := v0, hct_Filters := v1, hct_Task := v2, hct_Dedupe := v3\<rparr>) }"

definition DeepCopyInto_ClusterTriggerClass :: "'f foreign \<Rightarrow> 'f hClusterTriggerClass \<Rightarrow> ('f cell heap, 'f hClusterTriggerClass) state" where
  "DeepCopyInto_ClusterTriggerClass F s = do {
     v0 \<leftarrow> fo_ObjectMeta_DeepCopyInto F (hctc_Meta s);
     v1 \<leftarrow> DeepCopyInto_ClusterTriggerClassSpec F (hctc_Spec s);
     State_Monad.return (s\<lparr>hctc_Meta := v0, hctc_Spec := v1, hctc_TypeMeta := hctc_TypeMeta s\<rparr>) }"

definition DeepCopyInto_TaskList :: "'f foreign \<Rightarrow> 'f hTaskList \<Rightarrow> ('f cell heap, 'f hTaskList) state" where
  "DeepCopyInto_TaskList F s = do {
     v0 \<leftarrow> fo_ListMeta_DeepCopyInto F (htl_ListMeta s);
     v1 \<leftarrow> copy_slice TasksC get_TasksC (DeepCopyInto_Task F) (htl_Items s);
     State_Monad.return (s\<lparr>htl_ListMeta := v0, htl_Items := v1, htl_TypeMeta := htl_TypeMeta s\<rparr>) }"

definition DeepCopyInto_ClusterAgentClassList :: "'f foreign \<Rightarrow> 'f hClusterAgentClassList \<Rightarrow> ('f cell heap, 'f hClusterAgentClassList) state" where
  "DeepCopyInto_ClusterAgentClassList F s = do {
     v0 \<leftarrow> fo_ListMeta_DeepCopyInto F (hacl_ListMeta s);
     v1 \<leftarrow> copy_slice ClusterAgentClassesC get_ClusterAgentClassesC (DeepCopyInto_ClusterAgentClass F) (hacl_Items s);
     State_Monad.return (s\<lparr>hacl_ListMeta := v0, hacl_Items := v1, hacl_TypeMeta := hacl_TypeMeta s\<rparr>) }"

definition DeepCopyInto_ClusterTriggerClassList :: "'f foreign \<Rightarrow> 'f hClusterTriggerClassList \<Rightarrow> ('f cell heap, 'f hClusterTriggerClassList) state" where
  "DeepCopyInto_ClusterTriggerClassList F s = do {
     v0 \<leftarrow> fo_ListMeta_DeepCopyInto F (hctl_ListMeta s);
     v1 \<leftarrow> copy_slice ClusterTriggerClassesC get_ClusterTriggerClassesC (DeepCopyInto_ClusterTriggerClass F) (hctl_Items s);
     State_Monad.return (s\<lparr>hctl_ListMeta := v0, hctl_Items := v1, hctl_TypeMeta := hctl_TypeMeta s\<rparr>) }"

section \<open>DeepCopy and DeepCopyObject\<close>

definition DeepCopy_AgentInputMount :: "ptr \<Rightarrow> ('f cell heap, ptr) state" where
  "DeepCopy_AgentInputMount = copy_ptr AgentInputMountC get_AgentInputMountC DeepCopyInto_AgentInputMount"

definition DeepCopy_FieldMapping :: "ptr \<Rightarrow> ('f cell heap, ptr) state" where
  "DeepCopy_FieldMapping = copy_ptr FieldMappingC get_FieldMappingC DeepCopyInto_FieldMapping"

definition DeepCopy_ResultLink :: "ptr \<Rightarrow> ('f cell heap, ptr) state" where
  "DeepCopy_ResultLink = copy_ptr ResultLinkC get_ResultLinkC DeepCopyInto_ResultLink"

definition DeepCopy_WebhookFilter :: "ptr \<Rightarrow> ('f cell heap, ptr) state" where
  "DeepCopy_WebhookFilter = copy_ptr WebhookFilterC get_WebhookFilterC DeepCopyInto_WebhookFilter"

definition DeepCopy_TaskResources :: "ptr \<Rightarrow> ('f cell heap, ptr) state" where
  "DeepCopy_TaskResources = copy_ptr TaskResourcesC get_TaskResourcesC DeepCopyInto_TaskResources"

definition DeepCopy_AgentInputs :: "ptr \<Rightarrow> ('f cell heap, ptr) state" where
  "DeepCopy_AgentInputs = copy_ptr AgentInputsC get_AgentInputsC DeepCopyInto_AgentInputs"

definition DeepCopy_AgentRef :: "'f foreign \<Rightarrow> ptr \<Rightarrow> ('f cell heap, ptr) state" where
  "DeepCopy_AgentRef F = copy_ptr AgentRefC get_AgentRefC (DeepCopyInto_AgentRef F)"

definition DeepCopy_AgentRequirements :: "ptr \<Rightarrow> ('f cell heap, ptr) state" where
  "DeepCopy_AgentRequirements = copy_ptr AgentRequirementsC get_AgentRequirementsC DeepCopyInto_AgentRequirements"

definition DeepCopy_ClusterAgentClassSpec :: "ptr \<Rightarrow> ('f cell heap, ptr) state" where
  "DeepCopy_ClusterAgentClassSpec = copy_ptr ClusterAgentClassSpecC get_ClusterAgentClassSpecC DeepCopyInto_ClusterAgentClassSpec"

definition DeepCopy_ClusterAgentClass :: "'f foreign \<Rightarrow> ptr \<Rightarrow> ('f cell heap, ptr) state" where
  "DeepCopy_ClusterAgentClass F = copy_ptr ClusterAgentClassC get_ClusterAgentClassC (DeepCopyInto_ClusterAgentClass F)"

definition DeepCopy_RBACRule :: "ptr \<Rightarrow> ('f cell heap, ptr) state" where
  "DeepCopy_RBACRule = copy_ptr RBACRuleC get_RBACRuleC DeepCopyInto_RBACRule"

definition DeepCopy_Permissions :: "ptr \<Rightarrow> ('f cell heap, ptr) state" where
  "DeepCopy_Permissions = copy_ptr PermissionsC get_PermissionsC DeepCopyInto_Permissions"

definition DeepCopy_PromptSource :: "'f foreign \<Rightarrow> ptr \<Rightarrow> ('f cell heap, ptr) state" where
  "DeepCopy_PromptSource F = copy_ptr PromptSourceC get_PromptSourceC (DeepCopyInto_PromptSource F)"

definition DeepCopy_TaskResult :: "ptr \<Rightarrow> ('f cell heap, ptr) state" where
  "DeepCopy_TaskResult = copy_ptr TaskResultC get_TaskResultC DeepCopyInto_TaskResult"

definition DeepCopy_TaskSpec :: "'f foreign \<Rightarrow> ptr \<Rightarrow> ('f cell heap, ptr) state" where
  "DeepCopy_TaskSpec F = copy_ptr TaskSpecC get_TaskSpecC (DeepCopyInto_TaskSpec F)"

definition DeepCopy_TaskStatus :: "'f foreign \<Rightarrow> ptr \<Rightarrow> ('f cell heap, ptr) state" where
  "DeepCopy_TaskStatus F = copy_ptr TaskStatusC get_TaskStatusC (DeepCopyInto_TaskStatus F)"

definition DeepCopy_Task :: "'f foreign \<Rightarrow> ptr \<Rightarrow> ('f cell heap, ptr) state" where
  "DeepCopy_Task F = copy_ptr TaskC get_TaskC (DeepCopyInto_Task F)"

definition DeepCopy_TaskTemplate :: "'f foreign \<Rightarrow> ptr \<Rightarrow> ('f cell heap, ptr) state" where
  "DeepCopy_TaskTemplate F = copy_ptr TaskTemplateC get_TaskTemplateC (DeepCopyInto_TaskTemplate F)"

definition DeepCopy_TriggerDedupe :: "ptr \<Rightarrow> ('f cell heap, ptr) state" where
  "DeepCopy_TriggerDedupe = copy_ptr TriggerDedupeC get_TriggerDedupeC DeepCopyInto_TriggerDedupe"

definition DeepCopy_WebhookSignature :: "'f foreign \<Rightarrow> ptr \<Rightarrow> ('f cell heap, ptr) state" where
  "DeepCopy_WebhookSignature F = copy_ptr WebhookSignatureC get_WebhookSignatureC (DeepCopyInto_WebhookSignature F)"

definition DeepCopy_ClusterTriggerClassSpec :: "'f foreign \<Rightarrow> ptr \<Rightarrow> ('f cell heap, ptr) state" where
  "DeepCopy_ClusterTriggerClassSpec F = copy_ptr ClusterTriggerClassSpecC get_ClusterTriggerClassSpecC (DeepCopyInto_ClusterTriggerClassSpec F)"

definition DeepCopy_ClusterTriggerClass :: "'f foreign \<Rightarrow> ptr \<Rightarrow> ('f cell heap, ptr) state" where
  "DeepCopy_ClusterTriggerClass F = copy_ptr ClusterTriggerClassC get_ClusterTriggerClassC (DeepCopyInto_ClusterTriggerClass F)"

definition DeepCopy_TaskList :: "'f foreign \<Rightarrow> ptr \<Rightarrow> ('f cell heap, ptr) state" where
  "DeepCopy_TaskList F = copy_ptr TaskListC get_TaskListC (DeepCopyInto_TaskList F)"

definition DeepCopy_ClusterAgentClassList :: "'f foreign \<Rightarrow> ptr \<Rightarrow> ('f cell heap, ptr) state" where
  "DeepCopy_ClusterAgentClassList F = copy_ptr ClusterAgentClassListC get_ClusterAgentClassListC (DeepCopyInto_ClusterAgentClassList F)"

definition DeepCopy_ClusterTriggerClassList :: "'f foreign \<Rightarrow> ptr \<Rightarrow> ('f cell heap, ptr) state" where
  "DeepCopy_ClusterTriggerClassList F = copy_ptr ClusterTriggerClassListC get_ClusterTriggerClassListC (DeepCopyInto_ClusterTriggerClassList F)"

text \<open>A \<open>runtime.Object\<close>: a pointer with its dynamic type, or the nil interface.\<close>

datatype object = TaskP addr | TaskListP addr | ClusterAgentClassP addr | ClusterAgentClassListP addr | ClusterTriggerClassP addr | ClusterTriggerClassListP addr

definition DeepCopyObject_Task :: "'f foreign \<Rightarrow> ptr \<Rightarrow> ('f cell heap, object option) state" where
  "DeepCopyObject_Task F p = do {
     c \<leftarrow> DeepCopy_Task F p;
     State_Monad.return (case c of Some q \<Rightarrow> Some (TaskP q) | None \<Rightarrow> None) }"

definition DeepCopyObject_TaskList :: "'f foreign \<Rightarrow> ptr \<Rightarrow> ('f cell heap, object option) state" where
  "DeepCopyObject_TaskList F p = do {
     c \<leftarrow> DeepCopy_TaskList F p;
     State_Monad.return (case c of Some q \<Rightarrow> Some (TaskListP q) | None \<Rightarrow> None) }"

definition DeepCopyObject_ClusterAgentClass :: "'f foreign \<Rightarrow> ptr \<Rightarrow> ('f cell heap, object option) state" where
  "DeepCopyObject_ClusterAgentClass F p = do {
     c \<leftarrow> DeepCopy_ClusterAgentClass F p;
     State_Monad.return (case c of Some q \<Rightarrow> Some (ClusterAgentClassP q) | None \<Rightarrow> None) }"

definition DeepCopyObject_ClusterAgentClassList :: "'f foreign \<Rightarrow> ptr \<Rightarrow> ('f cell heap, object option) state" where
  "DeepCopyObject_ClusterAgentClassList F p = do {
     c \<leftarrow> DeepCopy_ClusterAgentClassList F p;
     State_Monad.return (case c of Some q \<Rightarrow> Some (ClusterAgentClassListP q) | None \<Rightarrow> None) }"

definition DeepCopyObject_ClusterTriggerClass :: "'f foreign \<Rightarrow> ptr \<Rightarrow> ('f cell heap, object option) state" where
  "DeepCopyObject_ClusterTriggerClass F p = do {
     c \<leftarrow> DeepCopy_ClusterTriggerClass F p;
     State_Monad.return (case c of Some q \<Rightarrow> Some (ClusterTriggerClassP q) | None \<Rightarrow> None) }"

definition DeepCopyObject_ClusterTriggerClassList :: "'f foreign \<Rightarrow> ptr \<Rightarrow> ('f cell heap, object option) state" where
  "DeepCopyObject_ClusterTriggerClassList F p = do {
     c \<leftarrow> DeepCopy_ClusterTriggerClassList F p;
     State_Monad.return (case c of Some q \<Rightarrow> Some (ClusterTriggerClassListP q) | None \<Rightarrow> None) }"

section \<open>Every DeepCopyInto is a copier\<close>

lemma plain_into:
  "DeepCopyInto_AgentInputMount = State_Monad.return"
  "DeepCopyInto_FieldMapping = State_Monad.return"
  "DeepCopyInto_ResultLink = State_Monad.return"
  "DeepCopyInto_WebhookFilter = State_Monad.return"
  "DeepCopyInto_TaskResources = State_Monad.return"
  by (simp_all add: fun_eq_iff DeepCopyInto_AgentInputMount_def DeepCopyInto_FieldMapping_def DeepCopyInto_ResultLink_def DeepCopyInto_WebhookFilter_def DeepCopyInto_TaskResources_def)

lemma DeepCopyInto_AgentInputs_struct:
  "DeepCopyInto_AgentInputs = copy_struct (\<lambda>s. (hai_Prompt s, hai_Config s)) (\<lambda>(v0, v1) s. s\<lparr>hai_Prompt := v0, hai_Config := v1\<rparr>)
     (copy_pair (copy_ptr AgentInputMountC get_AgentInputMountC State_Monad.return) (copy_ptr AgentInputMountC get_AgentInputMountC State_Monad.return))"
  by (simp add: fun_eq_iff DeepCopyInto_AgentInputs_def copy_struct_def copy_pair_def bind_assoc)

lemma copier_AgentInputs [copier_rules]: "copier AgentInputs_view DeepCopyInto_AgentInputs"
  unfolding DeepCopyInto_AgentInputs_struct AgentInputs_view_def
  by (intro copier_rules) auto

lemma DeepCopyInto_AgentRef_struct:
  "DeepCopyInto_AgentRef F = copy_struct (\<lambda>s. har_Config s) (\<lambda>v0 s. s\<lparr>har_Config := v0\<rparr>)
     (copy_ptr RawExtensionC get_RawExtensionC (fo_RawExtension_DeepCopyInto F))"
  by (simp add: fun_eq_iff DeepCopyInto_AgentRef_def copy_struct_def copy_pair_def bind_assoc)

lemma copier_AgentRef [copier_rules]: "foreign_laws F \<Longrightarrow> copier (AgentRef_view F) (DeepCopyInto_AgentRef F)"
  unfolding DeepCopyInto_AgentRef_struct AgentRef_view_def
  by (intro copier_rules) auto

lemma DeepCopyInto_AgentRequirements_struct:
  "DeepCopyInto_AgentRequirements = copy_struct (\<lambda>s. (haq_Egress s, haq_Secrets s)) (\<lambda>(v0, v1) s. s\<lparr>haq_Egress := v0, haq_Secrets := v1\<rparr>)
     (copy_pair (copy_slice StringsC get_StringsC State_Monad.return) (copy_slice StringsC get_StringsC State_Monad.return))"
  by (simp add: fun_eq_iff DeepCopyInto_AgentRequirements_def copy_struct_def copy_pair_def bind_assoc)

lemma copier_AgentRequirements [copier_rules]: "copier AgentRequirements_view DeepCopyInto_AgentRequirements"
  unfolding DeepCopyInto_AgentRequirements_struct AgentRequirements_view_def
  by (intro copier_rules) auto

lemma DeepCopyInto_ClusterAgentClassSpec_struct:
  "DeepCopyInto_ClusterAgentClassSpec = copy_struct (\<lambda>s. (hac_Command s, hac_Args s, hac_Inputs s, hac_Requires s)) (\<lambda>(v0, v1, v2, v3) s. s\<lparr>hac_Command := v0, hac_Args := v1, hac_Inputs := v2, hac_Requires := v3\<rparr>)
     (copy_pair (copy_slice StringsC get_StringsC State_Monad.return) (copy_pair (copy_slice StringsC get_StringsC State_Monad.return) (copy_pair (DeepCopyInto_AgentInputs) (DeepCopyInto_AgentRequirements))))"
  by (simp add: fun_eq_iff DeepCopyInto_ClusterAgentClassSpec_def copy_struct_def copy_pair_def bind_assoc)

lemma copier_ClusterAgentClassSpec [copier_rules]: "copier ClusterAgentClassSpec_view DeepCopyInto_ClusterAgentClassSpec"
  unfolding DeepCopyInto_ClusterAgentClassSpec_struct ClusterAgentClassSpec_view_def
  by (intro copier_rules) auto

lemma DeepCopyInto_ClusterAgentClass_struct:
  "DeepCopyInto_ClusterAgentClass F = copy_struct (\<lambda>s. (hagc_Meta s, hagc_Spec s)) (\<lambda>(v0, v1) s. s\<lparr>hagc_Meta := v0, hagc_Spec := v1\<rparr>)
     (copy_pair (fo_ObjectMeta_DeepCopyInto F) (DeepCopyInto_ClusterAgentClassSpec))"
  by (simp add: fun_eq_iff DeepCopyInto_ClusterAgentClass_def copy_struct_def copy_pair_def bind_assoc)

lemma copier_ClusterAgentClass [copier_rules]: "foreign_laws F \<Longrightarrow> copier (ClusterAgentClass_view F) (DeepCopyInto_ClusterAgentClass F)"
  unfolding DeepCopyInto_ClusterAgentClass_struct ClusterAgentClass_view_def
  by (intro copier_rules) auto

lemma DeepCopyInto_RBACRule_struct:
  "DeepCopyInto_RBACRule = copy_struct (\<lambda>s. (hrr_APIGroups s, hrr_Resources s, hrr_Verbs s, hrr_ResourceNames s)) (\<lambda>(v0, v1, v2, v3) s. s\<lparr>hrr_APIGroups := v0, hrr_Resources := v1, hrr_Verbs := v2, hrr_ResourceNames := v3\<rparr>)
     (copy_pair (copy_slice StringsC get_StringsC State_Monad.return) (copy_pair (copy_slice StringsC get_StringsC State_Monad.return) (copy_pair (copy_slice StringsC get_StringsC State_Monad.return) (copy_slice StringsC get_StringsC State_Monad.return))))"
  by (simp add: fun_eq_iff DeepCopyInto_RBACRule_def copy_struct_def copy_pair_def bind_assoc)

lemma copier_RBACRule [copier_rules]: "copier RBACRule_view DeepCopyInto_RBACRule"
  unfolding DeepCopyInto_RBACRule_struct RBACRule_view_def
  by (intro copier_rules) auto

lemma DeepCopyInto_Permissions_struct:
  "DeepCopyInto_Permissions = copy_struct (\<lambda>s. (hpm_Secrets s, hpm_Egress s, hpm_EgressPorts s, hpm_RBAC s)) (\<lambda>(v0, v1, v2, v3) s. s\<lparr>hpm_Secrets := v0, hpm_Egress := v1, hpm_EgressPorts := v2, hpm_RBAC := v3\<rparr>)
     (copy_pair (copy_slice StringsC get_StringsC State_Monad.return) (copy_pair (copy_slice StringsC get_StringsC State_Monad.return) (copy_pair (copy_slice Int32sC get_Int32sC State_Monad.return) (copy_slice RBACRulesC get_RBACRulesC DeepCopyInto_RBACRule))))"
  by (simp add: fun_eq_iff DeepCopyInto_Permissions_def copy_struct_def copy_pair_def bind_assoc)

lemma copier_Permissions [copier_rules]: "copier Permissions_view DeepCopyInto_Permissions"
  unfolding DeepCopyInto_Permissions_struct Permissions_view_def
  by (intro copier_rules) auto

lemma DeepCopyInto_PromptSource_struct:
  "DeepCopyInto_PromptSource F = copy_struct (\<lambda>s. (hps_SecretRef s, hps_ConfigMapRef s)) (\<lambda>(v0, v1) s. s\<lparr>hps_SecretRef := v0, hps_ConfigMapRef := v1\<rparr>)
     (copy_pair (copy_ptr SecretKeySelectorC get_SecretKeySelectorC (fo_SecretKeySelector_DeepCopyInto F)) (copy_ptr ConfigMapKeySelectorC get_ConfigMapKeySelectorC (fo_ConfigMapKeySelector_DeepCopyInto F)))"
  by (simp add: fun_eq_iff DeepCopyInto_PromptSource_def copy_struct_def copy_pair_def bind_assoc)

lemma copier_PromptSource [copier_rules]: "foreign_laws F \<Longrightarrow> copier (PromptSource_view F) (DeepCopyInto_PromptSource F)"
  unfolding DeepCopyInto_PromptSource_struct PromptSource_view_def
  by (intro copier_rules) auto

lemma DeepCopyInto_TaskResult_struct:
  "DeepCopyInto_TaskResult = copy_struct (\<lambda>s. hres_Links s) (\<lambda>v0 s. s\<lparr>hres_Links := v0\<rparr>)
     (copy_slice ResultLinksC get_ResultLinksC State_Monad.return)"
  by (simp add: fun_eq_iff DeepCopyInto_TaskResult_def copy_struct_def copy_pair_def bind_assoc)

lemma copier_TaskResult [copier_rules]: "copier TaskResult_view DeepCopyInto_TaskResult"
  unfolding DeepCopyInto_TaskResult_struct TaskResult_view_def
  by (intro copier_rules) auto

lemma DeepCopyInto_TaskSpec_struct:
  "DeepCopyInto_TaskSpec F = copy_struct (\<lambda>s. (hts_Agent s, hts_Prompt s, hts_Permissions s, hts_TTLSecondsAfterFinished s)) (\<lambda>(v0, v1, v2, v3) s. s\<lparr>hts_Agent := v0, hts_Prompt := v1, hts_Permissions := v2, hts_TTLSecondsAfterFinished := v3\<rparr>)
     (copy_pair (DeepCopyInto_AgentRef F) (copy_pair (DeepCopyInto_PromptSource F) (copy_pair (DeepCopyInto_Permissions) (copy_ptr Int32C get_Int32C State_Monad.return))))"
  by (simp add: fun_eq_iff DeepCopyInto_TaskSpec_def copy_struct_def copy_pair_def bind_assoc)

lemma copier_TaskSpec [copier_rules]: "foreign_laws F \<Longrightarrow> copier (TaskSpec_view F) (DeepCopyInto_TaskSpec F)"
  unfolding DeepCopyInto_TaskSpec_struct TaskSpec_view_def
  by (intro copier_rules) auto

lemma DeepCopyInto_TaskStatus_struct:
  "DeepCopyInto_TaskStatus F = copy_struct (\<lambda>s. (hst_StartTime s, hst_CompletionTime s, hst_Result s, hst_Conditions s)) (\<lambda>(v0, v1, v2, v3) s. s\<lparr>hst_StartTime := v0, hst_CompletionTime := v1, hst_Result := v2, hst_Conditions := v3\<rparr>)
     (copy_pair (copy_option (fo_Time_DeepCopy F)) (copy_pair (copy_option (fo_Time_DeepCopy F)) (copy_pair (copy_ptr TaskResultC get_TaskResultC DeepCopyInto_TaskResult) (copy_slice ConditionsC get_ConditionsC (fo_Condition_DeepCopyInto F)))))"
  by (simp add: fun_eq_iff DeepCopyInto_TaskStatus_def copy_struct_def copy_pair_def bind_assoc)

lemma copier_TaskStatus [copier_rules]: "foreign_laws F \<Longrightarrow> copier (TaskStatus_view F) (DeepCopyInto_TaskStatus F)"
  unfolding DeepCopyInto_TaskStatus_struct TaskStatus_view_def
  by (intro copier_rules) auto

lemma DeepCopyInto_Task_struct:
  "DeepCopyInto_Task F = copy_struct (\<lambda>s. (htask_Meta s, htask_Spec s, htask_Status s)) (\<lambda>(v0, v1, v2) s. s\<lparr>htask_Meta := v0, htask_Spec := v1, htask_Status := v2\<rparr>)
     (copy_pair (fo_ObjectMeta_DeepCopyInto F) (copy_pair (DeepCopyInto_TaskSpec F) (DeepCopyInto_TaskStatus F)))"
  by (simp add: fun_eq_iff DeepCopyInto_Task_def copy_struct_def copy_pair_def bind_assoc)

lemma copier_Task [copier_rules]: "foreign_laws F \<Longrightarrow> copier (Task_view F) (DeepCopyInto_Task F)"
  unfolding DeepCopyInto_Task_struct Task_view_def
  by (intro copier_rules) auto

lemma DeepCopyInto_TaskTemplate_struct:
  "DeepCopyInto_TaskTemplate F = copy_struct (\<lambda>s. (htt_Agent s, htt_Permissions s, htt_TTLSecondsAfterFinished s, htt_Mappings s)) (\<lambda>(v0, v1, v2, v3) s. s\<lparr>htt_Agent := v0, htt_Permissions := v1, htt_TTLSecondsAfterFinished := v2, htt_Mappings := v3\<rparr>)
     (copy_pair (DeepCopyInto_AgentRef F) (copy_pair (DeepCopyInto_Permissions) (copy_pair (copy_ptr Int32C get_Int32C State_Monad.return) (copy_slice FieldMappingsC get_FieldMappingsC State_Monad.return))))"
  by (simp add: fun_eq_iff DeepCopyInto_TaskTemplate_def copy_struct_def copy_pair_def bind_assoc)

lemma copier_TaskTemplate [copier_rules]: "foreign_laws F \<Longrightarrow> copier (TaskTemplate_view F) (DeepCopyInto_TaskTemplate F)"
  unfolding DeepCopyInto_TaskTemplate_struct TaskTemplate_view_def
  by (intro copier_rules) auto

lemma DeepCopyInto_TriggerDedupe_struct:
  "DeepCopyInto_TriggerDedupe = copy_struct (\<lambda>s. htd_UniqueBy s) (\<lambda>v0 s. s\<lparr>htd_UniqueBy := v0\<rparr>)
     (copy_slice StringsC get_StringsC State_Monad.return)"
  by (simp add: fun_eq_iff DeepCopyInto_TriggerDedupe_def copy_struct_def copy_pair_def bind_assoc)

lemma copier_TriggerDedupe [copier_rules]: "copier TriggerDedupe_view DeepCopyInto_TriggerDedupe"
  unfolding DeepCopyInto_TriggerDedupe_struct TriggerDedupe_view_def
  by (intro copier_rules) auto

lemma DeepCopyInto_WebhookSignature_struct:
  "DeepCopyInto_WebhookSignature F = copy_struct (\<lambda>s. hws_SecretRef s) (\<lambda>v0 s. s\<lparr>hws_SecretRef := v0\<rparr>)
     (fo_SecretKeySelector_DeepCopyInto F)"
  by (simp add: fun_eq_iff DeepCopyInto_WebhookSignature_def copy_struct_def copy_pair_def bind_assoc)

lemma copier_WebhookSignature [copier_rules]: "foreign_laws F \<Longrightarrow> copier (WebhookSignature_view F) (DeepCopyInto_WebhookSignature F)"
  unfolding DeepCopyInto_WebhookSignature_struct WebhookSignature_view_def
  by (intro copier_rules) auto

lemma DeepCopyInto_ClusterTriggerClassSpec_struct:
  "DeepCopyInto_ClusterTriggerClassSpec F = copy_struct (\<lambda>s. (hct_Signature s, hct_Filters s, hct_Task s, hct_Dedupe s)) (\<lambda>(v0, v1, v2, v3) s. s\<lparr>hct_Signature := v0, hct_Filters := v1, hct_Task := v2, hct_Dedupe := v3\<rparr>)
     (copy_pair (DeepCopyInto_WebhookSignature F) (copy_pair (copy_slice WebhookFiltersC get_WebhookFiltersC State_Monad.return) (copy_pair (DeepCopyInto_TaskTemplate F) (copy_ptr TriggerDedupeC get_TriggerDedupeC DeepCopyInto_TriggerDedupe))))"
  by (simp add: fun_eq_iff DeepCopyInto_ClusterTriggerClassSpec_def copy_struct_def copy_pair_def bind_assoc)

lemma copier_ClusterTriggerClassSpec [copier_rules]: "foreign_laws F \<Longrightarrow> copier (ClusterTriggerClassSpec_view F) (DeepCopyInto_ClusterTriggerClassSpec F)"
  unfolding DeepCopyInto_ClusterTriggerClassSpec_struct ClusterTriggerClassSpec_view_def
  by (intro copier_rules) auto

lemma DeepCopyInto_ClusterTriggerClass_struct:
  "DeepCopyInto_ClusterTriggerClass F = copy_struct (\<lambda>s. (hctc_Meta s, hctc_Spec s)) (\<lambda>(v0, v1) s. s\<lparr>hctc_Meta := v0, hctc_Spec := v1\<rparr>)
     (copy_pair (fo_ObjectMeta_DeepCopyInto F) (DeepCopyInto_ClusterTriggerClassSpec F))"
  by (simp add: fun_eq_iff DeepCopyInto_ClusterTriggerClass_def copy_struct_def copy_pair_def bind_assoc)

lemma copier_ClusterTriggerClass [copier_rules]: "foreign_laws F \<Longrightarrow> copier (ClusterTriggerClass_view F) (DeepCopyInto_ClusterTriggerClass F)"
  unfolding DeepCopyInto_ClusterTriggerClass_struct ClusterTriggerClass_view_def
  by (intro copier_rules) auto

lemma DeepCopyInto_TaskList_struct:
  "DeepCopyInto_TaskList F = copy_struct (\<lambda>s. (htl_ListMeta s, htl_Items s)) (\<lambda>(v0, v1) s. s\<lparr>htl_ListMeta := v0, htl_Items := v1\<rparr>)
     (copy_pair (fo_ListMeta_DeepCopyInto F) (copy_slice TasksC get_TasksC (DeepCopyInto_Task F)))"
  by (simp add: fun_eq_iff DeepCopyInto_TaskList_def copy_struct_def copy_pair_def bind_assoc)

lemma copier_TaskList [copier_rules]: "foreign_laws F \<Longrightarrow> copier (TaskList_view F) (DeepCopyInto_TaskList F)"
  unfolding DeepCopyInto_TaskList_struct TaskList_view_def
  by (intro copier_rules) auto

lemma DeepCopyInto_ClusterAgentClassList_struct:
  "DeepCopyInto_ClusterAgentClassList F = copy_struct (\<lambda>s. (hacl_ListMeta s, hacl_Items s)) (\<lambda>(v0, v1) s. s\<lparr>hacl_ListMeta := v0, hacl_Items := v1\<rparr>)
     (copy_pair (fo_ListMeta_DeepCopyInto F) (copy_slice ClusterAgentClassesC get_ClusterAgentClassesC (DeepCopyInto_ClusterAgentClass F)))"
  by (simp add: fun_eq_iff DeepCopyInto_ClusterAgentClassList_def copy_struct_def copy_pair_def bind_assoc)

lemma copier_ClusterAgentClassList [copier_rules]: "foreign_laws F \<Longrightarrow> copier (ClusterAgentClassList_view F) (DeepCopyInto_ClusterAgentClassList F)"
  unfolding DeepCopyInto_ClusterAgentClassList_struct ClusterAgentClassList_view_def
  by (intro copier_rules) auto

lemma DeepCopyInto_ClusterTriggerClassList_struct:
  "DeepCopyInto_ClusterTriggerClassList F = copy_struct (\<lambda>s. (hctl_ListMeta s, hctl_Items s)) (\<lambda>(v0, v1) s. s\<lparr>hctl_ListMeta := v0, hctl_Items := v1\<rparr>)
     (copy_pair (fo_ListMeta_DeepCopyInto F) (copy_slice ClusterTriggerClassesC get_ClusterTriggerClassesC (DeepCopyInto_ClusterTriggerClass F)))"
  by (simp add: fun_eq_iff DeepCopyInto_ClusterTriggerClassList_def copy_struct_def copy_pair_def bind_assoc)

lemma copier_ClusterTriggerClassList [copier_rules]: "foreign_laws F \<Longrightarrow> copier (ClusterTriggerClassList_view F) (DeepCopyInto_ClusterTriggerClassList F)"
  unfolding DeepCopyInto_ClusterTriggerClassList_struct ClusterTriggerClassList_view_def
  by (intro copier_rules) auto

section \<open>Properties\<close>

lemma deep_copies_ptr:
  "copier V f \<Longrightarrow> (\<And>a. get (mk a) = Some a) \<Longrightarrow> deep_copies (ptr_view get V) (copy_ptr mk get f)"
  by (rule copier_deep_copies) (intro copier_rules)

lemma DeepCopyObject_defs:
  "DeepCopyObject_Task F = (\<lambda>p. do { c \<leftarrow> DeepCopy_Task F p; State_Monad.return (case c of Some q \<Rightarrow> Some (TaskP q) | None \<Rightarrow> None) })"
  "DeepCopyObject_TaskList F = (\<lambda>p. do { c \<leftarrow> DeepCopy_TaskList F p; State_Monad.return (case c of Some q \<Rightarrow> Some (TaskListP q) | None \<Rightarrow> None) })"
  "DeepCopyObject_ClusterAgentClass F = (\<lambda>p. do { c \<leftarrow> DeepCopy_ClusterAgentClass F p; State_Monad.return (case c of Some q \<Rightarrow> Some (ClusterAgentClassP q) | None \<Rightarrow> None) })"
  "DeepCopyObject_ClusterAgentClassList F = (\<lambda>p. do { c \<leftarrow> DeepCopy_ClusterAgentClassList F p; State_Monad.return (case c of Some q \<Rightarrow> Some (ClusterAgentClassListP q) | None \<Rightarrow> None) })"
  "DeepCopyObject_ClusterTriggerClass F = (\<lambda>p. do { c \<leftarrow> DeepCopy_ClusterTriggerClass F p; State_Monad.return (case c of Some q \<Rightarrow> Some (ClusterTriggerClassP q) | None \<Rightarrow> None) })"
  "DeepCopyObject_ClusterTriggerClassList F = (\<lambda>p. do { c \<leftarrow> DeepCopy_ClusterTriggerClassList F p; State_Monad.return (case c of Some q \<Rightarrow> Some (ClusterTriggerClassListP q) | None \<Rightarrow> None) })"
  by (simp_all add: fun_eq_iff DeepCopyObject_Task_def DeepCopyObject_TaskList_def DeepCopyObject_ClusterAgentClass_def DeepCopyObject_ClusterAgentClassList_def DeepCopyObject_ClusterTriggerClass_def DeepCopyObject_ClusterTriggerClassList_def)

lemmas DeepCopy_defs =
  DeepCopy_AgentInputMount_def DeepCopy_FieldMapping_def DeepCopy_ResultLink_def DeepCopy_WebhookFilter_def DeepCopy_TaskResources_def DeepCopy_AgentInputs_def DeepCopy_AgentRef_def DeepCopy_AgentRequirements_def DeepCopy_ClusterAgentClassSpec_def DeepCopy_ClusterAgentClass_def DeepCopy_RBACRule_def DeepCopy_Permissions_def DeepCopy_PromptSource_def DeepCopy_TaskResult_def DeepCopy_TaskSpec_def DeepCopy_TaskStatus_def DeepCopy_Task_def DeepCopy_TaskTemplate_def DeepCopy_TriggerDedupe_def DeepCopy_WebhookSignature_def DeepCopy_ClusterTriggerClassSpec_def DeepCopy_ClusterTriggerClass_def DeepCopy_TaskList_def DeepCopy_ClusterAgentClassList_def DeepCopy_ClusterTriggerClassList_def

text \<open>The laws of the interface hold of the generated code; for the structs without foreign parts, outright.\<close>

interpretation rbac_rule: copier RBACRule_view DeepCopyInto_RBACRule
  by (rule copier_RBACRule)

interpretation permissions: copier Permissions_view DeepCopyInto_Permissions
  by (rule copier_Permissions)

interpretation agent_class_spec: copier ClusterAgentClassSpec_view DeepCopyInto_ClusterAgentClassSpec
  by (rule copier_ClusterAgentClassSpec)

interpretation task_result: copier TaskResult_view DeepCopyInto_TaskResult
  by (rule copier_TaskResult)

interpretation trigger_dedupe: view TriggerDedupe_view
  by (rule copier_view [OF copier_TriggerDedupe])

text \<open>
  C26. Every \<open>DeepCopy\<close> and \<open>DeepCopyObject\<close> of the API returns an independent copy. For each of the
  types: a nil pointer gives nil and only nil does; the copy stands for the same value; the
  original is as it was; from then on no write outside of the memory that the copy allocated changes
  the copy, and no write to memory allocated since changes the original. (Assumed of the deep copies
  of other packages, which this one calls.)
\<close>

theorem deep_copies_independent:
  assumes "foreign_laws F"
  shows "deep_copies (ptr_view get_AgentInputMountC (plain_view id)) DeepCopy_AgentInputMount \<and>
    deep_copies (ptr_view get_FieldMappingC (plain_view id)) DeepCopy_FieldMapping \<and>
    deep_copies (ptr_view get_ResultLinkC (plain_view id)) DeepCopy_ResultLink \<and>
    deep_copies (ptr_view get_WebhookFilterC (plain_view id)) DeepCopy_WebhookFilter \<and>
    deep_copies (ptr_view get_TaskResourcesC (plain_view id)) DeepCopy_TaskResources \<and>
    deep_copies (ptr_view get_AgentInputsC AgentInputs_view) DeepCopy_AgentInputs \<and>
    deep_copies (ptr_view get_AgentRefC (AgentRef_view F)) (DeepCopy_AgentRef F) \<and>
    deep_copies (ptr_view get_AgentRequirementsC AgentRequirements_view) DeepCopy_AgentRequirements \<and>
    deep_copies (ptr_view get_ClusterAgentClassSpecC ClusterAgentClassSpec_view) DeepCopy_ClusterAgentClassSpec \<and>
    deep_copies (ptr_view get_ClusterAgentClassC (ClusterAgentClass_view F)) (DeepCopy_ClusterAgentClass F) \<and>
    deep_copies (ptr_view get_RBACRuleC RBACRule_view) DeepCopy_RBACRule \<and>
    deep_copies (ptr_view get_PermissionsC Permissions_view) DeepCopy_Permissions \<and>
    deep_copies (ptr_view get_PromptSourceC (PromptSource_view F)) (DeepCopy_PromptSource F) \<and>
    deep_copies (ptr_view get_TaskResultC TaskResult_view) DeepCopy_TaskResult \<and>
    deep_copies (ptr_view get_TaskSpecC (TaskSpec_view F)) (DeepCopy_TaskSpec F) \<and>
    deep_copies (ptr_view get_TaskStatusC (TaskStatus_view F)) (DeepCopy_TaskStatus F) \<and>
    deep_copies (ptr_view get_TaskC (Task_view F)) (DeepCopy_Task F) \<and>
    deep_copies (ptr_view get_TaskTemplateC (TaskTemplate_view F)) (DeepCopy_TaskTemplate F) \<and>
    deep_copies (ptr_view get_TriggerDedupeC TriggerDedupe_view) DeepCopy_TriggerDedupe \<and>
    deep_copies (ptr_view get_WebhookSignatureC (WebhookSignature_view F)) (DeepCopy_WebhookSignature F) \<and>
    deep_copies (ptr_view get_ClusterTriggerClassSpecC (ClusterTriggerClassSpec_view F)) (DeepCopy_ClusterTriggerClassSpec F) \<and>
    deep_copies (ptr_view get_ClusterTriggerClassC (ClusterTriggerClass_view F)) (DeepCopy_ClusterTriggerClass F) \<and>
    deep_copies (ptr_view get_TaskListC (TaskList_view F)) (DeepCopy_TaskList F) \<and>
    deep_copies (ptr_view get_ClusterAgentClassListC (ClusterAgentClassList_view F)) (DeepCopy_ClusterAgentClassList F) \<and>
    deep_copies (ptr_view get_ClusterTriggerClassListC (ClusterTriggerClassList_view F)) (DeepCopy_ClusterTriggerClassList F) \<and>
    object_copies (ptr_view get_TaskC (Task_view F)) TaskP (DeepCopyObject_Task F) \<and>
    object_copies (ptr_view get_TaskListC (TaskList_view F)) TaskListP (DeepCopyObject_TaskList F) \<and>
    object_copies (ptr_view get_ClusterAgentClassC (ClusterAgentClass_view F)) ClusterAgentClassP (DeepCopyObject_ClusterAgentClass F) \<and>
    object_copies (ptr_view get_ClusterAgentClassListC (ClusterAgentClassList_view F)) ClusterAgentClassListP (DeepCopyObject_ClusterAgentClassList F) \<and>
    object_copies (ptr_view get_ClusterTriggerClassC (ClusterTriggerClass_view F)) ClusterTriggerClassP (DeepCopyObject_ClusterTriggerClass F) \<and>
    object_copies (ptr_view get_ClusterTriggerClassListC (ClusterTriggerClassList_view F)) ClusterTriggerClassListP (DeepCopyObject_ClusterTriggerClassList F)"
proof -
  show ?thesis
    by (intro conjI; (unfold DeepCopyObject_defs, rule deep_copies_object)?; unfold DeepCopy_defs plain_into;
        rule deep_copies_ptr; (intro copier_rules assms)?; simp)
qed

text \<open>
  Deep copies of the other packages at which the assumptions hold: metadata, selectors and
  conditions without pointers, the bytes of a \<open>RawExtension\<close> and a \<open>Time\<close> in memory of their own.
\<close>

datatype fval = FMeta ObjectMeta | FList string | FRaw ptr | FBytes string | FSel KeySelector | FCond Condition | FTime gotime

definition raw_bytes :: "fval \<Rightarrow> ptr" where
  "raw_bytes v = (case v of FRaw p \<Rightarrow> p | _ \<Rightarrow> None)"

definition get_bytes :: "fval cell \<Rightarrow> string option" where
  "get_bytes c = (case c of ForeignC (FBytes b) \<Rightarrow> Some b | _ \<Rightarrow> None)"

definition get_time :: "fval cell \<Rightarrow> gotime option" where
  "get_time c = (case c of ForeignC (FTime t) \<Rightarrow> Some t | _ \<Rightarrow> None)"

definition ref_selector :: "(fval cell, fval, KeySelector) view" where
  "ref_selector = plain_view (\<lambda>v. case v of FSel k \<Rightarrow> k | _ \<Rightarrow> \<lparr>ks_Name = [], ks_Key = []\<rparr>)"

definition ref_foreign :: "fval foreign" where
  "ref_foreign = \<lparr>
     fo_ObjectMeta = plain_view (\<lambda>v. case v of FMeta m \<Rightarrow> m | _ \<Rightarrow> zero_meta),
     fo_ObjectMeta_DeepCopyInto = State_Monad.return,
     fo_ListMeta = plain_view (\<lambda>v. case v of FList s \<Rightarrow> s | _ \<Rightarrow> []),
     fo_ListMeta_DeepCopyInto = State_Monad.return,
     fo_RawExtension = struct_view raw_bytes (\<lambda>_ b. case b of None \<Rightarrow> [] | Some s \<Rightarrow> s) (ptr_view get_bytes (plain_view id)),
     fo_RawExtension_DeepCopyInto =
       copy_struct raw_bytes (\<lambda>p _. FRaw p) (copy_ptr (\<lambda>b. ForeignC (FBytes b)) get_bytes State_Monad.return),
     fo_SecretKeySelector = ref_selector,
     fo_SecretKeySelector_DeepCopyInto = State_Monad.return,
     fo_ConfigMapKeySelector = ref_selector,
     fo_ConfigMapKeySelector_DeepCopyInto = State_Monad.return,
     fo_Condition = plain_view (\<lambda>v. case v of FCond c \<Rightarrow> c
       | _ \<Rightarrow> \<lparr>cd_Type = [], cd_Status = [], cd_Reason = [], cd_Message = [], cd_ObservedGeneration = 0, cd_LastTransitionTime = 0\<rparr>),
     fo_Condition_DeepCopyInto = State_Monad.return,
     fo_Time = target_view get_time (plain_view id),
     fo_Time_DeepCopy = copy_target (\<lambda>t. ForeignC (FTime t)) get_time State_Monad.return\<rparr>"

lemma ref_foreign_laws: "foreign_laws ref_foreign"
  unfolding foreign_laws_def ref_foreign_def ref_selector_def foreign.select_convs
  by (intro conjI copier_rules) (auto simp: raw_bytes_def get_bytes_def get_time_def)

text \<open>A status with two conditions in one array, of which a slice shows one, and a start time.\<close>

definition sample_condition :: "string \<Rightarrow> Condition" where
  "sample_condition st = \<lparr>cd_Type = ''Ready'', cd_Status = st, cd_Reason = ''r'', cd_Message = [],
     cd_ObservedGeneration = 1, cd_LastTransitionTime = 5\<rparr>"

definition status_heap :: "fval cell heap" where
  "status_heap = [Some (ConditionsC [FCond (sample_condition ''True''), FCond (sample_condition ''False'')]),
     Some (ForeignC (FTime 7)),
     Some (TaskStatusC \<lparr>hst_Phase = ''Running'', hst_ObservedGeneration = 1, hst_JobName = ''j'', hst_StartTime = Some 1,
       hst_CompletionTime = None, hst_Result = None, hst_Conditions = Some (0, 1, 1)\<rparr>)]"

definition status_snapshot :: "ptr \<times> fval cell heap" where
  "status_snapshot = run_state (DeepCopy_TaskStatus ref_foreign (Some 2)) status_heap"

text \<open>The condition is overwritten in place after the snapshot.\<close>

definition overwritten_heap :: "fval cell heap" where
  "overwritten_heap = (snd status_snapshot)[0 := Some (ConditionsC [FCond (sample_condition ''True''), FCond (sample_condition ''Unknown'')])]"

theorem deep_copies_independent_witness:
  "v_val (ptr_view get_TaskStatusC (TaskStatus_view ref_foreign)) overwritten_heap (fst status_snapshot) =
     v_val (ptr_view get_TaskStatusC (TaskStatus_view ref_foreign)) status_heap (Some 2) \<and>
   v_val (ptr_view get_TaskStatusC (TaskStatus_view ref_foreign)) overwritten_heap (Some 2) \<noteq>
     v_val (ptr_view get_TaskStatusC (TaskStatus_view ref_foreign)) status_heap (Some 2)"
proof -
  let ?V = "ptr_view get_TaskStatusC (TaskStatus_view ref_foreign)"
  have "deep_copies ?V (DeepCopy_TaskStatus ref_foreign)" using deep_copies_independent [OF ref_foreign_laws] by blast
  moreover have "v_ok ?V status_heap (Some 2)" by code_simp
  moreover have "run_state (DeepCopy_TaskStatus ref_foreign (Some 2)) status_heap = (fst status_snapshot, snd status_snapshot)"
    by (simp add: status_snapshot_def)
  ultimately have "independent_copy ?V status_heap (Some 2) (snd status_snapshot) (fst status_snapshot)"
    unfolding deep_copies_def by blast
  moreover have "\<forall>a. length status_heap \<le> a \<longrightarrow> a < length (snd status_snapshot) \<longrightarrow>
      peek overwritten_heap a = peek (snd status_snapshot) a"
    by (auto simp: overwritten_heap_def peek_def status_heap_def)
  moreover have "v_val ?V overwritten_heap (Some 2) \<noteq> v_val ?V status_heap (Some 2)" by code_simp
  ultimately show ?thesis unfolding independent_copy_def by blast
qed

end
