(* ===== verification/Api_Scheme.thy ===== *)
theory Api_Scheme
  imports Api_Types
begin

text \<open>
  \<open>api/v1alpha1/groupversion_info.go\<close>, the \<open>init\<close> functions of the API files and the \<open>init\<close> of
  \<open>cmd/main.go\<close>: the calls that fill the scheme of the manager. \<open>runtime.Scheme\<close> is library code; what the
  program hands to it is the data here. A Go type is registered under its own name as the kind.
\<close>

type_synonym group_version = "string \<times> string"

definition SchemeGroupVersion :: group_version where
  "SchemeGroupVersion = (''openconveyor.ai'', ''v1alpha1'')"

definition GroupVersion :: group_version where
  "GroupVersion = SchemeGroupVersion"

datatype scheme_call =
    AddClientGo
  | AddToGroupVersion group_version
  | AddKnownTypes group_version "string list"

definition register_ClusterAgentClass :: scheme_call where
  "register_ClusterAgentClass = AddKnownTypes SchemeGroupVersion [''ClusterAgentClass'', ''ClusterAgentClassList'']"

definition register_ClusterTriggerClass :: scheme_call where
  "register_ClusterTriggerClass = AddKnownTypes SchemeGroupVersion [''ClusterTriggerClass'', ''ClusterTriggerClassList'']"

definition register_Task :: scheme_call where
  "register_Task = AddKnownTypes SchemeGroupVersion [''Task'', ''TaskList'']"

text \<open>The functions of the builder, in the order of its variable and of the \<open>init\<close> functions by file name.\<close>

definition SchemeBuilder :: "scheme_call list" where
  "SchemeBuilder = [AddToGroupVersion SchemeGroupVersion, register_ClusterAgentClass, register_ClusterTriggerClass, register_Task]"

definition AddToScheme :: "scheme_call list" where
  "AddToScheme = SchemeBuilder"

definition main_scheme :: "scheme_call list" where
  "main_scheme = AddClientGo # AddToScheme"

section \<open>What the scheme knows\<close>

fun known_types :: "scheme_call list \<Rightarrow> (group_version \<times> string) list" where
  "known_types [] = []"
| "known_types (c # cs) = (case c of AddKnownTypes gv ts \<Rightarrow> map (Pair gv) ts | _ \<Rightarrow> []) @ known_types cs"

text \<open>The API kinds of the program that the client sends, by their Go type.\<close>

fun own_type :: "kind \<Rightarrow> string option" where
  "own_type KTask = Some ''Task''"
| "own_type KAgentClass = Some ''ClusterAgentClass''"
| "own_type KTriggerClass = Some ''ClusterTriggerClass''"
| "own_type _ = None"

lemma own_kinds_registered:
  "own_type k = Some t \<Longrightarrow> (GroupVersion, t) \<in> set (known_types main_scheme) \<and>
     (GroupVersion, t @ ''List'') \<in> set (known_types main_scheme)"
  by (cases k) (auto simp: main_scheme_def AddToScheme_def SchemeBuilder_def GroupVersion_def register_Task_def
    register_ClusterAgentClass_def register_ClusterTriggerClass_def)

lemma registered_once: "distinct (known_types main_scheme)"
  by code_simp

end
