(* ===== verification/Go_Text.thy ===== *)
theory Go_Text
  imports Go_Strings
begin

text \<open>
  Substring search and line scanning of Go's standard library: \<open>strings.Index\<close>,
  \<open>strings.ReplaceAll\<close>, \<open>strings.SplitSeq\<close> at a single character, \<open>filepath.Base\<close>, and a
  \<open>bufio.Scanner\<close> that splits its input into lines. The search is specified by the occurrences of
  the pattern, the scanner by the lines that it reads back from a text that is built from lines.
\<close>

abbreviation newline :: char where
  "newline \<equiv> CHR 0x0A"

abbreviation carriage_return :: char where
  "carriage_return \<equiv> CHR 0x0D"

section \<open>Search\<close>

text \<open>\<open>strings.Index\<close>, with \<open>None\<close> for -1.\<close>

fun Index :: "string \<Rightarrow> string \<Rightarrow> nat option" where
  "Index [] t = (if t = [] then Some 0 else None)"
| "Index (c # s) t = (if HasPrefix (c # s) t then Some 0 else map_option Suc (Index s t))"

definition occurs_at :: "string \<Rightarrow> string \<Rightarrow> nat \<Rightarrow> bool" where
  "occurs_at s t i \<longleftrightarrow> i \<le> length s \<and> HasPrefix (drop i s) t"

lemma occurs_at_iff: "occurs_at s t i \<longleftrightarrow> (\<exists>pre post. s = pre @ t @ post \<and> length pre = i)"
  unfolding occurs_at_def HasPrefix_iff_prefix prefix_def
  by (metis append_eq_conv_conj append_take_drop_id length_take min.absorb2 length_append le_add1)

lemma occurs_at_Nil [simp]: "occurs_at [] t i \<longleftrightarrow> t = [] \<and> i = 0"
  by (auto simp: occurs_at_def HasPrefix_def)

lemma occurs_at_Cons:
  "occurs_at (c # s) t i \<longleftrightarrow> (case i of 0 \<Rightarrow> HasPrefix (c # s) t | Suc j \<Rightarrow> occurs_at s t j)"
  by (cases i) (auto simp: occurs_at_def)

text \<open>The index is that of the first occurrence, and there is none exactly when there is no occurrence.\<close>

lemma Index_Some_iff: "Index s t = Some i \<longleftrightarrow> occurs_at s t i \<and> (\<forall>j < i. \<not> occurs_at s t j)"
proof (induction s arbitrary: i)
  case (Cons c s)
  show ?case
  proof (cases i)
    case 0
    then show ?thesis by (auto simp: occurs_at_Cons)
  next
    case (Suc k)
    have "(\<forall>j < Suc k. \<not> occurs_at (c # s) t j) \<longleftrightarrow> \<not> HasPrefix (c # s) t \<and> (\<forall>j < k. \<not> occurs_at s t j)"
      by (auto simp: occurs_at_Cons All_less_Suc2)
    then show ?thesis using Suc Cons.IH [of k] by (auto simp: occurs_at_Cons)
  qed
qed auto

lemma Index_None_iff: "Index s t = None \<longleftrightarrow> (\<forall>i. \<not> occurs_at s t i)"
proof (induction s)
  case (Cons c s)
  have "(\<forall>i. \<not> occurs_at (c # s) t i) \<longleftrightarrow> \<not> HasPrefix (c # s) t \<and> (\<forall>i. \<not> occurs_at s t i)"
    by (auto simp: occurs_at_Cons split: nat.splits)
  with Cons.IH show ?case by auto
qed auto

lemma Index_splits:
  assumes "Index s t = Some i"
  shows "s = take i s @ t @ drop (i + length t) s" and "i + length t \<le> length s"
proof -
  from assms obtain pre post where "s = pre @ t @ post" "length pre = i"
    by (auto simp: Index_Some_iff occurs_at_iff)
  then show "s = take i s @ t @ drop (i + length t) s" "i + length t \<le> length s" by auto
qed

text \<open>\<open>strings.ReplaceAll\<close> for a non-empty pattern: the occurrences from the left that do not overlap.\<close>

function ReplaceAll :: "string \<Rightarrow> string \<Rightarrow> string \<Rightarrow> string" where
  "ReplaceAll [] old new = []"
| "ReplaceAll (c # s) old new =
     (if old \<noteq> [] \<and> HasPrefix (c # s) old then new @ ReplaceAll (drop (length old) (c # s)) old new
      else c # ReplaceAll s old new)"
  by pat_completeness auto
termination
  by (relation "measure (\<lambda>(s, _). length s)") (auto simp: length_greater_0_conv [symmetric] simp del: length_greater_0_conv)

lemma ReplaceAll_absent: "Index s old = None \<Longrightarrow> ReplaceAll s old new = s"
  by (induction s) (auto simp: HasPrefix_def split: if_splits)

lemma ReplaceAll_first:
  "Index s old = Some i \<Longrightarrow> old \<noteq> [] \<Longrightarrow>
   ReplaceAll s old new = take i s @ new @ ReplaceAll (drop (i + length old) s) old new"
proof (induction s arbitrary: i)
  case (Cons c s)
  then show ?case by (auto split: if_splits simp: numeral_2_eq_2)
qed auto

section \<open>Lines\<close>

lemma split_on_pieces: "p \<in> set (split_on c s) \<Longrightarrow> c \<notin> set p"
proof (induction s arbitrary: p)
  case (Cons d s)
  then show ?case by (cases "split_on c s") (auto split: if_splits)
qed simp

lemma join_split_on: "join_with [c] (split_on c s) = s"
proof (induction s)
  case (Cons d s)
  show ?case
  proof (cases "split_on c s")
    case (Cons p ps)
    then show ?thesis using Cons.IH by (cases ps) auto
  qed (use split_on_nonempty in blast)
qed simp

lemma split_on_join:
  "ls \<noteq> [] \<Longrightarrow> list_all (\<lambda>p. c \<notin> set p) ls \<Longrightarrow> split_on c (join_with [c] ls) = ls"
proof (induction "[c]" ls rule: join_with.induct)
  case (3 p q ps)
  then show ?case by (simp add: split_on_append split_on_no_sep)
qed (auto simp: split_on_no_sep)

text \<open>\<open>bufio.MaxScanTokenSize\<close>: a scanner stops at a line that does not fit its buffer.\<close>

definition MaxScanTokenSize :: nat where
  "MaxScanTokenSize = 64 * 1024"

definition dropCR :: "string \<Rightarrow> string" where
  "dropCR s = (if s \<noteq> [] \<and> last s = carriage_return then butlast s else s)"

text \<open>
  The tokens of \<open>bufio.NewScanner\<close> with the default split function \<open>bufio.ScanLines\<close>, one for each
  \<open>Scan\<close> that returns true. The end of line is a newline with an optional carriage return before it;
  the last line may lack it, and nothing after the last newline is no line. A line together with its
  newline has to fit the buffer, or else the scan ends there with \<open>ErrTooLong\<close>.
\<close>

function scan_lines :: "string \<Rightarrow> string list" where
  "scan_lines s =
     (if s = [] then []
      else let line = takeWhile (\<lambda>c. c \<noteq> newline) s
           in if MaxScanTokenSize \<le> length line then []
              else dropCR line # scan_lines (drop (Suc (length line)) s))"
  by pat_completeness auto
termination
  by (relation "measure length") (auto simp: length_greater_0_conv [symmetric] simp del: length_greater_0_conv)

declare scan_lines.simps [simp del]

lemma scan_lines_Nil [simp]: "scan_lines [] = []"
  by (simp add: scan_lines.simps)

text \<open>A line that the scanner reads back as it is.\<close>

definition scannable :: "string \<Rightarrow> bool" where
  "scannable l \<longleftrightarrow> newline \<notin> set l \<and> dropCR l = l \<and> length l < MaxScanTokenSize"

lemma scan_lines_last:
  assumes "l \<noteq> []" and "scannable l"
  shows "scan_lines l = [l]"
proof -
  have line: "takeWhile (\<lambda>c. c \<noteq> newline) l = l" using assms(2) by (auto simp: scannable_def takeWhile_eq_all_conv)
  show ?thesis using assms by (subst scan_lines.simps) (simp add: scannable_def line)
qed

lemma scan_lines_Cons: "scannable l \<Longrightarrow> scan_lines (l @ newline # s) = l # scan_lines s"
proof (subst scan_lines.simps)
  assume "scannable l"
  moreover from this have "takeWhile (\<lambda>c. c \<noteq> newline) (l @ newline # s) = l"
    by (auto simp: scannable_def takeWhile_append)
  ultimately show "(if l @ newline # s = [] then []
      else let line = takeWhile (\<lambda>c. c \<noteq> newline) (l @ newline # s)
           in if MaxScanTokenSize \<le> length line then []
              else dropCR line # scan_lines (drop (Suc (length line)) (l @ newline # s))) = l # scan_lines s"
    by (simp add: scannable_def Let_def)
qed

lemma scan_lines_join:
  "list_all scannable ls \<Longrightarrow> ls = [] \<or> last ls \<noteq> [] \<Longrightarrow> scan_lines (join_with [newline] ls) = ls"
proof (induction "[newline]" ls rule: join_with.induct)
  case (3 p q ps)
  then show ?case by (simp add: scan_lines_Cons)
qed (auto simp: scan_lines_last)

lemma scan_lines_no_newline: "l \<in> set (scan_lines s) \<Longrightarrow> newline \<notin> set l"
proof (induction s rule: scan_lines.induct)
  case (1 s)
  have "newline \<notin> set (dropCR (takeWhile (\<lambda>c. c \<noteq> newline) s))"
    by (auto simp: dropCR_def dest!: in_set_butlastD set_takeWhileD)
  then show ?case using "1.IH" "1.prems" scan_lines.simps [of s] by (auto simp: Let_def split: if_splits)
qed

section \<open>Paths\<close>

text \<open>\<open>filepath.Base\<close> with the separator \<open>/\<close>.\<close>

definition filepath_Base :: "string \<Rightarrow> string" where
  "filepath_Base p =
     (if p = [] then ''.''
      else let q = TrimRight p (CHR ''/'') in if q = [] then ''/'' else last (split_on (CHR ''/'') q))"

end
