(* ===== verification/Test_Utils.thy ===== *)
theory Test_Utils
  imports Externals Go_Text
begin

text \<open>
  \<open>test/utils/utils.go\<close>: the helpers of the end-to-end suite. They run commands from the root of
  the project, load an image into the kind cluster, split command output into lines and take the
  comment marks off a block of a file. The operating system (environment, working directory,
  processes, files) is outside the program: the record \<open>'w os\<close> of its calls is an argument of the
  definitions, and what a theorem needs of it is \<open>file_system\<close> or \<open>working_directory\<close>.
\<close>

section \<open>The operating system\<close>

text \<open>The fields of \<open>exec.Cmd\<close> that the helpers and \<open>exec.Command\<close> set.\<close>

record Cmd =
  cmd_Path :: string
  cmd_Args :: "string list"
  cmd_Env :: "string list"
  cmd_Dir :: string
  cmd_Err :: "gerr option"

record 'w os =
  os_Getwd :: "'w \<Rightarrow> (string \<times> gerr option) \<times> 'w"
  os_Chdir :: "string \<Rightarrow> 'w \<Rightarrow> gerr option \<times> 'w"
  os_Environ :: "'w \<Rightarrow> string list \<times> 'w"
  os_LookupEnv :: "string \<Rightarrow> 'w \<Rightarrow> string option \<times> 'w"
  os_LookPath :: "string \<Rightarrow> 'w \<Rightarrow> (string \<times> gerr option) \<times> 'w"
  os_CombinedOutput :: "Cmd \<Rightarrow> 'w \<Rightarrow> (string \<times> gerr option) \<times> 'w"
  os_ReadFile :: "string \<Rightarrow> 'w \<Rightarrow> (gerr + string) \<times> 'w"
  os_WriteFile :: "string \<Rightarrow> string \<Rightarrow> 'w \<Rightarrow> gerr option \<times> 'w"
  os_unicode :: unicode

datatype os_obs =
    Getwd string "gerr option"
  | Chdir string "gerr option"
  | LookupEnv string "string option"
  | Exec Cmd string "gerr option"
  | ReadFile string "gerr + string"
  | WriteFile string string "gerr option"
  | GinkgoWriter string

type_synonym ('w, 'a) os_op = "('w, os_obs, 'a) prog"

text \<open>\<open>exec.Command\<close>: a name without a separator is looked up in the path.\<close>

definition exec_Command :: "'w os \<Rightarrow> string \<Rightarrow> string list \<Rightarrow> ('w, Cmd) os_op" where
  "exec_Command os name args =
     (let cmd = \<lparr>cmd_Path = name, cmd_Args = name # args, cmd_Env = [], cmd_Dir = [], cmd_Err = None\<rparr>
      in if filepath_Base name = name then do {
           (lp, err) \<leftarrow> silent (os_LookPath os name);
           State_Monad.return (cmd\<lparr>cmd_Path := (if lp = [] then name else lp), cmd_Err := err\<rparr>) }
         else State_Monad.return cmd)"

section \<open>Commands\<close>

abbreviation defaultKindBinary :: string where "defaultKindBinary \<equiv> ''kind''"

abbreviation defaultKindCluster :: string where "defaultKindCluster \<equiv> ''kind''"

abbreviation e2e_dir :: string where "e2e_dir \<equiv> ''/test/e2e''"

definition GetProjectDir :: "'w os \<Rightarrow> ('w, string \<times> gerr option) os_op" where
  "GetProjectDir os = do {
     (wd, err) \<leftarrow> outside (os_Getwd os) (\<lambda>(wd, err). Getwd wd err);
     State_Monad.return (case err of
         Some e \<Rightarrow> (wd, Some (Wrapped ''failed to get current working directory'' e))
       | None \<Rightarrow> (ReplaceAll wd e2e_dir [], None)) }"

text \<open>\<open>Run\<close> changes the command that its argument points to, so the model returns it too.\<close>

definition Run :: "'w os \<Rightarrow> Cmd \<Rightarrow> ('w, string \<times> gerr option \<times> Cmd) os_op" where
  "Run os cmd0 = do {
     (dir, _) \<leftarrow> GetProjectDir os;
     let cmd1 = cmd0\<lparr>cmd_Dir := dir\<rparr>;
     ch \<leftarrow> outside (os_Chdir os (cmd_Dir cmd1)) (Chdir (cmd_Dir cmd1));
     (case ch of
        None \<Rightarrow> State_Monad.return ()
      | Some err \<Rightarrow> observe (GinkgoWriter (''chdir dir: '' @ Quote (os_unicode os) (Error err) @ [newline])));
     environ \<leftarrow> silent (os_Environ os);
     let cmd = cmd1\<lparr>cmd_Env := environ @ [''GO111MODULE=on'']\<rparr>;
     let command = join_with '' '' (cmd_Args cmd);
     observe (GinkgoWriter (''running: '' @ Quote (os_unicode os) command @ [newline]));
     (output, err) \<leftarrow> outside (os_CombinedOutput os cmd) (\<lambda>(output, err). Exec cmd output err);
     State_Monad.return (case err of
         Some e \<Rightarrow> (output, Some (Wrapped (Quote (os_unicode os) command @ '' failed with error '' @
             Quote (os_unicode os) output) e), cmd)
       | None \<Rightarrow> (output, None, cmd)) }"

definition lookup_env_default :: "'w os \<Rightarrow> string \<Rightarrow> string \<Rightarrow> ('w, string) os_op" where
  "lookup_env_default os var d = do {
     v \<leftarrow> outside (os_LookupEnv os var) (LookupEnv var);
     State_Monad.return (case v of Some s \<Rightarrow> s | None \<Rightarrow> d) }"

definition LoadImageToKindClusterWithName :: "'w os \<Rightarrow> string \<Rightarrow> ('w, gerr option) os_op" where
  "LoadImageToKindClusterWithName os name = do {
     cluster \<leftarrow> lookup_env_default os ''KIND_CLUSTER'' defaultKindCluster;
     let kindOptions = [''load'', ''docker-image'', name, ''--name'', cluster];
     kindBinary \<leftarrow> lookup_env_default os ''KIND'' defaultKindBinary;
     cmd \<leftarrow> exec_Command os kindBinary kindOptions;
     (_, err, _) \<leftarrow> Run os cmd;
     State_Monad.return err }"

section \<open>Text\<close>

fun append_nonempty :: "string list \<Rightarrow> string list \<Rightarrow> string list" where
  "append_nonempty res [] = res"
| "append_nonempty res (e # es) = append_nonempty (if e \<noteq> [] then res @ [e] else res) es"

definition GetNonEmptyLines :: "string \<Rightarrow> string list" where
  "GetNonEmptyLines output = append_nonempty [] (split_on newline output)"

text \<open>The loop that writes the lines of the target: no newline after the last one.\<close>

fun write_uncommented :: "string \<Rightarrow> string \<Rightarrow> string list \<Rightarrow> string" where
  "write_uncommented p out [] = out"
| "write_uncommented p out [l] = out @ TrimPrefix l p"
| "write_uncommented p out (l # ls) = write_uncommented p (out @ TrimPrefix l p @ [newline]) ls"

text \<open>Writing to a \<open>bytes.Buffer\<close> returns no error, so those branches of the code have no counterpart.\<close>

definition UncommentCode :: "'w os \<Rightarrow> string \<Rightarrow> string \<Rightarrow> string \<Rightarrow> ('w, gerr option) os_op" where
  "UncommentCode os filename target p = do {
     c \<leftarrow> outside (os_ReadFile os filename) (ReadFile filename);
     case c of
       Inl err \<Rightarrow> State_Monad.return (Some (Wrapped (''failed to read file '' @ Quote (os_unicode os) filename) err))
     | Inr content \<Rightarrow>
         (case Index content target of
            None \<Rightarrow> State_Monad.return (Some (Plain
              (''unable to find the code '' @ Quote (os_unicode os) target @ '' to be uncommented'')))
          | Some idx \<Rightarrow>
              if scan_lines target = [] then State_Monad.return None
              else do {
                let out = write_uncommented p (take idx content) (scan_lines target) @ drop (idx + length target) content;
                w \<leftarrow> outside (os_WriteFile os filename out) (WriteFile filename out);
                State_Monad.return (map_option (Wrapped (''failed to write file '' @ Quote (os_unicode os) filename)) w) }) }"

section \<open>Lines of output\<close>

lemma append_nonempty_filter: "append_nonempty res es = res @ filter (\<lambda>e. e \<noteq> []) es"
  by (induction res es rule: append_nonempty.induct) auto

lemma GetNonEmptyLines_filter: "GetNonEmptyLines output = filter (\<lambda>e. e \<noteq> []) (split_on newline output)"
  by (simp add: GetNonEmptyLines_def append_nonempty_filter)

lemma GetNonEmptyLines_lines:
  "list_all (\<lambda>l. l \<noteq> [] \<and> newline \<notin> set l) (GetNonEmptyLines output)"
  by (auto simp: GetNonEmptyLines_filter list_all_iff dest: split_on_pieces)

lemma GetNonEmptyLines_join:
  assumes "list_all (\<lambda>l. newline \<notin> set l) ls"
  shows "GetNonEmptyLines (join_with [newline] ls) = filter (\<lambda>l. l \<noteq> []) ls"
  using assms by (cases ls) (simp_all add: GetNonEmptyLines_filter split_on_join del: join_with.simps(2,3))

section \<open>Taking comment marks off\<close>

lemma write_uncommented_join:
  "write_uncommented p out ls = out @ join_with [newline] (map (\<lambda>l. TrimPrefix l p) ls)"
  by (induction p out ls rule: write_uncommented.induct) auto

text \<open>
  What the helpers rely on of the files: reading returns the content, a successful write replaces it,
  and a failed one may damage that file but no other.
\<close>

definition file_system :: "'w os \<Rightarrow> ('w \<Rightarrow> string \<Rightarrow> string option) \<Rightarrow> bool" where
  "file_system os files \<longleftrightarrow>
     (\<forall>f w. files (snd (os_ReadFile os f w)) = files w \<and>
        (case fst (os_ReadFile os f w) of Inr c \<Rightarrow> files w f = Some c | Inl _ \<Rightarrow> True)) \<and>
     (\<forall>f d w. case fst (os_WriteFile os f d w) of
        None \<Rightarrow> files (snd (os_WriteFile os f d w)) = (files w)(f \<mapsto> d)
      | Some _ \<Rightarrow> (\<forall>g. g \<noteq> f \<longrightarrow> files (snd (os_WriteFile os f d w)) g = files w g))"

definition commented :: "string \<Rightarrow> string list \<Rightarrow> string" where
  "commented p ls = join_with [newline] (map (\<lambda>l. p @ l) ls)"

definition io_failed :: "os_obs \<Rightarrow> bool" where
  "io_failed ob \<longleftrightarrow> (case ob of ReadFile _ (Inl _) \<Rightarrow> True | WriteFile _ _ (Some _) \<Rightarrow> True | _ \<Rightarrow> False)"

text \<open>The four ways in which a run ends.\<close>

lemma UncommentCode_cases:
  assumes "run_state (UncommentCode os f target p) s = (err, s')"
  obtains (unreadable) e w where "os_ReadFile os f (world s) = (Inl e, w)" "err \<noteq> None"
      "s' = s\<lparr>world := w, obslog := obslog s @ [ReadFile f (Inl e)]\<rparr>"
  | (absent) c w where "os_ReadFile os f (world s) = (Inr c, w)" "Index c target = None" "err \<noteq> None"
      "s' = s\<lparr>world := w, obslog := obslog s @ [ReadFile f (Inr c)]\<rparr>"
  | (no_line) c i w where "os_ReadFile os f (world s) = (Inr c, w)" "Index c target = Some i" "scan_lines target = []" "err = None"
      "s' = s\<lparr>world := w, obslog := obslog s @ [ReadFile f (Inr c)]\<rparr>"
  | (written) c i w out res w2 where "os_ReadFile os f (world s) = (Inr c, w)" "Index c target = Some i" "scan_lines target \<noteq> []"
      "out = take i c @ join_with [newline] (map (\<lambda>l. TrimPrefix l p) (scan_lines target)) @ drop (i + length target) c"
      "os_WriteFile os f out w = (res, w2)" "err = None \<longleftrightarrow> res = None"
      "s' = s\<lparr>world := w2, obslog := obslog s @ [ReadFile f (Inr c), WriteFile f out res]\<rparr>"
proof -
  obtain r w where read: "os_ReadFile os f (world s) = (r, w)" by fastforce
  note run = assms [unfolded UncommentCode_def, simplified run_basics read Let_def, simplified]
  show thesis
  proof (cases r)
    case (Inl e)
    with run read show thesis by (intro unreadable) (auto simp: run_basics)
  next
    case (Inr c)
    show thesis
    proof (cases "Index c target")
      case None
      with Inr run read show thesis by (intro absent) (auto simp: run_basics)
    next
      case (Some i)
      show thesis
      proof (cases "scan_lines target = []")
        case True
        with Some Inr run read show thesis by (intro no_line) (auto simp: run_basics)
      next
        case False
        let ?out = "take i c @ join_with [newline] (map (\<lambda>l. TrimPrefix l p) (scan_lines target)) @ drop (i + length target) c"
        obtain res w2 where w: "os_WriteFile os f ?out w = (res, w2)" by fastforce
        show thesis
          by (rule written [OF read [unfolded Inr] Some False refl w])
             (use w False Some Inr run in \<open>auto simp: run_basics Let_def write_uncommented_join\<close>)
      qed
    qed
  qed
qed

lemma file_system_read:
  assumes "file_system os files" and "os_ReadFile os f w = (r, w1)"
  shows "files w1 = files w" and "r = Inr c \<Longrightarrow> files w f = Some c"
proof -
  have d: "files (snd (os_ReadFile os f w)) = files w \<and>
      (case fst (os_ReadFile os f w) of Inr c \<Rightarrow> files w f = Some c | Inl _ \<Rightarrow> True)"
    using assms(1) by (simp add: file_system_def)
  show "files w1 = files w" using d assms(2) by simp
  show "r = Inr c \<Longrightarrow> files w f = Some c" using d assms(2) by simp
qed

lemma file_system_write:
  assumes "file_system os files" and "os_WriteFile os f d w = (r, w1)"
  shows "r = None \<Longrightarrow> files w1 = (files w)(f \<mapsto> d)" and "g \<noteq> f \<Longrightarrow> files w1 g = files w g"
proof -
  have d: "case fst (os_WriteFile os f d w) of None \<Rightarrow> files (snd (os_WriteFile os f d w)) = (files w)(f \<mapsto> d)
      | Some _ \<Rightarrow> (\<forall>g. g \<noteq> f \<longrightarrow> files (snd (os_WriteFile os f d w)) g = files w g)"
    using assms(1) by (simp add: file_system_def)
  show "r = None \<Longrightarrow> files w1 = (files w)(f \<mapsto> d)" using d assms(2) by simp
  show "g \<noteq> f \<Longrightarrow> files w1 g = files w g" using d assms(2) by (cases r) auto
qed

text \<open>A run changes no other file, and its own only in place of the first occurrence of the target.\<close>

lemma UncommentCode_local:
  assumes "file_system os files" and "run_state (UncommentCode os f target p) s = (err, s')"
  shows "g \<noteq> f \<Longrightarrow> files (world s') g = files (world s) g"
    and "err = None \<Longrightarrow> \<exists>pre post new. files (world s) f = Some (pre @ target @ post) \<and> files (world s') f = Some (pre @ new @ post)"
  using assms(2)
proof (atomize (full), cases rule: UncommentCode_cases)
  case (no_line c i w)
  then show "(g \<noteq> f \<longrightarrow> files (world s') g = files (world s) g) \<and> (err = None \<longrightarrow>
    (\<exists>pre post new. files (world s) f = Some (pre @ target @ post) \<and> files (world s') f = Some (pre @ new @ post)))"
    using file_system_read [OF assms(1) no_line(1)] Index_splits(1) [OF no_line(2)] by auto
next
  case (written c i w out res w2)
  then show "(g \<noteq> f \<longrightarrow> files (world s') g = files (world s) g) \<and> (err = None \<longrightarrow>
    (\<exists>pre post new. files (world s) f = Some (pre @ target @ post) \<and> files (world s') f = Some (pre @ new @ post)))"
    using file_system_read [OF assms(1) written(1)] file_system_write [OF assms(1) written(5)] Index_splits(1) [OF written(2)]
    by auto
qed (auto simp: file_system_read(1) [OF assms(1)])

section \<open>Running in the root of the project\<close>

text \<open>
  What the helpers rely on of the working directory: it is what \<open>os.Getwd\<close> answers, a successful
  \<open>os.Chdir\<close> sets it, a failed one and every other call leave it alone.
\<close>

definition working_directory :: "'w os \<Rightarrow> ('w \<Rightarrow> string) \<Rightarrow> bool" where
  "working_directory os cwd \<longleftrightarrow>
     (\<forall>w. fst (os_Getwd os w) = (cwd w, None) \<and> cwd (snd (os_Getwd os w)) = cwd w) \<and>
     (\<forall>d w. cwd (snd (os_Chdir os d w)) = (if fst (os_Chdir os d w) = None then d else cwd w)) \<and>
     (\<forall>w. cwd (snd (os_Environ os w)) = cwd w) \<and>
     (\<forall>cmd w. cwd (snd (os_CombinedOutput os cmd w)) = cwd w)"

lemma take_occurs:
  assumes "occurs_at (s @ u) t j" and "j + length t \<le> length s"
  shows "occurs_at s t j"
  using assms by (auto simp: occurs_at_def HasPrefix_def)

text \<open>No proper suffix of \<open>/test/e2e\<close> starts it again, so the pattern cannot occur across its own start.\<close>

lemma e2e_dir_unbordered: "0 < k \<Longrightarrow> k < length e2e_dir \<Longrightarrow> take (length e2e_dir - k) e2e_dir \<noteq> drop k e2e_dir"
  by (auto simp: less_Suc_eq numeral_eq_Suc)

lemma Index_e2e_dir:
  assumes "Index dir e2e_dir = None"
  shows "Index (dir @ e2e_dir) e2e_dir = Some (length dir)"
  unfolding Index_Some_iff
proof (intro conjI allI impI notI)
  show "occurs_at (dir @ e2e_dir) e2e_dir (length dir)" by (simp add: occurs_at_def HasPrefix_def)
  fix j assume j: "j < length dir" and occ: "occurs_at (dir @ e2e_dir) e2e_dir j"
  show False
  proof (cases "j + length e2e_dir \<le> length dir")
    case True
    with take_occurs [OF occ] assms show False by (simp add: Index_None_iff)
  next
    case False
    define k where "k = length dir - j"
    have k: "0 < k" "k < length e2e_dir" using False j by (auto simp: k_def)
    have "take (length e2e_dir) (drop j dir @ e2e_dir) = e2e_dir" using occ j by (simp add: occurs_at_def HasPrefix_def)
    then have "drop k (take (length e2e_dir) (drop j dir @ e2e_dir)) = drop k e2e_dir" by simp
    then have "take (length e2e_dir - k) e2e_dir = drop k e2e_dir" by (simp only: drop_take drop_append k_def) (simp add: drop_take)
    with e2e_dir_unbordered [OF k] show False by contradiction
  qed
qed

lemma project_root:
  assumes "Index dir e2e_dir = None" and "wd \<in> {dir, dir @ e2e_dir}"
  shows "ReplaceAll wd e2e_dir [] = dir"
  using assms ReplaceAll_first [OF Index_e2e_dir [OF assms(1)], of "[]"] by (auto simp: ReplaceAll_absent)

definition executed :: "os_obs list \<Rightarrow> Cmd list" where
  "executed l = concat (map (\<lambda>ob. case ob of Exec cmd _ _ \<Rightarrow> [cmd] | _ \<Rightarrow> []) l)"

lemma executed_append [simp]: "executed (a @ b) = executed a @ executed b"
  by (simp add: executed_def)

lemma Run_in_root:
  assumes "working_directory os cwd" and "Index dir e2e_dir = None" and "cwd (world s) \<in> {dir, dir @ e2e_dir}"
    and "run_state (Run os cmd) s = (res, s')"
  obtains l env where "obslog s' = obslog s @ l" and "executed l = [cmd\<lparr>cmd_Dir := dir, cmd_Env := env @ [''GO111MODULE=on'']\<rparr>]"
    and "cwd (world s') \<in> {dir, dir @ e2e_dir}"
proof -
  obtain w1 where getwd: "os_Getwd os (world s) = ((cwd (world s), None), w1)" and c1: "cwd w1 = cwd (world s)"
    using assms(1) unfolding working_directory_def by (metis prod.collapse)
  obtain ch w2 where chdir: "os_Chdir os dir w1 = (ch, w2)" by fastforce
  then have c2: "cwd w2 \<in> {dir, dir @ e2e_dir}" using assms(1,3) c1 unfolding working_directory_def by (metis fst_conv insertI1 snd_conv)
  obtain env w3 where environ: "os_Environ os w2 = (env, w3)" by fastforce
  then have c3: "cwd w3 = cwd w2" using assms(1) unfolding working_directory_def by (metis snd_conv)
  let ?cmd = "cmd\<lparr>cmd_Dir := dir, cmd_Env := env @ [''GO111MODULE=on'']\<rparr>"
  obtain out err w4 where exec: "os_CombinedOutput os ?cmd w3 = ((out, err), w4)" by (metis prod.collapse)
  then have c4: "cwd w4 = cwd w3" using assms(1) unfolding working_directory_def by (metis snd_conv)
  note rooted = project_root [OF assms(2,3)]
  let ?warn = "case ch of None \<Rightarrow> [] | Some e \<Rightarrow> [GinkgoWriter (''chdir dir: '' @ Quote (os_unicode os) (Error e) @ [newline])]"
  let ?l = "[Getwd (cwd (world s)) None, Chdir dir ch] @ ?warn @
    [GinkgoWriter (''running: '' @ Quote (os_unicode os) (join_with '' '' (cmd_Args cmd)) @ [newline]), Exec ?cmd out err]"
  have "obslog s' = obslog s @ ?l \<and> world s' = w4" using assms(4)
    by (cases ch) (auto simp: Run_def GetProjectDir_def run_basics getwd rooted chdir environ exec Let_def)
  moreover have "executed ?l = [?cmd]" by (cases ch) (simp_all add: executed_def)
  ultimately show thesis using that [of ?l env] c2 c3 c4 by simp
qed

text \<open>The suite runs its commands one after the other.\<close>

fun run_all :: "'w os \<Rightarrow> Cmd list \<Rightarrow> ('w, os_obs) sys \<Rightarrow> ('w, os_obs) sys" where
  "run_all os [] s = s"
| "run_all os (cmd # cmds) s = run_all os cmds (snd (run_state (Run os cmd) s))"

section \<open>Properties\<close>

text \<open>
  C37. Commenting out is undone. Take a file that holds a block of lines, each with the comment mark
  \<open>p\<close> before it, whose first occurrence is the block. \<open>UncommentCode\<close> on that block writes the file
  back with exactly the marks of the block removed and everything around it kept, and it touches
  no other file; it reports an error only when reading or writing failed.
\<close>

theorem uncomment_restores:
  assumes "file_system os files" and "files (world s) f = Some (pre @ commented p ls @ post)"
    and "Index (pre @ commented p ls @ post) (commented p ls) = Some (length pre)"
    and "ls \<noteq> []" and "list_all (\<lambda>l. scannable (p @ l)) ls" and "p @ last ls \<noteq> []"
    and "run_state (UncommentCode os f (commented p ls) p) s = (err, s')"
  shows "\<exists>l. obslog s' = obslog s @ l \<and> (\<forall>g. g \<noteq> f \<longrightarrow> files (world s') g = files (world s) g) \<and>
    (if err = None then files (world s') f = Some (pre @ join_with [newline] ls @ post) else list_ex io_failed l)"
proof -
  have "last (map (\<lambda>l. p @ l) ls) \<noteq> []" using assms(4,6) by (simp add: last_map)
  with assms(5) have scan: "scan_lines (commented p ls) = map (\<lambda>l. p @ l) ls"
    unfolding commented_def by (intro scan_lines_join) (auto simp: list_all_iff)
  note other = UncommentCode_local(1) [OF assms(1,7)]
  from assms(7) show ?thesis
  proof (cases rule: UncommentCode_cases)
    case (unreadable e w)
    with other show ?thesis by (auto simp: io_failed_def)
  next
    case (absent c w)
    with file_system_read [OF assms(1) absent(1)] assms(2,3) show ?thesis by auto
  next
    case (no_line c i w)
    with scan assms(4) show ?thesis by simp
  next
    case (written c i w out res w2)
    then have "c = pre @ commented p ls @ post" "i = length pre" using file_system_read(2) [OF assms(1) written(1) refl] assms(2,3) by auto
    with written(4) have out: "out = pre @ join_with [newline] ls @ post" by (simp add: scan comp_def)
    show ?thesis
    proof (cases res)
      case None
      with file_system_write(1) [OF assms(1) written(5) None] written(6,7) other out show ?thesis by auto
    next
      case (Some e)
      with written(6,7) other show ?thesis by (auto simp: io_failed_def)
    qed
  qed
qed

text \<open>A disk in memory, on which every command succeeds and says nothing.\<close>

record disk =
  disk_files :: "string \<Rightarrow> string option"
  disk_cwd :: string

definition disk_os :: "disk os" where
  "disk_os = \<lparr>os_Getwd = (\<lambda>w. ((disk_cwd w, None), w)), os_Chdir = (\<lambda>d w. (None, w\<lparr>disk_cwd := d\<rparr>)),
     os_Environ = (\<lambda>w. ([''HOME=/''], w)), os_LookupEnv = (\<lambda>v w. (None, w)), os_LookPath = (\<lambda>n w. ((''/bin/'' @ n, None), w)),
     os_CombinedOutput = (\<lambda>cmd w. (([], None), w)),
     os_ReadFile = (\<lambda>f w. (case disk_files w f of None \<Rightarrow> Inl (Plain ''not found'') | Some c \<Rightarrow> Inr c, w)),
     os_WriteFile = (\<lambda>f d w. (None, w\<lparr>disk_files := (disk_files w)(f \<mapsto> d)\<rparr>)),
     os_unicode = \<lparr>u_isPrint = (\<lambda>_. True), u_toLower = (\<lambda>r. r), u_isFormat = (\<lambda>_. False)\<rparr>\<rparr>"

lemma disk_file_system: "file_system disk_os disk_files"
  by (simp add: file_system_def disk_os_def split: option.split)

lemma disk_working_directory: "working_directory disk_os disk_cwd"
  by (simp add: working_directory_def disk_os_def)

definition sample_lines :: "string list" where
  "sample_lines = [''a'', [], ''b'']"

definition sample_disk :: "(disk, os_obs) sys" where
  "sample_disk = \<lparr>world = \<lparr>disk_files = [''f'' \<mapsto> ''x '' @ commented ''#'' sample_lines @ '' y''],
     disk_cwd = ''/src/test/e2e''\<rparr>, obslog = []\<rparr>"

theorem uncomment_restores_witness:
  "disk_files (world (snd (run_state (UncommentCode disk_os ''f'' (commented ''#'' sample_lines) ''#'') sample_disk))) ''f'' =
     Some (''x '' @ join_with [newline] sample_lines @ '' y'')"
proof -
  obtain err s' where run: "run_state (UncommentCode disk_os ''f'' (commented ''#'' sample_lines) ''#'') sample_disk = (err, s')"
    by fastforce
  have ok: "fst (run_state (UncommentCode disk_os ''f'' (commented ''#'' sample_lines) ''#'') sample_disk) = None" by code_simp
  have hyps: "disk_files (world sample_disk) ''f'' = Some (''x '' @ commented ''#'' sample_lines @ '' y'')"
    "Index (''x '' @ commented ''#'' sample_lines @ '' y'') (commented ''#'' sample_lines) = Some (length ''x '')"
    "sample_lines \<noteq> []" "list_all (\<lambda>l. scannable (''#'' @ l)) sample_lines" "''#'' @ last sample_lines \<noteq> []"
    by code_simp+
  from uncomment_restores [OF disk_file_system hyps run] run ok show ?thesis by auto
qed

text \<open>
  Commands run in the root of the project. When the suite starts in the root directory or in
  its \<open>test/e2e\<close> directory, and the path of the root does not contain \<open>/test/e2e\<close>, then every command
  of the suite is executed exactly once, in order, with the root as its directory, an environment
  that ends with \<open>GO111MODULE=on\<close>, and nothing else changed, also when changing the directory or a command fails.
\<close>

theorem commands_run_in_root:
  assumes "working_directory os cwd" and "Index dir e2e_dir = None" and "cwd (world s) \<in> {dir, dir @ e2e_dir}"
  shows "\<exists>l envs. obslog (run_all os cmds s) = obslog s @ l \<and> length envs = length cmds \<and>
    executed l = map2 (\<lambda>cmd env. cmd\<lparr>cmd_Dir := dir, cmd_Env := env @ [''GO111MODULE=on'']\<rparr>) cmds envs"
  using assms(3)
proof (induction cmds arbitrary: s)
  case Nil
  show ?case by (intro exI [of _ "[]"]) (simp add: executed_def)
next
  case (Cons cmd cmds)
  obtain res s1 where run: "run_state (Run os cmd) s = (res, s1)" by fastforce
  obtain l env where l: "obslog s1 = obslog s @ l" "executed l = [cmd\<lparr>cmd_Dir := dir, cmd_Env := env @ [''GO111MODULE=on'']\<rparr>]"
    and cwd: "cwd (world s1) \<in> {dir, dir @ e2e_dir}" by (rule Run_in_root [OF assms(1,2) Cons.prems run])
  from Cons.IH [OF cwd] obtain l2 envs where "obslog (run_all os cmds s1) = obslog s1 @ l2" "length envs = length cmds"
    "executed l2 = map2 (\<lambda>cmd env. cmd\<lparr>cmd_Dir := dir, cmd_Env := env @ [''GO111MODULE=on'']\<rparr>) cmds envs" by blast
  with l show ?case by (intro exI [of _ "l @ l2"] exI [of _ "env # envs"]) (simp add: run)
qed

theorem commands_run_in_root_witness:
  "map cmd_Dir (executed (obslog (run_all disk_os
     (map (\<lambda>a. \<lparr>cmd_Path = ''make'', cmd_Args = [''make'', a], cmd_Env = [], cmd_Dir = [], cmd_Err = None\<rparr>) [''install'', ''deploy'']) sample_disk))) =
     [''/src'', ''/src'']"
proof -
  have "Index ''/src'' e2e_dir = None" "disk_cwd (world sample_disk) \<in> {''/src'', ''/src'' @ e2e_dir}" by code_simp+
  from commands_run_in_root [OF disk_working_directory this,
      of "map (\<lambda>a. \<lparr>cmd_Path = ''make'', cmd_Args = [''make'', a], cmd_Env = [], cmd_Dir = [], cmd_Err = None\<rparr>) [''install'', ''deploy'']"]
  show ?thesis by (auto simp: length_Suc_conv sample_disk_def executed_def)
qed

end
