(* ===== verification/Spec2Isabelle.thy ===== *)
theory Spec2Isabelle
  imports Manager_Main Trigger_Config Trigger_Deliveries Controller_Reports Controller_Wait Controller_Schema Controller_Converge
    Api_DeepCopy Api_Scheme Test_Utils
begin

text \<open>
  OpenConveyor runs AI agents as one-shot Kubernetes Jobs. A user, or a webhook, creates a
  \<open>Task\<close>; the controller turns it into a hardened Job with a default-deny NetworkPolicy, reports
  its phase and Result, and deletes it after a TTL. This development models the Go program: the
  manager (\<open>cmd/main.go\<close>), the controller (\<open>internal/controller\<close>), the policy builders
  (\<open>internal/policy\<close>), the webhook adapter (\<open>internal/trigger\<close>), the metrics
  (\<open>internal/metrics\<close>), the API types (\<open>api/v1alpha1\<close>) and the helpers of the end-to-end suite
  (\<open>test/utils\<close>).

  \<^bold>\<open>How the parts work together.\<close> \<open>main\<close> validates the flags and runs a manager with the controller
  and, when its address is set, the webhook adapter. The adapter (\<open>ServeHTTP\<close>) authenticates a request, builds a Task from the
  template of a \<open>ClusterTriggerClass\<close> and creates it unless an active duplicate exists. The
  controller's \<open>Reconcile\<close> reads a Task and its \<open>ClusterAgentClass\<close>, writes the owned objects in a fixed
  order (ServiceAccount, Role, RoleBinding, NetworkPolicy, prompt and config ConfigMaps, Job) through
  the policy builders, then copies the Job's outcome and the Result of its pod to the status. The
  adapter and the controller meet only in the Task objects: their labels and their phases.

  \<^bold>\<open>The outside.\<close> Code that is not in the repository is the record \<open>ext\<close> of theory \<open>Externals\<close>, an
  argument of every operation: the API server (\<open>x_api\<close>, any function from requests and a world to
  answers and a world, so that lost updates, conflicts, stale reads and other writers are all
  covered), the DNS resolver, the clock, the Unicode tables, \<open>url.Parse\<close>, \<open>gjson\<close>, the condition
  helpers of apimachinery, \<open>SetControllerReference\<close>, \<open>Semantic.DeepEqual\<close>, \<open>ParseQuantity\<close>,
  \<open>IsValidLabelValue\<close>, and the texts of JSON errors. Where a theorem relies on their documentation it
  has a named hypothesis: \<open>owner_laws\<close>, \<open>condition_laws\<close>, \<open>condition_appends\<close>, \<open>condition_keys\<close>,
  \<open>status_laws\<close>, \<open>notfound_laws\<close>, \<open>deepEqual_refl\<close>, \<open>owner_by_meta\<close>, \<open>url_laws\<close>, and \<open>foreign_laws\<close> for the deep copies of
  other modules. Theorems about what accumulates on the server have a contract of it: \<open>keeps\<close> (it stores what it
  accepts) or \<open>at_rest\<close> (it also answers reads from what it stores, and nobody else writes). The operating system
  under the test helpers is the record \<open>os\<close>, with the contracts \<open>file_system\<close> and \<open>working_directory\<close>. Theory
  \<open>Reference_Env\<close> is a concrete outside (an in-memory API server) at which these hypotheses hold; the
  witnesses use it, or a variant of it (\<open>naming_ext\<close> for \<open>keeps\<close>, \<open>rest_ext\<close> for \<open>at_rest\<close>). A stateful operation is a state monad over the world and a log of observations:
  requests with their answers, lookups, metric updates, Events. A result is a value of a sum,
  \<open>option\<close> or \<open>outcome\<close> type; a run-time panic is a value of its own.

  \<^bold>\<open>Theories.\<close>
  \<^item> \<open>Prelude\<close>: lists, Go maps as association lists, the monad, and a trace logic (\<open>emits\<close>, \<open>emits_only\<close>,
    \<open>yields\<close>) whose rules are collected in \<open>obs_rules\<close>, \<open>only_rules\<close> and \<open>yields_rules\<close>.
  \<^item> \<open>Go_Strings\<close>, \<open>Go_Text\<close>, \<open>Go_Utf8\<close>, \<open>Go_Net\<close>, \<open>Go_Time\<close>, \<open>Go_Float\<close>, \<open>Go_Json\<close>, \<open>Go_Json_Roundtrip\<close>, \<open>Go_Crypto\<close>: what the
    program uses of the Go standard library. UTF-8 is decoded and encoded byte by byte, JSON is read
    by a stack machine, IP addresses and CIDR blocks are parsed and printed, \<open>Duration.Seconds\<close> goes
    through a model of \<open>float64\<close> (its rounding error is bounded in \<open>Go_Float\<close>), SHA-256 works on 32-bit
    words.
  \<^item> \<open>Go_Heap\<close>: a heap of cells with allocation, and views that say which value a pointer, a slice or a
    struct stands for and which cells it owns; \<open>Api_Heap\<close>: the API structs as they lie in memory;
    \<open>Api_DeepCopy\<close>: every function of \<open>zz_generated.deepcopy.go\<close>. The rest of the development computes on
    values; these theories justify it.
  \<^item> \<open>Api_Types\<close>, \<open>Externals\<close>: records for the API structs and the Kubernetes objects, errors
    (\<open>policy/errors.go\<close>), requests and the typed client. \<open>Api_Scheme\<close>: \<open>groupversion_info.go\<close> and the
    registration of the API types. \<open>Metrics\<close>: \<open>metrics.go\<close>.
  \<^item> \<open>Policy_Labels\<close> (\<open>labels.go\<close>, \<open>rbac.go\<close>), \<open>Policy_Network\<close> (\<open>networkpolicy.go\<close>), \<open>Policy_Volumes\<close>
    (\<open>secrets.go\<close>, \<open>prompt.go\<close>, \<open>config.go\<close>), \<open>Policy_Result\<close> (\<open>result.go\<close>).
  \<^item> \<open>Controller_Build\<close> (\<open>build.go\<close>, \<open>validate.go\<close>), \<open>Controller_Status\<close> (\<open>status.go\<close>),
    \<open>Controller_Result\<close> (\<open>result.go\<close>, \<open>syncStatus\<close>), \<open>Controller_Reconcile\<close> (\<open>task_controller.go\<close>): the
    model of the controller; \<open>Controller_Safety\<close>, \<open>Controller_Order\<close>, \<open>Controller_Writes\<close>,
    \<open>Controller_Effects\<close>, \<open>Controller_Progress\<close>, \<open>Controller_Reports\<close>, \<open>Controller_Wait\<close>,
    \<open>Controller_Schema\<close>: theorems about its runs. \<open>Cluster_Rest\<close> adds weakest preconditions over the stored objects
    (\<open>runs\<close>), \<open>Controller_Settled\<close> and \<open>Controller_Converge\<close> use them for convergence.
  \<^item> \<open>Trigger_Signature\<close> (\<open>signature.go\<close>), \<open>Trigger_Mapping\<close> (\<open>mapping.go\<close>), \<open>Trigger_Handler\<close>
    (\<open>dedupe.go\<close>, \<open>handler.go\<close>), \<open>Trigger_Server\<close> (\<open>server.go\<close>, its two goroutines as the step relation
    \<open>server_step\<close>): the model of the adapter; \<open>Trigger_Config\<close>, \<open>Trigger_Safety\<close>,
    \<open>Trigger_Dedupe\<close>, \<open>Trigger_Deliveries\<close>: theorems about it.
  \<^item> \<open>Manager_Main\<close>: \<open>cmd/main.go\<close> and \<open>SetupWithManager\<close>. \<open>Test_Utils\<close>: \<open>test/utils/utils.go\<close>.

  \<^bold>\<open>Interfaces.\<close> Locales state what one part relies on in another, and are interpreted on the model's
  own definitions: \<open>owned_builder\<close> (labels and names of built objects), \<open>projection\<close> (a volume and its
  mount), \<open>ensure_step\<close> (the contract of a step of \<open>Reconcile\<close>, six interpretations), \<open>write_property\<close> (a
  property of the statuses that may be written), \<open>owned_mutator\<close> (what an update copies, five
  interpretations), \<open>routine\<close> (a property of log entries that only a status write can break; it gives
  \<open>write_property\<close> its steps, and has four instances), \<open>mapping_invariant\<close> (what a field mapping keeps of a
  Task), \<open>view\<close> and \<open>copier\<close> (what a value in memory stands for, and what a deep copy promises).

  \<^bold>\<open>What is shown.\<close>
  \<^item> Isolation: the NetworkPolicy is in place before the Job, permits exactly the allowlist, denies
    everything for an empty one, and selects exactly the pods of its Task; every Job is hardened; Role,
    RoleBinding and token exist together or not at all.
  \<^item> The reconcile loop: a reconcile without an error has recorded a failure, waits for a missing class
    or has provided all that the Task needs; on a cluster at rest one such reconcile is enough, and every further one
    only reads (\<open>reconcile_converges\<close>: \<open>settled\<close> holds after it and is kept, whichever requests fail); its footprint is its own Task's objects; every status write is justified; an
    error writes no status; terminal phases are final along every sequence of reconciles and edits
    (\<open>task_step\<close>); a Result is decided once, comes from the Task's own pod, and obeys the bounds of the
    contract; deletion happens only after the deadline; an upsert of an object that agrees only reads;
    every written status satisfies the schema of the API; metrics and Events follow an accepted write,
    at most one transition per reconcile, with labels from fixed lists; the wait for a Result ends; the
    Job's deadline is the timeout up to the rounding of \<open>float64\<close>.
  \<^item> The webhook adapter: the handler refines the table of responses \<open>webhook\<close> (an inductive relation,
    one rule per outcome); a Task is created only for an authenticated request, from the template of
    one class, with nothing but prompt, name, labels, annotations and config taken from the payload;
    an authentic request that nothing blocks is served; an active duplicate blocks, a finished Task
    never does, and deliveries of one event that follow each other store at most one Task on a server
    that keeps what it accepts (\<open>keeps\<close>); the signature check accepts exactly the HMAC as the convention writes it; the HTTP server always
    ends with \<open>Start\<close> returned and no goroutine left.
  \<^item> From payload to pod: whatever a payload says, a Job of its Task mounts only the Secrets, reaches only the
    addresses and runs only the image that the template and the class declare (\<open>webhook_job_confined\<close>).
  \<^item> Configuration: what the template and the mappings say arrives (\<open>config_mappings_merge\<close>, over the
    round trip of \<open>encoding/json\<close>), and is delivered to the container completely or refused.
  \<^item> Wiring: flags out of range stop the program before any call, and every created object is watched
    and leads back to its Task.
  \<^item> Memory: every generated deep copy stands for the value of its original and shares no cell with it.
  \<^item> Test helpers: uncommenting a block undoes commenting it out and leaves the rest of the file and every other
    file alone; commands run once each, in order, in the root of the project.

  \<^bold>\<open>Bounds.\<close> Every function of the model is total; no fuel is used. The JSON decoder recurses on the
  length of its input and has Go's nesting limit of 10000. TTLs are 32-bit and durations 64-bit integers
  with the wrap-around written out; instants are unbounded integers of nanoseconds. The adapter reads at
  most 1 MiB of a body, as the code does. \<open>json.Marshal\<close> escapes as Go does by default.

  \<^bold>\<open>Not modelled.\<close> Log lines, the registration of metrics, of API types
  and of watches inside the libraries, the \<open>flag\<close> package, the connections of \<open>net/http\<close> (what \<open>Serve\<close> and
  \<open>Shutdown\<close> may return is a rule of \<open>server_step\<close>), the choice between the cached and the live reader of the
  duplicate search (both are answers of the API server), and the CEL and OpenAPI markers other than those of
  \<open>Controller_Schema\<close>, which the API server interprets.

  \<^bold>\<open>Limits.\<close> A run is sequential: other writers are part of the arbitrary server, but two overlapping webhook
  deliveries are not interleaved request by request. ADR-0009 accepts that such deliveries may create two Tasks, so
  \<open>one_task_per_event\<close> is about deliveries that follow each other. Convergence is about a cluster that is at rest; a
  Job that makes progress, or a name that resolves differently, is a change after which a reconcile writes again.
\<close>

section \<open>The controller and the webhook adapter together\<close>

text \<open>The rule of the adapter for terminal phases is the rule of the controller.\<close>

lemma isTerminalPhase_isTerminal: "isTerminalPhase phase = isTerminal phase"
  by (simp add: isTerminalPhase_def isTerminal_def)

text \<open>
  C30. A Task that the controller has finished never blocks a webhook again: from a Task in a terminal
  phase, through any sequence of reconciles against any API server and of edits by other clients,
  every later version of it is ignored by the duplicate search.
\<close>

theorem finished_task_never_blocks:
  assumes "(task_step x r)\<^sup>*\<^sup>* task t" "isTerminal (st_Phase (task_Status task))"
  shows "\<not> blocks t"
  using terminal_steps [OF assms] assms(2) by (simp add: blocks_def isTerminalPhase_isTerminal)

theorem finished_task_never_blocks_witness: "\<not> blocks (done_task\<lparr>task_Meta := zero_meta\<rparr>) \<and> blocks sample_task"
proof -
  have "(task_step ref_ext sample_reconciler)\<^sup>*\<^sup>* done_task (done_task\<lparr>task_Meta := zero_meta\<rparr>)"
    by (rule r_into_rtranclp, rule task_step.edited) simp
  moreover have "isTerminal (st_Phase (task_Status done_task))" by code_simp
  moreover have "blocks sample_task" by code_simp
  ultimately show ?thesis using finished_task_never_blocks by blast
qed

section \<open>From a webhook payload to a Job\<close>

lemma job_secrets:
  assumes "buildJob x task agent ss ttl = Inr job" and "ps_Inline (ts_Prompt (task_Spec task)) \<noteq> []"
    and "v \<in> set (pod_Volumes (pt_Spec (jb_Template (job_Spec job))))" and "vol_Source v = SecretVolume n"
  shows "n \<in> set ss"
  using assms(1)
proof (rule buildJob_Inr)
  fix prompt config reqs
  assume p: "BuildPromptProjection (task_Name task) (ts_Prompt (task_Spec task)) (ac_Inputs (agc_Spec agent)) = Inr prompt"
    and c: "BuildConfigProjection x (task_Name task) (ar_Config (ts_Agent (task_Spec task))) (ac_Inputs (agc_Spec agent)) = Inr config"
    and t: "jb_Template (job_Spec job) = pod_template task
       (agent_container agent (cp_Env config) reqs (job_mounts ss prompt config)) (job_volumes ss prompt config)"
  have "pp_Volume prompt = Some v1 \<Longrightarrow> vol_Source v1 \<noteq> SecretVolume n" for v1
    using p assms(2) by (auto simp: BuildPromptProjection_def prompt_source_def split: option.splits if_splits)
  moreover have "cp_Volume config = Some v1 \<Longrightarrow> vol_Source v1 \<noteq> SecretVolume n" for v1
    using c by (auto simp: BuildConfigProjection_def Let_def split: option.splits if_splits sum.splits)
  ultimately show ?thesis using assms(3,4)
    by (auto simp: t pod_template_def job_volumes_def BuildSecretVolumes_def secret_volume_def scratch_volume_def opt_list_def Let_def
        split: if_splits option.splits)
qed

text \<open>
  What the pod of a Job gets: Secrets of the template's permissions or of the class, the image, the
  command and the arguments of the class, and a token exactly when the template grants API rules.
\<close>

definition confined :: "Permissions \<Rightarrow> ClusterAgentClass \<Rightarrow> Job \<Rightarrow> bool" where
  "confined perms agent job = (let pod = pt_Spec (jb_Template (job_Spec job)) in
     list_all (\<lambda>v. case vol_Source v of
        SecretVolume n \<Rightarrow> n \<in> set (pm_Secrets perms) \<union> set (aq_Secrets (ac_Requires (agc_Spec agent))) | _ \<Rightarrow> True) (pod_Volumes pod) \<and>
     map (\<lambda>c. (co_Image c, co_Command c, co_Args c)) (pod_Containers pod) =
       [(ac_Image (agc_Spec agent), ac_Command (agc_Spec agent), ac_Args (agc_Spec agent))] \<and>
     pod_AutomountServiceAccountToken pod = Some (pm_RBAC perms \<noteq> []))"

text \<open>What a policy lets the pod reach: addresses of the template's allowlist or of that of the class, on the declared ports.\<close>

definition reach_within :: "Permissions \<Rightarrow> ClusterAgentClass \<Rightarrow> obs list \<Rightarrow> NetworkPolicy \<Rightarrow> bool" where
  "reach_within perms agent l np \<longleftrightarrow> (\<forall>a pr p. permits np a pr p \<longrightarrow>
     p \<in> set (if pm_EgressPorts perms = [] then [443] else pm_EgressPorts perms) \<and>
     (\<exists>e \<in> set (pm_Egress perms) \<union> set (aq_Egress (ac_Requires (agc_Spec agent))). \<exists>c. entry_allows l e c \<and> cidr_has c a))"

lemma built_confined:
  assumes "buildJob x task agent (effective_secrets task agent) ttl = Inr job" and "ps_Inline (ts_Prompt (task_Spec task)) \<noteq> []"
  shows "confined (ts_Permissions (task_Spec task)) agent job"
proof -
  have secrets: "n \<in> set (pm_Secrets (ts_Permissions (task_Spec task))) \<union> set (aq_Secrets (ac_Requires (agc_Spec agent)))"
    if "v \<in> set (pod_Volumes (pt_Spec (jb_Template (job_Spec job))))" "vol_Source v = SecretVolume n" for v n
    using job_secrets [OF assms that] by (auto simp: effective_secrets_def)
  from assms(1) show ?thesis
    by (rule buildJob_Inr) (use secrets in \<open>auto simp: confined_def Let_def list_all_iff pod_template_def agent_container_def
        NeedsServiceAccountToken_def split: VolumeSource.split\<close>)
qed

lemma policy_within:
  assumes "policy_in_place x task (effective_egress task agent) l"
  obtains np ld where "in_place x task (ONetworkPolicy np) mutate_netpol l" and "set ld \<subseteq> set l"
    and "reach_within (ts_Permissions (task_Spec task)) agent ld np"
proof -
  from assms obtain cidrs ld where r: "resolved [] (effective_egress task agent) (Inr cidrs) ld" "set ld \<subseteq> set l"
    and p: "in_place x task (ONetworkPolicy (network_policy (task_Name task) (task_Namespace task)
      (egress_rules (effective_egress task agent) cidrs (pm_EgressPorts (ts_Permissions (task_Spec task)))))) mutate_netpol l"
    by (auto simp: policy_in_place_def)
  have "reach_within (ts_Permissions (task_Spec task)) agent ld (network_policy (task_Name task) (task_Namespace task)
      (egress_rules (effective_egress task agent) cidrs (pm_EgressPorts (ts_Permissions (task_Spec task)))))"
    using r(1) unfolding reach_within_def permits_rules by (fastforce simp: resolved_def effective_egress_def split: if_splits)
  with p r(2) that show thesis by blast
qed


definition hook_state :: "(store, obs) sys" where
  "hook_state = \<lparr>world = sample_store\<lparr>sto_objs := [OTask (sample_task\<lparr>task_Spec := task_Spec sample_built\<rparr>), OAgentClass sample_agent]\<rparr>,
     obslog = []\<rparr>"

definition hook_log :: "obs list" where
  "hook_log = obslog (snd (run_state (Reconcile ref_ext sample_reconciler (''ns'', ''t'')) hook_state))"

definition creates_job :: "obs \<Rightarrow> bool" where
  "creates_job ob = (case ob of Call (CCreate d) _ \<Rightarrow> kind_of d = KJob | _ \<Rightarrow> False)"

definition hook_index :: nat where
  "hook_index = length (takeWhile (\<lambda>ob. \<not> creates_job ob) hook_log)"


end
